(* ===== verification/Prelude.thy ===== *)
theory Prelude
  imports Main "HOL-Library.Sublist" "HOL-Library.List_Lexorder" "HOL-Library.Char_ord"
begin

text \<open>
  Shared vocabulary of the development: the string functions of Go's standard library that the
  modelled packages use (\<open>strings\<close>, \<open>strconv\<close>, \<open>fmt\<close>), Go maps as association lists, and the
  generic lemmas every component relies on.

  A Go string is a byte string, and so is a HOL \<^typ>\<open>string\<close> (a list of 8-bit characters), so
  lengths, prefixes, slices and concatenations agree byte for byte. Trimming removes the Unicode
  white space of \<open>unicode.IsSpace\<close> in its UTF-8 encoding. Case mapping is the ASCII one: bytes
  outside ASCII are left alone.

  A Go \<open>map[string]string\<close> is an association list with distinct keys; the order of the list
  stands for the unspecified order in which one \<open>range\<close> statement visits the map.
\<close>

named_theorems go_simps \<open>equations of the string library used to evaluate the model\<close>
named_theorems rt_intros \<open>closure rules for remote-command programs\<close>

section \<open>Characters that cannot be written inside a literal\<close>

definition bsl :: string where "bsl = [CHR 0x5C]"
definition dquo :: string where "dquo = [CHR 0x22]"
definition squo :: string where "squo = [CHR 0x27]"
definition nl :: string where "nl = [CHR 0x0A]"
definition tab :: string where "tab = [CHR 0x09]"

lemmas literal_chars = bsl_def dquo_def squo_def nl_def tab_def

section \<open>The strings package\<close>

definition contains_any :: "string \<Rightarrow> string \<Rightarrow> bool" where
  "contains_any s cs = list_ex (\<lambda>c. c \<in> set cs) s"

definition lower_char :: "char \<Rightarrow> char" where
  "lower_char c = (let n = (of_char c :: nat) in
     if 65 \<le> n \<and> n \<le> 90 then char_of (n + 32) else c)"

definition to_lower :: "string \<Rightarrow> string" where
  "to_lower s = map lower_char s"

definition equal_fold :: "string \<Rightarrow> string \<Rightarrow> bool" where
  "equal_fold a b \<longleftrightarrow> to_lower a = to_lower b"

text \<open>The UTF-8 encodings of the characters for which \<open>unicode.IsSpace\<close> holds.\<close>

definition space_words :: "string list" where
  "space_words =
     [[CHR 0x09], [CHR 0x0A], [CHR 0x0B], [CHR 0x0C], [CHR 0x0D], [CHR 0x20],
      [CHR 0xC2, CHR 0x85], [CHR 0xC2, CHR 0xA0], [CHR 0xE1, CHR 0x9A, CHR 0x80],
      [CHR 0xE2, CHR 0x80, CHR 0x80], [CHR 0xE2, CHR 0x80, CHR 0x81], [CHR 0xE2, CHR 0x80, CHR 0x82],
      [CHR 0xE2, CHR 0x80, CHR 0x83], [CHR 0xE2, CHR 0x80, CHR 0x84], [CHR 0xE2, CHR 0x80, CHR 0x85],
      [CHR 0xE2, CHR 0x80, CHR 0x86], [CHR 0xE2, CHR 0x80, CHR 0x87], [CHR 0xE2, CHR 0x80, CHR 0x88],
      [CHR 0xE2, CHR 0x80, CHR 0x89], [CHR 0xE2, CHR 0x80, CHR 0x8A], [CHR 0xE2, CHR 0x80, CHR 0xA8],
      [CHR 0xE2, CHR 0x80, CHR 0xA9], [CHR 0xE2, CHR 0x80, CHR 0xAF], [CHR 0xE2, CHR 0x81, CHR 0x9F],
      [CHR 0xE3, CHR 0x80, CHR 0x80]]"

fun strip_words :: "nat \<Rightarrow> string list \<Rightarrow> string \<Rightarrow> string" where
  "strip_words 0 ws s = s"
| "strip_words (Suc n) ws s =
     (case find (\<lambda>w. prefix w s) ws of
        None \<Rightarrow> s
      | Some w \<Rightarrow> strip_words n ws (drop (length w) s))"

definition trim_left :: "string \<Rightarrow> string" where
  "trim_left s = strip_words (length s) space_words s"

definition trim_right :: "string \<Rightarrow> string" where
  "trim_right s = rev (strip_words (length s) (map rev space_words) (rev s))"

definition trim_space :: "string \<Rightarrow> string" where
  "trim_space s = trim_right (trim_left s)"

definition trim_right_set :: "string \<Rightarrow> string \<Rightarrow> string" where
  "trim_right_set cs s = rev (dropWhile (\<lambda>c. c \<in> set cs) (rev s))"

definition trim_prefix :: "string \<Rightarrow> string \<Rightarrow> string" where
  "trim_prefix p s = (if prefix p s then drop (length p) s else s)"

definition trim_suffix :: "string \<Rightarrow> string \<Rightarrow> string" where
  "trim_suffix p s = (if suffix p s then take (length s - length p) s else s)"

fun split_char :: "char \<Rightarrow> string \<Rightarrow> string list" where
  "split_char c [] = [[]]"
| "split_char c (x # xs) =
     (if x = c then [] # split_char c xs
      else (case split_char c xs of [] \<Rightarrow> [[x]] | y # ys \<Rightarrow> (x # y) # ys))"

fun join :: "string \<Rightarrow> string list \<Rightarrow> string" where
  "join sep [] = []"
| "join sep [x] = x"
| "join sep (x # y # zs) = x @ sep @ join sep (y # zs)"

text \<open>\<open>strings.Cut(s, c)\<close> for a one-byte separator: the part before and, if it occurs, after.\<close>

definition cut_char :: "char \<Rightarrow> string \<Rightarrow> string \<times> string option" where
  "cut_char c s = (takeWhile (\<lambda>x. x \<noteq> c) s,
     (case dropWhile (\<lambda>x. x \<noteq> c) s of [] \<Rightarrow> None | _ # r \<Rightarrow> Some r))"

definition replace_char :: "char \<Rightarrow> string \<Rightarrow> string \<Rightarrow> string" where
  "replace_char c r s = concat (map (\<lambda>x. if x = c then r else [x]) s)"

text \<open>\<open>strings.LastIndexAny\<close> followed by the slice before it; \<open>None\<close> for the index -1.\<close>

definition before_last_any :: "string \<Rightarrow> string \<Rightarrow> string option" where
  "before_last_any cs s =
     (case dropWhile (\<lambda>c. c \<notin> set cs) (rev s) of [] \<Rightarrow> None | _ # r \<Rightarrow> Some (rev r))"

definition after_last_any :: "string \<Rightarrow> string \<Rightarrow> string" where
  "after_last_any cs s = rev (takeWhile (\<lambda>c. c \<notin> set cs) (rev s))"

subsection \<open>Facts about the strings package\<close>

lemma strip_words_suffix: "suffix (strip_words n ws s) s"
proof (induction n arbitrary: s)
  case 0
  then show ?case by simp
next
  case (Suc n)
  show ?case
  proof (cases "find (\<lambda>w. prefix w s) ws")
    case None
    then show ?thesis by simp
  next
    case (Some w)
    have "suffix (strip_words n ws (drop (length w) s)) (drop (length w) s)"
      by (rule Suc.IH)
    moreover have "suffix (drop (length w) s) s" by (rule suffix_drop)
    ultimately show ?thesis using Some by (auto intro: suffix_order.trans)
  qed
qed

lemma strip_words_no_word:
  assumes "\<forall>w \<in> set ws. w \<noteq> []" and "length s \<le> n" and "w \<in> set ws"
  shows "\<not> prefix w (strip_words n ws s)"
  using assms(2)
proof (induction n arbitrary: s)
  case 0
  then show ?case using assms(1,3) by auto
next
  case (Suc n)
  show ?case
  proof (cases "find (\<lambda>w. prefix w s) ws")
    case None
    then have "\<forall>x \<in> set ws. \<not> prefix x s" by (auto simp: find_None_iff)
    then show ?thesis using None assms(3) by simp
  next
    case (Some v)
    then have "v \<in> set ws" "prefix v s" by (auto simp: find_Some_iff)
    then have "v \<noteq> []" using assms(1) by blast
    then have "length (drop (length v) s) \<le> n"
      using Suc.prems by (cases v) auto
    then show ?thesis using Some Suc.IH by simp
  qed
qed

lemma strip_words_id: "(\<And>w. w \<in> set ws \<Longrightarrow> \<not> prefix w s) \<Longrightarrow> strip_words n ws s = s"
  by (cases n) (auto simp: find_None_iff[THEN iffD2])

lemma space_words_nonempty: "\<forall>w \<in> set space_words. w \<noteq> []"
  by (simp add: space_words_def)

lemma trim_left_suffix: "suffix (trim_left s) s"
  by (simp add: trim_left_def strip_words_suffix)

lemma trim_right_prefix: "prefix (trim_right s) s"
  using strip_words_suffix[of "length s" "map rev space_words" "rev s"]
  by (simp add: trim_right_def suffix_to_prefix)

lemma trim_space_sublist: "sublist (trim_space s) s"
proof -
  have "sublist (trim_right (trim_left s)) (trim_left s)"
    by (rule prefix_imp_sublist) (rule trim_right_prefix)
  moreover have "sublist (trim_left s) s"
    by (rule suffix_imp_sublist) (rule trim_left_suffix)
  ultimately show ?thesis
    by (auto simp: trim_space_def intro: sublist_order.order_trans)
qed

lemma set_trim_space: "set (trim_space s) \<subseteq> set s"
  using trim_space_sublist by (rule set_mono_sublist)

lemma trim_left_no_space: "w \<in> set space_words \<Longrightarrow> \<not> prefix w (trim_left s)"
  unfolding trim_left_def by (rule strip_words_no_word[OF space_words_nonempty]) auto

lemma trim_right_no_space: "w \<in> set space_words \<Longrightarrow> \<not> suffix w (trim_right s)"
  using strip_words_no_word[of "map rev space_words" "rev s" "length s" "rev w"]
    space_words_nonempty
  by (auto simp: trim_right_def suffix_to_prefix)

lemma trim_left_id: "(\<And>w. w \<in> set space_words \<Longrightarrow> \<not> prefix w s) \<Longrightarrow> trim_left s = s"
  unfolding trim_left_def by (rule strip_words_id)

lemma trim_right_id: "(\<And>w. w \<in> set space_words \<Longrightarrow> \<not> suffix w s) \<Longrightarrow> trim_right s = s"
  unfolding trim_right_def
  by (subst strip_words_id) (auto simp: suffix_to_prefix)

lemma trim_space_idem [simp]: "trim_space (trim_space s) = trim_space s"
proof -
  have "\<not> prefix w (trim_right (trim_left s))" if "w \<in> set space_words" for w
    using trim_left_no_space[OF that, of s] trim_right_prefix[of "trim_left s"]
    by (meson prefix_order.trans)
  then have "trim_left (trim_space s) = trim_space s"
    by (auto simp: trim_space_def intro: trim_left_id)
  moreover have "trim_right (trim_space s) = trim_space s"
    using trim_right_no_space[of _ "trim_left s"] by (auto simp: trim_space_def intro: trim_right_id)
  ultimately show ?thesis by (simp add: trim_space_def)
qed

text \<open>A string of printable ASCII other than blanks at its ends is its own trim.\<close>

definition plain_char :: "char \<Rightarrow> bool" where
  "plain_char c \<longleftrightarrow> (33::nat) \<le> of_char c \<and> of_char c \<le> (126::nat)"

lemma plain_not_space_word:
  assumes "w \<in> set space_words" shows "\<exists>c \<in> set w. \<not> plain_char c" "\<not> plain_char (hd w)" "\<not> plain_char (last w)"
  using assms by (auto simp: space_words_def plain_char_def)

lemma trim_space_plain:
  assumes "s = [] \<or> plain_char (hd s) \<and> plain_char (last s)"
  shows "trim_space s = s"
proof (cases "s = []")
  case True
  then show ?thesis by (simp add: trim_space_def trim_left_def trim_right_def)
next
  case False
  with assms have hl: "plain_char (hd s)" "plain_char (last s)" by auto
  have "\<not> prefix w s" if "w \<in> set space_words" for w
  proof
    assume "prefix w s"
    moreover have "w \<noteq> []" using that space_words_nonempty by blast
    ultimately have "hd w = hd s" by (auto elim!: prefixE)
    then show False using hl plain_not_space_word[OF that] by simp
  qed
  then have l: "trim_left s = s" by (rule trim_left_id)
  have "\<not> suffix w s" if "w \<in> set space_words" for w
  proof
    assume "suffix w s"
    moreover have "w \<noteq> []" using that space_words_nonempty by blast
    ultimately have "last w = last s" by (auto elim!: suffixE)
    then show False using hl plain_not_space_word[OF that] by simp
  qed
  then have "trim_right s = s" by (rule trim_right_id)
  with l show ?thesis by (simp add: trim_space_def)
qed

lemma split_char_nonempty [simp]: "split_char c s \<noteq> []"
  by (cases s) (auto split: list.splits)

lemma join_Cons: "xs \<noteq> [] \<Longrightarrow> join sep (x # xs) = x @ sep @ join sep xs"
  by (cases xs) auto

lemma join_split_char: "join [c] (split_char c s) = s"
proof (induction s)
  case Nil
  then show ?case by simp
next
  case (Cons x xs)
  show ?case
  proof (cases "x = c")
    case True
    then show ?thesis using Cons by (simp add: join_Cons)
  next
    case False
    obtain y ys where y: "split_char c xs = y # ys"
      by (cases "split_char c xs") auto
    with Cons False show ?thesis by (cases ys) auto
  qed
qed

lemma split_char_no_sep: "p \<in> set (split_char c s) \<Longrightarrow> c \<notin> set p"
proof (induction s arbitrary: p)
  case Nil
  then show ?case by simp
next
  case (Cons x xs)
  obtain y ys where y: "split_char c xs = y # ys"
    by (cases "split_char c xs") auto
  with Cons show ?case by (auto split: if_splits)
qed

lemma split_char_none: "c \<notin> set s \<Longrightarrow> split_char c s = [s]"
  by (induction s) auto

lemma split_char_append: "c \<notin> set a \<Longrightarrow> split_char c (a @ c # b) = a # split_char c b"
  by (induction a) auto

lemma cut_char_append: "c \<notin> set a \<Longrightarrow> cut_char c (a @ c # b) = (a, Some b)"
proof -
  assume "c \<notin> set a"
  then have "\<And>x. x \<in> set a \<Longrightarrow> x \<noteq> c" by auto
  then show ?thesis by (simp add: cut_char_def)
qed

lemma cut_char_none: "c \<notin> set s \<Longrightarrow> cut_char c s = (s, None)"
proof -
  assume "c \<notin> set s"
  then have "takeWhile (\<lambda>x. x \<noteq> c) s = s" "dropWhile (\<lambda>x. x \<noteq> c) s = []"
    by (auto simp: takeWhile_eq_all_conv dropWhile_eq_Nil_conv)
  then show ?thesis unfolding cut_char_def by (simp only: list.case)
qed

lemma to_lower_append [simp]: "to_lower (a @ b) = to_lower a @ to_lower b"
  by (simp add: to_lower_def)

lemma length_to_lower [simp]: "length (to_lower s) = length s"
  by (simp add: to_lower_def)

lemma lower_char_idem [simp]: "lower_char (lower_char c) = lower_char c"
proof -
  have "\<not> (65 \<le> n + 32 \<and> n + 32 \<le> (90::nat))" if "65 \<le> n" for n using that by simp
  then show ?thesis
    by (auto simp: lower_char_def Let_def of_char_of split: if_splits)
qed

lemma to_lower_idem [simp]: "to_lower (to_lower s) = to_lower s"
  by (simp add: to_lower_def)

lemma equal_fold_refl [simp]: "equal_fold s s"
  by (simp add: equal_fold_def)

lemma equal_fold_length: "equal_fold a b \<Longrightarrow> length a = length b"
  unfolding equal_fold_def by (metis length_to_lower)

end
