(* ===== verification/GoFmt.thy ===== *)
theory GoFmt
  imports Prelude "HOL-Library.AList" "HOL-Library.Multiset"
begin

text \<open>
  Number and quoting functions of Go's \<open>strconv\<close>, \<open>fmt\<close> and \<open>encoding/base64\<close>, and Go string
  maps with the sorted key order the packages print them in. Each printing function comes with
  the reader that inverts it.
\<close>

section \<open>strconv.Itoa and strconv.Atoi\<close>

definition digit_char :: "nat \<Rightarrow> char" where
  "digit_char n = char_of (48 + n)"

definition is_digit :: "char \<Rightarrow> bool" where
  "is_digit c \<longleftrightarrow> (48::nat) \<le> of_char c \<and> of_char c \<le> (57::nat)"

definition digit_val :: "char \<Rightarrow> nat" where
  "digit_val c = of_char c - 48"

fun show_nat :: "nat \<Rightarrow> string" where
  "show_nat n = (if n < 10 then [digit_char n] else show_nat (n div 10) @ [digit_char (n mod 10)])"

declare show_nat.simps [simp del]

definition itoa :: "int \<Rightarrow> string" where
  "itoa i = (if i < 0 then CHR ''-'' # show_nat (nat (- i)) else show_nat (nat i))"

definition read_digits :: "string \<Rightarrow> nat" where
  "read_digits s = foldl (\<lambda>n c. 10 * n + digit_val c) 0 s"

definition int64_ok :: "int \<Rightarrow> bool" where
  "int64_ok i \<longleftrightarrow> - (2 ^ 63) \<le> i \<and> i < 2 ^ 63"

text \<open>\<open>strconv.Atoi\<close>: an optional sign, one digit at least, and a value that fits 64 bits.\<close>

definition atoi :: "string \<Rightarrow> int option" where
  "atoi s =
     (let neg = (case s of c # _ \<Rightarrow> c = CHR ''-'' | [] \<Rightarrow> False);
          ds = (case s of c # r \<Rightarrow> if c = CHR ''-'' \<or> c = CHR ''+'' then r else s | [] \<Rightarrow> []);
          v = (if neg then - int (read_digits ds) else int (read_digits ds))
      in if ds \<noteq> [] \<and> list_all is_digit ds \<and> int64_ok v then Some v else None)"

lemma digit_char_props:
  assumes "n < 10"
  shows "is_digit (digit_char n)" "digit_val (digit_char n) = n"
  using assms by (auto simp: digit_char_def is_digit_def digit_val_def of_char_of)

lemma show_nat_digits: "list_all is_digit (show_nat n)" "show_nat n \<noteq> []"
proof (induction n rule: show_nat.induct)
  case (1 n)
  {
    case 1
    show ?case
      using "1.IH" by (subst show_nat.simps) (auto simp: digit_char_props)
  next
    case 2
    show ?case by (subst show_nat.simps) auto
  }
qed

lemma read_digits_snoc: "read_digits (s @ [c]) = 10 * read_digits s + digit_val c"
  by (simp add: read_digits_def)

lemma read_show_nat [simp]: "read_digits (show_nat n) = n"
proof (induction n rule: show_nat.induct)
  case (1 n)
  show ?case
  proof (cases "n < 10")
    case True
    then show ?thesis by (subst show_nat.simps) (simp add: read_digits_def digit_char_props)
  next
    case False
    with 1 show ?thesis
      by (subst show_nat.simps) (simp add: read_digits_snoc digit_char_props)
  qed
qed

lemma digit_not_sign: "is_digit c \<Longrightarrow> c \<noteq> CHR ''-'' \<and> c \<noteq> CHR ''+'' \<and> c \<noteq> CHR '':''"
  by (auto simp: is_digit_def)

lemma atoi_show_nat: "int n < 2 ^ 63 \<Longrightarrow> atoi (show_nat n) = Some (int n)"
proof -
  assume n: "int n < 2 ^ 63"
  obtain c r where s: "show_nat n = c # r" using show_nat_digits(2)[of n] by (cases "show_nat n") auto
  then have "is_digit c" using show_nat_digits(1)[of n] by simp
  then have c: "c \<noteq> CHR ''-''" "c \<noteq> CHR ''+''" using digit_not_sign by auto
  have "int64_ok (int n)" using n by (simp add: int64_ok_def)
  moreover have "list_all is_digit (c # r)" "read_digits (c # r) = n"
    using show_nat_digits(1)[of n] read_show_nat[of n] s by auto
  ultimately show ?thesis using c by (simp add: atoi_def s Let_def)
qed

lemma atoi_itoa: "int64_ok i \<Longrightarrow> atoi (itoa i) = Some i"
proof -
  assume i: "int64_ok i"
  show ?thesis
  proof (cases "i < 0")
    case True
    then show ?thesis
      using i show_nat_digits[of "nat (- i)"] by (simp add: itoa_def atoi_def Let_def)
  next
    case False
    then show ?thesis using i atoi_show_nat[of "nat i"] by (simp add: itoa_def int64_ok_def)
  qed
qed

lemma show_nat_plain: "c \<in> set (show_nat n) \<Longrightarrow> is_digit c"
  using show_nat_digits(1)[of n] by (auto simp: list_all_iff)

lemma trim_space_show_nat [simp]: "trim_space (show_nat n) = show_nat n"
proof (rule trim_space_plain)
  have "\<And>c. is_digit c \<Longrightarrow> plain_char c" by (auto simp: is_digit_def plain_char_def)
  moreover have "hd (show_nat n) \<in> set (show_nat n)" "last (show_nat n) \<in> set (show_nat n)"
    using show_nat_digits(2)[of n] by auto
  ultimately show "show_nat n = [] \<or> plain_char (hd (show_nat n)) \<and> plain_char (last (show_nat n))"
    using show_nat_plain by blast
qed

section \<open>The verb q of fmt: strconv.Quote\<close>

definition hex_digit :: "nat \<Rightarrow> char" where
  "hex_digit n = (if n < 10 then char_of (48 + n) else char_of (87 + n))"

definition quote_char :: "char \<Rightarrow> string" where
  "quote_char c = (let n = (of_char c :: nat) in
     if c = CHR 0x22 \<or> c = CHR 0x5C then [CHR 0x5C, c]
     else if n = 7 then bsl @ ''a'' else if n = 8 then bsl @ ''b''
     else if n = 9 then bsl @ ''t'' else if n = 10 then bsl @ ''n''
     else if n = 11 then bsl @ ''v'' else if n = 12 then bsl @ ''f''
     else if n = 13 then bsl @ ''r''
     else if n < 32 \<or> n = 127 then bsl @ ''x'' @ [hex_digit (n div 16), hex_digit (n mod 16)]
     else [c])"

definition quote :: "string \<Rightarrow> string" where
  "quote s = dquo @ concat (map quote_char s) @ dquo"

text \<open>The reader of a double-quoted literal, as Go and YAML specify the same escapes.\<close>

definition hex_val :: "char \<Rightarrow> nat" where
  "hex_val c = (let n = of_char c in if n \<le> 57 then n - 48 else n - 87)"

definition escape_val :: "char \<Rightarrow> char" where
  "escape_val c =
     (if c = CHR ''a'' then CHR 0x07 else if c = CHR ''b'' then CHR 0x08
      else if c = CHR ''t'' then CHR 0x09 else if c = CHR ''n'' then CHR 0x0A
      else if c = CHR ''v'' then CHR 0x0B else if c = CHR ''f'' then CHR 0x0C
      else if c = CHR ''r'' then CHR 0x0D else c)"

fun unquote_body :: "string \<Rightarrow> (string \<times> string) option" where
  "unquote_body [] = None"
| "unquote_body (c # s) =
     (if c = CHR 0x22 then Some ([], s)
      else if c = CHR 0x5C then
        (case s of
           [] \<Rightarrow> None
         | e # s1 \<Rightarrow>
             (if e = CHR ''x'' then
                (case s1 of
                   h # l # s2 \<Rightarrow>
                     map_option (\<lambda>(b, r). (char_of (16 * hex_val h + hex_val l) # b, r)) (unquote_body s2)
                 | _ \<Rightarrow> None)
              else map_option (\<lambda>(b, r). (escape_val e # b, r)) (unquote_body s1)))
      else map_option (\<lambda>(b, r). (c # b, r)) (unquote_body s))"

definition unquote :: "string \<Rightarrow> (string \<times> string) option" where
  "unquote s = (case s of c # r \<Rightarrow> if c = CHR 0x22 then unquote_body r else None | [] \<Rightarrow> None)"

lemma hex_digit_val: "n < 16 \<Longrightarrow> hex_val (hex_digit n) = n"
  by (simp add: hex_digit_def hex_val_def of_char_of Let_def)

lemma char_of_hex: "char_of (16 * ((of_char c :: nat) div 16) + of_char c mod 16) = c"
  by simp

lemma char_of_controls:
  "char_of (7::nat) = CHR 0x07" "char_of (8::nat) = CHR 0x08" "char_of (9::nat) = CHR 0x09"
  "char_of (10::nat) = CHR 0x0A" "char_of (11::nat) = CHR 0x0B" "char_of (12::nat) = CHR 0x0C"
  "char_of (13::nat) = CHR 0x0D"
  by code_simp+

lemma unquote_quote_char:
  "unquote_body (quote_char c @ s) = map_option (\<lambda>(b, r). (c # b, r)) (unquote_body s)"
proof -
  define n where "n = (of_char c :: nat)"
  have c: "c = char_of n" by (simp add: n_def)
  have n: "n < 256" unfolding n_def by simp
  consider "c = CHR 0x22" | "c = CHR 0x5C" | "n \<in> {7, 8, 9, 10, 11, 12, 13}"
    | "c \<noteq> CHR 0x22" "c \<noteq> CHR 0x5C" "n \<notin> {7, 8, 9, 10, 11, 12, 13}" "n < 32 \<or> n = 127"
    | "c \<noteq> CHR 0x22" "c \<noteq> CHR 0x5C" "n \<notin> {7, 8, 9, 10, 11, 12, 13}" "\<not> (n < 32 \<or> n = 127)"
    by blast
  then show ?thesis
  proof cases
    case 3
    then have "c \<in> {CHR 0x07, CHR 0x08, CHR 0x09, CHR 0x0A, CHR 0x0B, CHR 0x0C, CHR 0x0D}"
      unfolding c by (elim insertE emptyE) (simp_all only: char_of_controls insert_iff simp_thms)
    then show ?thesis
      by (elim insertE emptyE) (simp_all add: quote_char_def escape_val_def bsl_def Let_def)
  next
    case 4
    then have "quote_char c = bsl @ ''x'' @ [hex_digit (n div 16), hex_digit (n mod 16)]"
      by (simp add: quote_char_def n_def[symmetric] Let_def)
    moreover have "hex_val (hex_digit (n div 16)) = n div 16" "hex_val (hex_digit (n mod 16)) = n mod 16"
      using n by (auto intro!: hex_digit_val)
    moreover have "char_of (16 * (n div 16) + n mod 16) = c" by (simp add: n_def)
    ultimately show ?thesis by (simp add: bsl_def)
  next
    case 5
    then have "quote_char c = [c]" by (simp add: quote_char_def n_def[symmetric] Let_def)
    with 5 show ?thesis by simp
  qed (simp_all add: quote_char_def escape_val_def Let_def)
qed

lemma unquote_quote_body: "unquote_body (concat (map quote_char s) @ dquo @ r) = Some (s, r)"
proof (induction s)
  case Nil
  then show ?case by (simp add: dquo_def)
next
  case (Cons c s)
  then show ?case by (simp add: unquote_quote_char)
qed

lemma unquote_quote: "unquote (quote s @ r) = Some (s, r)"
proof -
  have "quote s @ r = CHR 0x22 # concat (map quote_char s) @ dquo @ r"
    by (simp add: quote_def dquo_def)
  then show ?thesis using unquote_quote_body by (simp add: unquote_def)
qed

section \<open>Maps from strings to strings\<close>

type_synonym go_map = "(string \<times> string) list"

definition sorted_keys :: "go_map \<Rightarrow> string list" where
  "sorted_keys m = sort (map fst m)"

text \<open>\<open>m[k]\<close> reads the zero value where the key is absent.\<close>

definition mget :: "go_map \<Rightarrow> string \<Rightarrow> string" where
  "mget m k = (case map_of m k of Some v \<Rightarrow> v | None \<Rightarrow> [])"

definition distinct_keys :: "go_map \<Rightarrow> bool" where
  "distinct_keys m \<longleftrightarrow> distinct (map fst m)"

lemma set_sorted_keys [simp]: "set (sorted_keys m) = fst ` set m"
  by (simp add: sorted_keys_def)

lemma distinct_update_keys: "distinct_keys m \<Longrightarrow> distinct_keys (AList.update k v m)"
  by (simp add: distinct_keys_def distinct_update)

text \<open>Sorting the keys removes every trace of the iteration order.\<close>

lemma sorted_keys_perm:
  assumes "mset m = mset m'"
  shows "sorted_keys m = sorted_keys m'"
proof -
  have "mset (map fst m) = mset (map fst m')"
    using assms by (metis mset_map)
  then show ?thesis
    unfolding sorted_keys_def by (metis sorted_list_of_multiset_mset)
qed

lemma mget_perm:
  assumes "mset m = mset m'" and "distinct_keys m"
  shows "mget m = mget m'"
proof -
  have "distinct_keys m'"
    using assms by (metis distinct_keys_def mset_eq_imp_distinct_iff mset_map)
  moreover have "set m = set m'" using assms(1) by (rule mset_eq_setD)
  ultimately have "map_of m = map_of m'"
    using assms(2) by (simp add: distinct_keys_def map_of_inject_set)
  then show ?thesis by (simp add: mget_def fun_eq_iff)
qed

section \<open>encoding/base64: the standard encoding\<close>

definition b64_char :: "nat \<Rightarrow> char" where
  "b64_char n =
     (if n < 26 then char_of (65 + n) else if n < 52 then char_of (71 + n)
      else if n < 62 then char_of (n - 4) else if n = 62 then CHR ''+'' else CHR ''/'')"

definition b64_val :: "char \<Rightarrow> nat option" where
  "b64_val c = (let n = (of_char c :: nat) in
     if 65 \<le> n \<and> n \<le> 90 then Some (n - 65) else if 97 \<le> n \<and> n \<le> 122 then Some (n - 71)
     else if 48 \<le> n \<and> n \<le> 57 then Some (n + 4) else if n = 43 then Some 62
     else if n = 47 then Some 63 else None)"

definition byte :: "char \<Rightarrow> nat" where "byte c = of_char c"

fun base64_encode :: "string \<Rightarrow> string" where
  "base64_encode [] = []"
| "base64_encode [a] = (let n = byte a * 16 in [b64_char (n div 64), b64_char (n mod 64), CHR ''='', CHR ''=''])"
| "base64_encode [a, b] = (let n = (byte a * 256 + byte b) * 4 in
     [b64_char (n div 4096), b64_char (n div 64 mod 64), b64_char (n mod 64), CHR ''=''])"
| "base64_encode (a # b # c # r) = (let n = (byte a * 256 + byte b) * 256 + byte c in
     b64_char (n div 262144) # b64_char (n div 4096 mod 64) # b64_char (n div 64 mod 64)
       # b64_char (n mod 64) # base64_encode r)"

fun b64_groups :: "string \<Rightarrow> string option" where
  "b64_groups [] = Some []"
| "b64_groups (w # x # y # z # r) =
     (case (b64_val w, b64_val x) of
        (Some w', Some x') \<Rightarrow>
          (if y = CHR ''='' \<and> z = CHR ''='' \<and> r = [] then Some [char_of ((w' * 64 + x') div 16)]
           else (case b64_val y of
                   None \<Rightarrow> None
                 | Some y' \<Rightarrow>
                     (if z = CHR ''='' \<and> r = []
                      then (let n = ((w' * 64 + x') * 64 + y') div 4 in
                            Some [char_of (n div 256), char_of (n mod 256)])
                      else (case b64_val z of
                              None \<Rightarrow> None
                            | Some z' \<Rightarrow>
                                (let n = ((w' * 64 + x') * 64 + y') * 64 + z' in
                                 map_option (\<lambda>t. char_of (n div 65536) # char_of (n div 256 mod 256)
                                   # char_of (n mod 256) # t) (b64_groups r))))))
      | _ \<Rightarrow> None)"
| "b64_groups _ = None"

text \<open>The decoder of the standard library skips carriage returns and newlines.\<close>

definition base64_decode :: "string \<Rightarrow> string option" where
  "base64_decode s = b64_groups (filter (\<lambda>c. c \<noteq> CHR 0x0A \<and> c \<noteq> CHR 0x0D) s)"

lemma b64_val_char: "n < 64 \<Longrightarrow> b64_val (b64_char n) = Some n"
  by (auto simp: b64_val_def b64_char_def of_char_of Let_def)

lemma b64_val_pad: "b64_val (CHR ''='') = None"
  by (simp add: b64_val_def)

lemma b64_char_not_pad: "n < 64 \<Longrightarrow> b64_char n \<noteq> CHR ''=''"
  using b64_val_char b64_val_pad by fastforce

lemma byte_less: "byte c < 256"
  by (simp add: byte_def)

lemma char_of_byte [simp]: "char_of (byte c) = c"
  by (simp add: byte_def)

lemma b64_three:
  fixes a b c :: nat
  assumes "a < 256" "b < 256" "c < 256"
  defines "n \<equiv> (a * 256 + b) * 256 + c"
  shows "n div 262144 < 64" "((n div 262144 * 64 + n div 4096 mod 64) * 64 + n div 64 mod 64) * 64 + n mod 64 = n"
    "n div 65536 = a" "n div 256 mod 256 = b" "n mod 256 = c"
proof -
  have n: "n < 16777216" using assms by simp
  then show "n div 262144 < 64" by simp
  have "n div 4096 = n div 64 div 64" "n div 262144 = n div 64 div 64 div 64"
    by (simp_all add: div_mult2_eq[symmetric])
  then show "((n div 262144 * 64 + n div 4096 mod 64) * 64 + n div 64 mod 64) * 64 + n mod 64 = n"
    by (simp add: div_mult_mod_eq mult.commute)
  have "n mod 256 = c mod 256" unfolding n_def by (rule mod_mult_self3)
  then show "n mod 256 = c" using assms(3) by simp
  have nd: "n div 256 = a * 256 + b" using assms by simp
  then show "n div 256 mod 256 = b" using assms by simp
  have "n div 65536 = n div 256 div 256" by (simp add: div_mult2_eq[symmetric])
  then show "n div 65536 = a" using nd assms by simp
qed

lemma b64_groups_encode: "b64_groups (base64_encode s) = Some s"
proof (induction s rule: base64_encode.induct)
  case 1
  then show ?case by simp
next
  case (2 a)
  have "byte a * 16 div 64 < 64" using byte_less[of a] by simp
  moreover have "(byte a * 16 div 64 * 64 + byte a * 16 mod 64) div 16 = byte a"
    by (simp only: div_mult_mod_eq nonzero_mult_div_cancel_right)
  moreover have "byte a * 16 mod 64 < 64" by simp
  ultimately show ?case by (simp only: base64_encode.simps b64_groups.simps Let_def b64_val_char) simp
next
  case (3 a b)
  define n where "n = (byte a * 256 + byte b) * 4"
  have n: "n div 4096 < 64" using byte_less[of a] byte_less[of b] by (simp add: n_def)
  have "n div 4096 = n div 64 div 64" by (simp add: div_mult2_eq[symmetric])
  then have "(n div 4096 * 64 + n div 64 mod 64) * 64 + n mod 64 = n"
    by (simp add: div_mult_mod_eq mult.commute)
  then have e: "((n div 4096 * 64 + n div 64 mod 64) * 64 + n mod 64) div 4 = byte a * 256 + byte b"
    by (simp add: n_def)
  have ab: "(byte a * 256 + byte b) div 256 = byte a" "(byte a * 256 + byte b) mod 256 = byte b"
    using byte_less[of b] by simp_all
  have v: "b64_val (b64_char (n div 4096)) = Some (n div 4096)"
    "b64_val (b64_char (n div 64 mod 64)) = Some (n div 64 mod 64)"
    "b64_val (b64_char (n mod 64)) = Some (n mod 64)"
    using n by (simp_all add: b64_val_char)
  have p: "b64_char (n mod 64) \<noteq> CHR ''=''" by (simp add: b64_char_not_pad)
  have "base64_encode [a, b] = [b64_char (n div 4096), b64_char (n div 64 mod 64), b64_char (n mod 64), CHR ''='']"
    by (simp add: n_def Let_def)
  then show ?case
    by (simp only: b64_groups.simps v p option.case prod.case simp_thms if_True if_False e ab Let_def char_of_byte)
next
  case (4 a b c r)
  define n where "n = (byte a * 256 + byte b) * 256 + byte c"
  note t = b64_three[OF byte_less[of a] byte_less[of b] byte_less[of c], folded n_def]
  have v: "b64_val (b64_char (n div 262144)) = Some (n div 262144)"
    "b64_val (b64_char (n div 4096 mod 64)) = Some (n div 4096 mod 64)"
    "b64_val (b64_char (n div 64 mod 64)) = Some (n div 64 mod 64)"
    "b64_val (b64_char (n mod 64)) = Some (n mod 64)"
    using t(1) by (simp_all add: b64_val_char)
  have p: "b64_char (n mod 64) \<noteq> CHR ''=''" "b64_char (n div 64 mod 64) \<noteq> CHR ''=''"
    by (simp_all add: b64_char_not_pad)
  have IH: "b64_groups (base64_encode r) = Some r" by (rule "4.IH") (simp add: n_def)
  have "base64_encode (a # b # c # r) = b64_char (n div 262144) # b64_char (n div 4096 mod 64)
      # b64_char (n div 64 mod 64) # b64_char (n mod 64) # base64_encode r"
    by (simp add: n_def Let_def)
  then show ?case
    by (simp only: b64_groups.simps v p option.case prod.case simp_thms if_False Let_def t(2-5)
        IH option.map char_of_byte)
qed

lemma base64_no_newline: "list_all (\<lambda>c. c \<noteq> CHR 0x0A \<and> c \<noteq> CHR 0x0D \<and> c \<noteq> CHR 0x27) (base64_encode s)"
proof -
  have b: "b64_char n \<noteq> CHR 0x0A \<and> b64_char n \<noteq> CHR 0x0D \<and> b64_char n \<noteq> CHR 0x27" for n
  proof (cases "n < 64")
    case True
    have "b64_val (CHR 0x0A) = None" "b64_val (CHR 0x0D) = None" "b64_val (CHR 0x27) = None"
      by (simp_all add: b64_val_def)
    with b64_val_char[OF True] show ?thesis by (metis option.distinct(1))
  next
    case False
    then show ?thesis by (simp add: b64_char_def)
  qed
  show ?thesis
    by (induction s rule: base64_encode.induct) (auto simp: b Let_def)
qed

lemma base64_roundtrip: "base64_decode (base64_encode s) = Some s"
proof -
  have "filter (\<lambda>c. c \<noteq> CHR 0x0A \<and> c \<noteq> CHR 0x0D) (base64_encode s) = base64_encode s"
    using base64_no_newline[of s] by (auto simp: filter_id_conv list_all_iff)
  then show ?thesis by (simp add: base64_decode_def b64_groups_encode)
qed

section \<open>encoding/hex\<close>

definition hex_encode :: "string \<Rightarrow> string" where
  "hex_encode s = concat (map (\<lambda>c. [hex_digit (byte c div 16), hex_digit (byte c mod 16)]) s)"

definition hex_read :: "char \<Rightarrow> nat option" where
  "hex_read c = (let n = (of_char c :: nat) in
     if 48 \<le> n \<and> n \<le> 57 then Some (n - 48) else if 97 \<le> n \<and> n \<le> 102 then Some (n - 87)
     else if 65 \<le> n \<and> n \<le> 70 then Some (n - 55) else None)"

fun hex_decode :: "string \<Rightarrow> string option" where
  "hex_decode [] = Some []"
| "hex_decode [c] = None"
| "hex_decode (h # l # r) =
     (case (hex_read h, hex_read l) of
        (Some a, Some b) \<Rightarrow> map_option (\<lambda>t. char_of (16 * a + b) # t) (hex_decode r)
      | _ \<Rightarrow> None)"

lemma hex_read_digit: "n < 16 \<Longrightarrow> hex_read (hex_digit n) = Some n"
  by (simp add: hex_read_def hex_digit_def of_char_of Let_def)

lemma hex_decode_encode: "hex_decode (hex_encode s) = Some s"
proof (induction s)
  case Nil
  then show ?case by (simp add: hex_encode_def)
next
  case (Cons c s)
  have "byte c div 16 < 16" using byte_less[of c] by simp
  moreover have "char_of (16 * (byte c div 16) + byte c mod 16) = c" by (simp add: byte_def)
  ultimately show ?case using Cons by (simp add: hex_encode_def hex_read_digit)
qed

lemma length_hex_encode [simp]: "length (hex_encode s) = 2 * length s"
  by (induction s) (auto simp: hex_encode_def)

end
