(* ===== verification/Config.thy ===== *)
theory Config
  imports GoFmt
begin

text \<open>
  The inventory and settings of \<open>internal/config\<close>: the records of a server, a project and the
  application configuration, and the validators that every write path (dashboard, API, YAML seed,
  deploy pipeline) shares. Go's \<open>error\<close> is \<^typ>\<open>string option\<close> here, \<open>None\<close> for \<open>nil\<close>.

  The URL parser of \<open>net/url\<close> is an argument of the validators that call it: nothing proved about
  them depends on its grammar.
\<close>

section \<open>Entities\<close>

record server =
  sv_id :: string
  sv_name :: string
  sv_type :: string
  sv_host :: string
  sv_winrm_endpoint :: string
  sv_winrm_user :: string
  sv_winrm_transport :: string
  sv_winrm_insecure :: bool
  sv_credential_ref :: string
  sv_nssm_path :: string
  sv_caddy_path :: string
  sv_ssh_host :: string
  sv_ssh_port :: int
  sv_ssh_user :: string
  sv_ssh_key_ref :: string
  sv_public_ip :: string
  sv_local :: bool
  sv_services :: "string list"
  sv_disk_path :: string

record project =
  p_id :: string
  p_name :: string
  p_server_id :: string
  p_strategy :: string
  p_source :: string
  p_repo_url :: string
  p_dockerfile_path :: string
  p_compose_path :: string
  p_image :: string
  p_ports_exposes :: int
  p_ports_mappings :: "string list"
  p_iis_site :: string
  p_iis_physical_path :: string
  p_iis_app_pool :: string
  p_iis_service :: string
  p_iis_build_command :: string
  p_iis_source_subdir :: string
  p_iis_blue_green :: bool
  p_service_name :: string
  p_service_exe :: string
  p_service_args :: string
  p_service_work_dir :: string
  p_service_build_command :: string
  p_service_source_subdir :: string
  p_service_log_dir :: string
  p_service_account :: string
  p_runtime :: string
  p_caddy_mode :: string
  p_branch :: string
  p_domain :: string
  p_port :: int
  p_health_path :: string
  p_webhook_secret_ref :: string
  p_github_repo :: string
  p_git_credential_ref :: string
  p_env :: go_map
  p_build_env :: go_map
  p_health_interval :: int
  p_health_timeout :: int
  p_health_retries :: int
  p_health_start_period :: int
  p_group :: string
  p_environment :: string
  p_disable_health_check :: bool

text \<open>The zero values of the two structs, as \<open>config.Server{}\<close> and \<open>config.Project{}\<close>.\<close>

definition zero_server :: server where
  "zero_server = \<lparr> sv_id = [], sv_name = [], sv_type = [], sv_host = [], sv_winrm_endpoint = [],
     sv_winrm_user = [], sv_winrm_transport = [], sv_winrm_insecure = False, sv_credential_ref = [],
     sv_nssm_path = [], sv_caddy_path = [], sv_ssh_host = [], sv_ssh_port = 0, sv_ssh_user = [],
     sv_ssh_key_ref = [], sv_public_ip = [], sv_local = False, sv_services = [], sv_disk_path = [] \<rparr>"

definition zero_project :: project where
  "zero_project = \<lparr> p_id = [], p_name = [], p_server_id = [], p_strategy = [], p_source = [],
     p_repo_url = [], p_dockerfile_path = [], p_compose_path = [], p_image = [], p_ports_exposes = 0,
     p_ports_mappings = [], p_iis_site = [], p_iis_physical_path = [], p_iis_app_pool = [],
     p_iis_service = [], p_iis_build_command = [], p_iis_source_subdir = [], p_iis_blue_green = False,
     p_service_name = [], p_service_exe = [], p_service_args = [], p_service_work_dir = [],
     p_service_build_command = [], p_service_source_subdir = [], p_service_log_dir = [],
     p_service_account = [], p_runtime = [], p_caddy_mode = [], p_branch = [], p_domain = [],
     p_port = 0, p_health_path = [], p_webhook_secret_ref = [], p_github_repo = [],
     p_git_credential_ref = [], p_env = [], p_build_env = [], p_health_interval = 0,
     p_health_timeout = 0, p_health_retries = 0, p_health_start_period = 0, p_group = [],
     p_environment = [], p_disable_health_check = False \<rparr>"

section \<open>Constants\<close>

definition server_type_docker :: string where "server_type_docker = ''docker''"
definition server_type_iis :: string where "server_type_iis = ''iis''"
definition server_type_winsvc :: string where "server_type_winsvc = ''winsvc''"
definition caddy_mode_none :: string where "caddy_mode_none = ''none''"
definition caddy_mode_proxy :: string where "caddy_mode_proxy = ''proxy''"
definition caddy_mode_static :: string where "caddy_mode_static = ''static''"
definition source_dockerfile :: string where "source_dockerfile = ''dockerfile''"
definition source_compose :: string where "source_compose = ''compose''"
definition source_image :: string where "source_image = ''image''"

lemmas config_consts = server_type_docker_def server_type_iis_def server_type_winsvc_def
  caddy_mode_none_def caddy_mode_proxy_def caddy_mode_static_def
  source_dockerfile_def source_compose_def source_image_def

section \<open>Ports\<close>

text \<open>\<open>ParsePortMapping\<close>: a bare port stands for both sides.\<close>

definition port_ok :: "int option \<Rightarrow> bool" where
  "port_ok v = (case v of Some n \<Rightarrow> 1 \<le> n \<and> n \<le> 65535 | None \<Rightarrow> False)"

definition port_error :: "string \<Rightarrow> string" where
  "port_error s = ''invalid port mapping '' @ quote s"

definition parse_port_mapping :: "string \<Rightarrow> string + int \<times> int" where
  "parse_port_mapping s =
     (case cut_char (CHR '':'') (trim_space s) of
        (a, None) \<Rightarrow>
          (let c = atoi (trim_space a)
           in if port_ok c then Inr (the c, the c) else Inl (port_error s))
      | (a, Some b) \<Rightarrow>
          (let h = atoi (trim_space a); c = atoi (trim_space b)
           in if \<not> port_ok h then Inl (port_error s)
              else if \<not> port_ok c then Inl (port_error s)
              else Inr (the h, the c)))"

definition effective_host_port :: "project \<Rightarrow> int" where
  "effective_host_port p =
     (let fallback = (if 0 < p_ports_exposes p then p_ports_exposes p else p_port p)
      in case p_ports_mappings p of
           [] \<Rightarrow> fallback
         | m # _ \<Rightarrow>
             (case parse_port_mapping m of
                Inr (host, _) \<Rightarrow> if 0 < host then host else fallback
              | Inl _ \<Rightarrow> fallback))"

lemma parse_port_mapping_bounds:
  "parse_port_mapping s = Inr (h, c) \<Longrightarrow> 1 \<le> h \<and> h \<le> 65535 \<and> 1 \<le> c \<and> c \<le> 65535"
  by (auto simp: parse_port_mapping_def port_ok_def Let_def
      split: prod.splits option.splits if_splits)

lemma parse_port_mapping_print:
  assumes "1 \<le> h" "h \<le> 65535" "1 \<le> c" "c \<le> 65535"
  shows "parse_port_mapping (itoa h @ '':'' @ itoa c) = Inr (h, c)"
proof -
  define a where "a = show_nat (nat h)"
  define b where "b = show_nat (nat c)"
  have i: "itoa h = a" "itoa c = b" using assms by (simp_all add: itoa_def a_def b_def)
  have ne: "a \<noteq> []" "b \<noteq> []" by (simp_all add: a_def b_def show_nat_digits)
  have dig: "x \<in> set a \<union> set b \<Longrightarrow> is_digit x" for x
    using show_nat_plain by (auto simp: a_def b_def)
  have "CHR '':'' \<notin> set a" using dig digit_not_sign by blast
  moreover have "trim_space (a @ '':'' @ b) = a @ '':'' @ b"
  proof (rule trim_space_plain)
    have "is_digit (hd a)" "is_digit (last b)" using ne dig by auto
    moreover have "hd (a @ '':'' @ b) = hd a" "last (a @ '':'' @ b) = last b" using ne by auto
    ultimately show "a @ '':'' @ b = [] \<or> plain_char (hd (a @ '':'' @ b)) \<and> plain_char (last (a @ '':'' @ b))"
      by (auto simp: is_digit_def plain_char_def)
  qed
  ultimately have "cut_char (CHR '':'') (trim_space (a @ '':'' @ b)) = (a, Some b)"
    by (simp add: cut_char_append)
  moreover have "atoi (trim_space a) = Some h" "atoi (trim_space b) = Some c"
    using assms by (simp_all add: a_def b_def atoi_show_nat)
  ultimately show ?thesis
    using assms by (simp add: i parse_port_mapping_def port_ok_def Let_def)
qed

lemma effective_host_port_mapped:
  "p_ports_mappings p = m # ms \<Longrightarrow> parse_port_mapping m = Inr (h, c) \<Longrightarrow> effective_host_port p = h"
  using parse_port_mapping_bounds[of m h c] by (simp add: effective_host_port_def Let_def)

section \<open>The identifier patterns\<close>

definition is_lower :: "char \<Rightarrow> bool" where
  "is_lower c \<longleftrightarrow> (97::nat) \<le> of_char c \<and> of_char c \<le> (122::nat)"
definition is_upper :: "char \<Rightarrow> bool" where
  "is_upper c \<longleftrightarrow> (65::nat) \<le> of_char c \<and> of_char c \<le> (90::nat)"
definition is_alpha :: "char \<Rightarrow> bool" where
  "is_alpha c \<longleftrightarrow> is_lower c \<or> is_upper c"
definition is_alnum :: "char \<Rightarrow> bool" where
  "is_alnum c \<longleftrightarrow> is_alpha c \<or> is_digit c"
definition is_word :: "char \<Rightarrow> bool" where
  "is_word c \<longleftrightarrow> is_alnum c \<or> c \<in> set ''._-''"

lemmas char_classes = is_lower_def is_upper_def is_alpha_def is_alnum_def is_word_def is_digit_def

definition resource_id_pattern :: "string \<Rightarrow> bool" where
  "resource_id_pattern s =
     (case s of [] \<Rightarrow> False | c # r \<Rightarrow> is_alnum c \<and> length r \<le> 127 \<and> list_all is_word r)"

definition env_key_pattern :: "string \<Rightarrow> bool" where
  "env_key_pattern s =
     (case s of [] \<Rightarrow> False
      | c # r \<Rightarrow> (is_alpha c \<or> c = CHR ''_'') \<and> list_all (\<lambda>x. is_alnum x \<or> x = CHR ''_'') r)"

definition domain_label_pattern :: "string \<Rightarrow> bool" where
  "domain_label_pattern s \<longleftrightarrow>
     s \<noteq> [] \<and> length s \<le> 63 \<and> is_alnum (hd s) \<and> is_alnum (last s)
     \<and> list_all (\<lambda>x. is_alnum x \<or> x = CHR ''-'') s"

definition service_name_pattern :: "string \<Rightarrow> bool" where
  "service_name_pattern s =
     (case s of [] \<Rightarrow> False
      | c # r \<Rightarrow> is_alnum c \<and> length r \<le> 127 \<and> list_all (\<lambda>x. is_word x \<or> x = CHR '' '') r)"

definition word_part :: "string \<Rightarrow> bool" where
  "word_part s \<longleftrightarrow> s \<noteq> [] \<and> list_all is_word s"

text \<open>A component with an optional \<open>:suffix\<close> of a given character class.\<close>

definition word_with :: "(char \<Rightarrow> bool) \<Rightarrow> string \<Rightarrow> bool" where
  "word_with cls s =
     (case cut_char (CHR '':'') s of
        (a, None) \<Rightarrow> word_part a
      | (a, Some b) \<Rightarrow> word_part a \<and> b \<noteq> [] \<and> list_all cls b)"

definition is_hex :: "char \<Rightarrow> bool" where
  "is_hex c \<longleftrightarrow> is_digit c \<or> c \<in> set ''abcdefABCDEF''"

definition image_path_ok :: "string list \<Rightarrow> bool" where
  "image_path_ok cs =
     (case cs of
        [] \<Rightarrow> False
      | [c] \<Rightarrow> word_with is_word c
      | c # rest \<Rightarrow> word_with is_digit c \<and> list_all word_part (butlast rest) \<and> word_with is_word (last rest))"

definition image_ref_pattern :: "string \<Rightarrow> bool" where
  "image_ref_pattern s =
     (case cut_char (CHR ''@'') s of
        (a, None) \<Rightarrow> image_path_ok (split_char (CHR ''/'') a)
      | (a, Some d) \<Rightarrow>
          image_path_ok (split_char (CHR ''/'') a) \<and> prefix ''sha256:'' d
          \<and> length (drop 7 d) = 64 \<and> list_all is_hex (drop 7 d))"

definition is_re_space :: "char \<Rightarrow> bool" where
  "is_re_space c \<longleftrightarrow> c \<in> {CHR 0x09, CHR 0x0A, CHR 0x0C, CHR 0x0D, CHR 0x20}"

definition scp_repo_pattern :: "string \<Rightarrow> bool" where
  "scp_repo_pattern s =
     (case cut_char (CHR ''@'') s of
        (u, Some r) \<Rightarrow> word_part u \<and>
          (case cut_char (CHR '':'') r of
             (h, Some p) \<Rightarrow> word_part h \<and> p \<noteq> [] \<and> list_all (\<lambda>c. \<not> is_re_space c) p
           | (_, None) \<Rightarrow> False)
      | (_, None) \<Rightarrow> False)"

definition owner_repo_pattern :: "string \<Rightarrow> bool" where
  "owner_repo_pattern s =
     (case cut_char (CHR ''/'') s of (a, Some b) \<Rightarrow> word_part a \<and> word_part b | _ \<Rightarrow> False)"

section \<open>Validators of single fields\<close>

definition validate_resource_id :: "string \<Rightarrow> string \<Rightarrow> string option" where
  "validate_resource_id kind s =
     (if \<not> resource_id_pattern s \<or> sublist ''..'' s \<or> suffix ''.'' s
      then Some (kind @ '' must contain only letters, numbers, '' @ squo @ ''.'' @ squo @ '', '' @ squo
         @ ''_'' @ squo @ '' or '' @ squo @ ''-'' @ squo @ '', and must start with a letter or number'')
      else None)"

text \<open>
  \<open>path.Clean\<close>: components are resolved from the left against a stack, kept here with the last
  component first.
\<close>

fun clean_step :: "bool \<Rightarrow> string list \<Rightarrow> string \<Rightarrow> string list" where
  "clean_step rooted st c =
     (if c = [] \<or> c = ''.'' then st
      else if c = ''..'' then
        (case st of
           [] \<Rightarrow> (if rooted then [] else [''..''])
         | t # r \<Rightarrow> (if t = ''..'' then ''..'' # st else r))
      else c # st)"

definition path_clean :: "string \<Rightarrow> string" where
  "path_clean s =
     (let rooted = prefix ''/'' s;
          st = foldl (clean_step rooted) [] (split_char (CHR ''/'') s);
          body = join ''/'' (rev st)
      in if rooted then ''/'' @ body else if body = [] then ''.'' else body)"

definition repo_path_error :: "string \<Rightarrow> string" where
  "repo_path_error field = field @ '' must be a relative path inside the repository''"

definition validate_repo_relative_path :: "string \<Rightarrow> string \<Rightarrow> string option" where
  "validate_repo_relative_path field value0 =
     (let value = trim_space value0 in
      if value = [] then None
      else (let normalized = replace_char (CHR 0x5C) ''/'' value in
        if prefix ''/'' normalized \<or> prefix ''../'' normalized \<or> normalized = ''..'' \<or> CHR '':'' \<in> set normalized
        then Some (repo_path_error field)
        else (let cl = path_clean normalized in
          if cl = ''..'' \<or> prefix ''../'' cl then Some (repo_path_error field) else None)))"

fun bad_label :: "string list \<Rightarrow> string option" where
  "bad_label [] = None"
| "bad_label (l # ls) =
     (if \<not> domain_label_pattern l then Some (''domain contains an invalid label '' @ quote l) else bad_label ls)"

definition validate_domain :: "string \<Rightarrow> string option" where
  "validate_domain domain0 =
     (let domain = trim_space domain0 in
      if domain = [] then None
      else if 253 < length domain \<or> contains_any domain (''/:@ '' @ tab @ [CHR 0x0D] @ nl)
      then Some ''domain must be a hostname without scheme, path, port, or whitespace''
      else (let labels = split_char (CHR ''.'') (trim_suffix ''.'' domain) in
        if length labels < 2 then Some ''domain must contain at least two labels'' else bad_label labels))"

definition looks_like_windows_abs :: "string \<Rightarrow> bool" where
  "looks_like_windows_abs v \<longleftrightarrow>
     prefix (bsl @ bsl) v
     \<or> 3 \<le> length v \<and> is_alpha (v ! 0) \<and> v ! 1 = CHR '':'' \<and> (v ! 2 = CHR 0x5C \<or> v ! 2 = CHR ''/'')"

definition norm_win_path :: "string \<Rightarrow> string" where
  "norm_win_path s = trim_right_set bsl (replace_char (CHR ''/'') bsl (trim_space s))"

definition validate_target_path :: "string \<Rightarrow> string \<Rightarrow> string option" where
  "validate_target_path root0 candidate0 =
     (let root = norm_win_path root0; candidate = norm_win_path candidate0 in
      if root = [] \<or> candidate = [] \<or> \<not> looks_like_windows_abs candidate
      then Some ''target path must be an absolute Windows path''
      else if \<not> equal_fold candidate root \<and> \<not> prefix (to_lower (root @ bsl)) (to_lower candidate)
      then Some (''target path '' @ quote candidate @ '' is outside deploy.target_root '' @ quote root)
      else None)"

definition validate_service_name :: "string \<Rightarrow> string option" where
  "validate_service_name name =
     (if \<not> service_name_pattern name \<or> sublist ''..'' name
      then Some (''invalid service name '' @ quote name) else None)"

definition validate_env_key :: "string \<Rightarrow> string option" where
  "validate_env_key key =
     (if \<not> env_key_pattern key then Some (''invalid environment key '' @ quote key) else None)"

definition ctl_chars :: string where "ctl_chars = [CHR 0x00, CHR 0x0D, CHR 0x0A]"

fun validate_env_map :: "string \<Rightarrow> go_map \<Rightarrow> string option" where
  "validate_env_map field [] = None"
| "validate_env_map field ((key, value) # env) =
     (case validate_env_key key of
        Some e \<Rightarrow> Some (field @ '' contains '' @ e)
      | None \<Rightarrow>
          (if contains_any value ctl_chars
           then Some (field @ '' value for '' @ quote key @ '' contains a newline or NUL'')
           else validate_env_map field env))"

definition validate_env_values :: "string \<Rightarrow> go_map \<Rightarrow> string option" where
  "validate_env_values field env = validate_env_map field env"

end
