(* ===== verification/Validate.thy ===== *)
theory Validate
  imports Config
begin

text \<open>
  The composed validators of \<open>internal/config/entities.go\<close> (repository URL, server, project) and
  the safety facts about the single-field ones: what an accepted identifier, repository path,
  domain or environment can contain, and how far an accepted target path may reach.
\<close>

section \<open>Parsed URLs\<close>

record url =
  u_scheme :: string
  u_host :: string
  u_hostname :: string
  u_user :: "(string \<times> string option) option"

type_synonym url_parser = "string \<Rightarrow> url option"

definition validate_repo_url :: "url_parser \<Rightarrow> string \<Rightarrow> string option" where
  "validate_repo_url parse repo0 =
     (let repo = trim_space repo0 in
      if repo = [] then None
      else if contains_any repo ctl_chars then Some ''repo_url contains an invalid control character''
      else if prefix ''/'' repo \<or> looks_like_windows_abs repo then None
      else if prefix ''.'' repo \<or> sublist ''..'' repo
      then Some ''repo_url must be an approved Git URL or absolute local path''
      else if scp_repo_pattern repo then None
      else (case parse repo of
          None \<Rightarrow> Some ''repo_url must be an approved Git URL or absolute local path''
        | Some u \<Rightarrow>
            (if u_hostname u = [] then Some ''repo_url must be an approved Git URL or absolute local path''
             else if u_scheme u = ''https'' then
               (if u_user u \<noteq> None then Some ''repo_url must not contain embedded credentials'' else None)
             else if u_scheme u = ''ssh'' then
               (case u_user u of
                  Some (_, Some _) \<Rightarrow> Some ''repo_url must not contain embedded credentials''
                | _ \<Rightarrow> None)
             else Some ''repo_url must use https, ssh, or an absolute local path'')))"

section \<open>ValidateServer\<close>

fun first_error :: "('a \<Rightarrow> string option) \<Rightarrow> 'a list \<Rightarrow> string option" where
  "first_error f [] = None"
| "first_error f (x # xs) = (case f x of Some e \<Rightarrow> Some e | None \<Rightarrow> first_error f xs)"

text \<open>A chain of early returns: the first check that reports an error decides.\<close>

fun checks :: "string option list \<Rightarrow> string option" where
  "checks [] = None"
| "checks (Some e # _) = Some e"
| "checks (None # cs) = checks cs"

definition fail_if :: "bool \<Rightarrow> string \<Rightarrow> string option" where
  "fail_if b e = (if b then Some e else None)"

lemma checks_None: "checks cs = None \<longleftrightarrow> (\<forall>c \<in> set cs. c = None)"
  by (induction cs rule: checks.induct) auto

lemma fail_if_None [simp]: "fail_if b e = None \<longleftrightarrow> \<not> b"
  by (simp add: fail_if_def)

lemma first_error_None: "first_error f xs = None \<longleftrightarrow> (\<forall>x \<in> set xs. f x = None)"
  by (induction xs) (auto split: option.splits)

definition validate_winrm :: "url_parser \<Rightarrow> server \<Rightarrow> string option" where
  "validate_winrm parse srv =
     (if sv_winrm_endpoint srv = [] then None
      else (case parse (sv_winrm_endpoint srv) of
          None \<Rightarrow> Some ''winrm_endpoint must be an http or https URL''
        | Some u \<Rightarrow> checks
            [fail_if (u_hostname u = [] \<or> u_scheme u \<noteq> ''http'' \<and> u_scheme u \<noteq> ''https'')
               ''winrm_endpoint must be an http or https URL'',
             fail_if (u_user u \<noteq> None) ''winrm_endpoint must not contain embedded credentials'',
             fail_if (u_scheme u = ''http'' \<and> \<not> sv_winrm_insecure srv)
               ''winrm_endpoint over HTTP requires winrm_insecure: true'',
             fail_if (sv_winrm_transport srv = ''basic'' \<and> u_scheme u \<noteq> ''https'')
               ''winrm_transport=basic requires an https winrm_endpoint'']))"

definition validate_server_type :: "server \<Rightarrow> string option" where
  "validate_server_type srv =
     (if sv_type srv = server_type_docker then checks
        [fail_if (sv_ssh_host srv = []) ''ssh_host is required for a docker server'',
         fail_if (sv_ssh_user srv = []) ''ssh_user is required for a docker server'',
         fail_if (sv_ssh_key_ref srv = []) ''ssh_key_ref is required for a docker server'']
      else if sv_type srv = server_type_iis \<or> sv_type srv = server_type_winsvc then
        (if sv_local srv then None else checks
          [fail_if (sv_winrm_endpoint srv = []) (''winrm_endpoint is required for a '' @ sv_type srv @ '' server''),
           fail_if (sv_winrm_user srv = []) (''winrm_user is required for a '' @ sv_type srv @ '' server''),
           fail_if (sv_credential_ref srv = []) (''credential_ref is required for a '' @ sv_type srv @ '' server'')])
      else Some (''type must be '' @ quote server_type_docker @ '', '' @ quote server_type_iis @ '' or ''
        @ quote server_type_winsvc))"

definition validate_server :: "url_parser \<Rightarrow> server \<Rightarrow> string option" where
  "validate_server parse srv = checks
     [validate_resource_id ''id'' (sv_id srv),
      fail_if (trim_space (sv_name srv) = []) ''name is required'',
      fail_if (contains_any (sv_ssh_host srv @ sv_ssh_user srv @ sv_nssm_path srv @ sv_caddy_path srv) ctl_chars)
        ''server fields contain an invalid control character'',
      fail_if (sv_ssh_port srv < 0 \<or> 65535 < sv_ssh_port srv) ''ssh_port must be between 1 and 65535'',
      fail_if (sv_winrm_transport srv \<noteq> [] \<and> sv_winrm_transport srv \<noteq> ''ntlm'' \<and> sv_winrm_transport srv \<noteq> ''basic'')
        ''winrm_transport must be ntlm or basic'',
      first_error validate_service_name (sv_services srv),
      validate_winrm parse srv,
      validate_server_type srv]"

section \<open>ValidateProject\<close>

text \<open>
  The four path fields are visited by ranging over a Go map, so which of several bad fields is
  named first is unspecified; the model takes the order in which the source lists them.
\<close>

definition validate_project_paths :: "project \<Rightarrow> string option" where
  "validate_project_paths p = first_error (\<lambda>(f, v). validate_repo_relative_path f v)
     [(''dockerfile_path'', p_dockerfile_path p), (''compose_path'', p_compose_path p),
      (''iis_source_subdir'', p_iis_source_subdir p), (''service_source_subdir'', p_service_source_subdir p)]"

definition mapping_error :: "string \<Rightarrow> string option" where
  "mapping_error m = (case parse_port_mapping m of Inl e \<Rightarrow> Some e | Inr _ \<Rightarrow> None)"

definition validate_git_credential_ref :: "string \<Rightarrow> string option" where
  "validate_git_credential_ref r =
     (if r = [] then None
      else (let ref = trim_prefix ''vault:'' r in
        fail_if (ref = [] \<or> contains_any ref (ctl_chars @ dquo @ squo @ ''`''))
          ''git_credential_ref must be a credential name (vault:name)''))"

definition validate_iis_project :: "project \<Rightarrow> string option" where
  "validate_iis_project p = checks
     [fail_if (p_repo_url p = []) ''repo_url is required'',
      fail_if (p_iis_physical_path p = []) ''iis_physical_path is required for an IIS project'',
      fail_if (p_iis_app_pool p = []) ''iis_app_pool is required for an IIS project'',
      fail_if (p_env p \<noteq> []) ''runtime env is not supported for IIS projects; configure the application through web.config or the build'',
      fail_if (contains_any (p_iis_physical_path p @ p_iis_service p @ p_iis_app_pool p) ctl_chars)
        ''IIS fields contain an invalid control character'',
      if p_iis_service p \<noteq> [] then validate_service_name (p_iis_service p) else None]"

definition static_only :: "project \<Rightarrow> bool" where
  "static_only p \<longleftrightarrow> p_service_exe p = [] \<and> p_caddy_mode p = caddy_mode_static"

definition validate_service_exe :: "project \<Rightarrow> string option" where
  "validate_service_exe p =
     (if p_service_exe p = [] then None
      else if looks_like_windows_abs (p_service_exe p) then
        map_option (\<lambda>e. ''service_exe: '' @ e) (validate_target_path (p_service_work_dir p) (p_service_exe p))
      else validate_repo_relative_path ''service_exe'' (p_service_exe p))"

definition validate_caddy_mode :: "string \<Rightarrow> string option" where
  "validate_caddy_mode m =
     (if m = [] \<or> m = caddy_mode_none \<or> m = caddy_mode_static then None
      else if m = caddy_mode_proxy then Some (''caddy_mode='' @ quote caddy_mode_proxy @ '' is not supported yet'')
      else Some (''caddy_mode must be '' @ quote caddy_mode_none @ '' or '' @ quote caddy_mode_static))"

definition validate_winsvc_project :: "project \<Rightarrow> string option" where
  "validate_winsvc_project p = checks
     [fail_if (p_repo_url p = []) ''repo_url is required for a Windows service project'',
      if p_service_name p \<noteq> [] then validate_service_name (p_service_name p) else None,
      fail_if (\<not> static_only p \<and> p_service_name p = []) ''service_name is required for a Windows service project'',
      fail_if (\<not> static_only p \<and> p_service_exe p = []) ''service_exe is required for a Windows service project'',
      fail_if (p_service_work_dir p = []) ''service_work_dir is required for a Windows service project'',
      fail_if (contains_any (p_service_name p @ p_service_exe p @ p_service_work_dir p @ p_service_log_dir p) ctl_chars)
        ''Windows service fields contain an invalid control character'',
      validate_service_exe p,
      validate_caddy_mode (p_caddy_mode p)]"

definition validate_docker_project :: "project \<Rightarrow> string option" where
  "validate_docker_project p =
     (if p_source p = source_image then checks
        [fail_if (trim_space (p_image p) = []) ''image is required for the image deploy source'',
         fail_if (\<not> image_ref_pattern (trim_space (p_image p))) ''image must be a valid Docker image reference'']
      else if p_source p = source_compose then
        fail_if (p_repo_url p = []) ''repo_url is required for the compose deploy source''
      else if p_source p = [] \<or> p_source p = source_dockerfile then
        fail_if (p_repo_url p = []) ''repo_url is required for the dockerfile deploy source''
      else Some ''source must be dockerfile, compose or image'')"

definition validate_project :: "url_parser \<Rightarrow> project \<Rightarrow> server \<Rightarrow> string option" where
  "validate_project parse p srv = checks
     [validate_resource_id ''id'' (p_id p),
      fail_if (trim_space (p_name p) = []) ''name is required'',
      fail_if (trim_space (p_server_id p) = []) ''server is required'',
      fail_if (contains_any (p_branch p) ctl_chars) ''branch contains an invalid control character'',
      fail_if (contains_any (p_health_path p) ctl_chars) ''health_path contains an invalid control character'',
      validate_domain (p_domain p),
      fail_if (p_github_repo p \<noteq> [] \<and> \<not> owner_repo_pattern (p_github_repo p)) ''github_repo must be owner/repo'',
      validate_git_credential_ref (p_git_credential_ref p),
      validate_repo_url parse (p_repo_url p),
      validate_project_paths p,
      validate_env_map ''env'' (p_env p),
      validate_env_map ''build_env'' (p_build_env p),
      first_error mapping_error (p_ports_mappings p),
      fail_if (p_ports_exposes p < 0 \<or> 0 < p_ports_exposes p \<and> 65535 < p_ports_exposes p)
        ''ports_exposes must be between 1 and 65535'',
      fail_if (effective_host_port p < 0 \<or> 65535 < effective_host_port p) ''ports_exposes must be between 1 and 65535'',
      fail_if (effective_host_port p = 0 \<and> (\<not> p_disable_health_check p \<or> p_domain p \<noteq> []))
        ''ports_exposes must be between 1 and 65535 unless health check is disabled and no domain is configured'',
      if sv_type srv = server_type_iis then validate_iis_project p
      else if sv_type srv = server_type_winsvc then validate_winsvc_project p
      else validate_docker_project p,
      fail_if (p_runtime p \<noteq> [] \<and> p_runtime p \<noteq> ''python'' \<and> p_runtime p \<noteq> ''node'' \<and> p_runtime p \<noteq> ''go''
        \<and> p_runtime p \<noteq> ''dotnet'') ''runtime must be python, node, go, or dotnet'']"

section \<open>What an accepted identifier can contain\<close>

lemma word_char_safe: "is_word c \<Longrightarrow> c \<noteq> CHR ''/'' \<and> c \<noteq> CHR 0x5C \<and> c \<noteq> CHR 0x27 \<and> c \<noteq> CHR 0x22 \<and> plain_char c"
  by (auto simp: char_classes plain_char_def)

lemma alnum_word: "is_alnum c \<Longrightarrow> is_word c"
  by (simp add: is_word_def)

lemma resource_id_pattern_words:
  "resource_id_pattern s \<Longrightarrow> s \<noteq> [] \<and> length s \<le> 128 \<and> list_all is_word s"
  by (auto simp: resource_id_pattern_def alnum_word split: list.splits)

lemma validate_resource_id_None:
  "validate_resource_id k s = None \<longleftrightarrow> resource_id_pattern s \<and> \<not> sublist ''..'' s \<and> \<not> suffix ''.'' s"
  by (simp add: validate_resource_id_def)

lemma resource_id_component:
  assumes "validate_resource_id k s = None"
  shows "s \<noteq> []" "s \<noteq> ''.''" "s \<noteq> ''..''" "CHR ''/'' \<notin> set s" "CHR 0x5C \<notin> set s" "length s \<le> 128"
    "CHR 0x27 \<notin> set s" "CHR 0x22 \<notin> set s"
  using assms resource_id_pattern_words[of s] word_char_safe
  by (auto simp: validate_resource_id_None list_all_iff)

section \<open>Accepted repository paths never leave the checkout\<close>

text \<open>
  Walking a path component by component from a directory \<open>d\<close> levels below the checkout root;
  the walk is inside as long as no \<open>..\<close> is taken at the root.
\<close>

fun stays_inside :: "nat \<Rightarrow> string list \<Rightarrow> bool" where
  "stays_inside d [] = True"
| "stays_inside d (c # cs) =
     (if c = [] \<or> c = ''.'' then stays_inside d cs
      else if c = ''..'' then (case d of 0 \<Rightarrow> False | Suc d' \<Rightarrow> stays_inside d' cs)
      else stays_inside (Suc d) cs)"

declare clean_step.simps [simp del]

lemma clean_step_escaped:
  "st \<noteq> [] \<and> last st = ''..'' \<Longrightarrow> clean_step False st c \<noteq> [] \<and> last (clean_step False st c) = ''..''"
  by (cases st) (auto simp: clean_step.simps)

lemma fold_clean_escaped:
  "st \<noteq> [] \<and> last st = ''..'' \<Longrightarrow>
     foldl (clean_step False) st cs \<noteq> [] \<and> last (foldl (clean_step False) st cs) = ''..''"
proof (induction cs arbitrary: st)
  case Nil
  then show ?case by simp
next
  case (Cons c cs)
  have "clean_step False st c \<noteq> [] \<and> last (clean_step False st c) = ''..''"
    using Cons.prems by (rule clean_step_escaped)
  then show ?case using Cons.IH by simp
qed

lemma fold_clean_dips:
  "''..'' \<notin> set st \<Longrightarrow> \<not> stays_inside (length st) cs \<Longrightarrow>
     foldl (clean_step False) st cs \<noteq> [] \<and> last (foldl (clean_step False) st cs) = ''..''"
proof (induction cs arbitrary: st)
  case Nil
  then show ?case by simp
next
  case (Cons c cs)
  consider "c = [] \<or> c = ''.''" | "c = ''..''" "st = []" | t r where "c = ''..''" "st = t # r"
    | "c \<noteq> []" "c \<noteq> ''.''" "c \<noteq> ''..''"
    by (cases st) auto
  then show ?case
  proof cases
    case 1
    then have "clean_step False st c = st" "\<not> stays_inside (length st) cs"
      using Cons.prems(2) by (auto simp: clean_step.simps)
    then show ?thesis using Cons.IH[of st] Cons.prems(1) by simp
  next
    case 3
    then have "clean_step False st c = r" "\<not> stays_inside (length r) cs" "''..'' \<notin> set r"
      using Cons.prems by (auto simp: clean_step.simps)
    then show ?thesis using Cons.IH[of r] by simp
  next
    case 2
    then have "foldl (clean_step False) st (c # cs) = foldl (clean_step False) [''..''] cs" by (simp add: clean_step.simps)
    then show ?thesis using fold_clean_escaped[of "[''..'']" cs] by simp
  next
    case 4
    then have "\<not> stays_inside (length (c # st)) cs" using Cons.prems by auto
    moreover have "''..'' \<notin> set (c # st)" using Cons.prems 4 by auto
    moreover have "clean_step False st c = c # st" using 4 by (simp add: clean_step.simps)
    ultimately show ?thesis using Cons.IH[of "c # st"] by simp
  qed
qed

lemma path_clean_escape:
  assumes "\<not> prefix ''/'' s" and "\<not> stays_inside 0 (split_char (CHR ''/'') s)"
  shows "path_clean s = ''..'' \<or> prefix ''../'' (path_clean s)"
proof -
  define st where "st = foldl (clean_step False) [] (split_char (CHR ''/'') s)"
  have st: "st \<noteq> []" "last st = ''..''"
    using fold_clean_dips[of "[]" "split_char (CHR ''/'') s"] assms(2) by (auto simp: st_def)
  then obtain r where r: "rev st = ''..'' # r"
    by (metis append_butlast_last_id rev_eq_Cons_iff rev_rev_ident)
  have "path_clean s = join ''/'' (rev st)"
  proof -
    have "join ''/'' (rev st) \<noteq> []" using r by (cases r) auto
    then show ?thesis using assms(1) by (simp add: path_clean_def st_def Let_def)
  qed
  then show ?thesis using r by (cases r) auto
qed

lemma repo_relative_inside:
  assumes "validate_repo_relative_path f v = None"
  shows "stays_inside 0 (split_char (CHR ''/'') (replace_char (CHR 0x5C) ''/'' (trim_space v)))"
proof (cases "trim_space v = []")
  case True
  then show ?thesis by (simp add: replace_char_def)
next
  case False
  with assms path_clean_escape show ?thesis
    by (force simp: validate_repo_relative_path_def Let_def split: if_splits)
qed

section \<open>Domains, environments and projects\<close>

lemma bad_label_None: "bad_label ls = None \<longleftrightarrow> (\<forall>l \<in> set ls. domain_label_pattern l)"
  by (induction ls) auto

lemma validate_domain_None:
  assumes "validate_domain d = None" and "trim_space d \<noteq> []"
  shows "length (trim_space d) \<le> 253" "2 \<le> length (split_char (CHR ''.'') (trim_suffix ''.'' (trim_space d)))"
    "\<forall>l \<in> set (split_char (CHR ''.'') (trim_suffix ''.'' (trim_space d))). domain_label_pattern l"
    "\<not> contains_any (trim_space d) (''/:@ '' @ tab @ [CHR 0x0D] @ nl)"
  using assms by (auto simp: validate_domain_def Let_def bad_label_None split: if_splits)

lemma validate_env_map_None:
  "validate_env_map f env = None \<longleftrightarrow>
     (\<forall>(k, v) \<in> set env. env_key_pattern k \<and> \<not> contains_any v ctl_chars)"
  by (induction f env rule: validate_env_map.induct)
    (auto simp: validate_env_key_def split: option.splits if_splits)

lemma validate_project_checks:
  assumes "validate_project parse p srv = None"
  shows "validate_resource_id ''id'' (p_id p) = None"
    "validate_domain (p_domain p) = None"
    "validate_project_paths p = None"
    "validate_env_map ''env'' (p_env p) = None" "validate_env_map ''build_env'' (p_build_env p) = None"
    "0 \<le> effective_host_port p" "effective_host_port p \<le> 65535"
    "effective_host_port p = 0 \<longrightarrow> p_disable_health_check p \<and> p_domain p = []"
    "sv_type srv = server_type_iis \<longrightarrow> validate_iis_project p = None"
    "sv_type srv = server_type_winsvc \<longrightarrow> validate_winsvc_project p = None"
  using assms by (auto simp: validate_project_def checks_None config_consts)

section \<open>Properties of the validators\<close>

text \<open>
  An identifier accepted by \<open>ValidateResourceID\<close> is a single path component that cannot leave
  its directory and needs no quoting: non-empty, at most 128 bytes, not a dot entry, free of both
  path separators, quotes, blanks and control characters, and not containing \<open>..\<close>.
\<close>

theorem resource_id_safe:
  assumes "validate_resource_id kind s = None"
  shows "s \<noteq> [] \<and> length s \<le> 128 \<and> s \<noteq> ''.'' \<and> \<not> sublist ''..'' s
    \<and> list_all (\<lambda>c. c \<notin> {CHR ''/'', CHR 0x5C, CHR 0x27, CHR 0x22, CHR '' ''} \<and> plain_char c) s"
proof -
  have r: "resource_id_pattern s" "\<not> sublist ''..'' s" using assms by (auto simp: validate_resource_id_None)
  have "\<forall>c \<in> set s. is_word c" using resource_id_pattern_words[OF r(1)] by (simp add: list_all_iff)
  then have "\<forall>c \<in> set s. c \<notin> {CHR ''/'', CHR 0x5C, CHR 0x27, CHR 0x22, CHR '' ''} \<and> plain_char c"
    using word_char_safe by (fastforce simp: plain_char_def)
  then show ?thesis using r resource_id_component[OF assms] by (simp add: list_all_iff)
qed

lemma resource_id_safe_witness:
  "''web-1'' \<noteq> [] \<and> length ''web-1'' \<le> 128 \<and> ''web-1'' \<noteq> ''.'' \<and> \<not> sublist ''..'' ''web-1''
    \<and> list_all (\<lambda>c. c \<notin> {CHR ''/'', CHR 0x5C, CHR 0x27, CHR 0x22, CHR '' ''} \<and> plain_char c) ''web-1''"
  by (rule resource_id_safe[of "''id''"]) code_simp



text \<open>
  Port mappings round-trip and are bounded: every pair of ports between 1 and 65535 is read
  back from its \<open>host:container\<close> text, and nothing outside these bounds is ever returned.
\<close>

theorem port_mapping_exact:
  assumes "h \<in> {1..65535}" and "c \<in> {1..65535}"
  shows "parse_port_mapping (itoa h @ '':'' @ itoa c) = Inr (h, c)
   \<and> (case parse_port_mapping s of Inr (h', c') \<Rightarrow> h' \<in> {1..65535} \<and> c' \<in> {1..65535} | Inl e \<Rightarrow> e = port_error s)"
proof -
  have "e = port_error s" if "parse_port_mapping s = Inl e" for e
    using that by (auto simp: parse_port_mapping_def Let_def split: prod.splits option.splits if_splits)
  then show ?thesis
    using assms parse_port_mapping_print parse_port_mapping_bounds[of s] by (auto split: sum.splits)
qed

lemma port_mapping_exact_witness:
  "parse_port_mapping (itoa 8080 @ '':'' @ itoa 80) = Inr (8080, 80)
   \<and> (case parse_port_mapping ''65536'' of Inr (h', c') \<Rightarrow> h' \<in> {1..65535} \<and> c' \<in> {1..65535} | Inl e \<Rightarrow> e = port_error ''65536'')"
  by (rule port_mapping_exact) simp_all

text \<open>
  C17: a project accepted by \<open>ValidateProject\<close> for a server has a safe id, repository paths that stay
  in the checkout, environments whose keys are identifiers and whose values hold no line break or
  NUL, and a host port that is usable whenever a health check or a domain needs one.
\<close>

theorem accepted_project:
  assumes "validate_project parse p srv = None"
  shows "validate_resource_id ''id'' (p_id p) = None
    \<and> list_all (\<lambda>v. stays_inside 0 (split_char (CHR ''/'') (replace_char (CHR 0x5C) ''/'' (trim_space v))))
         [p_dockerfile_path p, p_compose_path p, p_iis_source_subdir p, p_service_source_subdir p]
    \<and> list_all (\<lambda>(k, v). env_key_pattern k \<and> \<not> contains_any v ctl_chars) (p_env p @ p_build_env p)
    \<and> effective_host_port p \<in> {0..65535}
    \<and> (if p_disable_health_check p \<and> p_domain p = [] then True else effective_host_port p \<noteq> 0)"
proof -
  note c = validate_project_checks[OF assms]
  have "validate_repo_relative_path f v = None"
    if "(f, v) \<in> {(''dockerfile_path'', p_dockerfile_path p), (''compose_path'', p_compose_path p),
      (''iis_source_subdir'', p_iis_source_subdir p), (''service_source_subdir'', p_service_source_subdir p)}" for f v
    using c(3) that unfolding validate_project_paths_def first_error_None by fastforce
  then have "\<forall>v \<in> {p_dockerfile_path p, p_compose_path p, p_iis_source_subdir p, p_service_source_subdir p}.
      stays_inside 0 (split_char (CHR ''/'') (replace_char (CHR 0x5C) ''/'' (trim_space v)))"
    by (blast intro: repo_relative_inside)
  then show ?thesis using c by (auto simp: validate_env_map_None list_all_iff)
qed

definition sample_project :: project where
  "sample_project = zero_project\<lparr>p_id := ''web'', p_name := ''Web'', p_server_id := ''s1'', p_source := ''image'',
     p_image := ''nginx:1.27'', p_ports_exposes := 80, p_env := [(''MODE'', ''prod'')]\<rparr>"

definition sample_server :: server where
  "sample_server = zero_server\<lparr>sv_id := ''s1'', sv_type := ''docker''\<rparr>"

lemma sample_project_ok: "validate_project (\<lambda>_. None) sample_project sample_server = None"
  by code_simp

lemma accepted_project_witness:
  "validate_resource_id ''id'' (p_id sample_project) = None
    \<and> list_all (\<lambda>v. stays_inside 0 (split_char (CHR ''/'') (replace_char (CHR 0x5C) ''/'' (trim_space v))))
         [p_dockerfile_path sample_project, p_compose_path sample_project, p_iis_source_subdir sample_project,
          p_service_source_subdir sample_project]
    \<and> list_all (\<lambda>(k, v). env_key_pattern k \<and> \<not> contains_any v ctl_chars) (p_env sample_project @ p_build_env sample_project)
    \<and> effective_host_port sample_project \<in> {0..65535}
    \<and> (if p_disable_health_check sample_project \<and> p_domain sample_project = [] then True
       else effective_host_port sample_project \<noteq> 0)"
  by (rule accepted_project[OF sample_project_ok])

section \<open>Where the checks fall short\<close>

text \<open>
  \<open>ValidateTargetPath\<close> compares prefixes without resolving \<open>..\<close>, so a path below the managed root on
  paper may lie outside it on disk.
\<close>

lemma target_path_parent_accepted:
  "validate_target_path (''C:'' @ bsl @ ''srv'') (''C:'' @ bsl @ ''srv'' @ bsl @ ''..'' @ bsl @ ''Windows'') = None"
  by code_simp

text \<open>An application pool name is only checked for control characters.\<close>

lemma app_pool_unchecked:
  "validate_iis_project (zero_project\<lparr>p_repo_url := ''/r'', p_iis_physical_path := ''C:/app'',
     p_iis_app_pool := dquo @ ''; calc; '' @ dquo\<rparr>) = None"
  by code_simp

end
