(* ===== verification/Runner.thy ===== *)
theory Runner
  imports Config "HOL-Library.State_Monad"
begin

text \<open>
  Remote commands: \<open>internal/deployment/{audit,runner,target}.go\<close>.

  A pipeline is a program of the state monad over the \<^emph>\<open>trace\<close>: everything it has done so far, in
  order. An event is a command that ran on the target with its output and error, a call of the
  audit recorder, or a line handed to the deployment's \<open>logf\<close>. The target machine is a parameter:
  a \<open>host\<close> answers every command with an output and possibly an error, and may answer differently
  each time because it sees the whole trace. Transport failures, time-outs and cancelled contexts
  are errors a host may return at any point.
\<close>

section \<open>Programs over a trace\<close>

record audit_meta =
  am_server_id :: string
  am_server_type :: string
  am_action :: string
  am_deployment_id :: int

datatype event =
    Ran string string "string option"
  | Audited audit_meta string "string option"
  | Logged string

type_synonym trace = "event list"
type_synonym host = "trace \<Rightarrow> string \<Rightarrow> string \<times> string option"
type_synonym 'a rt = "(trace, 'a) state"
type_synonym 'a res = "string + 'a"

text \<open>The values a pipeline's \<open>context.Context\<close> carries: the audit metadata and the redaction label.\<close>

record cmd_ctx =
  cx_meta :: audit_meta
  cx_redact :: "string option"

definition with_audit_redaction :: "cmd_ctx \<Rightarrow> string \<Rightarrow> cmd_ctx" where
  "with_audit_redaction ctx label = ctx\<lparr>cx_redact := Some label\<rparr>"

definition emit :: "event list \<Rightarrow> unit rt" where
  "emit es = State (\<lambda>tr. ((), tr @ es))"

definition logf :: "string \<Rightarrow> unit rt" where
  "logf line = emit [Logged line]"

text \<open>\<open>if err != nil { return ..., err }\<close>: stop with the error or go on with the value.\<close>

definition try_then :: "'a res rt \<Rightarrow> ('a \<Rightarrow> 'b res rt) \<Rightarrow> 'b res rt" where
  "try_then m k = do { r \<leftarrow> m; case r of Inl e \<Rightarrow> State_Monad.return (Inl e) | Inr x \<Rightarrow> k x }"

definition fail_with :: "string \<Rightarrow> 'a res rt" where
  "fail_with e = State_Monad.return (Inl e)"

definition succeed :: "'a \<Rightarrow> 'a res rt" where
  "succeed x = State_Monad.return (Inr x)"

definition guard_err :: "string option \<Rightarrow> unit res rt" where
  "guard_err e = (case e of Some m \<Rightarrow> fail_with m | None \<Rightarrow> succeed ())"

section \<open>Redaction of credentials in URLs\<close>

text \<open>
  \<open>(?i)(https?://)[^/\s@]+@\<close>. Case folding in Go's regexp package is Unicode's simple folding,
  under which the long s U+017F (\<open>0xC5 0xBF\<close>) also matches \<open>s\<close>. The result is the scheme's length.
\<close>

definition scheme_len :: "string \<Rightarrow> nat option" where
  "scheme_len s =
     (if to_lower (take 7 s) = ''http://'' then Some 7
      else if to_lower (take 8 s) = ''https://'' then Some 8
      else if to_lower (take 4 s) = ''http'' \<and> take 5 (drop 4 s) = [CHR 0xC5, CHR 0xBF] @ ''://'' then Some 9
      else None)"

definition user_info_char :: "char \<Rightarrow> bool" where
  "user_info_char c \<longleftrightarrow> c \<notin> {CHR ''/'', CHR ''@'', CHR 0x09, CHR 0x0A, CHR 0x0C, CHR 0x0D, CHR '' ''}"

text \<open>The scheme, the user information and the rest of a match at the start of \<open>s\<close>.\<close>

definition credential_span :: "string \<Rightarrow> (string \<times> string \<times> string) option" where
  "credential_span s =
     (case scheme_len s of
        None \<Rightarrow> None
      | Some n \<Rightarrow>
          (let run = takeWhile user_info_char (drop n s)
           in case dropWhile user_info_char (drop n s) of
                [] \<Rightarrow> None
              | c # r \<Rightarrow> if run \<noteq> [] \<and> c = CHR ''@'' then Some (take n s, run, r) else None))"

lemma credential_span_length: "credential_span s = Some (p, u, r) \<Longrightarrow> length r < length s"
proof -
  assume a: "credential_span s = Some (p, u, r)"
  then obtain n c where "dropWhile user_info_char (drop n s) = c # r"
    by (auto simp: credential_span_def Let_def split: option.splits list.splits if_splits)
  then have "length (c # r) \<le> length (drop n s)" by (metis length_dropWhile_le)
  then show ?thesis by simp
qed

function redact_audit_text :: "string \<Rightarrow> string" where
  "redact_audit_text [] = []"
| "redact_audit_text (c # s) =
     (case credential_span (c # s) of
        Some (scheme, _, r) \<Rightarrow> scheme @ ''[redacted]@'' @ redact_audit_text r
      | None \<Rightarrow> c # redact_audit_text s)"
  by pat_completeness auto
termination
  by (relation "measure length") (auto dest: credential_span_length)

section \<open>Running a command\<close>

text \<open>\<open>auditedRunner.Run\<close>: the recorder sees the redaction label instead of a sensitive command.\<close>

definition audited_text :: "cmd_ctx \<Rightarrow> string \<Rightarrow> string" where
  "audited_text ctx cmd =
     redact_audit_text (case cx_redact ctx of Some label \<Rightarrow> label | None \<Rightarrow> cmd)"

definition run_cmd :: "host \<Rightarrow> cmd_ctx \<Rightarrow> string \<Rightarrow> (string \<times> string option) rt" where
  "run_cmd host ctx cmd = State (\<lambda>tr.
     let (out, err) = host tr cmd
     in ((out, err), tr @ [Ran cmd out err, Audited (cx_meta ctx) (audited_text ctx cmd) err]))"

definition max_command_output :: nat where
  "max_command_output = 2 * 1024 * 1024"

definition cap_command_output :: "string \<Rightarrow> string" where
  "cap_command_output value =
     (if length value \<le> max_command_output then value
      else (let keep = max_command_output div 2 in
        take keep value @ nl @ ''...[command output truncated]...'' @ nl @ drop (length value - keep) value))"

definition exec_cmd :: "host \<Rightarrow> cmd_ctx \<Rightarrow> string \<Rightarrow> string \<Rightarrow> (string \<times> string option) rt" where
  "exec_cmd host ctx cmd log_cmd = do {
     _ \<leftarrow> logf (''$ '' @ log_cmd);
     (out, err) \<leftarrow> run_cmd host ctx cmd;
     _ \<leftarrow> (case cx_redact ctx of
            Some label \<Rightarrow> if trim_space out \<noteq> [] then logf label else State_Monad.return ()
          | None \<Rightarrow> if trim_space out \<noteq> [] then logf (redact_audit_text (cap_command_output (trim_space out)))
                    else State_Monad.return ());
     State_Monad.return (out, err) }"

text \<open>
  \<open>if out, err := execCmd(...); err != nil { return fmt.Errorf(...) }\<close>: \<open>msg\<close> builds the error from
  the command's error and output.
\<close>

definition exec_or :: "host \<Rightarrow> cmd_ctx \<Rightarrow> string \<Rightarrow> string \<Rightarrow> (string \<Rightarrow> string \<Rightarrow> string) \<Rightarrow> string res rt" where
  "exec_or host ctx cmd log_cmd msg = do {
     (out, err) \<leftarrow> exec_cmd host ctx cmd log_cmd;
     case err of Some e \<Rightarrow> fail_with (msg e out) | None \<Rightarrow> succeed out }"

definition err_out :: "string \<Rightarrow> string \<Rightarrow> string \<Rightarrow> string" where
  "err_out what e out = what @ '': '' @ e @ nl @ out"

definition err_only :: "string \<Rightarrow> string \<Rightarrow> string \<Rightarrow> string" where
  "err_only what e out = what @ '': '' @ e"

section \<open>Reasoning about programs over a trace\<close>

text \<open>
  \<open>does m R\<close>: from every trace, \<open>m\<close> only appends to it, and the result and the appended events are
  related by \<open>R\<close>. It is a backward calculus: the rule for a sequence asks for the rest of the
  program under the events already emitted.
\<close>

definition does :: "'a rt \<Rightarrow> ('a \<Rightarrow> trace \<Rightarrow> bool) \<Rightarrow> bool" where
  "does m R \<longleftrightarrow> (\<forall>tr. \<exists>ext. snd (run_state m tr) = tr @ ext \<and> R (fst (run_state m tr)) ext)"

lemma does_mono: "does m R \<Longrightarrow> (\<And>x e. R x e \<Longrightarrow> S x e) \<Longrightarrow> does m S"
  unfolding does_def by blast

lemma does_return [rt_intros]: "R x [] \<Longrightarrow> does (State_Monad.return x) R"
  by (simp add: does_def State_Monad.return_def)

lemma does_bind [rt_intros]:
  assumes "does m (\<lambda>x e1. does (k x) (\<lambda>y e2. R y (e1 @ e2)))"
  shows "does (State_Monad.bind m k) R"
  unfolding does_def
proof
  fix tr
  obtain x tr1 where 1: "run_state m tr = (x, tr1)" by fastforce
  with assms obtain e1 where e1: "tr1 = tr @ e1" "does (k x) (\<lambda>y e2. R y (e1 @ e2))"
    unfolding does_def by (metis fst_conv snd_conv)
  then obtain e2 where "snd (run_state (k x) tr1) = tr1 @ e2" "R (fst (run_state (k x) tr1)) (e1 @ e2)"
    unfolding does_def by blast
  then show "\<exists>ext. snd (run_state (State_Monad.bind m k) tr) = tr @ ext \<and> R (fst (run_state (State_Monad.bind m k) tr)) ext"
    using 1 e1 by (auto simp: State_Monad.bind_def split_def)
qed

lemma does_emit [rt_intros]: "R () es \<Longrightarrow> does (emit es) R"
  by (simp add: does_def emit_def)

lemma does_logf [rt_intros]: "R () [Logged l] \<Longrightarrow> does (logf l) R"
  unfolding logf_def by (rule does_emit)

lemma does_succeed [rt_intros]: "R (Inr x) [] \<Longrightarrow> does (succeed x) R"
  unfolding succeed_def by (rule does_return)

lemma does_fail [rt_intros]: "R (Inl e) [] \<Longrightarrow> does (fail_with e) R"
  unfolding fail_with_def by (rule does_return)

lemma does_guard [rt_intros]:
  "(e = None \<Longrightarrow> R (Inr ()) []) \<Longrightarrow> (\<And>m. e = Some m \<Longrightarrow> R (Inl m) []) \<Longrightarrow> does (guard_err e) R"
  by (auto simp: guard_err_def split: option.split intro: rt_intros)

lemma does_try_then [rt_intros]:
  assumes "does m (\<lambda>r e1. case r of Inl x \<Rightarrow> R (Inl x) e1 | Inr y \<Rightarrow> does (k y) (\<lambda>z e2. R z (e1 @ e2)))"
  shows "does (try_then m k) R"
  unfolding try_then_def
  by (rule does_bind, rule does_mono[OF assms]) (auto split: sum.splits intro: rt_intros)

lemma does_if [rt_intros]: "(b \<Longrightarrow> does m R) \<Longrightarrow> (\<not> b \<Longrightarrow> does n R) \<Longrightarrow> does (if b then m else n) R"
  by simp

lemma does_run_cmd [rt_intros]:
  assumes "\<And>out err. R (out, err) [Ran cmd out err, Audited (cx_meta ctx) (audited_text ctx cmd) err]"
  shows "does (run_cmd host ctx cmd) R"
  unfolding does_def
proof
  fix tr
  obtain out err where "host tr cmd = (out, err)" by fastforce
  then show "\<exists>ext. snd (run_state (run_cmd host ctx cmd) tr) = tr @ ext \<and> R (fst (run_state (run_cmd host ctx cmd) tr)) ext"
    using assms by (simp add: run_cmd_def)
qed

definition logs_only :: "trace \<Rightarrow> bool" where
  "logs_only e \<longleftrightarrow> (\<forall>ev \<in> set e. \<exists>l. ev = Logged l)"

text \<open>A logged command: its label, the command, its audit record and at most one line of output.\<close>

lemma does_exec_cmd:
  assumes "\<And>out err ls. logs_only ls \<Longrightarrow>
    R (out, err) (Logged (''$ '' @ lc) # Ran cmd out err # Audited (cx_meta ctx) (audited_text ctx cmd) err # ls)"
  shows "does (exec_cmd host ctx cmd lc) R"
proof -
  have a: "R (out, err) (Logged (''$ '' @ lc) # Ran cmd out err # Audited (cx_meta ctx) (audited_text ctx cmd) err # [])"
    "R (out, err) (Logged (''$ '' @ lc) # Ran cmd out err # Audited (cx_meta ctx) (audited_text ctx cmd) err # [Logged l])"
    for out err l
    by (rule assms, simp add: logs_only_def)+
  show ?thesis
    unfolding exec_cmd_def
    by (rule does_bind, rule does_logf, rule does_bind, rule does_run_cmd)
      (auto split: option.split intro!: rt_intros simp: a[simplified])
qed

lemma does_exec_or:
  assumes "\<And>out e ls. logs_only ls \<Longrightarrow>
      R (Inl (msg e out)) (Logged (''$ '' @ lc) # Ran cmd out (Some e) # Audited (cx_meta ctx) (audited_text ctx cmd) (Some e) # ls)"
    and "\<And>out ls. logs_only ls \<Longrightarrow>
      R (Inr out) (Logged (''$ '' @ lc) # Ran cmd out None # Audited (cx_meta ctx) (audited_text ctx cmd) None # ls)"
  shows "does (exec_or host ctx cmd lc msg) R"
  unfolding exec_or_def
  by (rule does_bind, rule does_exec_cmd) (auto split: option.split intro!: rt_intros simp: assms[simplified])

text \<open>Whether a command ran, and whether it ran without an error.\<close>

definition did_run :: "string \<Rightarrow> trace \<Rightarrow> bool" where
  "did_run c e \<longleftrightarrow> (\<exists>out err. Ran c out err \<in> set e)"

definition ran_ok :: "string \<Rightarrow> trace \<Rightarrow> bool" where
  "ran_ok c e \<longleftrightarrow> (\<exists>out. Ran c out None \<in> set e)"

lemma did_run_append [simp]: "did_run c (a @ b) \<longleftrightarrow> did_run c a \<or> did_run c b"
  by (auto simp: did_run_def)

lemma ran_ok_append [simp]: "ran_ok c (a @ b) \<longleftrightarrow> ran_ok c a \<or> ran_ok c b"
  by (auto simp: ran_ok_def)

lemma did_run_simps [simp]:
  "did_run c [] \<longleftrightarrow> False" "did_run c (Logged l # e) \<longleftrightarrow> did_run c e" "did_run c (Audited m t x # e) \<longleftrightarrow> did_run c e"
  "did_run c (Ran d out err # e) \<longleftrightarrow> d = c \<or> did_run c e"
  by (auto simp: did_run_def)

lemma ran_ok_simps [simp]:
  "ran_ok c [] \<longleftrightarrow> False" "ran_ok c (Logged l # e) \<longleftrightarrow> ran_ok c e" "ran_ok c (Audited m t x # e) \<longleftrightarrow> ran_ok c e"
  "ran_ok c (Ran d out err # e) \<longleftrightarrow> d = c \<and> err = None \<or> ran_ok c e"
  by (auto simp: ran_ok_def)

text \<open>
  A property of event lists that holds of the empty list and is closed under append is established
  for a whole pipeline by establishing it for its primitive actions.
\<close>

definition emits :: "(trace \<Rightarrow> bool) \<Rightarrow> 'a rt \<Rightarrow> bool" where
  "emits P m = does m (\<lambda>_ e. P e)"

locale trace_closed =
  fixes P :: "trace \<Rightarrow> bool"
  assumes P_nil: "P []"
    and P_append: "P a \<Longrightarrow> P b \<Longrightarrow> P (a @ b)"
begin

lemma emits_return: "emits P (State_Monad.return x)"
  unfolding emits_def by (rule does_return) (rule P_nil)

lemma emits_succeed: "emits P (succeed x)"
  unfolding succeed_def by (rule emits_return)

lemma emits_fail: "emits P (fail_with x)"
  unfolding fail_with_def by (rule emits_return)

lemma emits_guard: "emits P (guard_err x)"
  unfolding guard_err_def by (auto split: option.split intro: emits_succeed emits_fail)

lemma emits_bind: "emits P m \<Longrightarrow> (\<And>x. emits P (k x)) \<Longrightarrow> emits P (State_Monad.bind m k)"
  unfolding emits_def
  by (rule does_bind, erule does_mono) (auto intro: P_append does_mono)

lemma emits_try_then: "emits P m \<Longrightarrow> (\<And>x. emits P (k x)) \<Longrightarrow> emits P (try_then m k)"
  unfolding try_then_def by (rule emits_bind) (auto split: sum.split intro: emits_return)

lemma emits_emit: "P es \<Longrightarrow> emits P (emit es)"
  unfolding emits_def by (rule does_emit)

lemma emits_if: "emits P m \<Longrightarrow> emits P n \<Longrightarrow> emits P (if b then m else n)"
  by simp

lemma emits_exec_cmd:
  assumes run: "\<And>out err. P [Ran cmd out err, Audited (cx_meta ctx) (audited_text ctx cmd) err]"
    and log: "\<And>l. P [Logged l]"
  shows "emits P (exec_cmd host ctx cmd lc)"
proof -
  have "emits P (run_cmd host ctx cmd)"
    unfolding emits_def by (rule does_run_cmd) (rule run)
  moreover have "emits P (logf l)" for l
    unfolding logf_def by (rule emits_emit) (rule log)
  ultimately show ?thesis
    unfolding exec_cmd_def
    by (auto intro!: emits_bind emits_return emits_if split: option.split)
qed

lemma emits_exec_or:
  assumes "\<And>out err. P [Ran cmd out err, Audited (cx_meta ctx) (audited_text ctx cmd) err]"
    and "\<And>l. P [Logged l]"
  shows "emits P (exec_or host ctx cmd lc msg)"
  unfolding exec_or_def
  by (rule emits_bind, rule emits_exec_cmd[OF assms])
    (auto split: option.split intro: emits_succeed emits_fail)

lemmas emits_intros = emits_return emits_succeed emits_fail emits_guard emits_bind emits_try_then emits_if

end

section \<open>Every remote command is audited\<close>

text \<open>
  The audit law of a pipeline run under the metadata \<open>m\<close>: each command is followed by exactly one
  record, carrying the metadata of the job, a text from which URL credentials were removed, and
  the command's own error.
\<close>

fun audit_aligned :: "audit_meta \<Rightarrow> trace \<Rightarrow> bool" where
  "audit_aligned m [] \<longleftrightarrow> True"
| "audit_aligned m (Logged l # tr) \<longleftrightarrow> audit_aligned m tr"
| "audit_aligned m (Ran c out err # Audited m' t err' # tr) \<longleftrightarrow>
     m' = m \<and> err' = err \<and> (\<exists>x. t = redact_audit_text x) \<and> audit_aligned m tr"
| "audit_aligned m _ \<longleftrightarrow> False"

lemma audit_aligned_append: "audit_aligned m a \<Longrightarrow> audit_aligned m b \<Longrightarrow> audit_aligned m (a @ b)"
  by (induction m a rule: audit_aligned.induct) auto

interpretation audit: trace_closed "audit_aligned m" for m
  by unfold_locales (auto intro: audit_aligned_append)

lemma audit_aligned_cmd:
  "cx_meta ctx = m \<Longrightarrow> audit_aligned m [Ran c out err, Audited (cx_meta ctx) (audited_text ctx c) err]"
  by (auto simp: audited_text_def)

lemma audit_emits_logf: "emits (audit_aligned m) (logf l)"
  unfolding logf_def by (rule audit.emits_emit) simp

lemma audit_emits_exec_cmd: "cx_meta ctx = m \<Longrightarrow> emits (audit_aligned m) (exec_cmd host ctx cmd lc)"
  by (rule audit.emits_exec_cmd) (auto simp: audited_text_def)

lemma audit_emits_exec_or: "cx_meta ctx = m \<Longrightarrow> emits (audit_aligned m) (exec_or host ctx cmd lc msg)"
  by (rule audit.emits_exec_or) (auto simp: audited_text_def)

lemma cx_meta_redaction [simp]: "cx_meta (with_audit_redaction ctx l) = cx_meta ctx"
  by (simp add: with_audit_redaction_def)

lemmas audit_intros = audit.emits_intros audit_emits_logf audit_emits_exec_cmd audit_emits_exec_or

section \<open>What an observer of the log and of the audit table sees\<close>

text \<open>
  Two runs look the same to a reader of the deployment log and of the audit table when their traces
  agree up to the text of the commands that ran. A host is \<^emph>\<open>blind\<close> when its answers do not depend on
  that text either: what a blind host prints cannot carry a secret of the command, so under a blind
  host any difference in the view comes from the control center itself.
\<close>

fun blur :: "event \<Rightarrow> event" where
  "blur (Ran c out err) = Ran [] out err"
| "blur (Audited m t err) = Audited m t err"
| "blur (Logged l) = Logged l"

definition blind :: "host \<Rightarrow> bool" where
  "blind host \<longleftrightarrow> (\<forall>tr tr' c c'. map blur tr = map blur tr' \<longrightarrow> host tr c = host tr' c')"

definition agree :: "('a \<Rightarrow> 'b \<Rightarrow> bool) \<Rightarrow> 'a rt \<Rightarrow> 'b rt \<Rightarrow> bool" where
  "agree A m m' \<longleftrightarrow> (\<forall>tr tr'. map blur tr = map blur tr' \<longrightarrow>
     A (fst (run_state m tr)) (fst (run_state m' tr'))
     \<and> map blur (snd (run_state m tr)) = map blur (snd (run_state m' tr')))"

fun res_rel :: "('a \<Rightarrow> 'b \<Rightarrow> bool) \<Rightarrow> 'a res \<Rightarrow> 'b res \<Rightarrow> bool" where
  "res_rel A (Inl e) (Inl e') \<longleftrightarrow> e = e'"
| "res_rel A (Inr x) (Inr y) \<longleftrightarrow> A x y"
| "res_rel A _ _ \<longleftrightarrow> False"

lemma res_rel_eq: "res_rel (=) r r' \<longleftrightarrow> r = r'"
  by (cases r; cases r') auto

lemma agree_return: "A x y \<Longrightarrow> agree A (State_Monad.return x) (State_Monad.return y)"
  by (simp add: agree_def State_Monad.return_def)

lemma agree_bind:
  assumes "agree A m m'" and "\<And>x x'. A x x' \<Longrightarrow> agree B (k x) (k' x')"
  shows "agree B (State_Monad.bind m k) (State_Monad.bind m' k')"
  using assms unfolding agree_def State_Monad.bind_def by (simp add: split_def)

lemma agree_try_then:
  assumes "agree (res_rel A) m m'" and "\<And>x x'. A x x' \<Longrightarrow> agree (res_rel B) (k x) (k' x')"
  shows "agree (res_rel B) (try_then m k) (try_then m' k')"
  unfolding try_then_def
proof (rule agree_bind[OF assms(1)])
  fix r r' assume "res_rel A r r'"
  then show "agree (res_rel B)
      (case r of Inl e \<Rightarrow> State_Monad.return (Inl e) | Inr x \<Rightarrow> k x)
      (case r' of Inl e \<Rightarrow> State_Monad.return (Inl e) | Inr x \<Rightarrow> k' x)"
    by (cases r; cases r') (auto intro: assms(2) agree_return)
qed

lemma agree_succeed: "A x y \<Longrightarrow> agree (res_rel A) (succeed x) (succeed y)"
  by (simp add: succeed_def agree_return)

lemma agree_fail: "agree (res_rel A) (fail_with e) (fail_with e)"
  by (simp add: fail_with_def agree_return)

lemma agree_guard: "agree (res_rel (=)) (guard_err e) (guard_err e)"
  by (cases e) (auto simp: guard_err_def intro: agree_fail agree_succeed)

lemma agree_logf: "agree (=) (logf l) (logf l)"
  by (simp add: agree_def logf_def emit_def)

lemma agree_run_cmd:
  assumes "blind host" and "audited_text ctx c = audited_text ctx c'"
  shows "agree (=) (run_cmd host ctx c) (run_cmd host ctx c')"
  unfolding agree_def
proof (intro allI impI)
  fix tr tr' :: trace
  assume m: "map blur tr = map blur tr'"
  obtain out err where h: "host tr c = (out, err)" by fastforce
  then have "host tr' c' = (out, err)" using assms(1) m unfolding blind_def by metis
  with h m assms(2) show "fst (run_state (run_cmd host ctx c) tr) = fst (run_state (run_cmd host ctx c') tr') \<and>
      map blur (snd (run_state (run_cmd host ctx c) tr)) = map blur (snd (run_state (run_cmd host ctx c') tr'))"
    by (simp add: run_cmd_def)
qed

lemma agree_exec_cmd:
  assumes "blind host" and "c = c' \<or> cx_redact ctx \<noteq> None"
  shows "agree (=) (exec_cmd host ctx c lc) (exec_cmd host ctx c' lc)"
proof -
  have a: "audited_text ctx c = audited_text ctx c'"
    using assms(2) by (auto simp: audited_text_def)
  show ?thesis
    unfolding exec_cmd_def
    by (intro agree_bind[where A = "(=)"] agree_logf agree_run_cmd assms(1) a)
      (auto split: prod.splits option.splits intro!: agree_bind[where A = "(=)"] agree_logf agree_return)
qed

lemma agree_exec_or:
  assumes "blind host" and "c = c' \<or> cx_redact ctx \<noteq> None"
  shows "agree (res_rel (=)) (exec_or host ctx c lc msg) (exec_or host ctx c' lc msg)"
  unfolding exec_or_def
  by (rule agree_bind[OF agree_exec_cmd[OF assms]])
    (auto split: prod.splits option.splits intro: agree_fail agree_succeed)

lemma agree_refl_return: "agree (=) (State_Monad.return x) (State_Monad.return x)"
  by (rule agree_return) simp

lemma redact_set [simp]: "cx_redact (with_audit_redaction ctx l) = Some l"
  by (simp add: with_audit_redaction_def)

end
