(* ===== verification/Target.thy ===== *)
theory Target
  imports Validate Runner
begin

text \<open>
  The helpers every pipeline shares (\<open>internal/deployment/target.go\<close>): the settings they read,
  credential references, health-check plans, revisions, Windows paths, and the quoting of arguments
  into PowerShell and POSIX shell scripts, each with the reader of the target shell's literals.
\<close>

section \<open>Settings\<close>

record deploy_config =
  dc_work_dir :: string
  dc_iis_work_dir :: string
  dc_iis_backup_dir :: string
  dc_target_root :: string
  dc_allow_external :: bool
  dc_nssm_source :: string
  dc_nssm_sha256 :: string
  dc_health_timeout :: int
  dc_health_interval :: int
  dc_retention_days :: int
  dc_timeout_minutes :: int

text \<open>The other settings the deployment package reads from \<open>config.Config\<close>.\<close>

record app_config =
  ac_deploy :: deploy_config
  ac_install_dir :: string
  ac_proxy_enabled :: bool
  ac_proxy_public_ip :: string
  ac_public_url :: string

section \<open>Credentials\<close>

type_synonym secrets = "string \<Rightarrow> string res"

definition resolve_ref :: "secrets \<Rightarrow> string \<Rightarrow> string res" where
  "resolve_ref secrets ref =
     (let name = trim_prefix ''vault:'' ref in
      if name = [] then Inl ''no credential reference configured'' else secrets name)"

section \<open>Health checks\<close>

definition health_url :: "project \<Rightarrow> string" where
  "health_url p =
     (let hp = (if p_health_path p = [] then ''/'' else p_health_path p);
          hp' = (if prefix ''/'' hp then hp else ''/'' @ hp)
      in ''http://127.0.0.1:'' @ itoa (effective_host_port p) @ hp')"

record health_plan =
  hp_interval :: int
  hp_attempts :: int
  hp_timeout :: int
  hp_start_period :: int

definition first_positive :: "int list \<Rightarrow> int \<Rightarrow> int" where
  "first_positive xs d = (case filter (\<lambda>x. 0 < x) xs of [] \<Rightarrow> d | x # _ \<Rightarrow> x)"

definition health_plan_for :: "deploy_config \<Rightarrow> project \<Rightarrow> health_plan" where
  "health_plan_for cfg p =
     (let interval = first_positive [p_health_interval p, dc_health_interval cfg] 3;
          per_attempt = first_positive [p_health_timeout p] 5;
          overall = first_positive [dc_health_timeout cfg] 60;
          attempts = (if p_health_retries p \<le> 0
                      then (if overall div interval < 1 then 1 else overall div interval)
                      else p_health_retries p)
      in \<lparr> hp_interval = interval, hp_attempts = attempts, hp_timeout = per_attempt,
           hp_start_period = p_health_start_period p \<rparr>)"

lemma first_positive_pos: "0 < d \<Longrightarrow> 0 < first_positive xs d"
proof (cases "filter (\<lambda>x. 0 < x) xs")
  case Nil
  then show "0 < d \<Longrightarrow> ?thesis" by (simp add: first_positive_def)
next
  case (Cons y ys)
  then have "y \<in> set (filter (\<lambda>x. 0 < x) xs)" by simp
  then have "0 < y" by (simp only: set_filter mem_Collect_eq)
  then show ?thesis using Cons by (simp add: first_positive_def)
qed

lemma health_plan_positive:
  "0 < hp_interval (health_plan_for cfg p)" "0 < hp_attempts (health_plan_for cfg p)"
  "0 < hp_timeout (health_plan_for cfg p)"
  by (auto simp: health_plan_for_def Let_def first_positive_pos)

lemma health_plan_overall:
  assumes "p_health_retries p \<le> 0"
  shows "hp_attempts (health_plan_for cfg p) = 1
    \<or> hp_attempts (health_plan_for cfg p) * hp_interval (health_plan_for cfg p)
        \<le> first_positive [dc_health_timeout cfg] 60"
proof -
  define i where "i = hp_interval (health_plan_for cfg p)"
  define t where "t = first_positive [dc_health_timeout cfg] 60"
  have "i = first_positive [p_health_interval p, dc_health_interval cfg] 3"
    by (simp add: i_def health_plan_for_def Let_def)
  then have a: "hp_attempts (health_plan_for cfg p) = (if t div i < 1 then 1 else t div i)"
    using assms by (simp add: health_plan_for_def Let_def t_def)
  have "0 < i" by (simp add: i_def health_plan_positive)
  then have "t div i * i \<le> t"
    by (metis div_mult_mod_eq le_add_same_cancel1 pos_mod_sign)
  then show ?thesis using a by (auto simp: i_def[symmetric] t_def[symmetric])
qed

section \<open>Revisions and names\<close>

definition short_sha :: "string \<Rightarrow> string" where
  "short_sha sha = (if sha = [] then ''unknown'' else if 7 < length sha then take 7 sha else sha)"

definition deploy_revision :: "project \<Rightarrow> string \<Rightarrow> string" where
  "deploy_revision p commit =
     (if commit \<noteq> [] then commit else if p_branch p \<noteq> [] then p_branch p else ''main'')"

definition is_hex_revision :: "string \<Rightarrow> bool" where
  "is_hex_revision rv \<longleftrightarrow> 7 \<le> length rv \<and> length rv \<le> 64 \<and> list_all is_hex rv"

definition git_checkout_ref :: "string \<Rightarrow> string" where
  "git_checkout_ref rv = (if is_hex_revision rv then rv else ''origin/'' @ rv)"

text \<open>
  \<open>sanitize\<close> on ASCII text, the only text it meets: project ids are ASCII by
  \<open>ValidateResourceID\<close> and revisions are commit ids or ASCII branch names.
\<close>

definition sanitize_char :: "char \<Rightarrow> char" where
  "sanitize_char c = (if is_lower c \<or> is_digit c \<or> c \<in> set ''-_.'' then c else CHR ''-'')"

definition sanitize :: "string \<Rightarrow> string" where
  "sanitize s = map sanitize_char (to_lower s)"

definition image_tag :: "string \<Rightarrow> string \<Rightarrow> string" where
  "image_tag pid rv = ''cc/'' @ sanitize pid @ '':'' @ sanitize rv"

section \<open>Paths\<close>

text \<open>\<open>path.Join\<close> of the standard library: the non-empty elements, cleaned.\<close>

definition path_join :: "string list \<Rightarrow> string" where
  "path_join xs = (let ys = filter (\<lambda>x. x \<noteq> []) xs in if ys = [] then [] else path_clean (join ''/'' ys))"

definition win_path :: "string list \<Rightarrow> string" where
  "win_path parts = join bsl parts"

definition win_dir :: "string \<Rightarrow> string" where
  "win_dir p = (case before_last_any (bsl @ ''/'') p of Some d \<Rightarrow> d | None \<Rightarrow> ''.'')"

definition path_dir :: "string \<Rightarrow> string" where
  "path_dir p = (case before_last_any ''/'' p of None \<Rightarrow> ''.'' | Some d \<Rightarrow> if d = [] then ''.'' else d)"

definition last_line :: "string \<Rightarrow> string" where
  "last_line out =
     (case rev (filter (\<lambda>s. s \<noteq> []) (map trim_space (split_char (CHR 0x0A) (trim_space out)))) of
        [] \<Rightarrow> [] | s # _ \<Rightarrow> s)"

definition windows_abs_path :: "string \<Rightarrow> bool" where
  "windows_abs_path p \<longleftrightarrow>
     prefix (bsl @ bsl) p
     \<or> 3 \<le> length p \<and> is_alpha (p ! 0) \<and> p ! 1 = CHR '':'' \<and> (p ! 2 = CHR 0x5C \<or> p ! 2 = CHR ''/'')"

definition rel_under :: "string \<Rightarrow> string \<Rightarrow> string option" where
  "rel_under base0 path =
     (let base = trim_right_set bsl base0 in
      if length path \<le> length base + 1 \<or> \<not> equal_fold (take (length base) path) base
         \<or> path ! length base \<noteq> CHR 0x5C
      then None else Some (drop (length base + 1) path))"

definition target_host :: "url_parser \<Rightarrow> server \<Rightarrow> string" where
  "target_host parse srv =
     (if sv_host srv \<noteq> [] then sv_host srv
      else if sv_local srv then ''127.0.0.1''
      else if sv_ssh_host srv \<noteq> [] then sv_ssh_host srv
      else if sv_winrm_endpoint srv \<noteq> [] then
        (case parse (sv_winrm_endpoint srv) of Some u \<Rightarrow> u_hostname u | None \<Rightarrow> [])
      else [])"

section \<open>Checks that precede a pipeline\<close>

definition validate_project_id :: "string \<Rightarrow> string option" where
  "validate_project_id pid = validate_resource_id ''project id'' pid"

definition validate_service_executable_path :: "string \<Rightarrow> string \<Rightarrow> string option" where
  "validate_service_executable_path executable work_dir =
     (if executable = [] then None
      else if windows_abs_path executable then
        (if rel_under work_dir executable = None
            \<and> \<not> equal_fold (trim_right_set bsl executable) (trim_right_set bsl work_dir)
         then Some (''service executable '' @ quote executable @ '' is outside service_work_dir'') else None)
      else validate_repo_relative_path ''service_exe'' executable)"

definition validate_target_project_paths :: "deploy_config \<Rightarrow> project \<Rightarrow> server \<Rightarrow> string option" where
  "validate_target_project_paths cfg p srv =
     (if dc_allow_external cfg \<or> sv_type srv \<noteq> server_type_iis \<and> sv_type srv \<noteq> server_type_winsvc then None
      else if sv_type srv = server_type_iis then
        map_option (\<lambda>e. ''iis_physical_path: '' @ e) (validate_target_path (dc_target_root cfg) (p_iis_physical_path p))
      else
        map_option (\<lambda>e. ''service_work_dir: '' @ e) (validate_target_path (dc_target_root cfg) (p_service_work_dir p)))"

section \<open>Quoting\<close>

definition shell_quote :: "string \<Rightarrow> string" where
  "shell_quote s = squo @ replace_char (CHR 0x27) (squo @ bsl @ squo @ squo) s @ squo"

definition ps_quote :: "string \<Rightarrow> string" where
  "ps_quote s = squo @ replace_char (CHR 0x27) (squo @ squo) s @ squo"

text \<open>
  The readers of the two target shells. A PowerShell single-quoted literal ends at the first quote
  that is not doubled, and PowerShell takes the typographic quotes U+2018 to U+201B (in UTF-8
  \<open>0xE2 0x80 0x98\<close> to \<open>0x9B\<close>) for quotes as well. A word of the POSIX shell is a sequence of quoted
  pieces, escaped characters and ordinary characters, up to an unquoted blank or operator.
\<close>

definition ps_quote_len :: "string \<Rightarrow> nat" where
  "ps_quote_len s =
     (if prefix squo s then 1
      else if take 2 s = [CHR 0xE2, CHR 0x80] \<and> s ! 2 \<in> {CHR 0x98, CHR 0x99, CHR 0x9A, CHR 0x9B} \<and> 3 \<le> length s
      then 3 else 0)"

function ps_body :: "string \<Rightarrow> (string \<times> string) option" where
  "ps_body [] = None"
| "ps_body (c # s) =
     (let n = ps_quote_len (c # s) in
      if n = 0 then map_option (\<lambda>(v, r). (c # v, r)) (ps_body s)
      else (let t = drop n (c # s); m = ps_quote_len t in
        if m = 0 then Some ([], t)
        else map_option (\<lambda>(v, r). (take m t @ v, r)) (ps_body (drop m t))))"
  by pat_completeness simp_all
termination
proof (relation "measure length")
  fix c :: char and s x y z
  assume "x = ps_quote_len (c # s)" "x \<noteq> 0" "y = drop x (c # s)"
  then show "(drop z y, c # s) \<in> measure length" by (cases x) simp_all
qed simp_all

definition ps_read :: "string \<Rightarrow> (string \<times> string) option" where
  "ps_read s = (if ps_quote_len s = 0 then None else ps_body (drop (ps_quote_len s) s))"

definition sh_plain :: "char \<Rightarrow> bool" where
  "sh_plain c \<longleftrightarrow> is_alnum c \<or> c \<in> set ''_-./:=,@%+''"

lemma cut_char_shorter: "cut_char c s = (a, Some r) \<Longrightarrow> length r < length s"
proof -
  assume "cut_char c s = (a, Some r)"
  then obtain x where "dropWhile (\<lambda>x. x \<noteq> c) s = x # r"
    by (cases "dropWhile (\<lambda>x. x \<noteq> c) s") (simp_all add: cut_char_def)
  then show ?thesis by (metis Suc_le_eq length_Cons length_dropWhile_le)
qed

function sh_word :: "string \<Rightarrow> (string \<times> string) option" where
  "sh_word [] = Some ([], [])"
| "sh_word (c # s) =
     (if c = CHR 0x27 then
        (case cut_char (CHR 0x27) s of
           (lit, Some r) \<Rightarrow> map_option (\<lambda>(v, t). (lit @ v, t)) (sh_word r)
         | (_, None) \<Rightarrow> None)
      else if c = CHR 0x5C then
        (case s of [] \<Rightarrow> None | d # r \<Rightarrow> map_option (\<lambda>(v, t). (d # v, t)) (sh_word r))
      else if sh_plain c then map_option (\<lambda>(v, t). (c # v, t)) (sh_word s)
      else Some ([], c # s))"
  by pat_completeness simp_all
termination
  by (relation "measure length") (auto dest!: cut_char_shorter[OF sym])

text \<open>Where a shell word ends: at the end of the script or at a character that is neither ordinary,
  a quote nor a backslash.\<close>

definition sh_stop :: "string \<Rightarrow> bool" where
  "sh_stop r \<longleftrightarrow> r = [] \<or> \<not> sh_plain (hd r) \<and> hd r \<noteq> CHR 0x27 \<and> hd r \<noteq> CHR 0x5C"

definition ps_stop :: "string \<Rightarrow> bool" where
  "ps_stop r \<longleftrightarrow> ps_quote_len r = 0"

definition no_smart_quotes :: "string \<Rightarrow> bool" where
  "no_smart_quotes s \<longleftrightarrow> CHR 0xE2 \<notin> set s"

text \<open>The law both quoting functions obey, and what a script may rely on.\<close>

fun read_words :: "(string \<Rightarrow> (string \<times> string) option) \<Rightarrow> nat \<Rightarrow> string \<Rightarrow> (string list \<times> string) option" where
  "read_words rd 0 s = Some ([], s)"
| "read_words rd (Suc n) s =
     (case rd s of
        None \<Rightarrow> None
      | Some (w, r) \<Rightarrow>
          (if n = 0 then Some ([w], r)
           else (case r of
               c # t \<Rightarrow> if c = CHR '' '' then map_option (\<lambda>(ws, u). (w # ws, u)) (read_words rd n t) else None
             | [] \<Rightarrow> None)))"

locale quoting =
  fixes q :: "string \<Rightarrow> string"
    and rd :: "string \<Rightarrow> (string \<times> string) option"
    and ok :: "string \<Rightarrow> bool"
    and stop :: "string \<Rightarrow> bool"
  assumes read_quoted: "ok s \<Longrightarrow> stop r \<Longrightarrow> rd (q s @ r) = Some (s, r)"
    and stop_blank: "stop (CHR '' '' # r)"
    and stop_nil: "stop []"
begin

lemma quote_inject: "ok s \<Longrightarrow> ok t \<Longrightarrow> q s = q t \<longleftrightarrow> s = t"
  using read_quoted[OF _ stop_nil, of s] read_quoted[OF _ stop_nil, of t] by (metis Pair_inject option.inject)

lemma quoted_words:
  "xs \<noteq> [] \<Longrightarrow> (\<And>x. x \<in> set xs \<Longrightarrow> ok x) \<Longrightarrow> stop r \<Longrightarrow>
     read_words rd (length xs) (join '' '' (map q xs) @ r) = Some (xs, r)"
proof (induction xs)
  case Nil
  then show ?case by simp
next
  case (Cons x xs)
  show ?case
  proof (cases xs)
    case Nil
    then show ?thesis using Cons.prems by (simp add: read_quoted)
  next
    case (Cons y ys)
    have "read_words rd (length xs) (join '' '' (map q xs) @ r) = Some (xs, r)"
      using Cons Cons.IH Cons.prems by simp
    moreover have "rd (q x @ '' '' @ join '' '' (map q xs) @ r) = Some (x, '' '' @ join '' '' (map q xs) @ r)"
      using Cons.prems stop_blank by (simp add: read_quoted)
    moreover have "join '' '' (map q (x # xs)) = q x @ '' '' @ join '' '' (map q xs)"
      using Cons by simp
    ultimately show ?thesis using Cons by simp
  qed
qed

end

section \<open>The quoting law holds for both shells\<close>

lemma ps_quote_len_plain: "c \<noteq> CHR 0x27 \<Longrightarrow> c \<noteq> CHR 0xE2 \<Longrightarrow> ps_quote_len (c # s) = 0"
  by (auto simp: ps_quote_len_def squo_def)

lemma ps_quote_len_quote [simp]: "ps_quote_len (CHR 0x27 # s) = 1"
  by (simp add: ps_quote_len_def squo_def)

declare ps_body.simps [simp del] sh_word.simps [simp del]

lemma ps_body_quoted:
  "no_smart_quotes s \<Longrightarrow> ps_stop r \<Longrightarrow>
     ps_body (replace_char (CHR 0x27) (squo @ squo) s @ squo @ r) = Some (s, r)"
proof (induction s)
  case Nil
  then show ?case by (simp add: replace_char_def squo_def ps_body.simps ps_stop_def)
next
  case (Cons c s)
  then have IH: "ps_body (replace_char (CHR 0x27) (squo @ squo) s @ squo @ r) = Some (s, r)"
    and c: "c \<noteq> CHR 0xE2"
    by (auto simp: no_smart_quotes_def)
  show ?case
  proof (cases "c = CHR 0x27")
    case True
    then show ?thesis using IH by (simp add: replace_char_def squo_def ps_body.simps Let_def)
  next
    case False
    then have "ps_quote_len (c # t) = 0" for t using c by (simp add: ps_quote_len_plain)
    then show ?thesis using IH False by (simp add: replace_char_def ps_body.simps)
  qed
qed

lemma ps_read_quoted: "no_smart_quotes s \<Longrightarrow> ps_stop r \<Longrightarrow> ps_read (ps_quote s @ r) = Some (s, r)"
  using ps_body_quoted[of s r] by (simp add: ps_read_def ps_quote_def squo_def)

interpretation psq: quoting ps_quote ps_read no_smart_quotes ps_stop
  by unfold_locales (auto simp: ps_read_quoted ps_stop_def ps_quote_len_def squo_def)

text \<open>
  The body of a shell-quoted string up to the closing quote: pieces without a quote, separated by
  an escaped quote.
\<close>

lemma sh_word_quote: "CHR 0x27 \<notin> set a \<Longrightarrow>
    sh_word (CHR 0x27 # a @ CHR 0x27 # t) = map_option (\<lambda>(v, u). (a @ v, u)) (sh_word t)"
  by (simp add: sh_word.simps cut_char_append)

lemma sh_word_escape: "sh_word (CHR 0x5C # d # t) = map_option (\<lambda>(v, u). (d # v, u)) (sh_word t)"
  by (simp add: sh_word.simps)

lemma sh_word_stop: "sh_stop r \<Longrightarrow> sh_word r = Some ([], r)"
  by (cases r) (auto simp: sh_stop_def sh_word.simps)

lemma replace_char_none: "c \<notin> set s \<Longrightarrow> replace_char c w s = s"
  by (induction s) (auto simp: replace_char_def)

lemma replace_char_append: "replace_char c w (a @ b) = replace_char c w a @ replace_char c w b"
  by (simp add: replace_char_def)

lemma replace_char_hit: "replace_char c w (c # b) = w @ replace_char c w b"
  by (simp add: replace_char_def)

lemma sh_word_quoted: "sh_stop r \<Longrightarrow> sh_word (shell_quote s @ r) = Some (s, r)"
proof (induction "length s" arbitrary: s rule: less_induct)
  case less
  show ?case
  proof (cases "CHR 0x27 \<in> set s")
    case False
    then show ?thesis
      using less.prems by (simp add: shell_quote_def squo_def replace_char_none sh_word_quote sh_word_stop)
  next
    case True
    then obtain a b where s: "s = a @ CHR 0x27 # b" "CHR 0x27 \<notin> set a"
      by (meson split_list_first)
    have "shell_quote s @ r = CHR 0x27 # a @ CHR 0x27 # CHR 0x5C # CHR 0x27 # shell_quote b @ r"
      using s(2) by (simp add: s(1) shell_quote_def squo_def bsl_def replace_char_append replace_char_hit replace_char_none)
    moreover have "sh_word (shell_quote b @ r) = Some (b, r)"
      using less s(1) by simp
    ultimately show ?thesis
      using s by (simp add: sh_word_quote sh_word_escape)
  qed
qed

interpretation shq: quoting shell_quote sh_word "\<lambda>_. True" sh_stop
  by unfold_locales (auto simp: sh_word_quoted sh_stop_def sh_plain_def char_classes)

text \<open>
  C15: an argument placed in a POSIX command with \<open>shellQuote\<close> is read back by the shell as that
  very argument, whatever bytes it contains: a list of quoted words separated by blanks is split
  into exactly those words, and nothing of them is interpreted.
\<close>

theorem shell_quoted_words_exact:
  assumes "xs \<noteq> []" and "sh_stop r"
  shows "read_words sh_word (length xs) (join '' '' (map shell_quote xs) @ r) = Some (xs, r)"
  using assms by (intro shq.quoted_words) auto

lemma shell_quoted_words_exact_witness:
  "read_words sh_word 2 (join '' '' (map shell_quote [''it'' @ squo @ ''s'', ''; rm -rf /'']) @ '' && ls'')
     = Some ([''it'' @ squo @ ''s'', ''; rm -rf /''], '' && ls'')"
  using shell_quoted_words_exact[of "[''it'' @ squo @ ''s'', ''; rm -rf /'']" "'' && ls''"]
  by (simp add: sh_stop_def sh_plain_def char_classes numeral_2_eq_2)

text \<open>
  C16: the same for \<open>psQuote\<close> and PowerShell's single-quoted literals, for arguments without the
  bytes of a typographic quote.
\<close>

theorem ps_quoted_words_exact:
  assumes "xs \<noteq> []" and "\<forall>x \<in> set xs. no_smart_quotes x" and "ps_stop r"
  shows "read_words ps_read (length xs) (join '' '' (map ps_quote xs) @ r) = Some (xs, r)"
  using assms by (intro psq.quoted_words) auto

lemma ps_quoted_words_exact_witness:
  "read_words ps_read 1 (join '' '' (map ps_quote [''O'' @ squo @ ''Brien; rm C:'']) @ nl)
     = Some ([''O'' @ squo @ ''Brien; rm C:''], nl)"
  using ps_quoted_words_exact[of "[''O'' @ squo @ ''Brien; rm C:'']" nl]
  by (simp add: no_smart_quotes_def ps_stop_def ps_quote_len_def squo_def nl_def)

text \<open>
  The restriction is needed: \<open>psQuote\<close> doubles only the ASCII quote, so a value with a typographic
  one ends the literal early and what follows it is PowerShell code.
\<close>

lemma ps_quote_smart_escape:
  "ps_read (ps_quote (''a'' @ [CHR 0xE2, CHR 0x80, CHR 0x99] @ ''; evil #''))
     = Some (''a'', ''; evil #'' @ squo)"
  by code_simp

end
