(* ===== verification/Scripts.thy ===== *)
theory Scripts
  imports Target
begin

text \<open>
  The scripts the pipelines send to a target, as text: the PowerShell builders of \<open>iis.go\<close>,
  \<open>winservice.go\<close>, \<open>runtime.go\<close>, \<open>repo_tree.go\<close> and \<open>gitcred.go\<close>, and the compose and environment files
  of \<open>docker.go\<close>. Each builder is a concatenation of the lines its Go counterpart writes.
\<close>

section \<open>Git credentials\<close>

datatype git_auth = No_Auth | Ssh_Auth string | Http_Auth string

definition auth_sensitive :: "git_auth \<Rightarrow> bool" where
  "auth_sensitive a = (case a of Http_Auth _ \<Rightarrow> True | _ \<Rightarrow> False)"

definition git_option :: "git_auth \<Rightarrow> (string \<Rightarrow> string) \<Rightarrow> string" where
  "git_option a q =
     (case a of
        No_Auth \<Rightarrow> []
      | Ssh_Auth key \<Rightarrow> ''-c '' @ q (''core.sshCommand=ssh -i '' @ key @ '' -o IdentitiesOnly=yes'')
      | Http_Auth token \<Rightarrow> ''-c '' @ q (''http.extraHeader=AUTHORIZATION: bearer '' @ token))"

definition git_option_arg :: "git_auth \<Rightarrow> (string \<Rightarrow> string) \<Rightarrow> string" where
  "git_option_arg a q = (let opt = git_option a q in if opt \<noteq> [] then '' '' @ opt else opt)"

definition is_private_key_pem :: "string \<Rightarrow> bool" where
  "is_private_key_pem v = sublist ''PRIVATE KEY-----'' v"

section \<open>Shared PowerShell fragments\<close>

definition refresh_path_script :: string where
  "refresh_path_script =
     ''$env:Path = [Environment]::GetEnvironmentVariable('Path','Machine') + ';' + [Environment]::GetEnvironmentVariable('Path','User')'' @ nl"

definition exit_guard :: "string \<Rightarrow> string" where
  "exit_guard label =
     ''; if ($LASTEXITCODE -ne 0) { throw '' @ (ps_quote (label @ '': exit '')) @ '' + $LASTEXITCODE }'' @ nl"

definition git_safe :: "string \<Rightarrow> string" where
  "git_safe dir = ''-c safe.directory='' @ ps_quote dir"

section \<open>Synchronising and building\<close>

definition sync_repo_script :: "string \<Rightarrow> string \<Rightarrow> string \<Rightarrow> git_auth \<Rightarrow> string" where
  "sync_repo_script repo_dir repo_url commit auth =
     (let checkout = git_checkout_ref commit; opt = git_option_arg auth ps_quote in concat
     [''$ErrorActionPreference='Stop'' @ squo @ nl,
      ''New-Item -ItemType Directory -Force -Path '' @ (ps_quote repo_dir) @ '' | Out-Null'' @ nl,
      ''if (Test-Path (Join-Path '' @ (ps_quote repo_dir) @ '' '.git')) {'' @ nl,
      ''  git'' @ opt @ '' '' @ (git_safe repo_dir) @ '' -C '' @ (ps_quote repo_dir) @ '' fetch --all --prune'' @ (exit_guard ''git fetch''),
      ''  git'' @ opt @ '' '' @ (git_safe repo_dir) @ '' -C '' @ (ps_quote repo_dir) @ '' checkout --force '' @ (ps_quote checkout) @ '' --'' @ (exit_guard ''git checkout''),
      ''} else {'' @ nl,
      ''  git'' @ opt @ '' clone '' @ (ps_quote repo_url) @ '' '' @ (ps_quote repo_dir) @ (exit_guard ''git clone''),
      ''  git'' @ opt @ '' '' @ (git_safe repo_dir) @ '' -C '' @ (ps_quote repo_dir) @ '' checkout --force '' @ (ps_quote checkout) @ '' --'' @ (exit_guard ''git checkout''),
      ''}'' @ nl,
      ''git clean -fdx'' @ nl,
      ''git rev-parse HEAD'' @ nl])"

definition build_script :: "string \<Rightarrow> string \<Rightarrow> go_map \<Rightarrow> string" where
  "build_script repo_dir build_command env =
     concat
     [''$ErrorActionPreference='Stop'' @ squo @ nl,
      refresh_path_script,
      ''Set-Location '' @ (ps_quote repo_dir) @ nl,
      concat (map (\<lambda>k. ''$env:'' @ k @ '' = '' @ (ps_quote (mget env k)) @ nl) (sorted_keys env)),
      build_command @ (exit_guard ''build command'')]"

definition shallow_clone_script :: "string \<Rightarrow> string \<Rightarrow> string \<Rightarrow> git_auth \<Rightarrow> string" where
  "shallow_clone_script dir repo_url branch auth =
     (let args = (if trim_space branch \<noteq> [] then ''--depth 1 --branch '' @ ps_quote branch else ''--depth 1'');
          opt = git_option_arg auth ps_quote in concat
     [''$ErrorActionPreference='Stop'' @ squo @ nl,
      ''$dir = '' @ (ps_quote dir) @ nl,
      ''if (Test-Path -LiteralPath $dir) { Remove-Item -LiteralPath $dir -Recurse -Force }'' @ nl,
      ''$parent = Split-Path -Parent $dir'' @ nl,
      ''if ($parent) { New-Item -ItemType Directory -Force -Path $parent | Out-Null }'' @ nl,
      ''git'' @ opt @ '' clone '' @ args @ '' '' @ (ps_quote repo_url) @ '' '' @ (ps_quote dir) @ nl])"

definition list_files_script :: "string \<Rightarrow> string" where
  "list_files_script root =
     concat
     [''$ErrorActionPreference='Stop'' @ squo @ nl,
      ''$root = [System.IO.Path]::GetFullPath('' @ (ps_quote root) @ '')'' @ nl,
      ''if (-not (Test-Path -LiteralPath $root)) { throw \"repository directory not found: $root\" }'' @ nl,
      ''$skip = '(^|/)('' @ bsl @ ''.git|node_modules|'' @ bsl @ ''.venv|venv|__pycache__|'' @ bsl @ ''.mypy_cache|'' @ bsl @ ''.pytest_cache|bin|obj|'' @ bsl @ ''.next|'' @ bsl @ ''.nuxt|dist|build|'' @ bsl @ ''.idea|'' @ bsl @ ''.vscode|target)(/|$)'' @ squo @ nl,
      ''Get-ChildItem -LiteralPath $root -Recurse -File -Force | ForEach-Object { $_.FullName.Substring($root.Length + 1).Replace('' @ squo @ bsl @ squo @ '', '/') } | Where-Object { $_ -notmatch $skip }'' @ nl]"

definition read_file_script :: "string \<Rightarrow> string \<Rightarrow> string" where
  "read_file_script root rel =
     concat
     [''$ErrorActionPreference='Stop'' @ squo @ nl,
      ''$root = [System.IO.Path]::GetFullPath('' @ (ps_quote root) @ '')'' @ nl,
      ''$p = Join-Path $root '' @ (ps_quote rel) @ nl,
      ''if (-not (Test-Path -LiteralPath $p)) { throw \"file not found: $p\" }'' @ nl,
      ''[Convert]::ToBase64String([IO.File]::ReadAllBytes($p))'' @ nl]"

section \<open>IIS\<close>

definition site_name :: "project \<Rightarrow> string" where
  "site_name p = (if p_iis_site p = [] then p_id p else p_iis_site p)"

definition ensure_iis_script :: "project \<Rightarrow> string" where
  "ensure_iis_script p =
     (let site = site_name p; port = (if effective_host_port p \<le> 0 then 80 else effective_host_port p) in concat
     [''$ErrorActionPreference='Stop'' @ squo @ nl,
      ''Import-Module WebAdministration'' @ nl,
      ''$pool = '' @ (ps_quote (p_iis_app_pool p)) @ nl,
      ''$site = '' @ (ps_quote site) @ nl,
      ''$path = '' @ (ps_quote (p_iis_physical_path p)) @ nl,
      ''New-Item -ItemType Directory -Force -Path $path | Out-Null'' @ nl,
      ''if (-not (Test-Path \"IIS:'' @ bsl @ ''AppPools'' @ bsl @ ''$pool\")) { New-WebAppPool -Name $pool | Out-Null }'' @ nl,
      ''if (-not (Get-Website -Name $site -ErrorAction SilentlyContinue)) {'' @ nl,
      ''  New-Website -Name $site -PhysicalPath $path -Port '' @ (itoa port) @ '' -ApplicationPool $pool | Out-Null'' @ nl,
      ''} else {'' @ nl,
      (if \<not> p_iis_blue_green p then concat
      [''  Set-ItemProperty \"IIS:'' @ bsl @ ''Sites'' @ bsl @ ''$site\" -Name physicalPath -Value $path'' @ nl]
      else []),
      ''  Set-ItemProperty \"IIS:'' @ bsl @ ''Sites'' @ bsl @ ''$site\" -Name applicationPool -Value $pool'' @ nl,
      ''}'' @ nl])"

definition validate_body :: "string \<Rightarrow> string \<Rightarrow> string" where
  "validate_body app_pool service =
     concat
     [''if (-not (Test-Path $src)) { throw \"source directory not found: $src\" }'' @ nl,
      ''$wc = Join-Path $src 'web.config'' @ squo @ nl,
      ''if (Test-Path $wc) { $null = [xml](Get-Content -Raw -LiteralPath $wc); Write-Output 'web.config is valid XML' }'' @ nl,
      ''else { Write-Output 'no web.config present; skipping XML validation' }'' @ nl,
      ''Import-Module WebAdministration'' @ nl,
      ''$poolPath = 'IIS:'' @ bsl @ ''AppPools'' @ bsl @ squo @ '' + '' @ (ps_quote app_pool) @ nl,
      ''if (-not (Test-Path $poolPath)) { throw \"IIS app pool not found: '' @ app_pool @ ''\" }'' @ nl,
      (if service \<noteq> [] then concat
      [''if (-not (Get-Service -Name '' @ (ps_quote service) @ '' -ErrorAction SilentlyContinue)) { throw \"service not found: '' @ service @ ''\" }'' @ nl]
      else [])]"

definition validate_script :: "string \<Rightarrow> string \<Rightarrow> string \<Rightarrow> string \<Rightarrow> string" where
  "validate_script repo_dir source app_pool service =
     concat
     [''$ErrorActionPreference='Stop'' @ squo @ nl,
      ''$src = Join-Path '' @ (ps_quote repo_dir) @ '' '' @ (ps_quote source) @ nl,
      validate_body app_pool service]"

definition validate_dir_script :: "string \<Rightarrow> string \<Rightarrow> string \<Rightarrow> string" where
  "validate_dir_script dir app_pool service =
     concat
     [''$ErrorActionPreference='Stop'' @ squo @ nl,
      ''$src = '' @ (ps_quote dir) @ nl,
      validate_body app_pool service]"

definition stop_script :: "string \<Rightarrow> string \<Rightarrow> string" where
  "stop_script app_pool service =
     concat
     [''$ErrorActionPreference='Stop'' @ squo @ nl,
      (if service \<noteq> [] then concat
      [''if (Get-Service -Name '' @ (ps_quote service) @ '' -ErrorAction SilentlyContinue) { Stop-Service -Name '' @ (ps_quote service) @ '' -Force }'' @ nl]
      else []),
      ''Import-Module WebAdministration'' @ nl,
      ''$poolPath = 'IIS:'' @ bsl @ ''AppPools'' @ bsl @ squo @ '' + '' @ (ps_quote app_pool) @ nl,
      ''if (Test-Path $poolPath) { if ((Get-WebAppPoolState -Name '' @ (ps_quote app_pool) @ '').Value -ne 'Stopped') { Stop-WebAppPool -Name '' @ (ps_quote app_pool) @ '' } }'' @ nl]"

definition start_script :: "string \<Rightarrow> string \<Rightarrow> string" where
  "start_script app_pool service =
     concat
     [''$ErrorActionPreference='Stop'' @ squo @ nl,
      ''Import-Module WebAdministration'' @ nl,
      ''$poolPath = 'IIS:'' @ bsl @ ''AppPools'' @ bsl @ squo @ '' + '' @ (ps_quote app_pool) @ nl,
      ''if (Test-Path $poolPath) {'' @ nl,
      ''  if ((Get-WebAppPoolState -Name '' @ (ps_quote app_pool) @ '').Value -eq 'Stopped') { Start-WebAppPool -Name '' @ (ps_quote app_pool) @ '' }'' @ nl,
      ''  Restart-WebAppPool -Name '' @ (ps_quote app_pool) @ nl @ ''}'' @ nl,
      (if service \<noteq> [] then concat
      [''if (Get-Service -Name '' @ (ps_quote service) @ '' -ErrorAction SilentlyContinue) { Start-Service -Name '' @ (ps_quote service) @ '' }'' @ nl]
      else [])]"

definition backup_script :: "string \<Rightarrow> string \<Rightarrow> string \<Rightarrow> string" where
  "backup_script physical_path backup_root project_id =
     concat
     [''$ErrorActionPreference='Stop'' @ squo @ nl,
      ''$stamp = Get-Date -Format 'yyyyMMdd-HHmmss'' @ squo @ nl,
      ''if (-not (Test-Path -LiteralPath '' @ (ps_quote physical_path) @ '' -PathType Container)) { Write-Output 'NO_BACKUP'; exit 0 }'' @ nl,
      ''$dest = Join-Path '' @ (ps_quote backup_root) @ '' ('' @ (ps_quote (project_id @ bsl)) @ '' + $stamp)'' @ nl,
      ''New-Item -ItemType Directory -Force -Path $dest | Out-Null'' @ nl,
      ''robocopy '' @ (ps_quote physical_path) @ '' $dest /MIR /NFL /NDL /NJH /NJS /NP | Out-Null'' @ nl,
      ''if ($LASTEXITCODE -ge 8) { throw \"backup robocopy failed: $LASTEXITCODE\" }'' @ nl,
      ''Write-Output $dest'' @ nl]"

definition latest_backup_script :: "string \<Rightarrow> string \<Rightarrow> string" where
  "latest_backup_script backup_root project_id =
     concat
     [''$ErrorActionPreference='Stop'' @ squo @ nl,
      ''$root = Join-Path '' @ (ps_quote backup_root) @ '' '' @ (ps_quote project_id) @ nl,
      ''if (-not (Test-Path $root)) { throw \"no backups found for '' @ project_id @ ''\" }'' @ nl,
      ''$latest = Get-ChildItem -LiteralPath $root -Directory | Where-Object { @(Get-ChildItem -LiteralPath $_.FullName -Recurse -File -ErrorAction SilentlyContinue).Count -gt 0 } | Sort-Object Name -Descending | Select-Object -First 1'' @ nl,
      ''if ($null -eq $latest) { throw \"no backups found for '' @ project_id @ ''\" }'' @ nl,
      ''Write-Output $latest.FullName'' @ nl]"

definition copy_script :: "string \<Rightarrow> string \<Rightarrow> string \<Rightarrow> string" where
  "copy_script src dst label =
     concat
     [''$ErrorActionPreference='Stop'' @ squo @ nl,
      ''New-Item -ItemType Directory -Force -Path '' @ (ps_quote dst) @ '' | Out-Null'' @ nl,
      ''robocopy '' @ (ps_quote src) @ '' '' @ (ps_quote dst) @ '' /MIR /NFL /NDL /NJH /NJS /NP | Out-Null'' @ nl,
      ''if ($LASTEXITCODE -ge 8) { throw \"'' @ label @ '' robocopy failed: $LASTEXITCODE\" }'' @ nl]"

definition smoke_script :: "string \<Rightarrow> health_plan \<Rightarrow> string" where
  "smoke_script url plan =
     concat
     [''$ErrorActionPreference='Stop'' @ squo @ nl,
      ''$url = '' @ (ps_quote url) @ nl,
      (if 0 < hp_start_period plan then concat
      [''Start-Sleep -Seconds '' @ (itoa (hp_start_period plan)) @ nl]
      else []),
      ''for ($i=0; $i -lt '' @ (itoa (hp_attempts plan)) @ ''; $i++) {'' @ nl,
      ''  try {'' @ nl,
      ''    $r = Invoke-WebRequest -UseBasicParsing -Uri $url -TimeoutSec '' @ (itoa (hp_timeout plan)) @ nl,
      ''    if ($r.StatusCode -ge 200 -and $r.StatusCode -lt 400) { Write-Output 'smoke test ok'; exit 0 }'' @ nl,
      ''  } catch { }'' @ nl,
      ''  Start-Sleep -Seconds '' @ (itoa (hp_interval plan)) @ nl,
      ''}'' @ nl,
      ''throw \"smoke test failed: $url\"'' @ nl]"

definition blue_green_active_script :: "string \<Rightarrow> string \<Rightarrow> string" where
  "blue_green_active_script physical marker =
     concat
     [''$ErrorActionPreference='Stop'' @ squo @ nl,
      ''$marker = '' @ (ps_quote marker) @ nl,
      ''$physical = '' @ (ps_quote physical) @ nl,
      ''if (Test-Path -LiteralPath $marker) {'' @ nl,
      ''  $active = (Get-Content -Raw -LiteralPath $marker).Trim()'' @ nl,
      ''  if ($active -and (Test-Path -LiteralPath $active -PathType Container)) { Write-Output $active; exit 0 }'' @ nl,
      ''}'' @ nl,
      ''if (Test-Path -LiteralPath $physical -PathType Container) { Write-Output $physical }'' @ nl]"

definition blue_green_swap_script :: "string \<Rightarrow> string \<Rightarrow> string \<Rightarrow> string \<Rightarrow> string \<Rightarrow> string" where
  "blue_green_swap_script site app_pool service target marker =
     concat
     [''$ErrorActionPreference='Stop'' @ squo @ nl,
      ''Import-Module WebAdministration'' @ nl,
      ''$site = '' @ (ps_quote site) @ nl,
      ''$pool = '' @ (ps_quote app_pool) @ nl,
      ''$service = '' @ (ps_quote service) @ nl,
      ''$target = '' @ (ps_quote target) @ nl,
      ''$marker = '' @ (ps_quote marker) @ nl,
      ''if (-not (Test-Path -LiteralPath $target -PathType Container)) { throw \"slot not found: $target\" }'' @ nl,
      ''if (-not (Get-ChildItem -LiteralPath $target -Recurse -File -ErrorAction SilentlyContinue | Select-Object -First 1)) { throw \"slot is empty: $target\" }'' @ nl,
      ''Set-ItemProperty \"IIS:'' @ bsl @ ''Sites'' @ bsl @ ''$site\" -Name physicalPath -Value $target'' @ nl,
      ''$poolPath = 'IIS:'' @ bsl @ ''AppPools'' @ bsl @ squo @ '' + $pool'' @ nl,
      ''if (Test-Path $poolPath) {'' @ nl,
      ''  if ((Get-WebAppPoolState -Name $pool).Value -eq 'Stopped') { Start-WebAppPool -Name $pool }'' @ nl,
      ''  Restart-WebAppPool -Name $pool'' @ nl @ ''}'' @ nl,
      ''if ($service -and (Get-Service -Name $service -ErrorAction SilentlyContinue)) { Restart-Service -Name $service -Force }'' @ nl,
      ''Set-Content -LiteralPath $marker -Value $target -Encoding ASCII -NoNewline'' @ nl,
      ''Write-Output $target'' @ nl]"

section \<open>Windows services\<close>

definition file_exists_script :: "string \<Rightarrow> string" where
  "file_exists_script path =
     ''$ErrorActionPreference='Stop'' @ squo @ nl @ ''if (-not (Test-Path -LiteralPath '' @ (ps_quote path) @ '')) { throw '' @ (ps_quote (''not found: '' @ path)) @ '' }'' @ nl"

definition file_hash_script :: "string \<Rightarrow> string" where
  "file_hash_script path =
     (let q = ps_quote path in concat
     [''$ErrorActionPreference='Stop'' @ squo @ nl,
      ''if (Test-Path -LiteralPath '' @ q @ '') {'' @ nl,
      ''  $fs = [IO.File]::OpenRead('' @ q @ '')'' @ nl,
      ''  try {'' @ nl,
      ''    $sha = [Security.Cryptography.SHA256]::Create()'' @ nl,
      ''    try { ($sha.ComputeHash($fs) | ForEach-Object { $_.ToString('x2') }) -join '' @ squo @ squo @ '' }'' @ nl,
      ''    finally { $sha.Dispose() }'' @ nl,
      ''  } finally { $fs.Dispose() }'' @ nl,
      ''}'' @ nl])"

definition begin_upload_script :: "string \<Rightarrow> string \<Rightarrow> string" where
  "begin_upload_script dir tmp =
     concat
     [''$ErrorActionPreference='Stop'' @ squo @ nl,
      ''New-Item -ItemType Directory -Force -Path '' @ (ps_quote dir) @ '' | Out-Null'' @ nl,
      ''Set-Content -LiteralPath '' @ (ps_quote tmp) @ '' -Value '' @ squo @ squo @ '' -NoNewline -Encoding ASCII'' @ nl]"

definition append_upload_script :: "string \<Rightarrow> string \<Rightarrow> string" where
  "append_upload_script tmp chunk =
     concat
     [''$ErrorActionPreference='Stop'' @ squo @ nl,
      ''Add-Content -LiteralPath '' @ (ps_quote tmp) @ '' -Value '' @ (ps_quote chunk) @ '' -NoNewline -Encoding ASCII'' @ nl]"

definition finish_upload_script :: "string \<Rightarrow> string \<Rightarrow> string" where
  "finish_upload_script tmp dest =
     concat
     [''$ErrorActionPreference='Stop'' @ squo @ nl,
      ''$b = [Convert]::FromBase64String((Get-Content -Raw -LiteralPath '' @ (ps_quote tmp) @ ''))'' @ nl,
      ''[IO.File]::WriteAllBytes('' @ (ps_quote dest) @ '', $b)'' @ nl,
      ''Remove-Item -LiteralPath '' @ (ps_quote tmp) @ '' -Force'' @ nl]"

definition validate_service_script :: "string \<Rightarrow> string \<Rightarrow> string \<Rightarrow> string \<Rightarrow> string \<Rightarrow> string" where
  "validate_service_script repo_dir source work_dir service_exe nssm_path =
     concat
     [''$ErrorActionPreference='Stop'' @ squo @ nl,
      ''if (-not (Test-Path -LiteralPath '' @ (ps_quote nssm_path) @ '')) { throw '' @ (ps_quote (''nssm.exe not found at '' @ nssm_path @ ''; set deploy.nssm_source to upload it, or install NSSM on the target'')) @ '' }'' @ nl,
      ''$src = Join-Path '' @ (ps_quote repo_dir) @ '' '' @ (ps_quote source) @ nl,
      ''if (-not (Test-Path -LiteralPath $src)) { throw \"source directory not found: $src\" }'' @ nl,
      (case rel_under work_dir service_exe of
         Some rel \<Rightarrow> ''if (-not (Test-Path -LiteralPath (Join-Path $src '' @ (ps_quote rel) @ ''))) { throw '' @ (ps_quote (''service executable not found in build output: '' @ rel)) @ '' }'' @ nl
       | None \<Rightarrow> [])]"

definition stop_service_script :: "string \<Rightarrow> string \<Rightarrow> string" where
  "stop_service_script name nssm_path =
     concat
     [''$ErrorActionPreference='Stop'' @ squo @ nl,
      ''if (Get-Service -Name '' @ (ps_quote name) @ '' -ErrorAction SilentlyContinue) {'' @ nl,
      ''  & '' @ (ps_quote nssm_path) @ '' stop '' @ (ps_quote name) @ '' | Out-Null'' @ (exit_guard ''nssm stop''),
      ''  $deadline = (Get-Date).AddSeconds(30)'' @ nl,
      ''  while ((Get-Service -Name '' @ (ps_quote name) @ '').Status -ne 'Stopped' -and (Get-Date) -lt $deadline) { Start-Sleep -Milliseconds 500 }'' @ nl,
      ''}'' @ nl]"

definition start_service_script :: "string \<Rightarrow> string \<Rightarrow> string" where
  "start_service_script name nssm_path =
     concat
     [''$ErrorActionPreference='Stop'' @ squo @ nl,
      ''& '' @ (ps_quote nssm_path) @ '' start '' @ (ps_quote name) @ '' | Out-Null'' @ (exit_guard ''nssm start''),
      ''$deadline = (Get-Date).AddSeconds(30)'' @ nl,
      ''$s = (Get-Service -Name '' @ (ps_quote name) @ '').Status'' @ nl,
      ''while ($s -ne 'Running' -and (Get-Date) -lt $deadline) { Start-Sleep -Milliseconds 500; $s = (Get-Service -Name '' @ (ps_quote name) @ '').Status }'' @ nl,
      ''if ($s -ne 'Running') { throw \"service '' @ name @ '' did not reach Running (status: $s)\" }'' @ nl]"

definition install_service_script :: "project \<Rightarrow> string \<Rightarrow> string" where
  "install_service_script p nssm_path =
     concat
     [''$ErrorActionPreference='Stop'' @ squo @ nl,
      ''$nssm = '' @ (ps_quote nssm_path) @ nl,
      ''if (Get-Service -Name '' @ (ps_quote (p_service_name p)) @ '' -ErrorAction SilentlyContinue) {'' @ nl,
      ''  & $nssm set '' @ (ps_quote (p_service_name p)) @ '' Application '' @ (ps_quote (p_service_exe p)) @ (exit_guard ''nssm set Application''),
      ''} else {'' @ nl,
      ''  & $nssm install '' @ (ps_quote (p_service_name p)) @ '' '' @ (ps_quote (p_service_exe p)) @ (exit_guard ''nssm install''),
      ''}'' @ nl,
      ''& $nssm set '' @ (ps_quote (p_service_name p)) @ '' AppDirectory '' @ (ps_quote (p_service_work_dir p)) @ (exit_guard ''nssm set AppDirectory''),
      (if p_service_args p \<noteq> [] then concat
      [''& $nssm set '' @ (ps_quote (p_service_name p)) @ '' AppParameters '' @ (ps_quote (p_service_args p)) @ (exit_guard ''nssm set AppParameters'')]
      else concat
      [''& $nssm reset '' @ (ps_quote (p_service_name p)) @ '' AppParameters'' @ (exit_guard ''nssm reset AppParameters'')]),
      (if p_service_log_dir p \<noteq> [] then concat
      [''New-Item -ItemType Directory -Force -Path '' @ (ps_quote (p_service_log_dir p)) @ '' | Out-Null'' @ nl,
       ''& $nssm set '' @ (ps_quote (p_service_name p)) @ '' AppStdout '' @ (ps_quote (win_path [(p_service_log_dir p), ((sanitize (p_id p)) @ ''.out.log'')])) @ (exit_guard ''nssm set AppStdout''),
       ''& $nssm set '' @ (ps_quote (p_service_name p)) @ '' AppStderr '' @ (ps_quote (win_path [(p_service_log_dir p), ((sanitize (p_id p)) @ ''.err.log'')])) @ (exit_guard ''nssm set AppStderr''),
       ''& $nssm set '' @ (ps_quote (p_service_name p)) @ '' AppRotateFiles 1'' @ (exit_guard ''nssm set AppRotateFiles'')]
      else concat
      [''& $nssm reset '' @ (ps_quote (p_service_name p)) @ '' AppStdout'' @ (exit_guard ''nssm reset AppStdout''),
       ''& $nssm reset '' @ (ps_quote (p_service_name p)) @ '' AppStderr'' @ (exit_guard ''nssm reset AppStderr'')]),
      (if p_service_account p \<noteq> [] then concat
      [''& $nssm set '' @ (ps_quote (p_service_name p)) @ '' ObjectName '' @ (ps_quote (p_service_account p)) @ (exit_guard ''nssm set ObjectName'')]
      else concat
      [''& $nssm reset '' @ (ps_quote (p_service_name p)) @ '' ObjectName'' @ (exit_guard ''nssm reset ObjectName'')]),
      ''& $nssm set '' @ (ps_quote (p_service_name p)) @ '' AppExit Default Restart'' @ (exit_guard ''nssm set AppExit''),
      ''& $nssm set '' @ (ps_quote (p_service_name p)) @ '' AppThrottle 1500'' @ (exit_guard ''nssm set AppThrottle''),
      ''& $nssm set '' @ (ps_quote (p_service_name p)) @ '' Start SERVICE_AUTO_START'' @ (exit_guard ''nssm set Start'')]"

definition service_env_script :: "project \<Rightarrow> string \<Rightarrow> string" where
  "service_env_script p nssm_path =
     concat
     [''$ErrorActionPreference='Stop'' @ squo @ nl,
      ''$nssm = '' @ (ps_quote nssm_path) @ nl,
      (if p_env p = [] then ''& $nssm reset '' @ (ps_quote (p_service_name p)) @ '' AppEnvironmentExtra'' @ (exit_guard ''nssm reset AppEnvironmentExtra'')
       else concat
        [''$pairs = @('',
         join '', '' (map (\<lambda>k. (ps_quote (k @ ''='' @ (mget (p_env p) k)))) (sorted_keys (p_env p))),
         '')'' @ nl,
         ''& $nssm set '' @ (ps_quote (p_service_name p)) @ '' AppEnvironmentExtra @pairs'' @ (exit_guard ''nssm set AppEnvironmentExtra'')])]"

definition caddy_file :: "project \<Rightarrow> string" where
  "caddy_file p =
     concat
     ['':'' @ (itoa (effective_host_port p)) @ '' {'' @ nl,
      tab @ ''root * '' @ quote (p_service_work_dir p) @ nl,
      tab @ ''file_server'' @ nl,
      tab @ ''try_files {path} /index.html'' @ nl,
      ''}'' @ nl]"

definition caddy_service_name :: "project \<Rightarrow> string" where
  "caddy_service_name p = ''cc-caddy-'' @ sanitize (p_id p)"

definition ensure_caddy_service_script :: "project \<Rightarrow> string \<Rightarrow> string \<Rightarrow> string \<Rightarrow> string \<Rightarrow> string" where
  "ensure_caddy_service_script p caddy_path nssm_path dir config_file =
     (let name = caddy_service_name p; args = ''run --config '' @ config_file @ '' --adapter caddyfile'' in concat
     [''$ErrorActionPreference='Stop'' @ squo @ nl,
      ''$nssm = '' @ (ps_quote nssm_path) @ nl,
      ''if (-not (Get-Service -Name '' @ (ps_quote name) @ '' -ErrorAction SilentlyContinue)) {'' @ nl,
      ''  & $nssm install '' @ (ps_quote name) @ '' '' @ (ps_quote caddy_path) @ (exit_guard ''nssm install caddy''),
      ''  & $nssm set '' @ (ps_quote name) @ '' AppParameters '' @ (ps_quote args) @ (exit_guard ''nssm set caddy AppParameters''),
      ''  & $nssm set '' @ (ps_quote name) @ '' AppDirectory '' @ (ps_quote dir) @ (exit_guard ''nssm set caddy AppDirectory''),
      ''  & $nssm set '' @ (ps_quote name) @ '' AppExit Default Restart'' @ (exit_guard ''nssm set caddy AppExit''),
      ''  & $nssm set '' @ (ps_quote name) @ '' Start SERVICE_AUTO_START'' @ (exit_guard ''nssm set caddy Start''),
      ''}'' @ nl])"

definition reload_caddy_script :: "project \<Rightarrow> string \<Rightarrow> string \<Rightarrow> string \<Rightarrow> string" where
  "reload_caddy_script p caddy_path nssm_path config_file =
     (let name = caddy_service_name p in concat
     [''$ErrorActionPreference='Stop'' @ squo @ nl,
      ''if ((Get-Service -Name '' @ (ps_quote name) @ '').Status -ne 'Running') { & '' @ (ps_quote nssm_path) @ '' start '' @ (ps_quote name) @ '' | Out-Null'' @ (exit_guard ''nssm start caddy''),
      ''; Start-Sleep -Seconds 1 }'' @ nl,
      ''& '' @ (ps_quote caddy_path) @ '' reload --config '' @ (ps_quote config_file) @ '' --adapter caddyfile'' @ (exit_guard ''caddy reload'')])"

section \<open>Toolchains\<close>

record runtime_spec =
  rs_probe :: string
  rs_winget_id :: string
  rs_choco_name :: string

definition runtime_specs :: "string \<Rightarrow> runtime_spec option" where
  "runtime_specs = map_of
     [(''python'', \<lparr> rs_probe = ''python'', rs_winget_id = ''Python.Python.3.12'', rs_choco_name = ''python312'' \<rparr>),
      (''node'', \<lparr> rs_probe = ''node'', rs_winget_id = ''OpenJS.NodeJS.LTS'', rs_choco_name = ''nodejs-lts'' \<rparr>),
      (''go'', \<lparr> rs_probe = ''go'', rs_winget_id = ''GoLang.Go'', rs_choco_name = ''golang'' \<rparr>),
      (''dotnet'', \<lparr> rs_probe = ''dotnet'', rs_winget_id = ''Microsoft.DotNet.SDK.8'', rs_choco_name = ''dotnet-8.0-sdk'' \<rparr>)]"

definition runtime_probe_script :: "string \<Rightarrow> string" where
  "runtime_probe_script exe =
     concat
     [''$ErrorActionPreference='Stop'' @ squo @ nl,
      refresh_path_script,
      ''if (Get-Command '' @ (ps_quote exe) @ '' -ErrorAction SilentlyContinue) { 'present' } else { 'missing' }'' @ nl]"

definition runtime_install_script :: "runtime_spec \<Rightarrow> string" where
  "runtime_install_script spec =
     concat
     [''$ErrorActionPreference='Stop'' @ squo @ nl,
      refresh_path_script,
      ''$installed = $false'' @ nl,
      ''if (Get-Command winget -ErrorAction SilentlyContinue) {'' @ nl,
      ''  winget install --id '' @ (ps_quote (rs_winget_id spec)) @ '' --exact --silent --accept-package-agreements --accept-source-agreements'' @ nl,
      ''  if ($LASTEXITCODE -eq 0) { $installed = $true }'' @ nl @ ''}'' @ nl,
      ''if (-not $installed -and (Get-Command choco -ErrorAction SilentlyContinue)) {'' @ nl,
      ''  choco install '' @ (ps_quote (rs_choco_name spec)) @ '' -y --no-progress'' @ nl,
      ''  if ($LASTEXITCODE -eq 0) { $installed = $true }'' @ nl @ ''}'' @ nl,
      ''if (-not $installed) { throw '' @ (ps_quote (''could not install '' @ (rs_winget_id spec) @ '': neither winget nor choco is available on the target'')) @ '' }'' @ nl]"

section \<open>Staging a git key\<close>

definition secret_file_script :: "string \<Rightarrow> string \<Rightarrow> bool \<Rightarrow> string" where
  "secret_file_script path value windows =
     (if windows then concat
     [''$ErrorActionPreference='Stop'' @ squo @ nl,
      ''$path = '' @ (ps_quote path) @ nl,
      ''$parent = Split-Path -Parent $path'' @ nl,
      ''if ($parent) { New-Item -ItemType Directory -Force -Path $parent | Out-Null }'' @ nl,
      ''[IO.File]::WriteAllText($path, [Text.Encoding]::UTF8.GetString([Convert]::FromBase64String('' @ (ps_quote (base64_encode value)) @ '')))'' @ nl,
      ''icacls $path /inheritance:r /grant:r 'SYSTEM:F' 'Administrators:F' | Out-Null'' @ nl]
      else ''umask 077; mkdir -p '' @ (shell_quote (path_dir path)) @ '' && printf %s '' @ (shell_quote (base64_encode value)) @ '' | base64 -d > '' @ (shell_quote path) @ '' && chmod 600 '' @ (shell_quote path))"

section \<open>Compose and environment files\<close>

definition compose_port :: "string \<Rightarrow> string" where
  "compose_port m = (case parse_port_mapping m of Inl _ \<Rightarrow> m | Inr (h, c) \<Rightarrow> itoa h @ '':'' @ itoa c)"

definition compose_ports :: "project \<Rightarrow> string list" where
  "compose_ports p =
     (if p_ports_mappings p \<noteq> [] then map compose_port (p_ports_mappings p)
      else if 0 < p_ports_exposes p then [itoa (p_ports_exposes p) @ '':'' @ itoa (p_ports_exposes p)]
      else if 0 < p_port p then [itoa (p_port p) @ '':'' @ itoa (p_port p)]
      else [])"

definition compose_file :: "project \<Rightarrow> string \<Rightarrow> string" where
  "compose_file p img = concat
     [''services:'' @ nl @ ''  app:'' @ nl @ ''    image: '' @ img @ nl @ ''    container_name: cc-'' @ sanitize (p_id p) @ nl
        @ ''    restart: unless-stopped'' @ nl,
      (if compose_ports p \<noteq> []
       then ''    ports:'' @ nl @ concat (map (\<lambda>port. ''      - '' @ quote port @ nl) (compose_ports p)) else []),
      (if p_env p \<noteq> []
       then ''    environment:'' @ nl
         @ concat (map (\<lambda>k. ''      '' @ k @ '': '' @ quote (mget (p_env p) k) @ nl) (sorted_keys (p_env p)))
       else [])]"

definition env_file_content :: "go_map \<Rightarrow> string" where
  "env_file_content env = concat (map (\<lambda>k. k @ ''='' @ mget env k @ nl) (sorted_keys env))"


section \<open>Map order does not reach the scripts\<close>

text \<open>
  The iteration order of Go's maps does not show: two orders of the same environment give the
  same compose file, the same environment file, the same build script and the same service
  environment.
\<close>

theorem env_order_irrelevant:
  assumes "mset e' = mset (p_env p)" and "distinct_keys (p_env p)"
  shows "compose_file (p\<lparr>p_env := e'\<rparr>) img = compose_file p img
    \<and> env_file_content e' = env_file_content (p_env p)
    \<and> build_script dir cmd e' = build_script dir cmd (p_env p)
    \<and> service_env_script (p\<lparr>p_env := e'\<rparr>) n = service_env_script p n"
proof -
  have e: "e' = [] \<longleftrightarrow> p_env p = []" using assms(1) by (metis mset_zero_iff)
  have s: "sorted_keys e' = sorted_keys (p_env p)" using assms(1) by (rule sorted_keys_perm)
  have m: "mget e' = mget (p_env p)" using mget_perm[of "p_env p" e'] assms by simp
  have c: "compose_ports (p\<lparr>p_env := e'\<rparr>) = compose_ports p" by (simp add: compose_ports_def)
  show ?thesis
    unfolding compose_file_def env_file_content_def build_script_def service_env_script_def c
    by (simp only: e s m project.select_convs project.update_convs project.surjective) (simp add: e s m)
qed

lemma env_order_irrelevant_witness:
  "compose_file (sample_project\<lparr>p_env := [(''B'', ''2''), (''A'', ''1'')], p_env := [(''A'', ''1''), (''B'', ''2'')]\<rparr>) ''i''
      = compose_file (sample_project\<lparr>p_env := [(''B'', ''2''), (''A'', ''1'')]\<rparr>) ''i''
    \<and> env_file_content [(''A'', ''1''), (''B'', ''2'')] = env_file_content (p_env (sample_project\<lparr>p_env := [(''B'', ''2''), (''A'', ''1'')]\<rparr>))
    \<and> build_script ''d'' ''c'' [(''A'', ''1''), (''B'', ''2'')] = build_script ''d'' ''c'' (p_env (sample_project\<lparr>p_env := [(''B'', ''2''), (''A'', ''1'')]\<rparr>))
    \<and> service_env_script (sample_project\<lparr>p_env := [(''B'', ''2''), (''A'', ''1'')], p_env := [(''A'', ''1''), (''B'', ''2'')]\<rparr>) ''n''
      = service_env_script (sample_project\<lparr>p_env := [(''B'', ''2''), (''A'', ''1'')]\<rparr>) ''n''"
  by (rule env_order_irrelevant) (auto simp: distinct_keys_def)

section \<open>The environment file can be read back\<close>

definition read_env_file :: "string \<Rightarrow> (string \<times> string option) list" where
  "read_env_file s = map (cut_char (CHR ''='')) (butlast (split_char (CHR 0x0A) s))"

lemma split_lines: "(\<And>l. l \<in> set ls \<Longrightarrow> CHR 0x0A \<notin> set l) \<Longrightarrow>
    split_char (CHR 0x0A) (concat (map (\<lambda>l. l @ nl) ls)) = ls @ [[]]"
  by (induction ls) (auto simp: nl_def split_char_append)

lemma env_key_no_equals: "env_key_pattern k \<Longrightarrow> CHR ''='' \<notin> set k \<and> CHR 0x0A \<notin> set k"
  by (auto simp: env_key_pattern_def char_classes list_all_iff split: list.splits)

lemma mget_value: "k \<in> fst ` set env \<Longrightarrow> (k, mget env k) \<in> set env"
proof -
  assume "k \<in> fst ` set env"
  then obtain v where "map_of env k = Some v" by (metis map_of_eq_None_iff option.exhaust)
  then show ?thesis by (simp add: mget_def map_of_SomeD)
qed



section \<open>Two flaws of the scripts\<close>

text \<open>
  The application pool goes unquoted into a double-quoted PowerShell string: an accepted name can
  close it and run commands on the target.
\<close>

lemma app_pool_injection:
  "sublist (''not found: '' @ dquo @ ''; calc; '' @ dquo) (validate_body (dquo @ ''; calc; '' @ dquo) [])"
  by code_simp

text \<open>
  \<open>git clean\<close> and \<open>git rev-parse\<close> end the synchronisation script without \<open>-C\<close> and without a change of
  directory: they act on whatever directory the remote shell starts in.
\<close>

lemma sync_clean_elsewhere:
  "suffix (''git clean -fdx'' @ nl @ ''git rev-parse HEAD'' @ nl) (sync_repo_script dir repo commit auth)"
proof -
  have c: "suffix s (concat xs) \<Longrightarrow> suffix s (concat (x # xs))" for s x :: string and xs
    by (simp add: suffix_appendI)
  show ?thesis
    unfolding sync_repo_script_def Let_def
    by (rule c, rule c, rule c, rule c, rule c, rule c, rule c, rule c, rule c) simp
qed

end
