(* ===== verification/Pipeline.thy ===== *)
theory Pipeline
  imports Scripts
begin

text \<open>
  What every deployment pipeline is made of: the job it runs (\<open>deployJob\<close>), the connection it runs
  over, the staging of git credentials (\<open>gitcred.go\<close>), the provisioning of toolchains
  (\<open>runtime.go\<close>), the smoke test of the two Windows pipelines, and the contract of \<open>Target\<close> that the
  deployer relies on.
\<close>

section \<open>Jobs and connections\<close>

record deploy_job =
  dj_id :: int
  dj_project :: project
  dj_server :: server
  dj_trigger :: string
  dj_commit :: string
  dj_ref :: string
  dj_artifact :: string
  dj_previous_artifact :: string
  dj_rollback :: bool

text \<open>
  A target: its runner, the configuration and the credential store, which may be absent. Uploading
  a file of the control-center host needs its contents and their SHA-256.
\<close>

record target_env =
  te_host :: host
  te_cfg :: app_config
  te_secrets :: "secrets option"
  te_read_file :: "string \<Rightarrow> string res"
  te_sha256 :: "string \<Rightarrow> string"

definition deploy_cfg :: "target_env \<Rightarrow> deploy_config" where
  "deploy_cfg env = ac_deploy (te_cfg env)"

section \<open>gitcred.go\<close>

definition upload_secret_file :: "target_env \<Rightarrow> cmd_ctx \<Rightarrow> string \<Rightarrow> string \<Rightarrow> bool \<Rightarrow> string res rt" where
  "upload_secret_file env ctx path value windows =
     exec_or (te_host env) (with_audit_redaction ctx ''write git credential file (contents redacted)'')
       (secret_file_script path value windows) ''write git credential file'' (err_only ''stage git ssh key'')"

definition prepare_git_auth :: "target_env \<Rightarrow> cmd_ctx \<Rightarrow> project \<Rightarrow> string \<Rightarrow> bool \<Rightarrow> git_auth res rt" where
  "prepare_git_auth env ctx p key_path windows =
     (let ref = trim_space (p_git_credential_ref p) in
      if ref = [] then succeed No_Auth
      else (case te_secrets env of
          None \<Rightarrow> fail_with (''git credential '' @ quote ref @ '' configured but no credential store is available'')
        | Some secrets \<Rightarrow>
            (case resolve_ref secrets ref of
               Inl e \<Rightarrow> fail_with (''resolve git credential: '' @ e)
             | Inr value0 \<Rightarrow>
                 (let value = trim_space value0 in
                  if value = [] then fail_with (''git credential '' @ quote ref @ '' is empty'')
                  else if \<not> is_private_key_pem value then succeed (Http_Auth value)
                  else if key_path = [] then fail_with ''git ssh key path is required''
                  else try_then (upload_secret_file env ctx key_path value windows)
                    (\<lambda>_. succeed (Ssh_Auth key_path))))))"

text \<open>The context of a git command: redacted when the command line carries a token.\<close>

definition git_ctx :: "cmd_ctx \<Rightarrow> git_auth \<Rightarrow> string \<Rightarrow> cmd_ctx" where
  "git_ctx ctx auth label = (if auth_sensitive auth then with_audit_redaction ctx label else ctx)"

definition sync_label :: string where
  "sync_label = ''git clone/fetch + checkout (credential redacted)''"

section \<open>runtime.go\<close>

definition ensure_runtime :: "target_env \<Rightarrow> cmd_ctx \<Rightarrow> string \<Rightarrow> unit res rt" where
  "ensure_runtime env ctx runtime0 =
     (let runtime = trim_space runtime0 in
      if runtime = [] then succeed ()
      else (case runtime_specs runtime of
          None \<Rightarrow> fail_with (''unknown runtime '' @ quote runtime @ '' (known: python, node, go, dotnet)'')
        | Some spec \<Rightarrow>
            try_then (exec_or (te_host env) ctx (runtime_probe_script (rs_probe spec)) (''check for '' @ runtime)
                (err_only (''probe '' @ runtime)))
              (\<lambda>out. if sublist ''present'' out then do { _ \<leftarrow> logf (runtime @ '' is already installed''); succeed () }
                else do {
                  _ \<leftarrow> logf (runtime @ '' not found; installing it on the target'');
                  try_then (exec_or (te_host env) ctx (runtime_install_script spec) (''install '' @ runtime)
                      (err_only (''install '' @ runtime)))
                    (\<lambda>_. succeed ()) })))"

section \<open>The smoke test of the Windows pipelines\<close>

definition smoke_test :: "target_env \<Rightarrow> cmd_ctx \<Rightarrow> project \<Rightarrow> unit res rt" where
  "smoke_test env ctx p =
     (if p_disable_health_check p then do { _ \<leftarrow> logf ''health check disabled; skipping smoke test''; succeed () }
      else if effective_host_port p = 0 then do { _ \<leftarrow> logf ''no port configured; skipping smoke test''; succeed () }
      else try_then (exec_or (te_host env) ctx (smoke_script (health_url p) (health_plan_for (deploy_cfg env) p))
          (''smoke test '' @ health_url p) (err_only ''smoke test failed''))
        (\<lambda>_. succeed ()))"

text \<open>A step whose failure is only logged, as the recovery paths do.\<close>

definition exec_or_log :: "target_env \<Rightarrow> cmd_ctx \<Rightarrow> string \<Rightarrow> string \<Rightarrow> string \<Rightarrow> unit rt" where
  "exec_or_log env ctx cmd log_cmd what = do {
     (out, err) \<leftarrow> exec_cmd (te_host env) ctx cmd log_cmd;
     case err of Some e \<Rightarrow> logf (what @ '': '' @ e) | None \<Rightarrow> State_Monad.return () }"

text \<open>
  A step of a live change: on failure the recovery runs before the error is returned.
\<close>

definition or_recover :: "'a res rt \<Rightarrow> unit rt \<Rightarrow> 'a res rt" where
  "or_recover m recover = do {
     r \<leftarrow> m;
     case r of Inl e \<Rightarrow> do { _ \<leftarrow> recover; fail_with e } | Inr x \<Rightarrow> succeed x }"

section \<open>The shared steps are audited\<close>

lemma audit_upload_secret_file:
  "cx_meta ctx = m \<Longrightarrow> emits (audit_aligned m) (upload_secret_file env ctx path v w)"
  by (simp add: upload_secret_file_def audit_emits_exec_or)

lemma audit_prepare_git_auth: "cx_meta ctx = m \<Longrightarrow> emits (audit_aligned m) (prepare_git_auth env ctx p k w)"
  by (auto simp: prepare_git_auth_def Let_def intro!: audit_intros audit_upload_secret_file
      split: option.split sum.split)

lemma cx_meta_git_ctx [simp]: "cx_meta (git_ctx ctx a l) = cx_meta ctx"
  by (simp add: git_ctx_def)

lemma audit_ensure_runtime: "cx_meta ctx = m \<Longrightarrow> emits (audit_aligned m) (ensure_runtime env ctx r)"
  by (auto simp: ensure_runtime_def Let_def intro!: audit_intros split: option.split)

lemma audit_smoke_test: "cx_meta ctx = m \<Longrightarrow> emits (audit_aligned m) (smoke_test env ctx p)"
  by (auto simp: smoke_test_def intro!: audit_intros)

lemma audit_exec_or_log: "cx_meta ctx = m \<Longrightarrow> emits (audit_aligned m) (exec_or_log env ctx c l w)"
  by (auto simp: exec_or_log_def intro!: audit_intros split: option.split)

lemma audit_or_recover:
  "emits (audit_aligned m) a \<Longrightarrow> emits (audit_aligned m) r \<Longrightarrow> emits (audit_aligned m) (or_recover a r)"
  by (auto simp: or_recover_def intro!: audit_intros split: sum.split)

lemmas pipeline_audited = audit_upload_secret_file audit_prepare_git_auth audit_ensure_runtime
  audit_smoke_test audit_exec_or_log audit_or_recover

section \<open>Twin jobs: the same deployment with other secrets\<close>

text \<open>
  The secrets of a deployment are the values of the runtime and the build environment and the git
  credential. Two deployments are twins when they differ only there, and not in whether an
  environment is empty, a credential is missing or a credential is an SSH key, all of which the log
  does show.
\<close>

definition same_kind :: "secrets option \<Rightarrow> secrets option \<Rightarrow> string \<Rightarrow> bool" where
  "same_kind so so' ref =
     (case (so, so') of
        (None, None) \<Rightarrow> True
      | (Some s, Some s') \<Rightarrow>
          (case (resolve_ref s ref, resolve_ref s' ref) of
             (Inl e, Inl e') \<Rightarrow> e = e'
           | (Inr v, Inr v') \<Rightarrow>
               (trim_space v = []) = (trim_space v' = [])
               \<and> is_private_key_pem (trim_space v) = is_private_key_pem (trim_space v')
           | _ \<Rightarrow> False)
      | _ \<Rightarrow> False)"

definition twin_env :: "target_env \<Rightarrow> target_env \<Rightarrow> string \<Rightarrow> bool" where
  "twin_env env env' ref \<longleftrightarrow> blind (te_host env) \<and> te_host env' = te_host env \<and> te_cfg env' = te_cfg env
     \<and> te_read_file env' = te_read_file env \<and> te_sha256 env' = te_sha256 env
     \<and> same_kind (te_secrets env) (te_secrets env') (trim_space ref)"

definition twin_job :: "deploy_job \<Rightarrow> deploy_job \<Rightarrow> bool" where
  "twin_job job job' \<longleftrightarrow> (\<exists>e b. job' = job\<lparr>dj_project := (dj_project job)\<lparr>p_env := e, p_build_env := b\<rparr>\<rparr>
     \<and> (e = []) = (p_env (dj_project job) = []) \<and> (b = []) = (p_build_env (dj_project job) = []))"

fun same_auth :: "git_auth \<Rightarrow> git_auth \<Rightarrow> bool" where
  "same_auth No_Auth No_Auth \<longleftrightarrow> True"
| "same_auth (Ssh_Auth k) (Ssh_Auth k') \<longleftrightarrow> k = k'"
| "same_auth (Http_Auth _) (Http_Auth _) \<longleftrightarrow> True"
| "same_auth _ _ \<longleftrightarrow> False"

lemma twin_envD:
  assumes "twin_env env env' ref"
  shows "blind (te_host env)" "te_host env' = te_host env" "te_cfg env' = te_cfg env"
    "te_read_file env' = te_read_file env" "te_sha256 env' = te_sha256 env" "deploy_cfg env' = deploy_cfg env"
  using assms by (auto simp: twin_env_def deploy_cfg_def)

lemma host_port_env [simp]:
  "effective_host_port (p\<lparr>p_env := e, p_build_env := b\<rparr>) = effective_host_port p"
  by (simp add: effective_host_port_def)

lemma health_env [simp]:
  "health_url (p\<lparr>p_env := e, p_build_env := b\<rparr>) = health_url p"
  "health_plan_for cfg (p\<lparr>p_env := e, p_build_env := b\<rparr>) = health_plan_for cfg p"
  by (simp_all add: health_url_def health_plan_for_def cong: if_cong)

text \<open>Rules for two runs that agree step by step; the steps return equal values.\<close>

lemma agree_then:
  "agree (res_rel (=)) m m' \<Longrightarrow> (\<And>x. agree (res_rel A) (k x) (k' x)) \<Longrightarrow>
     agree (res_rel A) (try_then m k) (try_then m' k')"
  by (rule agree_try_then[where A = "(=)"]) auto

lemma agree_seq:
  "agree (=) m m' \<Longrightarrow> (\<And>x. agree A (k x) (k' x)) \<Longrightarrow> agree A (State_Monad.bind m k) (State_Monad.bind m' k')"
  by (rule agree_bind[where A = "(=)"]) auto

lemma agree_success: "agree (res_rel (=)) (succeed x) (succeed x)"
  by (rule agree_succeed) simp

lemma agree_if: "agree A m m' \<Longrightarrow> agree A n n' \<Longrightarrow> agree A (if b then m else n) (if b then m' else n')"
  by simp

lemmas agree_intros = agree_then agree_seq agree_success agree_fail agree_guard agree_logf agree_refl_return
  agree_exec_or agree_exec_cmd

lemma agree_prepare_git_auth:
  assumes "twin_env env env' (p_git_credential_ref p)" and "p_git_credential_ref p' = p_git_credential_ref p"
  shows "agree (res_rel same_auth) (prepare_git_auth env ctx p k w) (prepare_git_auth env' ctx p' k w)"
proof -
  define ref where "ref = trim_space (p_git_credential_ref p)"
  note t = twin_envD[OF assms(1)]
  have up: "agree (res_rel same_auth)
      (try_then (upload_secret_file env ctx k v w) (\<lambda>_. succeed (Ssh_Auth k)))
      (try_then (upload_secret_file env' ctx k v' w) (\<lambda>_. succeed (Ssh_Auth k)))" for v v'
    unfolding upload_secret_file_def t(2)
    by (rule agree_then) (auto intro!: agree_exec_or agree_succeed t(1))
  have k: "same_kind (te_secrets env) (te_secrets env') ref"
    using assms(1) by (simp add: twin_env_def ref_def)
  show ?thesis
    using k up by (auto simp: prepare_git_auth_def Let_def assms(2) ref_def[symmetric] same_kind_def
        intro!: agree_succeed agree_fail split: option.splits sum.splits)
qed

lemma agree_git_ctx:
  assumes "blind host" and "same_auth a a'"
    and "a = a' \<Longrightarrow> c = c'"
  shows "agree (res_rel (=)) (exec_or host (git_ctx ctx a l) c lc msg) (exec_or host (git_ctx ctx a' l) c' lc msg)"
  using assms
  by (cases a; cases a') (auto simp: git_ctx_def auth_sensitive_def intro!: agree_exec_or)

lemma agree_ensure_runtime:
  "twin_env env env' ref \<Longrightarrow> agree (res_rel (=)) (ensure_runtime env ctx r) (ensure_runtime env' ctx r)"
  by (auto simp: ensure_runtime_def Let_def twin_envD intro!: agree_intros split: option.split)

lemma agree_smoke_test:
  "twin_env env env' ref \<Longrightarrow>
     agree (res_rel (=)) (smoke_test env ctx p) (smoke_test env' ctx (p\<lparr>p_env := e, p_build_env := b\<rparr>))"
  by (auto simp: smoke_test_def twin_envD intro!: agree_intros)

lemma agree_exec_or_log:
  "twin_env env env' ref \<Longrightarrow> c = c' \<or> cx_redact ctx \<noteq> None \<Longrightarrow>
     agree (=) (exec_or_log env ctx c lc w) (exec_or_log env' ctx c' lc w)"
  by (auto simp: exec_or_log_def twin_envD intro!: agree_intros split: option.split)

lemma agree_or_recover:
  assumes "agree (res_rel (=)) m m'" and "agree (=) r r'"
  shows "agree (res_rel (=)) (or_recover m r) (or_recover m' r')"
  unfolding or_recover_def
  by (rule agree_bind[OF assms(1)])
    (auto simp: res_rel_eq split: sum.split intro!: agree_intros assms(2))

lemma try_then_guard [simp]: "try_then (guard_err (Some e)) k = fail_with e" "try_then (guard_err None) k = k ()"
  by (simp_all add: guard_err_def try_then_def fail_with_def succeed_def)

lemma does_or_recover:
  assumes "does m (\<lambda>r e1. case r of Inl x \<Rightarrow> does rec (\<lambda>_ e2. R (Inl x) (e1 @ e2)) | Inr y \<Rightarrow> R (Inr y) e1)"
  shows "does (or_recover m rec) R"
  unfolding or_recover_def
  by (rule does_bind, rule does_mono[OF assms]) (auto split: sum.splits intro!: rt_intros elim: does_mono)

section \<open>The order of the commands of a trace\<close>

definition commands :: "trace \<Rightarrow> string list" where
  "commands e = concat (map (\<lambda>ev. case ev of Ran c _ _ \<Rightarrow> [c] | _ \<Rightarrow> []) e)"

definition last_ran :: "trace \<Rightarrow> string option" where
  "last_ran e = (case rev (commands e) of [] \<Rightarrow> None | c # _ \<Rightarrow> Some c)"

lemma commands_append [simp]: "commands (a @ b) = commands a @ commands b"
  by (simp add: commands_def)

lemma commands_simps [simp]:
  "commands [] = []" "commands (Ran c out err # e) = c # commands e" "commands (Logged l # e) = commands e"
  "commands (Audited m t x # e) = commands e"
  by (simp_all add: commands_def)

lemma commands_logs: "logs_only e \<Longrightarrow> commands e = []"
  by (induction e) (auto simp: logs_only_def)

lemma did_run_commands: "did_run c e \<longleftrightarrow> c \<in> set (commands e)"
proof (induction e)
  case (Cons ev e)
  then show ?case by (cases ev) auto
qed simp

lemma last_ran_append: "last_ran b = Some c \<Longrightarrow> last_ran (a @ b) = Some c"
  by (auto simp: last_ran_def split: list.splits)

lemma exec_or_log_last: "does (exec_or_log env ctx c l w) (\<lambda>_ e. last_ran e = Some c)"
  unfolding exec_or_log_def
  by (rule does_bind, rule does_exec_cmd)
    (auto split: option.split intro!: rt_intros simp: last_ran_def commands_logs)

text \<open>\<open>preceded c g e\<close>: the command \<open>c\<close> does not run in \<open>e\<close> before \<open>g\<close> has succeeded.\<close>

fun preceded :: "string \<Rightarrow> string \<Rightarrow> trace \<Rightarrow> bool" where
  "preceded c g [] \<longleftrightarrow> True"
| "preceded c g (Ran d out err # e) \<longleftrightarrow> d \<noteq> c \<and> (if d = g \<and> err = None then True else preceded c g e)"
| "preceded c g (ev # e) \<longleftrightarrow> preceded c g e"

lemma preceded_absent: "\<not> did_run c e \<Longrightarrow> preceded c g e"
  by (induction c g e rule: preceded.induct) auto

lemma preceded_passed: "\<not> did_run c a \<Longrightarrow> ran_ok g a \<Longrightarrow> preceded c g (a @ b)"
  by (induction c g a rule: preceded.induct) auto

lemma preceded_append: "\<not> did_run c a \<Longrightarrow> preceded c g b \<Longrightarrow> preceded c g (a @ b)"
  by (induction c g a rule: preceded.induct) auto

lemma preceded_then:
  assumes "emits (\<lambda>e. \<not> did_run c e) m" and "\<And>x. does (k x) (\<lambda>_ e. preceded c g e)"
  shows "does (try_then m k) (\<lambda>_ e. preceded c g e)"
proof (rule does_try_then, rule does_mono[OF assms(1)[unfolded emits_def]])
  fix r e1 assume n: "\<not> did_run c e1"
  have "does (k y) (\<lambda>z e2. preceded c g (e1 @ e2))" for y
    by (rule does_mono[OF assms(2)]) (rule preceded_append[OF n])
  then show "case r of Inl x \<Rightarrow> preceded c g e1 | Inr y \<Rightarrow> does (k y) (\<lambda>z e2. preceded c g (e1 @ e2))"
    by (cases r) (simp_all add: preceded_absent[OF n])
qed

lemma preceded_logged:
  "does m (\<lambda>_ e. preceded c g e) \<Longrightarrow> does (State_Monad.bind (logf l) (\<lambda>_. m)) (\<lambda>_ e. preceded c g e)"
  by (rule does_bind, rule does_logf, erule does_mono) simp

interpretation absent: trace_closed "\<lambda>e. \<not> did_run c e" for c
  by unfold_locales auto

lemma absent_logf: "emits (\<lambda>e. \<not> did_run c e) (logf l)"
  unfolding logf_def by (rule absent.emits_emit) simp

lemma absent_exec_or: "c' \<noteq> c \<Longrightarrow> emits (\<lambda>e. \<not> did_run c e) (exec_or host ctx c' lc msg)"
  by (rule absent.emits_exec_or) auto

lemma absent_git_auth:
  "(\<And>v. secret_file_script k v w \<noteq> c) \<Longrightarrow> emits (\<lambda>e. \<not> did_run c e) (prepare_git_auth env ctx p k w)"
  by (auto simp: prepare_git_auth_def upload_secret_file_def Let_def
      intro!: absent.emits_intros absent_exec_or split: option.split sum.split)

lemma absent_ensure_runtime:
  "(\<And>x. runtime_probe_script x \<noteq> c) \<Longrightarrow> (\<And>x. runtime_install_script x \<noteq> c) \<Longrightarrow>
     emits (\<lambda>e. \<not> did_run c e) (ensure_runtime env ctx r)"
  by (auto simp: ensure_runtime_def Let_def intro!: absent.emits_intros absent_exec_or absent_logf split: option.split)

section \<open>Failing before and after a live change\<close>

text \<open>
  The shape of the pipelines' promises: a success has property \<open>good\<close>, and a failure after something
  live was touched has property \<open>rcv\<close> (the recovery ran). A trace is \<open>quiet\<close> when it touches nothing
  live.
\<close>

definition outcome :: "(trace \<Rightarrow> bool) \<Rightarrow> (trace \<Rightarrow> bool) \<Rightarrow> (trace \<Rightarrow> bool) \<Rightarrow> 'a res \<Rightarrow> trace \<Rightarrow> bool" where
  "outcome live rcv good r e =
     (case r of Inr _ \<Rightarrow> good e | Inl _ \<Rightarrow> if live e then rcv e else True)"

locale recovery =
  fixes quiet live rcv good :: "trace \<Rightarrow> bool"
  assumes quiet_live: "quiet a \<Longrightarrow> live (a @ b) \<longleftrightarrow> live b"
    and quiet_alone: "quiet a \<Longrightarrow> \<not> live a"
    and quiet_nil: "quiet []"
    and quiet_log: "quiet [Logged l]"
    and rcv_app: "rcv b \<Longrightarrow> rcv (a @ b)"
    and good_app: "good b \<Longrightarrow> good (a @ b)"
begin

lemma outcome_app: "quiet a \<Longrightarrow> outcome live rcv good r e \<Longrightarrow> outcome live rcv good r (a @ e)"
  by (auto simp: outcome_def quiet_live rcv_app good_app split: sum.splits if_splits)

lemma prelude:
  assumes "emits quiet m" and "\<And>x. does (k x) (outcome live rcv good)"
  shows "does (try_then m k) (outcome live rcv good)"
proof (rule does_try_then, rule does_mono[OF assms(1)[unfolded emits_def]])
  fix r e1 assume n: "quiet e1"
  have "does (k y) (\<lambda>z e2. outcome live rcv good z (e1 @ e2))" for y
    by (rule does_mono[OF assms(2)]) (rule outcome_app[OF n])
  then show "case r of Inl x \<Rightarrow> outcome live rcv good (Inl x) e1
      | Inr y \<Rightarrow> does (k y) (\<lambda>z e2. outcome live rcv good z (e1 @ e2))"
    by (cases r) (simp_all add: outcome_def quiet_alone[OF n])
qed

lemma logged:
  assumes "does m (outcome live rcv good)"
  shows "does (State_Monad.bind (logf l) (\<lambda>_. m)) (outcome live rcv good)"
  by (rule does_bind, rule does_logf, rule does_mono[OF assms]) (rule outcome_app[OF quiet_log])

lemma failed: "does (fail_with e) (outcome live rcv good)"
  by (rule does_fail) (simp add: outcome_def quiet_alone[OF quiet_nil])

lemma guarded:
  "(x = None \<Longrightarrow> does (k ()) (outcome live rcv good)) \<Longrightarrow> does (try_then (guard_err x) k) (outcome live rcv good)"
  by (cases x) (simp_all add: failed)

text \<open>From the first live change on every failure recovers.\<close>

definition live_outcome :: "'a res \<Rightarrow> trace \<Rightarrow> bool" where
  "live_outcome r e = (case r of Inr _ \<Rightarrow> good e | Inl _ \<Rightarrow> rcv e)"

lemma live_outcome: "does m live_outcome \<Longrightarrow> does m (outcome live rcv good)"
  by (erule does_mono) (auto simp: live_outcome_def outcome_def split: sum.splits)

lemma recovering:
  assumes m: "does m Q" and r: "does rc (\<lambda>_ e. rcv e)"
    and k: "\<And>x e1. Q (Inr x) e1 \<Longrightarrow> does (k x) (\<lambda>z e2. live_outcome z (e1 @ e2))"
  shows "does (try_then (or_recover m rc) k) live_outcome"
proof (rule does_try_then, rule does_or_recover, rule does_mono[OF m])
  fix r e1 assume q: "Q r e1"
  show "case r of
      Inl x \<Rightarrow> does rc (\<lambda>_ e2. case Inl x of Inl y \<Rightarrow> live_outcome (Inl y) (e1 @ e2)
        | Inr y \<Rightarrow> does (k y) (\<lambda>z e3. live_outcome z ((e1 @ e2) @ e3)))
    | Inr y \<Rightarrow> (case Inr y of Inl x \<Rightarrow> live_outcome (Inl x) e1
        | Inr y \<Rightarrow> does (k y) (\<lambda>z e2. live_outcome z (e1 @ e2)))"
  proof (cases r)
    case (Inl x)
    show ?thesis
      unfolding Inl by (simp, rule does_mono[OF r]) (simp add: live_outcome_def rcv_app)
  next
    case (Inr y)
    then show ?thesis using k[of y e1] q by simp
  qed
qed

lemma live_app: "does m live_outcome \<Longrightarrow> does m (\<lambda>z e. live_outcome z (a @ e))"
  by (erule does_mono) (auto simp: live_outcome_def rcv_app good_app split: sum.splits)

lemma live_log: "does m live_outcome \<Longrightarrow> does m (\<lambda>z e. live_outcome z (Logged l # e))"
  by (drule live_app[of _ "[Logged l]"]) simp

end

section \<open>The contract of a target\<close>

text \<open>
  What the deployer relies on for any \<open>Target\<close>: both operations only append to the trace, they
  audit every command they run under the job's metadata, they write no secret into the log, the
  audit table or the error they return (twin jobs look alike), and a job whose project id is not a
  valid resource id is refused before anything is run or logged.
\<close>

locale target =
  fixes deploy :: "target_env \<Rightarrow> cmd_ctx \<Rightarrow> deploy_job \<Rightarrow> string res rt"
    and rollback :: "target_env \<Rightarrow> cmd_ctx \<Rightarrow> deploy_job \<Rightarrow> string res rt"
  assumes deploy_audited: "emits (audit_aligned (cx_meta ctx)) (deploy env ctx job)"
    and rollback_audited: "emits (audit_aligned (cx_meta ctx)) (rollback env ctx job)"
    and deploy_discreet: "twin_env env env' (p_git_credential_ref (dj_project job)) \<Longrightarrow> twin_job job job' \<Longrightarrow>
      agree (res_rel (=)) (deploy env ctx job) (deploy env' ctx job')"
    and rollback_discreet: "twin_env env env' (p_git_credential_ref (dj_project job)) \<Longrightarrow> twin_job job job' \<Longrightarrow>
      agree (res_rel (=)) (rollback env ctx job) (rollback env' ctx job')"
    and deploy_bad_id: "validate_project_id (p_id (dj_project job)) = Some e \<Longrightarrow> deploy env ctx job = fail_with e"
    and rollback_bad_id: "validate_project_id (p_id (dj_project job)) = Some e \<Longrightarrow> rollback env ctx job = fail_with e"
begin

definition run_target :: "target_env \<Rightarrow> cmd_ctx \<Rightarrow> deploy_job \<Rightarrow> string res rt" where
  "run_target env ctx job = (if dj_rollback job then rollback env ctx job else deploy env ctx job)"

lemma run_target_audited: "emits (audit_aligned (cx_meta ctx)) (run_target env ctx job)"
  by (simp add: run_target_def deploy_audited rollback_audited)

lemma run_target_discreet:
  assumes "twin_env env env' (p_git_credential_ref (dj_project job))" and "twin_job job job'"
  shows "agree (res_rel (=)) (run_target env ctx job) (run_target env' ctx job')"
proof -
  have "dj_rollback job' = dj_rollback job" using assms(2) by (auto simp: twin_job_def)
  then show ?thesis using assms by (simp add: run_target_def deploy_discreet rollback_discreet)
qed

lemma run_target_appends: "\<exists>ext. snd (run_state (run_target env ctx job) tr) = tr @ ext \<and> audit_aligned (cx_meta ctx) ext"
  using run_target_audited[of ctx env job] unfolding emits_def does_def by blast

lemma run_target_bad_id:
  "validate_project_id (p_id (dj_project job)) = Some e \<Longrightarrow> run_state (run_target env ctx job) tr = (Inl e, tr)"
  by (simp add: run_target_def deploy_bad_id rollback_bad_id fail_with_def State_Monad.return_def)

end

end
