(* ===== verification/Docker.thy ===== *)
theory Docker
  imports Pipeline
begin

text \<open>
  The Docker pipeline (\<open>internal/deployment/docker.go\<close>): a Dockerfile build, the repository's own
  compose file or a prebuilt image, deployed over a shell on a Linux target, and the rollback and
  automatic recovery of each.
\<close>

section \<open>Sources and files\<close>

definition docker_source :: "project \<Rightarrow> string" where
  "docker_source p =
     (if p_source p \<in> {source_compose, source_image, source_dockerfile} then p_source p else source_dockerfile)"

definition docker_workdir :: "target_env \<Rightarrow> project \<Rightarrow> string" where
  "docker_workdir env p = path_join [dc_work_dir (deploy_cfg env), p_id p]"

definition compose_path_of :: "project \<Rightarrow> string" where
  "compose_path_of p = (if p_compose_path p = [] then ''docker-compose.yml'' else p_compose_path p)"

text \<open>\<open>merged[k] = v\<close> over the runtime environment, then over the build environment.\<close>

definition merge_env :: "go_map \<Rightarrow> go_map \<Rightarrow> go_map" where
  "merge_env env benv = foldl (\<lambda>m (k, v). AList.update k v m) [] (env @ benv)"

section \<open>The steps\<close>

definition clone_repo :: "target_env \<Rightarrow> cmd_ctx \<Rightarrow> deploy_job \<Rightarrow> string \<Rightarrow> string \<Rightarrow> string res rt" where
  "clone_repo env ctx job workdir rv =
     (let p = dj_project job in
      if p_repo_url p = [] then fail_with (''project '' @ p_id p @ '' has no repo_url'')
      else try_then (prepare_git_auth env ctx p (path_join [dc_work_dir (deploy_cfg env), p_id p @ ''.gitkey'']) False)
        (\<lambda>auth.
          let opt = git_option_arg auth shell_quote; checkout = git_checkout_ref rv;
              clone = ''mkdir -p '' @ shell_quote workdir @ '' && if [ -d '' @ shell_quote workdir
                @ ''/.git ]; then cd '' @ shell_quote workdir @ '' && git'' @ opt @ '' fetch --all --prune && git'' @ opt
                @ '' checkout --force '' @ shell_quote checkout @ '' --; else git'' @ opt @ '' clone ''
                @ shell_quote (p_repo_url p) @ '' '' @ shell_quote workdir @ '' && cd '' @ shell_quote workdir
                @ '' && git'' @ opt @ '' checkout --force '' @ shell_quote checkout
                @ '' --; fi && git clean -fdx && git rev-parse HEAD''
          in try_then (exec_or (te_host env) (git_ctx ctx auth sync_label) clone
                (''git clone/fetch + checkout '' @ short_sha rv) (err_out ''clone/checkout''))
              (\<lambda>out. succeed (if last_line out \<noteq> [] then last_line out else rv))))"

definition docker_build_cmd :: "project \<Rightarrow> string \<Rightarrow> string \<Rightarrow> string" where
  "docker_build_cmd p workdir tag =
     (let dockerfile = (if p_dockerfile_path p = [] then ''Dockerfile'' else p_dockerfile_path p) in
      ''docker build -t '' @ shell_quote tag @ '' -f '' @ shell_quote (path_join [workdir, dockerfile])
      @ concat (map (\<lambda>k. '' --build-arg '' @ shell_quote (k @ ''='' @ mget (p_build_env p) k)) (sorted_keys (p_build_env p)))
      @ '' '' @ shell_quote workdir)"

definition clone_and_build :: "target_env \<Rightarrow> cmd_ctx \<Rightarrow> deploy_job \<Rightarrow> string \<Rightarrow> string res rt" where
  "clone_and_build env ctx job workdir =
     (let p = dj_project job in
      try_then (clone_repo env ctx job workdir (deploy_revision p (dj_commit job)))
        (\<lambda>rv.
          let tag = image_tag (p_id p) rv;
              build_ctx = (if p_build_env p \<noteq> [] then with_audit_redaction ctx ''docker build (build args redacted)'' else ctx)
          in try_then (exec_or (te_host env) build_ctx (docker_build_cmd p workdir tag) (''docker build -t '' @ tag)
                (err_out ''docker build''))
              (\<lambda>_. succeed tag)))"

definition write_generated_compose :: "target_env \<Rightarrow> cmd_ctx \<Rightarrow> deploy_job \<Rightarrow> string \<Rightarrow> string \<Rightarrow> unit res rt" where
  "write_generated_compose env ctx job workdir img =
     (let encoded = base64_encode (compose_file (dj_project job) img);
          file = path_join [workdir, ''docker-compose.yml''];
          write = ''umask 077; mkdir -p '' @ shell_quote workdir @ '' && echo '' @ encoded @ '' | base64 -d > ''
            @ shell_quote file @ '' && chmod 600 '' @ shell_quote file
      in try_then (exec_or (te_host env) (with_audit_redaction ctx ''write docker-compose.yml (contents redacted)'')
            write ''write docker-compose.yml'' (err_out ''write compose file''))
          (\<lambda>_. succeed ()))"

definition write_env_file :: "target_env \<Rightarrow> cmd_ctx \<Rightarrow> deploy_job \<Rightarrow> string \<Rightarrow> unit res rt" where
  "write_env_file env ctx job workdir =
     (let merged = merge_env (p_env (dj_project job)) (p_build_env (dj_project job));
          file = path_join [workdir, ''.env'']
      in if merged = [] then
           try_then (exec_or (te_host env) (with_audit_redaction ctx ''clear .env (contents redacted)'')
               (''umask 077; : > '' @ shell_quote file @ '' && chmod 600 '' @ shell_quote file)
               ''clear .env'' (err_out ''clear .env''))
             (\<lambda>_. succeed ())
         else
           try_then (exec_or (te_host env) (with_audit_redaction ctx ''write .env (contents redacted)'')
               (''umask 077; echo '' @ base64_encode (env_file_content merged) @ '' | base64 -d > ''
                 @ shell_quote file @ '' && chmod 600 '' @ shell_quote file)
               ''write .env'' (err_out ''write .env''))
             (\<lambda>_. succeed ()))"

definition compose_up_cmd :: "string \<Rightarrow> string" where
  "compose_up_cmd workdir = ''cd '' @ shell_quote workdir @ '' && docker compose -f docker-compose.yml up -d --remove-orphans''"

definition compose_up :: "target_env \<Rightarrow> cmd_ctx \<Rightarrow> string \<Rightarrow> unit res rt" where
  "compose_up env ctx workdir =
     try_then (exec_or (te_host env) ctx (compose_up_cmd workdir) ''docker compose up -d'' (err_out ''compose up''))
       (\<lambda>_. succeed ())"

definition compose_up_repo_cmd :: "string \<Rightarrow> string \<Rightarrow> string" where
  "compose_up_repo_cmd workdir compose_path =
     ''cd '' @ shell_quote workdir @ '' && docker compose -f '' @ shell_quote compose_path @ '' up -d --build --remove-orphans''"

definition compose_up_repo :: "target_env \<Rightarrow> cmd_ctx \<Rightarrow> string \<Rightarrow> string \<Rightarrow> unit res rt" where
  "compose_up_repo env ctx workdir compose_path =
     try_then (exec_or (te_host env) ctx (compose_up_repo_cmd workdir compose_path)
         (''docker compose -f '' @ compose_path @ '' up -d --build'') (err_out ''compose up''))
       (\<lambda>_. succeed ())"

definition diagnose :: "target_env \<Rightarrow> cmd_ctx \<Rightarrow> string \<Rightarrow> string \<Rightarrow> unit rt" where
  "diagnose env ctx workdir compose_path = do {
     _ \<leftarrow> exec_or_log env ctx (''cd '' @ shell_quote workdir @ '' && docker compose -f '' @ shell_quote compose_path @ '' ps'')
            ''compose ps (diagnostics)'' ''diagnostics'';
     exec_or_log env ctx
       (''cd '' @ shell_quote workdir @ '' && docker compose -f '' @ shell_quote compose_path @ '' logs --tail=30 --no-color 2>&1'')
       ''compose logs (diagnostics)'' ''diagnostics'' }"

definition health_cmd :: "health_plan \<Rightarrow> string \<Rightarrow> string" where
  "health_cmd plan url =
     (let start = (if 0 < hp_start_period plan then ''sleep '' @ itoa (hp_start_period plan) @ ''; '' else []) in
      start @ ''last='' @ squo @ squo @ ''; for i in $(seq 1 '' @ itoa (hp_attempts plan) @ ''); do out=$(curl -fsS --max-time ''
      @ itoa (hp_timeout plan) @ '' '' @ shell_quote url @ '' 2>&1) && { echo healthy; exit 0; }; last=\"$out\"; sleep ''
      @ itoa (hp_interval plan) @ ''; done; echo \"health check failed: $last\"; exit 1'')"

definition health_check :: "target_env \<Rightarrow> cmd_ctx \<Rightarrow> deploy_job \<Rightarrow> string \<Rightarrow> string \<Rightarrow> unit res rt" where
  "health_check env ctx job workdir compose_path =
     (let p = dj_project job in
      if p_disable_health_check p then do { _ \<leftarrow> logf ''health check disabled; skipping''; succeed () }
      else if effective_host_port p = 0 then do { _ \<leftarrow> logf ''no port configured; skipping health check''; succeed () }
      else (let url = health_url p in do {
        (out, err) \<leftarrow> exec_cmd (te_host env) ctx (health_cmd (health_plan_for (deploy_cfg env) p) url) (''health check '' @ url);
        case err of
          None \<Rightarrow> succeed ()
        | Some e \<Rightarrow> do {
            _ \<leftarrow> diagnose env ctx workdir compose_path;
            fail_with (''health check failed for '' @ url @ '': '' @ e @ '' (is the app listening on port ''
              @ itoa (effective_host_port p)
              @ '' inside the container? set ports_exposes to the app's port, or a PORT env var)'') } }))"

section \<open>Rollback\<close>

text \<open>Bring a written compose file up and wait for the application to answer.\<close>

definition up_and_check :: "unit res rt \<Rightarrow> unit res rt \<Rightarrow> 'a \<Rightarrow> 'a res rt" where
  "up_and_check up check artifact = try_then up (\<lambda>_. try_then check (\<lambda>_. succeed artifact))"

definition rollback_image :: "target_env \<Rightarrow> cmd_ctx \<Rightarrow> deploy_job \<Rightarrow> string res rt" where
  "rollback_image env ctx job =
     (let img = dj_artifact job; workdir = docker_workdir env (dj_project job) in
      if img = [] then fail_with ''no previous image to roll back to''
      else do {
        _ \<leftarrow> logf (''rollback: reusing image '' @ img @ '' (no rebuild)'');
        try_then (write_generated_compose env ctx job workdir img)
          (\<lambda>_. up_and_check (compose_up env ctx workdir)
             (health_check env ctx job workdir ''docker-compose.yml'') img) })"

definition rollback_compose :: "target_env \<Rightarrow> cmd_ctx \<Rightarrow> deploy_job \<Rightarrow> string res rt" where
  "rollback_compose env ctx job =
     (let rv = dj_commit job; p = dj_project job; workdir = docker_workdir env p; compose_path = compose_path_of p in
      if rv = [] then fail_with ''no previous commit to roll back to''
      else do {
        _ \<leftarrow> logf (''rollback: compose '' @ compose_path @ '' @ '' @ short_sha rv);
        try_then (clone_repo env ctx job workdir rv)
          (\<lambda>resolved. try_then (write_env_file env ctx job workdir)
            (\<lambda>_. up_and_check (compose_up_repo env ctx workdir compose_path)
               (health_check env ctx job workdir compose_path) resolved)) })"

definition docker_rollback :: "target_env \<Rightarrow> cmd_ctx \<Rightarrow> deploy_job \<Rightarrow> string res rt" where
  "docker_rollback env ctx job =
     try_then (guard_err (validate_project_id (p_id (dj_project job))))
       (\<lambda>_. if docker_source (dj_project job) = source_compose then rollback_compose env ctx job
            else rollback_image env ctx job)"

section \<open>Deploy\<close>

definition restore_job :: "deploy_job \<Rightarrow> deploy_job" where
  "restore_job job = job\<lparr>dj_artifact := dj_previous_artifact job, dj_commit := dj_previous_artifact job, dj_rollback := True\<rparr>"

definition restore_previous :: "target_env \<Rightarrow> cmd_ctx \<Rightarrow> deploy_job \<Rightarrow> unit rt" where
  "restore_previous env ctx job =
     (if trim_space (dj_previous_artifact job) = [] then
        logf ''deployment failed and no previous successful artifact is available for automatic recovery''
      else do {
        r \<leftarrow> (if docker_source (dj_project job) = source_compose then rollback_compose env ctx (restore_job job)
             else rollback_image env ctx (restore_job job));
        case r of
          Inl e \<Rightarrow> logf (''WARNING: failed to restore previous successful release: '' @ e)
        | Inr _ \<Rightarrow> logf (''restored previous successful release '' @ dj_previous_artifact job) })"

text \<open>Each of the two live steps, with the recovery that follows its failure.\<close>

definition up_or_restore :: "target_env \<Rightarrow> cmd_ctx \<Rightarrow> deploy_job \<Rightarrow> unit res rt \<Rightarrow> unit res rt \<Rightarrow> string \<Rightarrow> string res rt" where
  "up_or_restore env ctx job up check artifact =
     up_and_check (or_recover up (restore_previous env ctx job)) (or_recover check (restore_previous env ctx job)) artifact"

definition deploy_dockerfile :: "target_env \<Rightarrow> cmd_ctx \<Rightarrow> deploy_job \<Rightarrow> string res rt" where
  "deploy_dockerfile env ctx job =
     (let workdir = docker_workdir env (dj_project job) in do {
        _ \<leftarrow> logf (''docker pipeline: build '' @ p_id (dj_project job));
        try_then (clone_and_build env ctx job workdir)
          (\<lambda>tag. try_then (write_generated_compose env ctx job workdir tag)
            (\<lambda>_. up_or_restore env ctx job (compose_up env ctx workdir)
               (health_check env ctx job workdir ''docker-compose.yml'') tag)) })"

definition deploy_image :: "target_env \<Rightarrow> cmd_ctx \<Rightarrow> deploy_job \<Rightarrow> string res rt" where
  "deploy_image env ctx job =
     (let p = dj_project job; img = trim_space (p_image p); workdir = docker_workdir env p in
      if img = [] then fail_with (''project '' @ p_id p @ '' has no image configured'')
      else if contains_any img ([CHR 0x0D] @ nl @ dquo @ squo @ ''`'') \<or> contains_any img ('' '' @ tab)
      then fail_with (''project '' @ p_id p @ '' has an invalid image reference'')
      else do {
        _ \<leftarrow> logf (''docker pipeline: run image '' @ img);
        try_then (write_generated_compose env ctx job workdir img)
          (\<lambda>_. up_or_restore env ctx job (compose_up env ctx workdir)
             (health_check env ctx job workdir ''docker-compose.yml'') img) })"

definition deploy_compose :: "target_env \<Rightarrow> cmd_ctx \<Rightarrow> deploy_job \<Rightarrow> string res rt" where
  "deploy_compose env ctx job =
     (let p = dj_project job; rv = deploy_revision p (dj_commit job); workdir = docker_workdir env p;
          compose_path = compose_path_of p in do {
        _ \<leftarrow> logf (''docker pipeline: compose '' @ compose_path @ '' @ '' @ short_sha rv);
        try_then (clone_repo env ctx job workdir rv)
          (\<lambda>resolved. try_then (write_env_file env ctx job workdir)
            (\<lambda>_. up_or_restore env ctx job (compose_up_repo env ctx workdir compose_path)
               (health_check env ctx job workdir compose_path) resolved)) })"

definition docker_deploy :: "target_env \<Rightarrow> cmd_ctx \<Rightarrow> deploy_job \<Rightarrow> string res rt" where
  "docker_deploy env ctx job =
     try_then (guard_err (validate_project_id (p_id (dj_project job))))
       (\<lambda>_. if docker_source (dj_project job) = source_image then deploy_image env ctx job
            else if docker_source (dj_project job) = source_compose then deploy_compose env ctx job
            else deploy_dockerfile env ctx job)"

section \<open>The pipeline is a target\<close>

lemmas docker_steps = clone_repo_def clone_and_build_def write_generated_compose_def write_env_file_def
  compose_up_def compose_up_repo_def diagnose_def health_check_def

lemma audit_docker_steps:
  assumes "cx_meta ctx = m"
  shows "emits (audit_aligned m) (clone_repo env ctx job w r)"
    "emits (audit_aligned m) (write_generated_compose env ctx job w i)"
    "emits (audit_aligned m) (write_env_file env ctx job w)"
    "emits (audit_aligned m) (compose_up env ctx w)"
    "emits (audit_aligned m) (compose_up_repo env ctx w cp)"
    "emits (audit_aligned m) (diagnose env ctx w cp)"
  using assms by (auto simp: docker_steps Let_def intro!: audit_intros pipeline_audited)

lemma audit_clone_and_build: "cx_meta ctx = m \<Longrightarrow> emits (audit_aligned m) (clone_and_build env ctx job w)"
  by (auto simp: clone_and_build_def Let_def intro!: audit_intros audit_docker_steps)

lemma audit_health_check: "cx_meta ctx = m \<Longrightarrow> emits (audit_aligned m) (health_check env ctx job w cp)"
  by (auto simp: health_check_def Let_def intro!: audit_intros audit_docker_steps split: option.split)

lemma audit_up_and_check:
  "emits (audit_aligned m) u \<Longrightarrow> emits (audit_aligned m) c \<Longrightarrow> emits (audit_aligned m) (up_and_check u c a)"
  by (auto simp: up_and_check_def intro!: audit_intros)

lemmas docker_audited = audit_docker_steps audit_clone_and_build audit_health_check audit_up_and_check

lemma audit_docker_rollbacks:
  assumes "cx_meta ctx = m"
  shows "emits (audit_aligned m) (rollback_image env ctx job)" "emits (audit_aligned m) (rollback_compose env ctx job)"
  using assms by (auto simp: rollback_image_def rollback_compose_def Let_def intro!: audit_intros docker_audited)

lemma audit_restore_previous: "cx_meta ctx = m \<Longrightarrow> emits (audit_aligned m) (restore_previous env ctx job)"
  by (auto simp: restore_previous_def intro!: audit_intros audit_docker_rollbacks split: sum.split)

lemma audit_up_or_restore:
  "cx_meta ctx = m \<Longrightarrow> emits (audit_aligned m) u \<Longrightarrow> emits (audit_aligned m) c \<Longrightarrow>
     emits (audit_aligned m) (up_or_restore env ctx job u c a)"
  by (auto simp: up_or_restore_def intro!: audit_up_and_check audit_or_recover audit_restore_previous)

lemma docker_deploy_audited: "emits (audit_aligned (cx_meta ctx)) (docker_deploy env ctx job)"
  by (auto simp: docker_deploy_def deploy_dockerfile_def deploy_image_def deploy_compose_def Let_def
      intro!: audit_intros docker_audited audit_up_or_restore)

lemma docker_rollback_audited: "emits (audit_aligned (cx_meta ctx)) (docker_rollback env ctx job)"
  by (auto simp: docker_rollback_def intro!: audit_intros audit_docker_rollbacks)

lemma merge_env_empty: "merge_env e b = [] \<longleftrightarrow> e = [] \<and> b = []"
proof -
  have "foldl (\<lambda>m (k, v). AList.update k v m) m xs = [] \<longleftrightarrow> m = [] \<and> xs = []" for m :: go_map and xs
  proof (induction xs arbitrary: m)
    case Nil
    then show ?case by simp
  next
    case (Cons x xs)
    obtain k v where "x = (k, v)" by fastforce
    moreover have "AList.update k v m \<noteq> []" by (cases m) auto
    ultimately show ?case using Cons by simp
  qed
  then show ?thesis by (simp add: merge_env_def)
qed

lemma agree_clone_repo:
  assumes "twin_env env env' (p_git_credential_ref (dj_project job))" and "twin_job job job'"
  shows "agree (res_rel (=)) (clone_repo env ctx job w rv) (clone_repo env' ctx job' w rv)"
proof -
  obtain e b where j: "job' = job\<lparr>dj_project := (dj_project job)\<lparr>p_env := e, p_build_env := b\<rparr>\<rparr>"
    using assms(2) by (auto simp: twin_job_def)
  note t = twin_envD[OF assms(1)]
  have pre: "agree (res_rel same_auth) (prepare_git_auth env ctx (dj_project job) k False)
      (prepare_git_auth env' ctx (dj_project job\<lparr>p_env := e, p_build_env := b\<rparr>) k False)" for k
    by (rule agree_prepare_git_auth[OF assms(1)]) simp
  show ?thesis
  proof (cases "p_repo_url (dj_project job) = []")
    case True
    then show ?thesis by (simp add: clone_repo_def j agree_fail)
  next
    case False
    then show ?thesis
      by (simp add: clone_repo_def Let_def t j, intro agree_try_then[OF pre] agree_then[OF agree_git_ctx] t(1))
        (auto intro: agree_success)
  qed
qed

lemma agree_docker_writes:
  assumes "twin_env env env' ref" and "twin_job job job'"
  shows "agree (res_rel (=)) (write_generated_compose env ctx job w i) (write_generated_compose env' ctx job' w i)"
    "agree (res_rel (=)) (write_env_file env ctx job w) (write_env_file env' ctx job' w)"
    "agree (res_rel (=)) (compose_up env ctx w) (compose_up env' ctx w)"
    "agree (res_rel (=)) (compose_up_repo env ctx w cp) (compose_up_repo env' ctx w cp)"
    "agree (=) (diagnose env ctx w cp) (diagnose env' ctx w cp)"
proof -
  note t = twin_envD[OF assms(1)]
  have m: "merge_env (p_env (dj_project job')) (p_build_env (dj_project job')) = [] \<longleftrightarrow>
      merge_env (p_env (dj_project job)) (p_build_env (dj_project job)) = []"
    using assms(2) by (auto simp: twin_job_def merge_env_empty)
  show "agree (res_rel (=)) (write_env_file env ctx job w) (write_env_file env' ctx job' w)"
    unfolding write_env_file_def Let_def t m
    by (auto intro!: agree_intros t(1))
qed (auto simp: write_generated_compose_def compose_up_def compose_up_repo_def diagnose_def Let_def
      twin_envD[OF assms(1)] intro!: agree_intros agree_exec_or_log[OF assms(1)])

lemma agree_health_check:
  assumes "twin_env env env' ref" and "twin_job job job'"
  shows "agree (res_rel (=)) (health_check env ctx job w cp) (health_check env' ctx job' w cp)"
proof -
  obtain e b where j: "job' = job\<lparr>dj_project := (dj_project job)\<lparr>p_env := e, p_build_env := b\<rparr>\<rparr>"
    using assms(2) by (auto simp: twin_job_def)
  note t = twin_envD[OF assms(1)]
  show ?thesis
    unfolding health_check_def Let_def t
    by (auto simp: j intro!: agree_intros t(1) agree_docker_writes(5)[OF assms] split: option.split)
qed

lemma agree_up_and_check:
  "agree (res_rel (=)) u u' \<Longrightarrow> agree (res_rel (=)) c c' \<Longrightarrow>
     agree (res_rel (=)) (up_and_check u c a) (up_and_check u' c' a)"
  by (auto simp: up_and_check_def intro!: agree_intros)

lemma agree_clone_and_build:
  assumes "twin_env env env' (p_git_credential_ref (dj_project job))" and "twin_job job job'"
  shows "agree (res_rel (=)) (clone_and_build env ctx job w) (clone_and_build env' ctx job' w)"
proof -
  obtain e b where j: "job' = job\<lparr>dj_project := (dj_project job)\<lparr>p_env := e, p_build_env := b\<rparr>\<rparr>"
    and b: "(b = []) = (p_build_env (dj_project job) = [])"
    using assms(2) by (auto simp: twin_job_def)
  note t = twin_envD[OF assms(1)]
  have r: "deploy_revision (dj_project job') (dj_commit job') = deploy_revision (dj_project job) (dj_commit job)"
    by (simp add: j deploy_revision_def)
  have c: "agree (res_rel (=)) (clone_repo env ctx job w rv) (clone_repo env' ctx job' w rv)" for rv
    by (rule agree_clone_repo[OF assms])
  define bctx where "bctx b = (if b \<noteq> [] then with_audit_redaction ctx ''docker build (build args redacted)'' else ctx)"
    for b :: go_map
  have agree_build: "agree (res_rel (=))
      (exec_or (te_host env) (bctx (p_build_env (dj_project job))) (docker_build_cmd (dj_project job) w tag) lc msg)
      (exec_or (te_host env) (bctx (p_build_env (dj_project job'))) (docker_build_cmd (dj_project job') w tag) lc msg)"
    for tag lc msg
  proof (cases "b = []")
    case True
    then show ?thesis using b by (auto simp: j bctx_def docker_build_cmd_def intro!: agree_exec_or t(1))
  next
    case False
    then show ?thesis using b by (auto simp: j bctx_def intro!: agree_exec_or t(1))
  qed
  have i: "p_id (dj_project job') = p_id (dj_project job)" by (simp add: j)
  show ?thesis
    unfolding clone_and_build_def Let_def t r i bctx_def[symmetric]
    by (rule agree_then[OF c], rule agree_then[OF agree_build]) (rule agree_success)
qed

lemma agree_docker_rollbacks:
  assumes "twin_env env env' (p_git_credential_ref (dj_project job))" and "twin_job job job'"
  shows "agree (res_rel (=)) (rollback_image env ctx job) (rollback_image env' ctx job')"
    "agree (res_rel (=)) (rollback_compose env ctx job) (rollback_compose env' ctx job')"
proof -
  obtain e b where j: "job' = job\<lparr>dj_project := (dj_project job)\<lparr>p_env := e, p_build_env := b\<rparr>\<rparr>"
    using assms(2) by (auto simp: twin_job_def)
  have w: "docker_workdir env' (dj_project job') = docker_workdir env (dj_project job)"
    "compose_path_of (dj_project job') = compose_path_of (dj_project job)"
    "dj_artifact job' = dj_artifact job" "dj_commit job' = dj_commit job"
    by (simp_all add: j docker_workdir_def twin_envD[OF assms(1)] compose_path_of_def)
  show "agree (res_rel (=)) (rollback_image env ctx job) (rollback_image env' ctx job')"
    unfolding rollback_image_def Let_def w
    by (auto intro!: agree_intros agree_up_and_check agree_docker_writes[OF assms] agree_health_check[OF assms])
  show "agree (res_rel (=)) (rollback_compose env ctx job) (rollback_compose env' ctx job')"
    unfolding rollback_compose_def Let_def w
    by (auto intro!: agree_intros agree_up_and_check agree_docker_writes[OF assms] agree_health_check[OF assms]
        agree_clone_repo[OF assms])
qed

lemma twin_restore_job: "twin_job job job' \<Longrightarrow> twin_job (restore_job job) (restore_job job')"
proof -
  assume "twin_job job job'"
  then obtain e b where j: "job' = job\<lparr>dj_project := (dj_project job)\<lparr>p_env := e, p_build_env := b\<rparr>\<rparr>"
    and eb: "(e = []) = (p_env (dj_project job) = [])" "(b = []) = (p_build_env (dj_project job) = [])"
    by (auto simp: twin_job_def)
  have "restore_job job' = (restore_job job)\<lparr>dj_project := (dj_project (restore_job job))\<lparr>p_env := e, p_build_env := b\<rparr>\<rparr>"
    by (cases job) (simp add: j restore_job_def)
  moreover have "dj_project (restore_job job) = dj_project job" by (simp add: restore_job_def)
  ultimately show "twin_job (restore_job job) (restore_job job')"
    unfolding twin_job_def using eb by metis
qed

lemma twin_job_same:
  assumes "twin_job job job'"
  shows "p_id (dj_project job') = p_id (dj_project job)" "p_source (dj_project job') = p_source (dj_project job)"
    "docker_source (dj_project job') = docker_source (dj_project job)"
    "dj_previous_artifact job' = dj_previous_artifact job" "dj_artifact job' = dj_artifact job"
    "dj_commit job' = dj_commit job" "dj_server job' = dj_server job" "p_image (dj_project job') = p_image (dj_project job)"
    "compose_path_of (dj_project job') = compose_path_of (dj_project job)"
    "deploy_revision (dj_project job') c = deploy_revision (dj_project job) c"
    "p_git_credential_ref (dj_project (restore_job job)) = p_git_credential_ref (dj_project job)"
  using assms by (auto simp: twin_job_def docker_source_def compose_path_of_def deploy_revision_def restore_job_def)

lemma agree_restore_previous:
  assumes "twin_env env env' (p_git_credential_ref (dj_project job))" and "twin_job job job'"
  shows "agree (=) (restore_previous env ctx job) (restore_previous env' ctx job')"
proof -
  have "twin_env env env' (p_git_credential_ref (dj_project (restore_job job)))"
    using assms by (simp add: twin_job_same)
  note r = agree_docker_rollbacks[OF this twin_restore_job[OF assms(2)], unfolded agree_def res_rel_eq]
  show ?thesis
    unfolding restore_previous_def twin_job_same[OF assms(2)]
    by (auto simp: agree_def[of "(=)" "rollback_image _ _ _"] agree_def[of "(=)" "rollback_compose _ _ _"] r
        split: sum.split intro!: agree_intros)
qed

lemma agree_up_or_restore:
  assumes "twin_env env env' (p_git_credential_ref (dj_project job))" and "twin_job job job'"
    and "agree (res_rel (=)) u u'" and "agree (res_rel (=)) c c'"
  shows "agree (res_rel (=)) (up_or_restore env ctx job u c a) (up_or_restore env' ctx job' u' c' a)"
  unfolding up_or_restore_def
  by (intro agree_up_and_check agree_or_recover assms agree_restore_previous)

lemma agree_docker_deploys:
  assumes "twin_env env env' (p_git_credential_ref (dj_project job))" and "twin_job job job'"
  shows "agree (res_rel (=)) (deploy_dockerfile env ctx job) (deploy_dockerfile env' ctx job')"
    "agree (res_rel (=)) (deploy_image env ctx job) (deploy_image env' ctx job')"
    "agree (res_rel (=)) (deploy_compose env ctx job) (deploy_compose env' ctx job')"
proof -
  have w: "docker_workdir env' (dj_project job') = docker_workdir env (dj_project job)"
    using assms by (simp add: docker_workdir_def twin_job_same twin_envD)
  note r = twin_job_same[OF assms(2)] w
  note a = agree_up_or_restore[OF assms] agree_docker_writes[OF assms] agree_health_check[OF assms]
    agree_clone_repo[OF assms] agree_clone_and_build[OF assms]
  show "agree (res_rel (=)) (deploy_dockerfile env ctx job) (deploy_dockerfile env' ctx job')"
    unfolding deploy_dockerfile_def Let_def r by (intro agree_intros a)
  show "agree (res_rel (=)) (deploy_image env ctx job) (deploy_image env' ctx job')"
    unfolding deploy_image_def Let_def r by (auto intro!: agree_intros a)
  show "agree (res_rel (=)) (deploy_compose env ctx job) (deploy_compose env' ctx job')"
    unfolding deploy_compose_def Let_def r by (intro agree_intros a)
qed

interpretation docker: target docker_deploy docker_rollback
proof
  fix env env' ctx job job'
  assume a: "twin_env env env' (p_git_credential_ref (dj_project job))" "twin_job job job'"
  show "agree (res_rel (=)) (docker_deploy env ctx job) (docker_deploy env' ctx job')"
    unfolding docker_deploy_def twin_job_same[OF a(2)]
    by (auto intro!: agree_then agree_guard agree_docker_deploys[OF a])
  show "agree (res_rel (=)) (docker_rollback env ctx job) (docker_rollback env' ctx job')"
    unfolding docker_rollback_def twin_job_same[OF a(2)]
    by (auto intro!: agree_then agree_guard agree_docker_rollbacks[OF a])
qed (rule docker_deploy_audited docker_rollback_audited | simp add: docker_deploy_def docker_rollback_def)+

section \<open>A failed release is recovered, a successful one was checked\<close>

definition live_cmd :: "target_env \<Rightarrow> deploy_job \<Rightarrow> string" where
  "live_cmd env job =
     (if docker_source (dj_project job) = source_compose
      then compose_up_repo_cmd (docker_workdir env (dj_project job)) (compose_path_of (dj_project job))
      else compose_up_cmd (docker_workdir env (dj_project job)))"

definition recovery_logged :: "deploy_job \<Rightarrow> event \<Rightarrow> bool" where
  "recovery_logged job ev =
     (if trim_space (dj_previous_artifact job) = []
      then ev = Logged ''deployment failed and no previous successful artifact is available for automatic recovery''
      else ev = Logged (''restored previous successful release '' @ dj_previous_artifact job)
        \<or> (\<exists>w. ev = Logged (''WARNING: failed to restore previous successful release: '' @ w)))"

definition recovered :: "deploy_job \<Rightarrow> trace \<Rightarrow> bool" where
  "recovered job e \<longleftrightarrow> e \<noteq> [] \<and> recovery_logged job (last e)"

definition healthy :: "target_env \<Rightarrow> deploy_job \<Rightarrow> trace \<Rightarrow> bool" where
  "healthy env job e \<longleftrightarrow> p_disable_health_check (dj_project job) \<or> effective_host_port (dj_project job) = 0
     \<or> ran_ok (health_cmd (health_plan_for (deploy_cfg env) (dj_project job)) (health_url (dj_project job))) e"

definition no_cd :: "trace \<Rightarrow> bool" where
  "no_cd e \<longleftrightarrow> (\<forall>ev \<in> set e. case ev of Ran c _ _ \<Rightarrow> \<not> prefix ''cd '' c | _ \<Rightarrow> True)"

interpretation nocd: trace_closed no_cd
  by unfold_locales (auto simp: no_cd_def)

lemma nocd_logf: "emits no_cd (logf l)"
  unfolding logf_def by (rule nocd.emits_emit) (simp add: no_cd_def)

lemma nocd_exec_or: "\<not> prefix ''cd '' c \<Longrightarrow> emits no_cd (exec_or host ctx c lc msg)"
  by (rule nocd.emits_exec_or) (auto simp: no_cd_def)

lemma nocd_git_auth: "emits no_cd (prepare_git_auth env ctx p k False)"
  by (auto simp: prepare_git_auth_def upload_secret_file_def secret_file_script_def Let_def
      intro!: nocd.emits_intros nocd_exec_or split: option.split sum.split)

lemma nocd_steps:
  "emits no_cd (clone_repo env ctx job w rv)"
  "emits no_cd (write_generated_compose env ctx job w i)"
  "emits no_cd (write_env_file env ctx job w)"
  by (auto simp: clone_repo_def write_generated_compose_def write_env_file_def Let_def
      intro!: nocd.emits_intros nocd_exec_or nocd_git_auth)

lemma nocd_clone_and_build: "emits no_cd (clone_and_build env ctx job w)"
  by (auto simp: clone_and_build_def docker_build_cmd_def Let_def
      intro!: nocd.emits_intros nocd_exec_or nocd_steps)

lemma live_cmd_cd: "no_cd e \<Longrightarrow> \<not> did_run (live_cmd env job) e"
proof
  assume n: "no_cd e" and "did_run (live_cmd env job) e"
  then obtain out err where "Ran (live_cmd env job) out err \<in> set e" by (auto simp: did_run_def)
  with n have "\<not> prefix ''cd '' (live_cmd env job)" by (force simp: no_cd_def)
  then show False by (simp add: live_cmd_def compose_up_cmd_def compose_up_repo_cmd_def split: if_splits)
qed

lemma does_any:
  "does (rollback_image env ctx job) (\<lambda>_ _. True)" "does (rollback_compose env ctx job) (\<lambda>_ _. True)"
  using audit_docker_rollbacks[OF refl, of ctx env job] unfolding emits_def by (auto elim: does_mono)

lemma restore_previous_logs: "does (restore_previous env ctx job) (\<lambda>_ e. recovered job e)"
  unfolding restore_previous_def
  by (auto intro!: rt_intros does_mono[OF does_any(1)] does_mono[OF does_any(2)] split: sum.split
      simp: recovered_def recovery_logged_def)

lemma up_or_restore_outcome:
  assumes up: "does u (\<lambda>r e. r = Inr () \<longrightarrow> U e)" and check: "does c (\<lambda>r e. r = Inr () \<longrightarrow> H e)"
  shows "does (up_or_restore env ctx job u c a) (\<lambda>r e. case r of
      Inl _ \<Rightarrow> recovered job e
    | Inr b \<Rightarrow> b = a \<and> (\<exists>e1 e2. e = e1 @ e2 \<and> U e1 \<and> H e2))"
proof -
  have r: "recovered job (x @ y)" if "recovered job y" for x y
    using that by (auto simp: recovered_def)
  show ?thesis
    unfolding up_or_restore_def up_and_check_def
    by (intro does_try_then does_or_recover, rule does_mono[OF up])
      (auto split: sum.splits intro!: rt_intros does_or_recover does_mono[OF check]
        does_mono[OF restore_previous_logs] r, blast)
qed

lemma compose_up_ok:
  "does (compose_up env ctx w) (\<lambda>r e. r = Inr () \<longrightarrow> ran_ok (compose_up_cmd w) e)"
  "does (compose_up_repo env ctx w cp) (\<lambda>r e. r = Inr () \<longrightarrow> ran_ok (compose_up_repo_cmd w cp) e)"
  by (auto simp: compose_up_def compose_up_repo_def intro!: rt_intros does_exec_or)

lemma does_true: "does (diagnose env ctx w cp) (\<lambda>_ _. True)"
  using audit_docker_steps(6)[OF refl, of ctx env w cp] unfolding emits_def by (auto elim: does_mono)

lemma health_check_ok: "does (health_check env ctx job w cp) (\<lambda>r e. r = Inr () \<longrightarrow> healthy env job e)"
  unfolding health_check_def Let_def
  by (auto simp: healthy_def split: option.split
      intro!: rt_intros does_exec_cmd does_mono[OF does_true])

text \<open>What a deploy that reported success has seen: its own compose command and health check succeed.\<close>

definition released :: "target_env \<Rightarrow> deploy_job \<Rightarrow> trace \<Rightarrow> bool" where
  "released env job e \<longleftrightarrow> ran_ok (live_cmd env job) e \<and> healthy env job e"

lemma released_append: "released env job b \<Longrightarrow> released env job (a @ b)"
  by (auto simp: released_def healthy_def)

interpretation docker_recovery: recovery no_cd "did_run (live_cmd env job)" "recovered job" "released env job"
  for env job
  by unfold_locales (auto simp: live_cmd_cd recovered_def released_append, auto simp: no_cd_def)

lemma last_steps:
  assumes "does u (\<lambda>r e. r = Inr () \<longrightarrow> ran_ok (live_cmd env job) e)"
  shows "does (up_or_restore env ctx job u (health_check env ctx job w cp) a)
    (outcome (did_run (live_cmd env job)) (recovered job) (released env job))"
  by (rule does_mono[OF up_or_restore_outcome[OF assms health_check_ok]])
    (auto split: sum.splits simp: released_def healthy_def outcome_def)

lemma live_up:
  "docker_source (dj_project job) \<noteq> source_compose \<Longrightarrow>
    does (compose_up env ctx (docker_workdir env (dj_project job))) (\<lambda>r e. r = Inr () \<longrightarrow> ran_ok (live_cmd env job) e)"
  "docker_source (dj_project job) = source_compose \<Longrightarrow>
    does (compose_up_repo env ctx (docker_workdir env (dj_project job)) (compose_path_of (dj_project job)))
      (\<lambda>r e. r = Inr () \<longrightarrow> ran_ok (live_cmd env job) e)"
  by (auto simp: live_cmd_def compose_up_ok)

lemmas docker_outcomes = does_if docker_recovery.logged docker_recovery.prelude docker_recovery.failed nocd_steps
  nocd_clone_and_build last_steps live_up

lemma docker_deploys_outcome:
  "docker_source (dj_project job) \<noteq> source_compose \<Longrightarrow>
     does (deploy_image env ctx job) (outcome (did_run (live_cmd env job)) (recovered job) (released env job))"
  "docker_source (dj_project job) = source_compose \<Longrightarrow>
     does (deploy_compose env ctx job) (outcome (did_run (live_cmd env job)) (recovered job) (released env job))"
  "docker_source (dj_project job) \<noteq> source_compose \<Longrightarrow>
     does (deploy_dockerfile env ctx job) (outcome (did_run (live_cmd env job)) (recovered job) (released env job))"
  unfolding deploy_image_def deploy_compose_def deploy_dockerfile_def Let_def
  by (intro docker_outcomes; assumption)+

text \<open>
  C10: a Docker deploy, from any earlier history and against any target: if it reports success, its
  compose command succeeded and, unless health checks are disabled or no port is configured, so did
  its health check; if it fails after the compose command was sent to the target, the last thing
  in its log is the outcome of the automatic recovery of the previous release.
\<close>

theorem docker_deploy_outcome:
  "does (docker_deploy env ctx job) (\<lambda>r e. case r of
      Inr _ \<Rightarrow> released env job e
    | Inl _ \<Rightarrow> if did_run (live_cmd env job) e then recovered job e else True)"
proof -
  have "does (docker_deploy env ctx job) (outcome (did_run (live_cmd env job)) (recovered job) (released env job))"
    unfolding docker_deploy_def
    by (intro docker_recovery.guarded does_if docker_deploys_outcome) (auto simp: config_consts)
  then show ?thesis by (rule does_mono) (auto simp: outcome_def split: sum.splits if_splits)
qed

end
