(* ===== verification/IIS.thy ===== *)
theory IIS
  imports Pipeline
begin

text \<open>
  The IIS pipeline (\<open>internal/deployment/iis.go\<close>): synchronise, build, ensure the site, validate, then
  either replace the live directory (stop, backup, copy, start, smoke test, with recovery) or swap
  blue-green slots.
\<close>

section \<open>Synchronising and building on a Windows target\<close>

definition repo_dir_of :: "target_env \<Rightarrow> project \<Rightarrow> string" where
  "repo_dir_of env p = win_path [dc_iis_work_dir (deploy_cfg env), p_id p]"

definition sync_repo :: "target_env \<Rightarrow> cmd_ctx \<Rightarrow> deploy_job \<Rightarrow> unit res rt" where
  "sync_repo env ctx job =
     (let p = dj_project job; rv = deploy_revision p (dj_commit job) in
      try_then (prepare_git_auth env ctx p (win_path [dc_iis_work_dir (deploy_cfg env), p_id p @ ''.gitkey'']) True)
        (\<lambda>auth. try_then
          (exec_or (te_host env) (git_ctx ctx auth sync_label)
             (sync_repo_script (repo_dir_of env p) (p_repo_url p) rv auth)
             (''git clone/fetch + checkout '' @ short_sha rv) (err_only ''clone/checkout''))
          (\<lambda>_. succeed ())))"

definition run_build :: "target_env \<Rightarrow> cmd_ctx \<Rightarrow> project \<Rightarrow> string \<Rightarrow> string \<Rightarrow> unit res rt" where
  "run_build env ctx p what cmd =
     (if cmd = [] then succeed ()
      else (let build_ctx = (if p_build_env p \<noteq> [] then with_audit_redaction ctx (what @ '' (build env redacted)'') else ctx)
        in try_then (exec_or (te_host env) build_ctx (build_script (repo_dir_of env p) cmd (p_build_env p)) what (err_only ''build''))
             (\<lambda>_. succeed ())))"

text \<open>An \<open>execCmd\<close> whose output is not used.\<close>

definition run_step :: "target_env \<Rightarrow> cmd_ctx \<Rightarrow> string \<Rightarrow> string \<Rightarrow> string \<Rightarrow> unit res rt" where
  "run_step env ctx cmd log_cmd what =
     try_then (exec_or (te_host env) ctx cmd log_cmd (err_only what)) (\<lambda>_. succeed ())"

section \<open>Replacing the live directory\<close>

definition source_of :: "string \<Rightarrow> string" where
  "source_of subdir = (if subdir = [] then ''.'' else subdir)"

definition iis_recover_live :: "target_env \<Rightarrow> cmd_ctx \<Rightarrow> project \<Rightarrow> string \<Rightarrow> unit rt" where
  "iis_recover_live env ctx p backup = do {
     _ \<leftarrow> (if backup \<noteq> [] \<and> backup \<noteq> ''NO_BACKUP''
          then exec_or_log env ctx (copy_script backup (p_iis_physical_path p) ''restore after failed deploy'')
            ''restore previous release'' ''recovery: restore previous release failed''
          else State_Monad.return ());
     exec_or_log env ctx (start_script (p_iis_app_pool p) (p_iis_service p)) ''restart after failed deploy''
       ''recovery: restart failed'' }"

text \<open>The backup a first deployment does not have is the empty string.\<close>

definition note_backup :: "string \<Rightarrow> string res rt" where
  "note_backup backup =
     (if backup = ''NO_BACKUP''
      then do { _ \<leftarrow> logf ''no previous live files; rollback is not available for this first deployment''; succeed [] }
      else do { _ \<leftarrow> logf (''backup created: '' @ backup); succeed backup })"

definition iis_replace :: "target_env \<Rightarrow> cmd_ctx \<Rightarrow> project \<Rightarrow> string \<Rightarrow> string \<Rightarrow> string res rt" where
  "iis_replace env ctx p repo_dir source =
     (let recover = iis_recover_live env ctx p; physical = p_iis_physical_path p in
      try_then (or_recover (run_step env ctx (stop_script (p_iis_app_pool p) (p_iis_service p)) ''stop service/app pool'' ''stop'')
          (recover []))
        (\<lambda>_. try_then (or_recover (exec_or (te_host env) ctx
              (backup_script physical (dc_iis_backup_dir (deploy_cfg env)) (p_id p)) ''backup live files'' (err_only ''backup''))
            (recover []))
          (\<lambda>out. try_then (note_backup (last_line out))
            (\<lambda>backup. try_then (or_recover
                (run_step env ctx (copy_script (win_path [repo_dir, source]) physical ''deploy'') ''deploy files'' ''deploy files'')
                (recover backup))
              (\<lambda>_. try_then (or_recover
                  (run_step env ctx (start_script (p_iis_app_pool p) (p_iis_service p)) ''start service/recycle app pool'' ''start'')
                  (recover backup))
                (\<lambda>_. try_then (or_recover (smoke_test env ctx p) (recover backup))
                  (\<lambda>_. succeed backup)))))))"

section \<open>Blue-green slots\<close>

definition blue_green_marker_path :: "string \<Rightarrow> string" where
  "blue_green_marker_path physical = physical @ ''.active''"

definition blue_green_slot_b :: "string \<Rightarrow> string" where
  "blue_green_slot_b physical = physical @ ''.blue''"

definition blue_green_inactive :: "string \<Rightarrow> string \<Rightarrow> string" where
  "blue_green_inactive physical active =
     (if active = [] \<or> active = blue_green_slot_b physical then physical else blue_green_slot_b physical)"

definition swap_cmd :: "project \<Rightarrow> string \<Rightarrow> string" where
  "swap_cmd p slot = blue_green_swap_script (site_name p) (p_iis_app_pool p) (p_iis_service p) slot
     (blue_green_marker_path (p_iis_physical_path p))"

definition swap_back :: "target_env \<Rightarrow> cmd_ctx \<Rightarrow> project \<Rightarrow> string \<Rightarrow> unit rt" where
  "swap_back env ctx p active =
     (if active = [] then State_Monad.return ()
      else exec_or_log env ctx (swap_cmd p active) ''restore previous slot'' ''recovery: restore previous slot failed'')"

definition read_active_slot :: "target_env \<Rightarrow> cmd_ctx \<Rightarrow> project \<Rightarrow> string res rt" where
  "read_active_slot env ctx p =
     exec_or (te_host env) ctx
       (blue_green_active_script (p_iis_physical_path p) (blue_green_marker_path (p_iis_physical_path p)))
       ''read active slot'' (err_only ''read active slot'')"

definition iis_deploy_blue_green :: "target_env \<Rightarrow> cmd_ctx \<Rightarrow> project \<Rightarrow> string \<Rightarrow> string \<Rightarrow> string res rt" where
  "iis_deploy_blue_green env ctx p repo_dir source =
     try_then (read_active_slot env ctx p)
       (\<lambda>out. let active = last_line out; slot = blue_green_inactive (p_iis_physical_path p) active in do {
          _ \<leftarrow> logf (''blue-green: active='' @ quote active @ '' target='' @ quote slot);
          try_then (run_step env ctx (copy_script (win_path [repo_dir, source]) slot ''deploy to slot'') ''copy build to slot'' ''copy to slot'')
            (\<lambda>_. try_then (run_step env ctx (validate_dir_script slot (p_iis_app_pool p) (p_iis_service p)) ''validate slot''
                ''slot validation failed'')
              (\<lambda>_. try_then (or_recover (run_step env ctx (swap_cmd p slot) ''swap slot'' ''swap slot'') (swap_back env ctx p active))
                (\<lambda>_. try_then (or_recover (smoke_test env ctx p) (swap_back env ctx p active))
                  (\<lambda>_. succeed slot)))) })"

definition iis_rollback_blue_green :: "target_env \<Rightarrow> cmd_ctx \<Rightarrow> project \<Rightarrow> string res rt" where
  "iis_rollback_blue_green env ctx p =
     try_then (read_active_slot env ctx p)
       (\<lambda>out. let active = last_line out; other = blue_green_inactive (p_iis_physical_path p) active in
          if active = [] then fail_with (''no active slot recorded for '' @ p_id p @ ''; nothing to roll back to'')
          else do {
            _ \<leftarrow> logf (''blue-green rollback: '' @ active @ '' -> '' @ other);
            try_then (run_step env ctx (swap_cmd p other) ''swap back'' ''swap back'')
              (\<lambda>_. try_then (or_recover (smoke_test env ctx p) (swap_back env ctx p active))
                (\<lambda>_. succeed other)) })"

section \<open>Deploy and Rollback\<close>

definition iis_validate_cmd :: "target_env \<Rightarrow> project \<Rightarrow> string" where
  "iis_validate_cmd env p = validate_script (repo_dir_of env p) (source_of (p_iis_source_subdir p))
     (p_iis_app_pool p) (p_iis_service p)"

text \<open>The steps up to the validation of the new build.\<close>

definition iis_prepare :: "target_env \<Rightarrow> cmd_ctx \<Rightarrow> deploy_job \<Rightarrow> unit res rt" where
  "iis_prepare env ctx job =
     (let p = dj_project job in
      try_then (sync_repo env ctx job)
        (\<lambda>_. try_then (ensure_runtime env ctx (p_runtime p))
          (\<lambda>_. try_then (run_build env ctx p ''iis build command'' (p_iis_build_command p))
            (\<lambda>_. try_then (run_step env ctx (ensure_iis_script p) ''ensure IIS site/app pool'' ''ensure IIS site'')
              (\<lambda>_. run_step env ctx (iis_validate_cmd env p) ''validate configuration'' ''validation failed'')))))"

definition iis_guards :: "target_env \<Rightarrow> deploy_job \<Rightarrow> unit res rt" where
  "iis_guards env job =
     (let p = dj_project job in
      try_then (guard_err (validate_project_id (p_id p)))
        (\<lambda>_. try_then (guard_err (validate_target_project_paths (deploy_cfg env) p (dj_server job)))
          (\<lambda>_. if p_iis_physical_path p = [] then fail_with (''project '' @ p_id p @ '' has no iis_physical_path'')
               else succeed ())))"

definition iis_deploy :: "target_env \<Rightarrow> cmd_ctx \<Rightarrow> deploy_job \<Rightarrow> string res rt" where
  "iis_deploy env ctx job =
     (let p = dj_project job; source = source_of (p_iis_source_subdir p); repo_dir = repo_dir_of env p in
      try_then (iis_guards env job)
        (\<lambda>_. if p_iis_app_pool p = [] then fail_with (''project '' @ p_id p @ '' has no iis_app_pool'')
          else do {
            _ \<leftarrow> logf (''iis pipeline: repo='' @ repo_dir @ '' source='' @ source @ '' physical='' @ p_iis_physical_path p
              @ '' pool='' @ p_iis_app_pool p);
            try_then (iis_prepare env ctx job)
              (\<lambda>_. if p_iis_blue_green p then iis_deploy_blue_green env ctx p repo_dir source
                   else iis_replace env ctx p repo_dir source) }))"

definition iis_restore :: "target_env \<Rightarrow> cmd_ctx \<Rightarrow> project \<Rightarrow> string res rt" where
  "iis_restore env ctx p =
     try_then (exec_or (te_host env) ctx (latest_backup_script (dc_iis_backup_dir (deploy_cfg env)) (p_id p))
         ''find latest backup'' (err_only ''find backup''))
       (\<lambda>out. let backup = last_line out; recover = iis_recover_live env ctx p backup in
          if backup = [] then fail_with (''no backup found for project '' @ p_id p)
          else do {
            _ \<leftarrow> logf (''rollback: restoring '' @ backup);
            try_then (or_recover (run_step env ctx (stop_script (p_iis_app_pool p) (p_iis_service p)) ''stop service/app pool'' ''stop'') recover)
              (\<lambda>_. try_then (or_recover (run_step env ctx (copy_script backup (p_iis_physical_path p) ''restore backup'')
                    ''restore backup'' ''restore backup'') recover)
                (\<lambda>_. try_then (or_recover (run_step env ctx (start_script (p_iis_app_pool p) (p_iis_service p))
                      ''start service/recycle app pool'' ''start'') recover)
                  (\<lambda>_. try_then (or_recover (smoke_test env ctx p) recover) (\<lambda>_. succeed backup)))) })"

definition iis_rollback :: "target_env \<Rightarrow> cmd_ctx \<Rightarrow> deploy_job \<Rightarrow> string res rt" where
  "iis_rollback env ctx job =
     try_then (iis_guards env job)
       (\<lambda>_. if p_iis_blue_green (dj_project job) then iis_rollback_blue_green env ctx (dj_project job)
            else iis_restore env ctx (dj_project job))"

section \<open>The pipeline is a target\<close>

lemma audit_run_step: "cx_meta ctx = m \<Longrightarrow> emits (audit_aligned m) (run_step env ctx c l w)"
  by (auto simp: run_step_def intro!: audit_intros)

lemma audit_sync_repo: "cx_meta ctx = m \<Longrightarrow> emits (audit_aligned m) (sync_repo env ctx job)"
  by (auto simp: sync_repo_def Let_def intro!: audit_intros pipeline_audited)

lemma audit_run_build: "cx_meta ctx = m \<Longrightarrow> emits (audit_aligned m) (run_build env ctx p w c)"
  by (auto simp: run_build_def Let_def intro!: audit_intros)

lemma audit_note_backup: "emits (audit_aligned m) (note_backup b)"
  by (auto simp: note_backup_def intro!: audit_intros)

lemmas windows_audited = audit_run_step audit_sync_repo audit_run_build audit_note_backup pipeline_audited

lemma audit_iis_recover: "cx_meta ctx = m \<Longrightarrow> emits (audit_aligned m) (iis_recover_live env ctx p b)"
  by (auto simp: iis_recover_live_def intro!: audit_intros windows_audited)

lemma audit_swap_back: "cx_meta ctx = m \<Longrightarrow> emits (audit_aligned m) (swap_back env ctx p a)"
  by (auto simp: swap_back_def intro!: audit_intros windows_audited)

lemma audit_iis_live:
  assumes "cx_meta ctx = m"
  shows "emits (audit_aligned m) (iis_replace env ctx p r s)"
    "emits (audit_aligned m) (iis_deploy_blue_green env ctx p r s)"
    "emits (audit_aligned m) (iis_rollback_blue_green env ctx p)"
    "emits (audit_aligned m) (iis_restore env ctx p)"
    "emits (audit_aligned m) (iis_prepare env ctx job)"
    "emits (audit_aligned m) (iis_guards env job)"
  using assms
  by (auto simp: iis_replace_def iis_deploy_blue_green_def iis_rollback_blue_green_def iis_restore_def
      iis_prepare_def iis_guards_def read_active_slot_def Let_def
      intro!: audit_intros windows_audited audit_iis_recover audit_swap_back)

lemma iis_audited:
  "emits (audit_aligned (cx_meta ctx)) (iis_deploy env ctx job)"
  "emits (audit_aligned (cx_meta ctx)) (iis_rollback env ctx job)"
  by (auto simp: iis_deploy_def iis_rollback_def Let_def intro!: audit_intros audit_iis_live)

lemma agree_run_step:
  "twin_env env env' ref \<Longrightarrow> c = c' \<Longrightarrow> agree (res_rel (=)) (run_step env ctx c l w) (run_step env' ctx c' l w)"
  by (auto simp: run_step_def twin_envD intro!: agree_intros)

lemma agree_note_backup: "agree (res_rel (=)) (note_backup b) (note_backup b)"
  by (auto simp: note_backup_def intro!: agree_intros)

lemma agree_sync_repo:
  assumes "twin_env env env' (p_git_credential_ref (dj_project job))" and "twin_job job job'"
  shows "agree (res_rel (=)) (sync_repo env ctx job) (sync_repo env' ctx job')"
proof -
  obtain e b where j: "job' = job\<lparr>dj_project := (dj_project job)\<lparr>p_env := e, p_build_env := b\<rparr>\<rparr>"
    using assms(2) by (auto simp: twin_job_def)
  note t = twin_envD[OF assms(1)]
  have pre: "agree (res_rel same_auth) (prepare_git_auth env ctx (dj_project job) k True)
      (prepare_git_auth env' ctx (dj_project job\<lparr>p_env := e, p_build_env := b\<rparr>) k True)" for k
    by (rule agree_prepare_git_auth[OF assms(1)]) simp
  show ?thesis
    by (simp add: sync_repo_def Let_def t j repo_dir_of_def deploy_revision_def,
        intro conjI impI agree_try_then[OF pre] agree_then[OF agree_git_ctx] t(1)) (auto intro: agree_success)
qed

lemma agree_run_build:
  assumes "twin_env env env' ref" and "(b = []) = (p_build_env p = [])"
  shows "agree (res_rel (=)) (run_build env ctx p w c) (run_build env' ctx (p\<lparr>p_env := e, p_build_env := b\<rparr>) w c)"
  using assms(2)
  by (cases "b = []") (auto simp: run_build_def Let_def repo_dir_of_def twin_envD[OF assms(1)] intro!: agree_intros)

lemmas windows_agree = agree_run_step agree_ensure_runtime agree_smoke_test agree_exec_or_log

text \<open>Scripts and values that do not read the environment maps.\<close>

lemma iis_env [simp]:
  "ensure_iis_script (p\<lparr>p_env := e, p_build_env := b\<rparr>) = ensure_iis_script p"
  "iis_validate_cmd env (p\<lparr>p_env := e, p_build_env := b\<rparr>) = iis_validate_cmd env p"
  "swap_cmd (p\<lparr>p_env := e, p_build_env := b\<rparr>) slot = swap_cmd p slot"
  "repo_dir_of env (p\<lparr>p_env := e, p_build_env := b\<rparr>) = repo_dir_of env p"
  "validate_target_project_paths cfg (p\<lparr>p_env := e, p_build_env := b\<rparr>) srv = validate_target_project_paths cfg p srv"
  by (simp_all add: ensure_iis_script_def site_name_def iis_validate_cmd_def swap_cmd_def repo_dir_of_def
      validate_target_project_paths_def)

lemma twin_repo_dir:
  "twin_env env env' ref \<Longrightarrow> repo_dir_of env' p = repo_dir_of env p"
  "twin_env env env' ref \<Longrightarrow> iis_validate_cmd env' p = iis_validate_cmd env p"
  by (simp_all add: repo_dir_of_def iis_validate_cmd_def twin_envD)

lemma agree_iis_recover:
  assumes "twin_env env env' ref"
  shows "agree (=) (iis_recover_live env ctx p bk) (iis_recover_live env' ctx (p\<lparr>p_env := e, p_build_env := b\<rparr>) bk)"
    "agree (=) (swap_back env ctx p a) (swap_back env' ctx (p\<lparr>p_env := e, p_build_env := b\<rparr>) a)"
  by (auto simp: iis_recover_live_def swap_back_def intro!: agree_intros agree_exec_or_log[OF assms])

lemma agree_iis_live:
  assumes "twin_env env env' ref"
  shows "agree (res_rel (=)) (iis_replace env ctx p r s) (iis_replace env' ctx (p\<lparr>p_env := e, p_build_env := b\<rparr>) r s)"
    "agree (res_rel (=)) (iis_deploy_blue_green env ctx p r s) (iis_deploy_blue_green env' ctx (p\<lparr>p_env := e, p_build_env := b\<rparr>) r s)"
    "agree (res_rel (=)) (iis_rollback_blue_green env ctx p) (iis_rollback_blue_green env' ctx (p\<lparr>p_env := e, p_build_env := b\<rparr>))"
    "agree (res_rel (=)) (iis_restore env ctx p) (iis_restore env' ctx (p\<lparr>p_env := e, p_build_env := b\<rparr>))"
  using twin_envD[OF assms]
  by (auto simp: iis_replace_def iis_deploy_blue_green_def iis_rollback_blue_green_def iis_restore_def
      read_active_slot_def Let_def
      intro!: agree_intros windows_agree[OF assms] agree_or_recover agree_note_backup agree_iis_recover[OF assms])

lemma agree_iis_prepare:
  assumes "twin_env env env' (p_git_credential_ref (dj_project job))" and "twin_job job job'"
  shows "agree (res_rel (=)) (iis_prepare env ctx job) (iis_prepare env' ctx job')"
proof -
  obtain e b where j: "job' = job\<lparr>dj_project := (dj_project job)\<lparr>p_env := e, p_build_env := b\<rparr>\<rparr>"
    and b: "(b = []) = (p_build_env (dj_project job) = [])"
    using assms(2) by (auto simp: twin_job_def)
  have p: "dj_project job' = (dj_project job)\<lparr>p_env := e, p_build_env := b\<rparr>" by (simp add: j)
  show ?thesis
    unfolding iis_prepare_def Let_def p
    by (simp add: twin_repo_dir[OF assms(1)],
        intro agree_then agree_sync_repo[OF assms] agree_ensure_runtime[OF assms(1)] agree_run_build[OF assms(1) b]
          agree_run_step[OF assms(1)] refl)
qed

lemma agree_iis_guards:
  assumes "twin_env env env' ref" and "twin_job job job'"
  shows "agree (res_rel (=)) (iis_guards env job) (iis_guards env' job')"
  using assms(2)
  by (auto simp: iis_guards_def Let_def twin_envD[OF assms(1)] twin_job_def intro!: agree_intros)

interpretation iis: target iis_deploy iis_rollback
proof
  fix env env' ctx job job'
  assume t: "twin_env env env' (p_git_credential_ref (dj_project job))" "twin_job job job'"
  then obtain e b where p: "dj_project job' = (dj_project job)\<lparr>p_env := e, p_build_env := b\<rparr>"
    by (auto simp: twin_job_def)
  note a = agree_iis_guards[OF t] agree_iis_prepare[OF t] agree_iis_live[OF t(1)]
  show "agree (res_rel (=)) (iis_deploy env ctx job) (iis_deploy env' ctx job')"
    unfolding iis_deploy_def Let_def p
    by (auto simp: twin_repo_dir[OF t(1)] intro!: agree_intros a)
  show "agree (res_rel (=)) (iis_rollback env ctx job) (iis_rollback env' ctx job')"
    unfolding iis_rollback_def p by (auto intro!: agree_intros a)
qed (rule iis_audited | simp add: iis_deploy_def iis_rollback_def iis_guards_def Let_def fail_with_def try_then_def
    guard_err_def)+

section \<open>Nothing is stopped before the build is validated, and failures restart the site\<close>

definition iis_stop_cmd :: "project \<Rightarrow> string" where
  "iis_stop_cmd p = stop_script (p_iis_app_pool p) (p_iis_service p)"

definition iis_start_cmd :: "project \<Rightarrow> string" where
  "iis_start_cmd p = start_script (p_iis_app_pool p) (p_iis_service p)"

definition smoke_ok :: "target_env \<Rightarrow> project \<Rightarrow> trace \<Rightarrow> bool" where
  "smoke_ok env p e \<longleftrightarrow> p_disable_health_check p \<or> effective_host_port p = 0
     \<or> ran_ok (smoke_script (health_url p) (health_plan_for (deploy_cfg env) p)) e"

text \<open>
  Scripts are told apart by the line after the first, or by the one after that.
\<close>

definition strict_line :: string where
  "strict_line = ''$ErrorActionPreference='Stop'' @ squo @ nl"

lemma concat_head: "\<exists>r. concat (a # ((c # t) @ u) # xs) = a @ c # r"
  by simp

lemma concat_head_if:
  "\<exists>x r. (x = c \<or> x = d) \<and> concat (a # (if b then concat [(c # t) @ u] else []) # ((d # v) @ w) # xs) = a @ x # r"
  by (cases b) auto

lemma concat_third: "\<exists>r. concat (a # b # (x @ y) # xs) = a @ b @ x @ r"
  by simp

lemma head_differs: "\<exists>r. s = a @ c # r \<Longrightarrow> \<exists>x r. (x = d \<or> x = e) \<and> t = a @ x # r \<Longrightarrow> c \<noteq> d \<Longrightarrow> c \<noteq> e \<Longrightarrow> s \<noteq> t"
  by auto

lemma stop_script_head:
  "\<exists>x r. (x = CHR ''i'' \<or> x = CHR ''I'') \<and> stop_script a s = strict_line @ x # r"
  unfolding stop_script_def strict_line_def by (rule concat_head_if)

lemma script_heads:
  "\<exists>x. sync_repo_script r u c auth = strict_line @ CHR ''N'' # x"
  "\<exists>x. runtime_probe_script e = strict_line @ CHR ''$'' # x"
  "\<exists>x. runtime_install_script spec = strict_line @ CHR ''$'' # x"
  "\<exists>x. build_script r cmd env = strict_line @ CHR ''$'' # x"
  "\<exists>x. validate_script r src a' s' = strict_line @ CHR ''$'' # x"
  "\<exists>x. copy_script r src l = strict_line @ CHR ''N'' # x"
  "\<exists>x. validate_dir_script r a' s' = strict_line @ CHR ''$'' # x"
  "\<exists>x. blue_green_active_script r src = strict_line @ CHR ''$'' # x"
  "\<exists>x. blue_green_swap_script a1 a2 a3 a4 a5 = strict_line @ CHR ''I'' # x"
  unfolding sync_repo_script_def runtime_probe_script_def runtime_install_script_def build_script_def copy_script_def
    validate_dir_script_def blue_green_active_script_def blue_green_swap_script_def
    validate_script_def secret_file_script_def refresh_path_script_def if_True Let_def strict_line_def
  by (rule concat_head)+

lemma secret_file_head: "\<exists>x. secret_file_script path v True = strict_line @ CHR ''$'' # x"
  unfolding secret_file_script_def if_True strict_line_def by (rule concat_head)

lemma ensure_iis_differs: "ensure_iis_script p \<noteq> stop_script a s"
proof (cases "s = []")
  case True
  have "\<exists>x. ensure_iis_script p = strict_line @ (''Import-Module WebAdministration'' @ nl) @ ''$pool = '' @ x"
    unfolding ensure_iis_script_def Let_def strict_line_def by (rule concat_third)
  moreover have "\<exists>x. stop_script a [] = strict_line @ (''Import-Module WebAdministration'' @ nl) @ ''$poolPath = 'IIS:'' @ x"
    unfolding stop_script_def strict_line_def by (simp only: simp_thms if_False concat.simps(2)[of _ "[] # _"] concat.simps(2)[of "[]"] append_Nil)
      (rule exI, simp only: concat.simps append_assoc)
  ultimately show ?thesis using True by auto
next
  case False
  have "\<exists>x. ensure_iis_script p = strict_line @ CHR ''I'' # x"
    unfolding ensure_iis_script_def Let_def strict_line_def by (rule concat_head)
  moreover have "\<exists>x. stop_script a s = strict_line @ CHR ''i'' # x"
    using False unfolding stop_script_def strict_line_def by (simp only: simp_thms if_True) auto
  ultimately show ?thesis by auto
qed
lemma stop_script_differs:
  "sync_repo_script r u c auth \<noteq> stop_script a s"
  "runtime_probe_script x \<noteq> stop_script a s"
  "runtime_install_script spec \<noteq> stop_script a s"
  "build_script r cmd env \<noteq> stop_script a s"
  "validate_script r src a' s' \<noteq> stop_script a s"
  "secret_file_script path v True \<noteq> stop_script a s"
  by (rule head_differs[OF _ stop_script_head], rule script_heads secret_file_head, simp, simp)+

lemma run_step_ok: "does (run_step env ctx c l w) (\<lambda>r e. r = Inr () \<longrightarrow> ran_ok c e)"
  by (auto simp: run_step_def intro!: rt_intros does_exec_or)

lemma absent_run_step: "c' \<noteq> c \<Longrightarrow> emits (\<lambda>e. \<not> did_run c e) (run_step env ctx c' l w)"
  by (auto simp: run_step_def intro!: absent.emits_intros absent_exec_or)

lemma absent_sync_repo: "emits (\<lambda>e. \<not> did_run (iis_stop_cmd q) e) (sync_repo env ctx job)"
  by (auto simp: sync_repo_def Let_def iis_stop_cmd_def stop_script_differs
      intro!: absent.emits_intros absent_exec_or absent_git_auth)

lemma absent_run_build: "emits (\<lambda>e. \<not> did_run (iis_stop_cmd q) e) (run_build env ctx p w c)"
  by (auto simp: run_build_def Let_def iis_stop_cmd_def stop_script_differs
      intro!: absent.emits_intros absent_exec_or)

lemma absent_iis_prepare: "emits (\<lambda>e. \<not> did_run (iis_stop_cmd q) e) (iis_prepare env ctx job)"
  unfolding iis_prepare_def Let_def
  by (intro absent.emits_intros absent_sync_repo absent_run_build absent_ensure_runtime absent_run_step)
    (auto simp: iis_stop_cmd_def stop_script_differs ensure_iis_differs iis_validate_cmd_def)

lemma does_conj: "does m P \<Longrightarrow> does m Q \<Longrightarrow> does m (\<lambda>r e. P r e \<and> Q r e)"
  unfolding does_def by (metis same_append_eq)

lemma does_trivial: "emits P m \<Longrightarrow> does m (\<lambda>_ _. True)"
  unfolding emits_def by (erule does_mono) simp

lemma iis_prepare_validates:
  "does (iis_prepare env ctx job) (\<lambda>r e. r = Inr () \<longrightarrow> ran_ok (iis_validate_cmd env (dj_project job)) e)"
proof -
  have t: "does (sync_repo env ctx job) (\<lambda>_ _. True)" "does (ensure_runtime env ctx r) (\<lambda>_ _. True)"
    "does (run_build env ctx p w c) (\<lambda>_ _. True)" "does (run_step env ctx c l w) (\<lambda>_ _. True)" for r p w c l
    by (auto intro: does_trivial windows_audited)
  show ?thesis
    unfolding iis_prepare_def Let_def
    by (intro does_try_then, rule does_mono[OF t(1)], auto split: sum.split intro!: does_try_then does_mono[OF t(2)]
        does_mono[OF t(3)] does_mono[OF t(4)] does_mono[OF run_step_ok])
qed

text \<open>
  An IIS deploy never sends the command that stops the site's service and application pool
  before the validation of the new build has succeeded on the target.
\<close>

theorem iis_stop_after_validation:
  "does (iis_deploy env ctx job) (\<lambda>_ e. preceded (iis_stop_cmd (dj_project job)) (iis_validate_cmd env (dj_project job)) e)"
proof -
  let ?c = "iis_stop_cmd (dj_project job)" and ?g = "iis_validate_cmd env (dj_project job)"
  have q: "emits (\<lambda>e. \<not> did_run ?c e) (iis_guards env job)"
    by (auto simp: iis_guards_def Let_def intro!: absent.emits_intros)
  have prep: "does (iis_prepare env ctx job)
      (\<lambda>r e. \<not> did_run ?c e \<and> (r = Inr () \<longrightarrow> ran_ok ?g e))"
    by (rule does_conj[OF _ iis_prepare_validates]) (rule absent_iis_prepare[unfolded emits_def])
  have t: "does (iis_deploy_blue_green env ctx p r s) (\<lambda>_ _. True)" "does (iis_replace env ctx p r s) (\<lambda>_ _. True)" for p r s
    by (rule does_trivial, rule audit_iis_live, rule refl)+
  have live: "does (try_then (iis_prepare env ctx job)
      (\<lambda>_. if b then iis_deploy_blue_green env ctx p r s else iis_replace env ctx p r s)) (\<lambda>_ e. preceded ?c ?g e)" for b p r s
    by (intro does_try_then, rule does_mono[OF prep])
      (auto split: sum.split simp: preceded_absent preceded_passed intro!: does_mono[OF t(1)] does_mono[OF t(2)])
  show ?thesis
    unfolding iis_deploy_def Let_def
    by (intro preceded_then[OF q] does_if preceded_logged live does_fail) simp
qed

definition iis_released :: "target_env \<Rightarrow> project \<Rightarrow> trace \<Rightarrow> bool" where
  "iis_released env p e \<longleftrightarrow> ran_ok (iis_start_cmd p) e \<and> smoke_ok env p e"

interpretation iis_recovery: recovery "\<lambda>e. \<not> did_run (iis_stop_cmd p) e" "did_run (iis_stop_cmd p)"
  "\<lambda>e. last_ran e = Some (iis_start_cmd p)" "iis_released env p"
  for env p
  by unfold_locales (auto simp: last_ran_append iis_released_def smoke_ok_def)

lemma iis_recover_restarts: "does (iis_recover_live env ctx p b) (\<lambda>_ e. last_ran e = Some (iis_start_cmd p))"
proof -
  have "does (if b \<noteq> [] \<and> b \<noteq> ''NO_BACKUP'' then exec_or_log env ctx c l w else State_Monad.return ()) (\<lambda>_ _. True)" for c l w
    by (auto intro!: does_return does_mono[OF exec_or_log_last])
  then show ?thesis
    unfolding iis_recover_live_def
    by (rule does_bind[OF does_mono])
      (rule does_mono[OF exec_or_log_last], rule last_ran_append, simp add: iis_start_cmd_def)
qed

lemma smoke_test_ok: "does (smoke_test env ctx p) (\<lambda>r e. r = Inr () \<longrightarrow> smoke_ok env p e)"
  unfolding smoke_test_def smoke_ok_def
  by (auto intro!: rt_intros does_exec_or)

lemma note_backup_outcome:
  "(\<And>b. does (k b) (iis_recovery.live_outcome p env)) \<Longrightarrow> does (try_then (note_backup s) k) (iis_recovery.live_outcome p env)"
  by (auto simp: note_backup_def intro!: rt_intros iis_recovery.live_log)

lemma iis_replace_outcome: "does (iis_replace env ctx p r s) (iis_recovery.live_outcome p env)"
proof -
  note rec = iis_recovery.recovering[OF _ iis_recover_restarts]
  have app: "does m (iis_recovery.live_outcome p env) \<Longrightarrow> does m (\<lambda>z e. iis_recovery.live_outcome p env z (a @ e))"
    for a and m :: "string res rt"
    by (rule iis_recovery.live_app)
  have smoke: "does (try_then (or_recover (smoke_test env ctx p) (iis_recover_live env ctx p b)) (\<lambda>_. succeed b))
      (\<lambda>z e. iis_recovery.live_outcome p env z (e1 @ e))" if "ran_ok (iis_start_cmd p) e1" for b e1
  proof -
    have "does (try_then (or_recover (smoke_test env ctx p) (iis_recover_live env ctx p b)) (\<lambda>_. succeed b))
        (\<lambda>z e. case z of Inr _ \<Rightarrow> smoke_ok env p e | Inl _ \<Rightarrow> last_ran e = Some (iis_start_cmd p))"
      by (rule does_try_then, rule does_or_recover, rule does_mono[OF smoke_test_ok])
        (auto split: sum.splits intro!: does_succeed does_mono[OF iis_recover_restarts] last_ran_append)
    then show ?thesis
      by (rule does_mono) (use that in \<open>auto simp: iis_recovery.live_outcome_def iis_released_def smoke_ok_def
          last_ran_append split: sum.splits\<close>)
  qed
  have t: "does (run_step env ctx c l w) (\<lambda>_ _. True)" "does (exec_or (te_host env) ctx c l msg) (\<lambda>_ _. True)" for c l w msg
    by (auto intro: does_trivial audit_run_step audit_emits_exec_or)
  show ?thesis
    unfolding iis_replace_def Let_def
    by (rule rec[OF t(1)], rule app, rule rec[OF t(2)], rule app, rule note_backup_outcome,
        rule rec[OF t(1)], rule app, rule rec[OF run_step_ok])
      (rule smoke, simp add: iis_start_cmd_def)
qed

text \<open>
  C11: an IIS deploy without blue-green slots, from any earlier history and against any target: a
  success means the start script and, unless disabled, the smoke test succeeded; a failure after
  the stop script was sent ends with the start script, so the site is never left stopped without a
  restart attempt.
\<close>

theorem iis_deploy_outcome:
  "does (iis_deploy env ctx job) (\<lambda>r e. if p_iis_blue_green (dj_project job) then True else case r of
      Inr _ \<Rightarrow> iis_released env (dj_project job) e
    | Inl _ \<Rightarrow> if did_run (iis_stop_cmd (dj_project job)) e
        then last_ran e = Some (iis_start_cmd (dj_project job)) else True)"
proof (cases "p_iis_blue_green (dj_project job)")
  case True
  then show ?thesis using does_trivial[OF iis_audited(1), of env ctx job] by (auto elim: does_mono)
next
  case False
  let ?p = "dj_project job"
  have q: "emits (\<lambda>e. \<not> did_run (iis_stop_cmd ?p) e) (iis_guards env job)"
    by (auto simp: iis_guards_def Let_def intro!: absent.emits_intros)
  have "does (iis_deploy env ctx job) (outcome (did_run (iis_stop_cmd ?p))
      (\<lambda>e. last_ran e = Some (iis_start_cmd ?p)) (iis_released env ?p))"
    unfolding iis_deploy_def Let_def using False
    by (simp only: if_False, intro iis_recovery.prelude[OF q] does_if iis_recovery.failed iis_recovery.logged
        iis_recovery.prelude[OF absent_iis_prepare] iis_recovery.live_outcome[OF iis_replace_outcome])
  then show ?thesis by (rule does_mono) (auto simp: outcome_def False split: sum.splits)
qed

section \<open>Blue-green swaps\<close>

text \<open>
  The inactive slot is never the active one, and the slot a rollback repoints to is the one
  that was active before the deploy: choosing the inactive slot twice returns to the start.
\<close>

theorem blue_green_inactive_other:
  assumes "physical \<noteq> []" and "active \<in> {physical, blue_green_slot_b physical}"
  shows "blue_green_inactive physical active \<noteq> active
    \<and> blue_green_inactive physical (blue_green_inactive physical active) = active"
  using assms by (auto simp: blue_green_inactive_def blue_green_slot_b_def)

lemma blue_green_inactive_other_witness:
  "blue_green_inactive ''C:/app'' ''C:/app.blue'' \<noteq> ''C:/app.blue''
    \<and> blue_green_inactive ''C:/app'' (blue_green_inactive ''C:/app'' ''C:/app.blue'') = ''C:/app.blue''"
  by (rule blue_green_inactive_other) (auto simp: blue_green_slot_b_def)

definition read_slot_cmd :: "project \<Rightarrow> string" where
  "read_slot_cmd p = blue_green_active_script (p_iis_physical_path p) (blue_green_marker_path (p_iis_physical_path p))"

text \<open>The active slot a trace has read from the target: the answer to the first read that succeeded.\<close>

fun slot_read :: "project \<Rightarrow> trace \<Rightarrow> string" where
  "slot_read p [] = []"
| "slot_read p (Ran c out err # e) = (if c = read_slot_cmd p \<and> err = None then last_line out else slot_read p e)"
| "slot_read p (_ # e) = slot_read p e"

definition validate_slot_cmd :: "project \<Rightarrow> string \<Rightarrow> string" where
  "validate_slot_cmd p slot = validate_dir_script slot (p_iis_app_pool p) (p_iis_service p)"

lemma swap_cmd_differs:
  "read_slot_cmd p \<noteq> swap_cmd p slot" "copy_script src dst ''deploy to slot'' \<noteq> swap_cmd p slot"
  "validate_slot_cmd p s \<noteq> swap_cmd p slot"
  using script_heads(6)[of src dst "''deploy to slot''"] script_heads(9)[of "site_name p" "p_iis_app_pool p" "p_iis_service p" slot
      "blue_green_marker_path (p_iis_physical_path p)"]
    script_heads(7)[of s "p_iis_app_pool p" "p_iis_service p"]
    script_heads(8)[of "p_iis_physical_path p" "blue_green_marker_path (p_iis_physical_path p)"]
  unfolding read_slot_cmd_def swap_cmd_def validate_slot_cmd_def by auto

definition swapped_back :: "project \<Rightarrow> string \<Rightarrow> trace \<Rightarrow> bool" where
  "swapped_back p active e \<longleftrightarrow> (if active = [] then True else last_ran e = Some (swap_cmd p active))"

definition swapped :: "target_env \<Rightarrow> project \<Rightarrow> string \<Rightarrow> trace \<Rightarrow> bool" where
  "swapped env p slot e \<longleftrightarrow> ran_ok (swap_cmd p slot) e \<and> smoke_ok env p e"

interpretation blue_green: recovery "\<lambda>e. \<not> did_run (swap_cmd p slot) e" "did_run (swap_cmd p slot)"
  "swapped_back p active" "swapped env p slot"
  for p slot active env
  by unfold_locales (auto simp: last_ran_append swapped_back_def swapped_def smoke_ok_def)

lemma swap_back_last: "does (swap_back env ctx p active) (\<lambda>_ e. swapped_back p active e)"
  by (auto simp: swap_back_def swapped_back_def intro!: rt_intros does_mono[OF exec_or_log_last])

lemma smoke_swap_outcome:
  assumes "ran_ok (swap_cmd p slot) e1"
  shows "does (try_then (or_recover (smoke_test env ctx p) (swap_back env ctx p active)) (\<lambda>_. succeed slot))
    (\<lambda>z e. blue_green.live_outcome p active env slot z (e1 @ e))"
proof -
  have "does (try_then (or_recover (smoke_test env ctx p) (swap_back env ctx p active)) (\<lambda>_. succeed slot))
      (\<lambda>z e. case z of Inr _ \<Rightarrow> smoke_ok env p e | Inl _ \<Rightarrow> swapped_back p active e)"
    by (rule does_try_then, rule does_or_recover, rule does_mono[OF smoke_test_ok])
      (auto split: sum.splits intro!: does_succeed does_mono[OF swap_back_last] blue_green.rcv_app)
  then show ?thesis
    by (rule does_mono) (use assms in \<open>auto simp: blue_green.live_outcome_def swapped_def smoke_ok_def
        blue_green.rcv_app split: sum.splits\<close>)
qed

text \<open>The part of a blue-green deploy after the active slot is known.\<close>

definition bg_rest :: "target_env \<Rightarrow> cmd_ctx \<Rightarrow> project \<Rightarrow> string \<Rightarrow> string \<Rightarrow> string \<Rightarrow> string res rt" where
  "bg_rest env ctx p src active slot =
     try_then (run_step env ctx (copy_script src slot ''deploy to slot'') ''copy build to slot'' ''copy to slot'')
       (\<lambda>_. try_then (run_step env ctx (validate_slot_cmd p slot) ''validate slot'' ''slot validation failed'')
         (\<lambda>_. try_then (or_recover (run_step env ctx (swap_cmd p slot) ''swap slot'' ''swap slot'') (swap_back env ctx p active))
           (\<lambda>_. try_then (or_recover (smoke_test env ctx p) (swap_back env ctx p active))
             (\<lambda>_. succeed slot))))"

lemma bg_rest_outcome:
  "does (bg_rest env ctx p src active slot) (outcome (did_run (swap_cmd p slot)) (swapped_back p active) (swapped env p slot))"
  unfolding bg_rest_def
  by (rule blue_green.prelude[OF absent_run_step[OF swap_cmd_differs(2)]],
      rule blue_green.prelude[OF absent_run_step[OF swap_cmd_differs(3)]],
      rule blue_green.live_outcome, rule blue_green.recovering[OF run_step_ok swap_back_last])
    (rule smoke_swap_outcome, simp)

lemma bg_rest_validated:
  "does (bg_rest env ctx p src active slot) (\<lambda>_ e. preceded (swap_cmd p slot) (validate_slot_cmd p slot) e)"
proof -
  let ?c = "swap_cmd p slot"
  have v: "does (run_step env ctx (validate_slot_cmd p slot) l w)
      (\<lambda>r e. \<not> did_run ?c e \<and> (r = Inr () \<longrightarrow> ran_ok (validate_slot_cmd p slot) e))" for l w
    by (rule does_conj[OF _ run_step_ok])
      (rule absent_run_step[OF swap_cmd_differs(3), unfolded emits_def])
  have t: "does m (\<lambda>_ _. True)" if "emits (audit_aligned (cx_meta ctx)) m" for m :: "string res rt"
    by (rule does_trivial[OF that])
  show ?thesis
    unfolding bg_rest_def
    by (rule preceded_then[OF absent_run_step[OF swap_cmd_differs(2)]], rule does_try_then, rule does_mono[OF v])
      (auto split: sum.splits simp: preceded_absent preceded_passed
        intro!: does_mono[OF t] audit_intros windows_audited audit_swap_back)
qed


end
