(* ===== verification/WinSvc.thy ===== *)
theory WinSvc
  imports IIS
begin

text \<open>
  The pipeline for native Windows services (\<open>internal/deployment/winservice.go\<close>): NSSM provisioning
  with the chunked upload of a binary, service installation, the per-target Caddy for static sites,
  and the deploy and rollback of a service.
\<close>

section \<open>Paths\<close>

definition default_nssm_path :: string where
  "default_nssm_path = ''C:'' @ bsl @ ''ProgramData'' @ bsl @ ''winify'' @ bsl @ ''tools'' @ bsl @ ''nssm.exe''"

definition default_caddy_path :: string where
  "default_caddy_path = ''C:'' @ bsl @ ''ProgramData'' @ bsl @ ''winify'' @ bsl @ ''tools'' @ bsl @ ''caddy.exe''"

definition nssm_path_for :: "server \<Rightarrow> string" where
  "nssm_path_for srv = (if trim_space (sv_nssm_path srv) \<noteq> [] then sv_nssm_path srv else default_nssm_path)"

definition caddy_path_for :: "server \<Rightarrow> string" where
  "caddy_path_for srv = (if trim_space (sv_caddy_path srv) \<noteq> [] then sv_caddy_path srv else default_caddy_path)"

definition resolve_nssm_source :: "app_config \<Rightarrow> string \<Rightarrow> string" where
  "resolve_nssm_source cfg source0 =
     (let source = trim_space source0 in
      if source = [] \<or> windows_abs_path source \<or> ac_install_dir cfg = [] then source
      else trim_right_set (bsl @ ''/'') (ac_install_dir cfg) @ bsl @ replace_char (CHR ''/'') bsl source)"

section \<open>Uploading a binary\<close>

definition nssm_upload_chunk :: nat where
  "nssm_upload_chunk = 100000"

function chunks :: "nat \<Rightarrow> string \<Rightarrow> string list" where
  "chunks n s = (if s = [] \<or> n = 0 then [] else take n s # chunks n (drop n s))"
  by pat_completeness auto
termination
  by (relation "measure (\<lambda>(n, s). length s)") auto

declare chunks.simps [simp del]

definition remote_file_sha256 :: "target_env \<Rightarrow> cmd_ctx \<Rightarrow> string \<Rightarrow> string res rt" where
  "remote_file_sha256 env ctx path = do {
     (out, err) \<leftarrow> run_cmd (te_host env) ctx (file_hash_script path);
     case err of
       Some e \<Rightarrow> fail_with (''hash '' @ path @ '': '' @ e)
     | None \<Rightarrow> succeed (trim_space (last_line out)) }"

fun upload_chunks :: "target_env \<Rightarrow> cmd_ctx \<Rightarrow> string \<Rightarrow> string list \<Rightarrow> unit res rt" where
  "upload_chunks env ctx tmp [] = succeed ()"
| "upload_chunks env ctx tmp (c # cs) =
     try_then (exec_or (te_host env) ctx (append_upload_script tmp c) ''upload chunk'' (err_only ''upload chunk''))
       (\<lambda>_. upload_chunks env ctx tmp cs)"

definition upload_binary :: "target_env \<Rightarrow> cmd_ctx \<Rightarrow> string \<Rightarrow> string \<Rightarrow> string res rt" where
  "upload_binary env ctx dest data =
     (let want = te_sha256 env data; encoded = base64_encode data; tmp = dest @ ''.b64'' in
      try_then (run_step env ctx (begin_upload_script (win_dir dest) tmp) ''prepare upload'' ''prepare upload'')
        (\<lambda>_. try_then (upload_chunks env (with_audit_redaction ctx ''upload binary (payload redacted)'') tmp
              (chunks nssm_upload_chunk encoded))
          (\<lambda>_. try_then (run_step env ctx (finish_upload_script tmp dest) ''assemble upload'' ''assemble upload'')
            (\<lambda>_. try_then (exec_or (te_host env) ctx (file_hash_script dest) ''verify upload'' (err_only ''verify upload''))
              (\<lambda>out. let got = trim_space (last_line out) in
                if \<not> equal_fold got want
                then fail_with (''uploaded hash mismatch: got '' @ quote got @ '' want '' @ want)
                else do { _ \<leftarrow> logf (dest @ '' uploaded''); succeed want })))))"

definition ensure_binary :: "target_env \<Rightarrow> cmd_ctx \<Rightarrow> string \<Rightarrow> string \<Rightarrow> string res rt" where
  "ensure_binary env ctx dest data = do {
     r \<leftarrow> remote_file_sha256 env ctx dest;
     if (case r of Inr got \<Rightarrow> equal_fold got (te_sha256 env data) | Inl _ \<Rightarrow> False)
     then do { _ \<leftarrow> logf (dest @ '' already present (sha256 match)''); succeed (te_sha256 env data) }
     else upload_binary env ctx dest data }"

definition nssm_pin_error :: "string \<Rightarrow> string \<Rightarrow> string" where
  "nssm_pin_error got pin = ''existing nssm sha256 '' @ got @ '' does not match configured pin '' @ pin"

definition ensure_nssm :: "target_env \<Rightarrow> cmd_ctx \<Rightarrow> string \<Rightarrow> string \<Rightarrow> string \<Rightarrow> string res rt" where
  "ensure_nssm env ctx nssm_path source0 pin0 =
     (let source = trim_space source0; pin = trim_space pin0 in
      if source = [] then
        (if pin = [] then succeed nssm_path
         else do {
           r \<leftarrow> remote_file_sha256 env ctx nssm_path;
           case r of
             Inl e \<Rightarrow> fail_with (''verify existing nssm: '' @ e)
           | Inr got \<Rightarrow> if \<not> equal_fold got pin then fail_with (nssm_pin_error got pin) else succeed nssm_path })
      else (case te_read_file env source of
          Inl e \<Rightarrow> do {
            r \<leftarrow> remote_file_sha256 env ctx nssm_path;
            case r of
              Inr got \<Rightarrow>
                if got = [] then fail_with (''read nssm source '' @ source @ '': '' @ e)
                else if pin \<noteq> [] \<and> \<not> equal_fold got pin then fail_with (nssm_pin_error got pin)
                else do {
                  _ \<leftarrow> logf (''nssm source '' @ source @ '' is unavailable; using the copy already on the target'');
                  succeed nssm_path }
            | Inl _ \<Rightarrow> fail_with (''read nssm source '' @ source @ '': '' @ e) }
        | Inr data \<Rightarrow>
            if pin \<noteq> [] \<and> \<not> equal_fold pin (te_sha256 env data)
            then fail_with (''nssm source '' @ source @ '' sha256 '' @ te_sha256 env data @ '' does not match configured nssm_sha256'')
            else try_then (ensure_binary env ctx nssm_path data) (\<lambda>_. succeed nssm_path)))"

definition winsvc_ensure_nssm :: "target_env \<Rightarrow> cmd_ctx \<Rightarrow> server \<Rightarrow> string res rt" where
  "winsvc_ensure_nssm env ctx srv =
     ensure_nssm env ctx (nssm_path_for srv) (resolve_nssm_source (te_cfg env) (dc_nssm_source (deploy_cfg env)))
       (trim_space (dc_nssm_sha256 (deploy_cfg env)))"

section \<open>The per-target Caddy\<close>

definition configure_caddy :: "target_env \<Rightarrow> cmd_ctx \<Rightarrow> deploy_job \<Rightarrow> unit res rt" where
  "configure_caddy env ctx job =
     (let p = dj_project job; mode = p_caddy_mode p in
      if mode = [] \<or> mode = caddy_mode_none then succeed ()
      else if mode = caddy_mode_proxy then
        fail_with (''per-target Caddy proxy mode is not supported yet; use '' @ quote caddy_mode_none @ '' or '' @ quote caddy_mode_static)
      else if mode \<noteq> caddy_mode_static then fail_with (''unknown caddy_mode '' @ quote mode)
      else (let caddy_path = caddy_path_for (dj_server job); nssm_path = nssm_path_for (dj_server job);
                dir = win_path [dc_iis_work_dir (deploy_cfg env), ''caddy'', sanitize (p_id p)];
                file = win_path [dir, ''Caddyfile''];
                write = ''New-Item -ItemType Directory -Force -Path '' @ ps_quote dir @ '' | Out-Null; [IO.File]::WriteAllBytes(''
                  @ ps_quote file @ '', [Convert]::FromBase64String('' @ ps_quote (base64_encode (caddy_file p)) @ ''))''
        in try_then (exec_or (te_host env) ctx (file_exists_script caddy_path) ''check caddy on target''
               (\<lambda>_ _. ''caddy.exe not found at '' @ caddy_path @ ''; install it or set the server caddy_path''))
             (\<lambda>_. try_then (run_step env (with_audit_redaction ctx ''write Caddyfile (contents redacted)'') write
                 ''write Caddyfile'' ''write Caddyfile'')
               (\<lambda>_. try_then (run_step env ctx (ensure_caddy_service_script p caddy_path nssm_path dir file)
                   ''ensure caddy service'' ''ensure caddy service'')
                 (\<lambda>_. run_step env ctx (reload_caddy_script p caddy_path nssm_path file) ''reload caddy'' ''reload caddy'')))))"

section \<open>Recovery\<close>

definition winsvc_recover_live :: "target_env \<Rightarrow> cmd_ctx \<Rightarrow> project \<Rightarrow> string \<Rightarrow> string \<Rightarrow> unit rt" where
  "winsvc_recover_live env ctx p nssm_path backup = do {
     _ \<leftarrow> (if backup \<noteq> [] \<and> backup \<noteq> ''NO_BACKUP''
          then exec_or_log env ctx (copy_script backup (p_service_work_dir p) ''restore after failed deploy'')
            ''restore previous release'' ''recovery: restore previous release failed''
          else State_Monad.return ());
     if p_service_name p \<noteq> []
     then exec_or_log env ctx (start_service_script (p_service_name p) nssm_path) ''restart after failed deploy''
       ''recovery: restart failed''
     else State_Monad.return () }"

section \<open>Deploy\<close>

definition winsvc_guards :: "target_env \<Rightarrow> deploy_job \<Rightarrow> unit res rt" where
  "winsvc_guards env job =
     (let p = dj_project job in
      try_then (guard_err (validate_project_id (p_id p)))
        (\<lambda>_. try_then (guard_err (validate_target_project_paths (deploy_cfg env) p (dj_server job)))
          (\<lambda>_. try_then (guard_err (validate_service_executable_path (p_service_exe p) (p_service_work_dir p)))
            (\<lambda>_. guard_err (if p_service_name p \<noteq> [] then validate_service_name (p_service_name p) else None)))))"

definition winsvc_config_error :: "project \<Rightarrow> string option" where
  "winsvc_config_error p = checks
     [fail_if (\<not> static_only p \<and> p_service_name p = []) (''project '' @ p_id p @ '' has no service_name''),
      fail_if (\<not> static_only p \<and> p_service_exe p = []) (''project '' @ p_id p @ '' has no service_exe''),
      fail_if (p_service_work_dir p = []) (''project '' @ p_id p @ '' has no service_work_dir'')]"

definition winsvc_validate_cmd :: "target_env \<Rightarrow> project \<Rightarrow> string \<Rightarrow> string" where
  "winsvc_validate_cmd env p nssm_path = validate_service_script (repo_dir_of env p) (source_of (p_service_source_subdir p))
     (p_service_work_dir p) (p_service_exe p) nssm_path"

text \<open>The steps up to the validation of the new build; the result is the path of NSSM on the target.\<close>

definition winsvc_prepare :: "target_env \<Rightarrow> cmd_ctx \<Rightarrow> deploy_job \<Rightarrow> string res rt" where
  "winsvc_prepare env ctx job =
     (let p = dj_project job in
      try_then (sync_repo env ctx job)
        (\<lambda>_. try_then (ensure_runtime env ctx (p_runtime p))
          (\<lambda>_. try_then (run_build env ctx p ''service build command'' (p_service_build_command p))
            (\<lambda>_. try_then (winsvc_ensure_nssm env ctx (dj_server job))
              (\<lambda>nssm_path. try_then (run_step env ctx (winsvc_validate_cmd env p nssm_path) ''validate configuration'' ''validation failed'')
                (\<lambda>_. succeed nssm_path))))))"

definition unless_static :: "project \<Rightarrow> unit res rt \<Rightarrow> unit res rt" where
  "unless_static p m = (if static_only p then succeed () else m)"

text \<open>The service definition and its environment.\<close>

definition install_service :: "target_env \<Rightarrow> cmd_ctx \<Rightarrow> project \<Rightarrow> string \<Rightarrow> unit res rt" where
  "install_service env ctx p nssm_path =
     try_then (run_step env ctx (install_service_script p nssm_path) (''install/update service '' @ p_service_name p) ''install service'')
       (\<lambda>_. if service_env_script p nssm_path = [] then succeed ()
            else run_step env (with_audit_redaction ctx ''set service environment (values redacted)'')
              (service_env_script p nssm_path) ''set service environment'' ''set service environment'')"

definition winsvc_replace :: "target_env \<Rightarrow> cmd_ctx \<Rightarrow> deploy_job \<Rightarrow> string \<Rightarrow> string res rt" where
  "winsvc_replace env ctx job nssm_path =
     (let p = dj_project job; recover = winsvc_recover_live env ctx p nssm_path; name = p_service_name p;
          src = win_path [repo_dir_of env p, source_of (p_service_source_subdir p)] in
      try_then (unless_static p (or_recover (run_step env ctx (stop_service_script name nssm_path) ''stop service'' ''stop'') (recover [])))
        (\<lambda>_. try_then (or_recover (exec_or (te_host env) ctx
              (backup_script (p_service_work_dir p) (dc_iis_backup_dir (deploy_cfg env)) (p_id p)) ''backup live files'' (err_only ''backup''))
            (recover []))
          (\<lambda>out. try_then (note_backup (last_line out))
            (\<lambda>backup. try_then (or_recover (run_step env ctx (copy_script src (p_service_work_dir p) ''deploy'') ''deploy files'' ''deploy files'')
                (recover backup))
              (\<lambda>_. try_then (unless_static p (or_recover (install_service env ctx p nssm_path) (recover backup)))
                (\<lambda>_. try_then (unless_static p (or_recover
                      (run_step env ctx (start_service_script name nssm_path) (''start service '' @ name) ''start service'') (recover backup)))
                  (\<lambda>_. try_then (or_recover (configure_caddy env ctx job) (recover backup))
                    (\<lambda>_. try_then (or_recover (smoke_test env ctx p) (recover backup))
                      (\<lambda>_. succeed backup)))))))))"

definition winsvc_deploy :: "target_env \<Rightarrow> cmd_ctx \<Rightarrow> deploy_job \<Rightarrow> string res rt" where
  "winsvc_deploy env ctx job =
     (let p = dj_project job in
      try_then (winsvc_guards env job)
        (\<lambda>_. try_then (guard_err (winsvc_config_error p))
          (\<lambda>_. do {
            _ \<leftarrow> logf (''winsvc pipeline: repo='' @ repo_dir_of env p @ '' source='' @ source_of (p_service_source_subdir p)
              @ '' install='' @ p_service_work_dir p @ '' service='' @ p_service_name p);
            try_then (winsvc_prepare env ctx job) (\<lambda>nssm_path. winsvc_replace env ctx job nssm_path) })))"

section \<open>Rollback\<close>

definition winsvc_rollback :: "target_env \<Rightarrow> cmd_ctx \<Rightarrow> deploy_job \<Rightarrow> string res rt" where
  "winsvc_rollback env ctx job =
     (let p = dj_project job; nssm_path = nssm_path_for (dj_server job); name = p_service_name p in
      try_then (winsvc_guards env job)
        (\<lambda>_. if p_service_work_dir p = [] \<or> \<not> static_only p \<and> name = []
          then fail_with (''project '' @ p_id p @ '' is not configured as a Windows service'')
          else try_then (exec_or (te_host env) ctx (latest_backup_script (dc_iis_backup_dir (deploy_cfg env)) (p_id p))
              ''find latest backup'' (err_only ''find backup''))
            (\<lambda>out. let backup = last_line out; recover = winsvc_recover_live env ctx p nssm_path backup in
              if backup = [] then fail_with (''no backup found for project '' @ p_id p)
              else do {
                _ \<leftarrow> logf (''rollback: restoring '' @ backup);
                try_then (unless_static p (or_recover (run_step env ctx (stop_service_script name nssm_path) ''stop service'' ''stop'') recover))
                  (\<lambda>_. try_then (or_recover (run_step env ctx (copy_script backup (p_service_work_dir p) ''restore backup'')
                        ''restore backup'' ''restore backup'') recover)
                    (\<lambda>_. try_then (unless_static p (or_recover
                          (run_step env ctx (start_service_script name nssm_path) (''start service '' @ name) ''start service'') recover))
                      (\<lambda>_. try_then (or_recover (smoke_test env ctx p) recover) (\<lambda>_. succeed backup)))) })))"

section \<open>The pipeline is a target\<close>

lemma audit_run_cmd: "cx_meta ctx = m \<Longrightarrow> emits (audit_aligned m) (run_cmd host ctx c)"
  unfolding emits_def by (rule does_run_cmd) (auto simp: audited_text_def)

lemma audit_remote_sha: "cx_meta ctx = m \<Longrightarrow> emits (audit_aligned m) (remote_file_sha256 env ctx path)"
  by (auto simp: remote_file_sha256_def intro!: audit_intros audit_run_cmd split: option.split)

lemma audit_upload_chunks: "cx_meta ctx = m \<Longrightarrow> emits (audit_aligned m) (upload_chunks env ctx tmp cs)"
  by (induction cs) (auto intro!: audit_intros)

lemma audit_ensure_binary: "cx_meta ctx = m \<Longrightarrow> emits (audit_aligned m) (ensure_binary env ctx d x)"
  by (auto simp: ensure_binary_def upload_binary_def Let_def
      intro!: audit_intros windows_audited audit_remote_sha audit_upload_chunks)

lemma audit_ensure_nssm: "cx_meta ctx = m \<Longrightarrow> emits (audit_aligned m) (ensure_nssm env ctx path s pin)"
  by (auto simp: ensure_nssm_def Let_def intro!: audit_intros audit_remote_sha audit_ensure_binary split: sum.split)

lemma audit_configure_caddy: "cx_meta ctx = m \<Longrightarrow> emits (audit_aligned m) (configure_caddy env ctx job)"
  by (auto simp: configure_caddy_def Let_def intro!: audit_intros windows_audited)

lemma audit_winsvc_recover: "cx_meta ctx = m \<Longrightarrow> emits (audit_aligned m) (winsvc_recover_live env ctx p n b)"
  by (auto simp: winsvc_recover_live_def intro!: audit_intros windows_audited)

lemma audit_unless_static: "emits (audit_aligned m) x \<Longrightarrow> emits (audit_aligned m) (unless_static p x)"
  by (auto simp: unless_static_def intro!: audit_intros)

lemma audit_install_service: "cx_meta ctx = m \<Longrightarrow> emits (audit_aligned m) (install_service env ctx p n)"
  by (auto simp: install_service_def intro!: audit_intros windows_audited)

lemma audit_winsvc_prepare: "cx_meta ctx = m \<Longrightarrow> emits (audit_aligned m) (winsvc_prepare env ctx job)"
  by (auto simp: winsvc_prepare_def winsvc_ensure_nssm_def Let_def intro!: audit_intros windows_audited audit_ensure_nssm)

lemma audit_winsvc_guards: "emits (audit_aligned m) (winsvc_guards env job)"
  by (auto simp: winsvc_guards_def Let_def intro!: audit_intros)

lemma audit_winsvc_replace: "cx_meta ctx = m \<Longrightarrow> emits (audit_aligned m) (winsvc_replace env ctx job n)"
  unfolding winsvc_replace_def Let_def
  by (intro audit_intros audit_unless_static audit_or_recover audit_winsvc_recover audit_run_step audit_note_backup
      audit_install_service audit_configure_caddy audit_smoke_test) auto

lemma winsvc_audited:
  "emits (audit_aligned (cx_meta ctx)) (winsvc_deploy env ctx job)"
  "emits (audit_aligned (cx_meta ctx)) (winsvc_rollback env ctx job)"
  by (auto simp: winsvc_deploy_def winsvc_rollback_def Let_def
      intro!: audit_intros audit_winsvc_guards audit_winsvc_prepare audit_winsvc_replace audit_unless_static
        audit_or_recover audit_winsvc_recover audit_run_step audit_smoke_test)

lemma agree_remote_sha:
  "twin_env env env' ref \<Longrightarrow> agree (res_rel (=)) (remote_file_sha256 env ctx path) (remote_file_sha256 env' ctx path)"
  by (auto simp: remote_file_sha256_def twin_envD intro!: agree_intros agree_run_cmd split: option.split)

lemma agree_upload_chunks:
  "twin_env env env' ref \<Longrightarrow> agree (res_rel (=)) (upload_chunks env ctx tmp cs) (upload_chunks env' ctx tmp cs)"
  by (induction cs) (auto simp: twin_envD intro!: agree_intros)

lemma agree_ensure_binary:
  assumes "twin_env env env' ref"
  shows "agree (res_rel (=)) (ensure_binary env ctx d x) (ensure_binary env' ctx d x)"
proof -
  have "agree (res_rel (=)) (upload_binary env ctx d x) (upload_binary env' ctx d x)"
    using twin_envD[OF assms]
    by (auto simp: upload_binary_def Let_def intro!: agree_intros agree_run_step[OF assms] agree_upload_chunks[OF assms])
  then show ?thesis
    unfolding ensure_binary_def twin_envD(5)[OF assms]
    by (auto simp: res_rel_eq intro!: agree_bind[OF agree_remote_sha[OF assms]] agree_intros)
qed

lemma agree_ensure_nssm:
  assumes "twin_env env env' ref"
  shows "agree (res_rel (=)) (ensure_nssm env ctx path s pin) (ensure_nssm env' ctx path s pin)"
  unfolding ensure_nssm_def Let_def twin_envD(4,5)[OF assms]
  by (auto simp: res_rel_eq split: sum.split
      intro!: agree_bind[OF agree_remote_sha[OF assms]] agree_intros agree_ensure_binary[OF assms])

lemma winsvc_env [simp]:
  "install_service_script (p\<lparr>p_env := e, p_build_env := b\<rparr>) n = install_service_script p n"
  "caddy_file (p\<lparr>p_env := e, p_build_env := b\<rparr>) = caddy_file p"
  "ensure_caddy_service_script (p\<lparr>p_env := e, p_build_env := b\<rparr>) cp n d f = ensure_caddy_service_script p cp n d f"
  "reload_caddy_script (p\<lparr>p_env := e, p_build_env := b\<rparr>) cp n f = reload_caddy_script p cp n f"
  "static_only (p\<lparr>p_env := e, p_build_env := b\<rparr>) = static_only p"
  "winsvc_config_error (p\<lparr>p_env := e, p_build_env := b\<rparr>) = winsvc_config_error p"
  "winsvc_validate_cmd env (p\<lparr>p_env := e, p_build_env := b\<rparr>) n = winsvc_validate_cmd env p n"
  by (simp_all add: install_service_script_def caddy_file_def ensure_caddy_service_script_def reload_caddy_script_def
      caddy_service_name_def static_only_def winsvc_config_error_def winsvc_validate_cmd_def)

lemma service_env_script_nonempty: "service_env_script p n \<noteq> []"
  by (simp add: service_env_script_def)

lemma agree_unless_static:
  "agree (res_rel (=)) m m' \<Longrightarrow> agree (res_rel (=)) (unless_static p m) (unless_static (p\<lparr>p_env := e, p_build_env := b\<rparr>) m')"
  by (auto simp: unless_static_def intro!: agree_intros)

lemma agree_winsvc_parts:
  assumes "twin_env env env' ref"
  shows "agree (=) (winsvc_recover_live env ctx p n bk) (winsvc_recover_live env' ctx (p\<lparr>p_env := e, p_build_env := b\<rparr>) n bk)"
    "agree (res_rel (=)) (install_service env ctx p n) (install_service env' ctx (p\<lparr>p_env := e, p_build_env := b\<rparr>) n)"
proof -
  show "agree (=) (winsvc_recover_live env ctx p n bk) (winsvc_recover_live env' ctx (p\<lparr>p_env := e, p_build_env := b\<rparr>) n bk)"
    by (auto simp: winsvc_recover_live_def intro!: agree_intros agree_exec_or_log[OF assms])
  have "agree (res_rel (=)) (run_step env (with_audit_redaction ctx r) c l w) (run_step env' (with_audit_redaction ctx r) c' l w)"
    for r c c' l w
    by (auto simp: run_step_def twin_envD[OF assms] intro!: agree_intros)
  then show "agree (res_rel (=)) (install_service env ctx p n) (install_service env' ctx (p\<lparr>p_env := e, p_build_env := b\<rparr>) n)"
    by (simp add: install_service_def service_env_script_nonempty, intro agree_then[OF agree_run_step[OF assms]]) simp
qed

lemma agree_configure_caddy:
  assumes "twin_env env env' ref" and "dj_project job' = (dj_project job)\<lparr>p_env := e, p_build_env := b\<rparr>"
    and "dj_server job' = dj_server job"
  shows "agree (res_rel (=)) (configure_caddy env ctx job) (configure_caddy env' ctx job')"
proof -
  have f: "p_caddy_mode (dj_project job') = p_caddy_mode (dj_project job)" "p_id (dj_project job') = p_id (dj_project job)"
    "caddy_file (dj_project job') = caddy_file (dj_project job)"
    "\<And>cp n d f. ensure_caddy_service_script (dj_project job') cp n d f = ensure_caddy_service_script (dj_project job) cp n d f"
    "\<And>cp n f. reload_caddy_script (dj_project job') cp n f = reload_caddy_script (dj_project job) cp n f"
    by (simp_all add: assms(2))
  show ?thesis
    unfolding configure_caddy_def Let_def f assms(3) twin_envD[OF assms(1)]
    by (intro agree_if agree_then agree_success agree_fail agree_exec_or twin_envD(1)[OF assms(1)]
        agree_run_step[OF assms(1)] refl disjI1)
qed

lemma twin_jobE:
  assumes "twin_job job job'"
  obtains e b where "dj_project job' = (dj_project job)\<lparr>p_env := e, p_build_env := b\<rparr>" "dj_server job' = dj_server job"
    "(b = []) = (p_build_env (dj_project job) = [])"
proof -
  obtain e b where j: "job' = job\<lparr>dj_project := (dj_project job)\<lparr>p_env := e, p_build_env := b\<rparr>\<rparr>"
    and b: "(b = []) = (p_build_env (dj_project job) = [])"
    using assms unfolding twin_job_def by blast
  show thesis by (rule that[OF _ _ b]) (simp_all add: j)
qed

lemma agree_winsvc_prepare:
  assumes "twin_env env env' (p_git_credential_ref (dj_project job))" and "twin_job job job'"
  shows "agree (res_rel (=)) (winsvc_prepare env ctx job) (winsvc_prepare env' ctx job')"
proof -
  obtain e b where p: "dj_project job' = (dj_project job)\<lparr>p_env := e, p_build_env := b\<rparr>" "dj_server job' = dj_server job"
    and b: "(b = []) = (p_build_env (dj_project job) = [])"
    using assms(2) by (rule twin_jobE)
  have "winsvc_validate_cmd env' q n = winsvc_validate_cmd env q n" for q n
    by (simp add: winsvc_validate_cmd_def twin_repo_dir[OF assms(1)])
  then show ?thesis
    unfolding winsvc_prepare_def winsvc_ensure_nssm_def Let_def p
    by (simp add: twin_envD[OF assms(1)],
        intro agree_then agree_sync_repo[OF assms] agree_ensure_runtime[OF assms(1)] agree_run_build[OF assms(1) b]
          agree_ensure_nssm[OF assms(1)] agree_run_step[OF assms(1)] agree_success refl)
qed

lemma agree_winsvc_guards:
  assumes "twin_env env env' ref" and "twin_job job job'"
  shows "agree (res_rel (=)) (winsvc_guards env job) (winsvc_guards env' job')"
  using assms(2)
  by (auto simp: winsvc_guards_def Let_def twin_envD[OF assms(1)] twin_job_def intro!: agree_intros)

lemma agree_winsvc_replace:
  assumes "twin_env env env' ref" and "twin_job job job'"
  shows "agree (res_rel (=)) (winsvc_replace env ctx job n) (winsvc_replace env' ctx job' n)"
proof -
  obtain e b where p: "dj_project job' = (dj_project job)\<lparr>p_env := e, p_build_env := b\<rparr>" "dj_server job' = dj_server job"
    using assms(2) by (rule twin_jobE)
  note t = twin_envD[OF assms(1)]
  have f: "p_service_name (dj_project job') = p_service_name (dj_project job)" "p_id (dj_project job') = p_id (dj_project job)"
    "p_service_work_dir (dj_project job') = p_service_work_dir (dj_project job)"
    "p_service_source_subdir (dj_project job') = p_service_source_subdir (dj_project job)"
    "repo_dir_of env' (dj_project job') = repo_dir_of env (dj_project job)"
    by (simp_all add: p twin_repo_dir[OF assms(1)])
  show ?thesis
    unfolding winsvc_replace_def Let_def f t unfolding p
    by (intro agree_then agree_unless_static agree_or_recover agree_run_step[OF assms(1)] agree_note_backup agree_exec_or
          agree_smoke_test[OF assms(1)] agree_winsvc_parts[OF assms(1)] agree_configure_caddy[OF assms(1) p]
          agree_success refl t(1) disjI1)
qed

interpretation winsvc: target winsvc_deploy winsvc_rollback
proof
  fix env env' ctx job job'
  assume t: "twin_env env env' (p_git_credential_ref (dj_project job))" "twin_job job job'"
  from t(2) obtain e b where p: "dj_project job' = (dj_project job)\<lparr>p_env := e, p_build_env := b\<rparr>" "dj_server job' = dj_server job"
    by (rule twin_jobE)
  note a = agree_winsvc_guards[OF t] agree_winsvc_prepare[OF t] agree_winsvc_replace[OF t]
  show "agree (res_rel (=)) (winsvc_deploy env ctx job) (winsvc_deploy env' ctx job')"
    unfolding winsvc_deploy_def Let_def p
    by (auto simp: twin_repo_dir[OF t(1)] intro!: agree_intros a)
  have f: "p_service_name (dj_project job') = p_service_name (dj_project job)" "p_id (dj_project job') = p_id (dj_project job)"
    "p_service_work_dir (dj_project job') = p_service_work_dir (dj_project job)"
    "static_only (dj_project job') = static_only (dj_project job)"
    by (simp_all add: p)
  show "agree (res_rel (=)) (winsvc_rollback env ctx job) (winsvc_rollback env' ctx job')"
    unfolding winsvc_rollback_def Let_def f p(2) twin_envD[OF t(1)] unfolding p(1)
    by (intro agree_if agree_then agree_seq a agree_unless_static agree_or_recover agree_run_step[OF t(1)] agree_success
        agree_fail agree_logf agree_exec_or twin_envD(1)[OF t(1)] refl disjI1
        agree_smoke_test[OF t(1)] agree_winsvc_parts[OF t(1)])
qed (rule winsvc_audited | simp add: winsvc_deploy_def winsvc_rollback_def winsvc_guards_def Let_def fail_with_def
    try_then_def guard_err_def)+

section \<open>The chunked upload\<close>

lemma chunks_concat: "0 < n \<Longrightarrow> concat (chunks n s) = s"
proof (induction n s rule: chunks.induct)
  case (1 n s)
  then show ?case by (cases "s = []") (simp_all add: chunks.simps[of n s] chunks.simps[of n "[]"])
qed

lemma chunks_bound: "c \<in> set (chunks n s) \<Longrightarrow> length c \<le> n \<and> set c \<subseteq> set s \<and> c \<noteq> []"
proof (induction n s rule: chunks.induct)
  case (1 n s)
  show ?case
  proof (cases "s = [] \<or> n = 0")
    case True
    then show ?thesis using "1.prems" by (simp add: chunks.simps[of n s])
  next
    case False
    then have "c = take n s \<or> c \<in> set (chunks n (drop n s))"
      using "1.prems" by (simp add: chunks.simps[of n s])
    then show ?thesis
    proof
      assume "c = take n s"
      then show ?thesis using False by (auto dest: in_set_takeD)
    next
      assume "c \<in> set (chunks n (drop n s))"
      with "1.IH" False have "length c \<le> n \<and> set c \<subseteq> set (drop n s) \<and> c \<noteq> []" by simp
      then show ?thesis using set_drop_subset by fastforce
    qed
  qed
qed

lemma replace_char_absent: "c \<notin> set s \<Longrightarrow> replace_char c w s = s"
  by (rule replace_char_none)

text \<open>
  The upload of a binary splits its base64 text into chunks of at most 100000 characters that
  need no quoting, so every chunk command stays below the 153600-byte WinRM envelope for a
  destination path of up to 25000 characters, and what the target decodes from the concatenated
  chunks is the binary.
\<close>

theorem upload_chunks_exact:
  assumes "length tmp \<le> 25000"
  shows "base64_decode (concat (chunks nssm_upload_chunk (base64_encode data))) = Some data
    \<and> list_all (\<lambda>c. length (append_upload_script tmp c) < 153600) (chunks nssm_upload_chunk (base64_encode data))"
proof
  show "base64_decode (concat (chunks nssm_upload_chunk (base64_encode data))) = Some data"
    by (simp add: chunks_concat nssm_upload_chunk_def base64_roundtrip)
  show "list_all (\<lambda>c. length (append_upload_script tmp c) < 153600) (chunks nssm_upload_chunk (base64_encode data))"
    unfolding list_all_iff
  proof
    fix c assume "c \<in> set (chunks nssm_upload_chunk (base64_encode data))"
    from chunks_bound[OF this] have c: "length c \<le> nssm_upload_chunk" "set c \<subseteq> set (base64_encode data)" by auto
    then have "CHR 0x27 \<notin> set c" using base64_no_newline[of data] by (auto simp: list_all_iff)
    then have "length (ps_quote c) = length c + 2"
      by (simp add: ps_quote_def replace_char_absent squo_def)
    moreover have "length (replace_char (CHR 0x27) (squo @ squo) t) \<le> 2 * length t" for t
      by (induction t) (auto simp: replace_char_def squo_def)
    then have "length (ps_quote tmp) \<le> 2 * length tmp + 2"
      by (simp add: ps_quote_def squo_def)
    moreover have "length (append_upload_script tmp c) \<le> 500 + length (ps_quote tmp) + length (ps_quote c)"
      by (simp add: append_upload_script_def squo_def nl_def)
    ultimately show "length (append_upload_script tmp c) < 153600"
      using assms c(1) by (simp add: nssm_upload_chunk_def)
  qed
qed

lemma upload_chunks_exact_witness:
  "base64_decode (concat (chunks nssm_upload_chunk (base64_encode ''MZ''))) = Some ''MZ''
    \<and> list_all (\<lambda>c. length (append_upload_script ''C:/nssm.exe.b64'' c) < 153600)
        (chunks nssm_upload_chunk (base64_encode ''MZ''))"
  by (rule upload_chunks_exact) simp

lemma upload_chunks_commands:
  "does (upload_chunks env ctx tmp cs) (\<lambda>r e. r = Inr () \<longrightarrow> commands e = map (append_upload_script tmp) cs)"
proof (induction cs)
  case Nil
  then show ?case by (auto intro!: rt_intros)
next
  case (Cons c cs)
  show ?case
    unfolding upload_chunks.simps
    by (rule does_try_then, rule does_exec_or)
      (auto simp: commands_logs intro!: does_mono[OF Cons])
qed

lemma run_step_commands: "does (run_step env ctx c l w) (\<lambda>r e. r = Inr () \<longrightarrow> commands e = [c])"
  by (auto simp: run_step_def commands_logs intro!: rt_intros does_exec_or)

definition hash_confirmed :: "target_env \<Rightarrow> string \<Rightarrow> string \<Rightarrow> trace \<Rightarrow> bool" where
  "hash_confirmed env dest data e \<longleftrightarrow> (\<exists>out. Ran (file_hash_script dest) out None \<in> set e
     \<and> equal_fold (trim_space (last_line out)) (te_sha256 env data))"

definition upload_commands :: "string \<Rightarrow> string \<Rightarrow> string list" where
  "upload_commands dest data = (let tmp = dest @ ''.b64'' in
     begin_upload_script (win_dir dest) tmp
     # map (append_upload_script tmp) (chunks nssm_upload_chunk (base64_encode data))
     @ [finish_upload_script tmp dest, file_hash_script dest])"

lemma upload_binary_outcome:
  "does (upload_binary env ctx dest data) (\<lambda>r e. case r of Inl _ \<Rightarrow> True
     | Inr h \<Rightarrow> h = te_sha256 env data \<and> commands e = upload_commands dest data \<and> hash_confirmed env dest data e)"
  unfolding upload_binary_def Let_def
  by (rule does_try_then, rule does_mono[OF run_step_commands], simp split: sum.split, intro conjI impI allI,
      rule does_try_then, rule does_mono[OF upload_chunks_commands], simp split: sum.split, intro conjI impI allI,
      rule does_try_then, rule does_mono[OF run_step_commands], simp split: sum.split, intro conjI impI allI,
      rule does_try_then, rule does_exec_or)
    (auto simp: upload_commands_def hash_confirmed_def commands_logs Let_def intro!: rt_intros)

text \<open>
  C14: \<open>EnsureBinary\<close> reports success only if the target itself confirmed the hash of the destination
  file, and either it sent nothing but the hash query or it sent exactly the upload: begin, the
  chunks in order, assemble, hash.
\<close>

theorem ensure_binary_confirmed:
  "does (ensure_binary env ctx dest data) (\<lambda>r e. case r of Inl _ \<Rightarrow> True
     | Inr h \<Rightarrow> h = te_sha256 env data \<and> hash_confirmed env dest data e
         \<and> (commands e = [file_hash_script dest] \<or> commands e = file_hash_script dest # upload_commands dest data))"
proof -
  have h: "does (remote_file_sha256 env ctx dest) (\<lambda>r e. commands e = [file_hash_script dest]
      \<and> (\<forall>got. r = Inr got \<longrightarrow> (\<exists>out. Ran (file_hash_script dest) out None \<in> set e \<and> got = trim_space (last_line out))))"
    by (auto simp: remote_file_sha256_def intro!: rt_intros split: option.split)
  show ?thesis
    unfolding ensure_binary_def
    by (rule does_bind, rule does_mono[OF h], rule does_if)
      (auto split: sum.splits simp: hash_confirmed_def intro!: rt_intros does_mono[OF upload_binary_outcome])
qed

section \<open>Nothing is stopped before validation, and failures restart the service\<close>

definition svc_stop_cmd :: "deploy_job \<Rightarrow> string" where
  "svc_stop_cmd job = stop_service_script (p_service_name (dj_project job)) (nssm_path_for (dj_server job))"

definition svc_start_cmd :: "deploy_job \<Rightarrow> string" where
  "svc_start_cmd job = start_service_script (p_service_name (dj_project job)) (nssm_path_for (dj_server job))"

definition svc_validate_cmd :: "target_env \<Rightarrow> deploy_job \<Rightarrow> string" where
  "svc_validate_cmd env job = winsvc_validate_cmd env (dj_project job) (nssm_path_for (dj_server job))"

lemma concat_second: "\<exists>r. concat (a # (x @ y) # xs) = a @ x @ r"
  by simp

lemma svc_script_heads:
  "\<exists>x. stop_service_script n np = strict_line @ ''if (Get-Service -Name '' @ x"
  "\<exists>x. begin_upload_script d t = strict_line @ ''New-Item -ItemType Directory -Force -Path '' @ x"
  "\<exists>x. append_upload_script t c = strict_line @ ''Add-Content -LiteralPath '' @ x"
  "\<exists>x. file_hash_script path = strict_line @ ''if (Test-Path -LiteralPath '' @ x"
  "\<exists>x. validate_service_script r src w exe np = strict_line @ ''if (-not (Test-Path -LiteralPath '' @ x"
  unfolding stop_service_script_def begin_upload_script_def append_upload_script_def file_hash_script_def
    validate_service_script_def Let_def strict_line_def
  by (rule concat_second)+

lemma finish_head: "\<exists>x. finish_upload_script t d = strict_line @ CHR ''$'' # x"
  unfolding finish_upload_script_def strict_line_def by (rule concat_head)

lemma stop_service_differs:
  "sync_repo_script r u c auth \<noteq> stop_service_script n np"
  "runtime_probe_script x \<noteq> stop_service_script n np"
  "runtime_install_script spec \<noteq> stop_service_script n np"
  "build_script r cmd env \<noteq> stop_service_script n np"
  "secret_file_script path v True \<noteq> stop_service_script n np"
  "begin_upload_script d t \<noteq> stop_service_script n np"
  "append_upload_script t c \<noteq> stop_service_script n np"
  "finish_upload_script t d \<noteq> stop_service_script n np"
  "file_hash_script path \<noteq> stop_service_script n np"
  "validate_service_script r src w exe np' \<noteq> stop_service_script n np"
  using svc_script_heads(1)[of n np] script_heads(1)[of r u c auth] script_heads(2)[of x] script_heads(3)[of spec]
    script_heads(4)[of r cmd env] secret_file_head[of path v] svc_script_heads(2)[of d t] svc_script_heads(3)[of t c]
    svc_script_heads(4)[of path] svc_script_heads(5)[of r src w exe np'] finish_head[of t d]
  by auto

lemma absent_run_cmd: "c' \<noteq> c \<Longrightarrow> emits (\<lambda>e. \<not> did_run c e) (run_cmd host ctx c')"
  unfolding emits_def by (rule does_run_cmd) simp

lemma absent_remote_sha: "emits (\<lambda>e. \<not> did_run (svc_stop_cmd job) e) (remote_file_sha256 env ctx path)"
  by (auto simp: remote_file_sha256_def svc_stop_cmd_def stop_service_differs split: option.split
      intro!: absent.emits_intros absent_run_cmd)

lemma absent_upload_chunks: "emits (\<lambda>e. \<not> did_run (svc_stop_cmd job) e) (upload_chunks env ctx tmp cs)"
  by (induction cs) (auto simp: svc_stop_cmd_def stop_service_differs intro!: absent.emits_intros absent_exec_or)

lemma absent_ensure_binary: "emits (\<lambda>e. \<not> did_run (svc_stop_cmd job) e) (ensure_binary env ctx d x)"
  unfolding ensure_binary_def upload_binary_def Let_def
  by (intro absent.emits_intros absent_upload_chunks absent_remote_sha absent_run_step absent_exec_or absent_logf)
    (simp_all add: svc_stop_cmd_def stop_service_differs)

lemma absent_ensure_nssm: "emits (\<lambda>e. \<not> did_run (svc_stop_cmd job) e) (ensure_nssm env ctx path s pin)"
  by (auto simp: ensure_nssm_def Let_def split: sum.split
      intro!: absent.emits_intros absent_remote_sha absent_ensure_binary absent_logf)

lemma absent_winsvc_prepare: "emits (\<lambda>e. \<not> did_run (svc_stop_cmd job) e) (winsvc_prepare env ctx job)"
proof -
  have "emits (\<lambda>e. \<not> did_run (svc_stop_cmd job) e) (sync_repo env ctx job)"
    by (auto simp: sync_repo_def Let_def svc_stop_cmd_def stop_service_differs
        intro!: absent.emits_intros absent_exec_or absent_git_auth)
  moreover have "emits (\<lambda>e. \<not> did_run (svc_stop_cmd job) e) (run_build env ctx p w c)" for p w c
    by (auto simp: run_build_def Let_def svc_stop_cmd_def stop_service_differs
        intro!: absent.emits_intros absent_exec_or)
  ultimately show ?thesis
    unfolding winsvc_prepare_def winsvc_ensure_nssm_def Let_def
    by (intro absent.emits_intros absent_ensure_runtime absent_ensure_nssm absent_run_step)
      (simp_all add: svc_stop_cmd_def stop_service_differs winsvc_validate_cmd_def)
qed

lemma ensure_nssm_result: "does (ensure_nssm env ctx path s pin) (\<lambda>r e. case r of Inr n \<Rightarrow> n = path | Inl _ \<Rightarrow> True)"
proof -
  have t: "does (remote_file_sha256 env ctx path) (\<lambda>_ _. True)" "does (ensure_binary env ctx path d) (\<lambda>_ _. True)" for d
    by (auto intro: does_trivial audit_remote_sha audit_ensure_binary)
  show ?thesis
    unfolding ensure_nssm_def Let_def
    by (auto split: sum.split intro!: rt_intros does_mono[OF t(1)] does_mono[OF t(2)])
qed

lemma then_ok:
  assumes "does m (\<lambda>r _. \<forall>x. r = Inr x \<longrightarrow> A x)"
    and "\<And>x. A x \<Longrightarrow> does (k x) (\<lambda>r e. \<forall>n. r = Inr n \<longrightarrow> B n \<and> ran_ok g e)"
  shows "does (try_then m k) (\<lambda>r e. \<forall>n. r = Inr n \<longrightarrow> B n \<and> ran_ok g e)"
  by (rule does_try_then, rule does_mono[OF assms(1)]) (auto split: sum.split intro!: does_mono[OF assms(2)])

lemma winsvc_prepare_result:
  "does (winsvc_prepare env ctx job) (\<lambda>r e. \<forall>n. r = Inr n \<longrightarrow> n = nssm_path_for (dj_server job)
     \<and> ran_ok (svc_validate_cmd env job) e)"
proof -
  let ?n = "nssm_path_for (dj_server job)"
  have t: "does m (\<lambda>r _. \<forall>x. r = Inr x \<longrightarrow> True)" if "emits (audit_aligned (cx_meta ctx)) m" for m :: "unit res rt"
    by (rule does_mono[OF does_trivial[OF that]]) simp
  have n: "does (ensure_nssm env ctx ?n src pin) (\<lambda>r _. \<forall>x. r = Inr x \<longrightarrow> x = ?n)" for src pin
    by (rule does_mono[OF ensure_nssm_result]) (auto split: sum.splits)
  have v: "does (try_then (run_step env ctx (winsvc_validate_cmd env (dj_project job) np) l w) (\<lambda>_. succeed np))
      (\<lambda>r e. \<forall>x. r = Inr x \<longrightarrow> x = ?n \<and> ran_ok (svc_validate_cmd env job) e)" if "np = ?n" for np l w
    unfolding that svc_validate_cmd_def
    by (rule does_try_then, rule does_mono[OF run_step_ok]) (auto split: sum.splits intro!: rt_intros)
  show ?thesis
    unfolding winsvc_prepare_def winsvc_ensure_nssm_def Let_def
    by (rule then_ok[OF t], rule audit_sync_repo, rule refl, rule then_ok[OF t], rule audit_ensure_runtime, rule refl,
        rule then_ok[OF t], rule audit_run_build, rule refl, rule then_ok[OF n]) (rule v)
qed

text \<open>
  A Windows service deploy never stops the service before the validation of the new build has
  succeeded on the target.
\<close>

theorem winsvc_stop_after_validation:
  "does (winsvc_deploy env ctx job) (\<lambda>_ e. preceded (svc_stop_cmd job) (svc_validate_cmd env job) e)"
proof -
  let ?c = "svc_stop_cmd job" and ?g = "svc_validate_cmd env job"
  have q: "emits (\<lambda>e. \<not> did_run ?c e) (winsvc_guards env job)" "emits (\<lambda>e. \<not> did_run ?c e) (guard_err x)" for x
    by (auto simp: winsvc_guards_def Let_def intro!: absent.emits_intros)
  have prep: "does (winsvc_prepare env ctx job)
      (\<lambda>r e. \<not> did_run ?c e \<and> (\<forall>n. r = Inr n \<longrightarrow> n = nssm_path_for (dj_server job) \<and> ran_ok ?g e))"
    by (rule does_conj[OF _ winsvc_prepare_result]) (rule absent_winsvc_prepare[unfolded emits_def])
  have t: "does (winsvc_replace env ctx job n) (\<lambda>_ _. True)" for n
    by (rule does_trivial, rule audit_winsvc_replace, rule refl)
  have live: "does (try_then (winsvc_prepare env ctx job) (\<lambda>n. winsvc_replace env ctx job n)) (\<lambda>_ e. preceded ?c ?g e)"
    by (rule does_try_then, rule does_mono[OF prep])
      (auto split: sum.split simp: preceded_absent preceded_passed intro!: does_mono[OF t])
  show ?thesis
    unfolding winsvc_deploy_def Let_def
    by (intro preceded_then[OF q(1)] preceded_then[OF q(2)] preceded_logged live)
qed

definition svc_released :: "target_env \<Rightarrow> deploy_job \<Rightarrow> trace \<Rightarrow> bool" where
  "svc_released env job e \<longleftrightarrow> ran_ok (svc_start_cmd job) e \<and> smoke_ok env (dj_project job) e"

definition svc_restarted :: "deploy_job \<Rightarrow> trace \<Rightarrow> bool" where
  "svc_restarted job e \<longleftrightarrow> last_ran e = Some (svc_start_cmd job)"

interpretation svc: recovery "\<lambda>e. \<not> did_run (svc_stop_cmd job) e" "did_run (svc_stop_cmd job)"
  "svc_restarted job" "svc_released env job"
  for job env
  by unfold_locales (auto simp: last_ran_append svc_released_def smoke_ok_def svc_restarted_def)

lemma winsvc_recover_restarts:
  assumes "p_service_name (dj_project job) \<noteq> []"
  shows "does (winsvc_recover_live env ctx (dj_project job) (nssm_path_for (dj_server job)) b) (\<lambda>_ e. svc_restarted job e)"
proof -
  have "does (if b \<noteq> [] \<and> b \<noteq> ''NO_BACKUP'' then exec_or_log env ctx c l w else State_Monad.return ()) (\<lambda>_ _. True)" for c l w
    by (auto intro!: does_return does_mono[OF exec_or_log_last])
  then show ?thesis
    unfolding winsvc_recover_live_def svc_restarted_def
    by (rule does_bind[OF does_mono])
      (simp add: assms, rule does_mono[OF exec_or_log_last], rule last_ran_append, simp add: svc_start_cmd_def)
qed

lemma winsvc_replace_outcome:
  assumes "\<not> static_only (dj_project job)" and "p_service_name (dj_project job) \<noteq> []"
  shows "does (winsvc_replace env ctx job (nssm_path_for (dj_server job))) (svc.live_outcome job env)"
proof -
  note rec = svc.recovering[OF _ winsvc_recover_restarts[OF assms(2)]]
  have u: "unless_static (dj_project job) m = m" for m
    using assms(1) by (simp add: unless_static_def)
  have app: "does m (svc.live_outcome job env) \<Longrightarrow> does m (\<lambda>z e. svc.live_outcome job env z (a @ e))"
    for a and m :: "string res rt"
    by (rule svc.live_app)
  let ?rc = "winsvc_recover_live env ctx (dj_project job) (nssm_path_for (dj_server job))"
  have smoke: "does (try_then (or_recover (configure_caddy env ctx job) (?rc b))
        (\<lambda>_. try_then (or_recover (smoke_test env ctx (dj_project job)) (?rc b)) (\<lambda>_. succeed b)))
      (\<lambda>z e. svc.live_outcome job env z (e1 @ e))" if "ran_ok (svc_start_cmd job) e1" for b e1
  proof -
    have c: "does (configure_caddy env ctx job) (\<lambda>_ _. True)" by (rule does_trivial[OF audit_configure_caddy[OF refl]])
    have "does (try_then (or_recover (configure_caddy env ctx job) (?rc b))
          (\<lambda>_. try_then (or_recover (smoke_test env ctx (dj_project job)) (?rc b)) (\<lambda>_. succeed b)))
        (\<lambda>z e. case z of Inr _ \<Rightarrow> smoke_ok env (dj_project job) e | Inl _ \<Rightarrow> svc_restarted job e)"
      by (rule does_try_then, rule does_or_recover, rule does_mono[OF c])
        (auto split: sum.splits simp: smoke_ok_def intro!: does_succeed does_try_then does_or_recover
          does_mono[OF smoke_test_ok] does_mono[OF winsvc_recover_restarts[OF assms(2)]] svc.rcv_app)
    then show ?thesis
      by (rule does_mono) (use that in \<open>auto simp: svc.live_outcome_def svc_released_def smoke_ok_def
          svc.rcv_app split: sum.splits\<close>)
  qed
  have note_out: "(\<And>b. does (k b) (svc.live_outcome job env)) \<Longrightarrow> does (try_then (note_backup x) k) (svc.live_outcome job env)"
    for k :: "string \<Rightarrow> string res rt" and x
    by (auto simp: note_backup_def intro!: rt_intros svc.live_log)
  have t: "does (run_step env ctx c l w) (\<lambda>_ _. True)" "does (exec_or (te_host env) ctx c l msg) (\<lambda>_ _. True)"
    "does (install_service env ctx p n) (\<lambda>_ _. True)" for c l w msg p n
    by (auto intro: does_trivial audit_run_step audit_emits_exec_or audit_install_service)
  show ?thesis
    unfolding winsvc_replace_def Let_def u
    by (rule rec[OF t(1)], rule app, rule rec[OF t(2)], rule app, rule note_out,
        rule rec[OF t(1)], rule app, rule rec[OF t(3)], rule app, rule rec[OF run_step_ok])
      (rule smoke, simp add: svc_start_cmd_def)
qed

text \<open>
  C12: a deploy of a service that is not a static site, from any earlier history and against any
  target: a success means the start script and, unless disabled, the smoke test succeeded; a
  failure after the stop script was sent ends with the start script of the service.
\<close>

theorem winsvc_deploy_outcome:
  "does (winsvc_deploy env ctx job) (\<lambda>r e. if static_only (dj_project job) then True else case r of
      Inr _ \<Rightarrow> svc_released env job e
    | Inl _ \<Rightarrow> if did_run (svc_stop_cmd job) e then svc_restarted job e else True)"
proof (cases "static_only (dj_project job)")
  case True
  then show ?thesis using does_trivial[OF winsvc_audited(1), of env ctx job] by (auto elim: does_mono)
next
  case False
  let ?p = "dj_project job" and ?O = "outcome (did_run (svc_stop_cmd job)) (svc_restarted job) (svc_released env job)"
  have q: "emits (\<lambda>e. \<not> did_run (svc_stop_cmd job) e) (winsvc_guards env job)"
    by (auto simp: winsvc_guards_def Let_def intro!: absent.emits_intros)
  have prep: "does (winsvc_prepare env ctx job)
      (\<lambda>r e. \<not> did_run (svc_stop_cmd job) e \<and> (\<forall>n. r = Inr n \<longrightarrow> n = nssm_path_for (dj_server job)))"
    by (rule does_conj[OF _ does_mono[OF winsvc_prepare_result]])
      (rule absent_winsvc_prepare[unfolded emits_def], simp)
  have live: "does (try_then (winsvc_prepare env ctx job) (\<lambda>n. winsvc_replace env ctx job n)) ?O"
    if "p_service_name ?p \<noteq> []"
    by (rule does_try_then, rule does_mono[OF prep])
      (auto split: sum.split simp: outcome_def svc.rcv_app svc.good_app
        intro!: does_mono[OF svc.live_outcome[OF winsvc_replace_outcome[OF False that]]])
  have "does (winsvc_deploy env ctx job) ?O"
  proof (cases "p_service_name ?p = []")
    case True
    then have "winsvc_config_error ?p = Some (''project '' @ p_id ?p @ '' has no service_name'')"
      using False by (simp add: winsvc_config_error_def fail_if_def)
    then show ?thesis
      unfolding winsvc_deploy_def Let_def
      by (intro svc.prelude[OF q]) (simp, rule svc.failed)
  next
    case False
    then show ?thesis
      unfolding winsvc_deploy_def Let_def
      by (intro svc.prelude[OF q] svc.guarded svc.logged live)
  qed
  then show ?thesis by (rule does_mono) (auto simp: outcome_def False split: sum.splits)
qed

end
