(* ===== verification/Tables.thy ===== *)
theory Tables
  imports Runner
begin

text \<open>
  The SQL that \<open>internal/models/store.go\<close> is written in, on tables as lists of rows: the statements
  the package uses (\<open>INSERT\<close>, \<open>INSERT OR REPLACE\<close>, \<open>ON CONFLICT DO UPDATE\<close>, \<open>UPDATE\<close>, \<open>DELETE\<close>,
  \<open>ORDER BY\<close>, \<open>LIMIT\<close>, \<open>OFFSET\<close>, \<open>LIKE\<close>) and the two contracts its tables share: a table with a key
  behaves like a finite map, and a table with an \<open>AUTOINCREMENT\<close> id like a history that is read
  newest first.
\<close>

section \<open>Statements\<close>

definition upsert :: "('r \<Rightarrow> 'k) \<Rightarrow> ('r \<Rightarrow> 'r \<Rightarrow> 'r) \<Rightarrow> 'r \<Rightarrow> 'r list \<Rightarrow> 'r list" where
  "upsert key merge r rows =
     (if list_ex (\<lambda>x. key x = key r) rows
      then map (\<lambda>x. if key x = key r then merge x r else x) rows
      else rows @ [r])"

definition replace_row :: "('r \<Rightarrow> 'k) \<Rightarrow> 'r \<Rightarrow> 'r list \<Rightarrow> 'r list" where
  "replace_row key r rows = filter (\<lambda>x. key x \<noteq> key r) rows @ [r]"

definition update_rows :: "('r \<Rightarrow> bool) \<Rightarrow> ('r \<Rightarrow> 'r) \<Rightarrow> 'r list \<Rightarrow> 'r list" where
  "update_rows P f rows = map (\<lambda>r. if P r then f r else r) rows"

definition delete_rows :: "('r \<Rightarrow> bool) \<Rightarrow> 'r list \<Rightarrow> 'r list" where
  "delete_rows P rows = filter (\<lambda>r. \<not> P r) rows"

text \<open>\<open>LIMIT n OFFSET m\<close>: a negative limit is no limit, a negative offset is none.\<close>

definition limit_offset :: "int \<Rightarrow> int \<Rightarrow> 'r list \<Rightarrow> 'r list" where
  "limit_offset n m rows = (if n < 0 then drop (nat m) rows else take (nat n) (drop (nat m) rows))"

abbreviation limit :: "int \<Rightarrow> 'r list \<Rightarrow> 'r list" where
  "limit n rows \<equiv> limit_offset n 0 rows"

definition order_desc :: "('r \<Rightarrow> int) \<Rightarrow> 'r list \<Rightarrow> 'r list" where
  "order_desc ident rows = rev (sort_key ident rows)"

text \<open>
  \<open>LIKE\<close>: \<open>%\<close> matches any string, \<open>_\<close> one character (its lead byte and continuation bytes), and
  letters match in either ASCII case.
\<close>

definition skip_utf8 :: "string \<Rightarrow> string" where
  "skip_utf8 s = dropWhile (\<lambda>c. (128::nat) \<le> of_char c \<and> of_char c < (192::nat)) s"

function like :: "string \<Rightarrow> string \<Rightarrow> bool" where
  "like [] s \<longleftrightarrow> s = []"
| "like (p # ps) s \<longleftrightarrow>
     (if p = CHR ''%'' then (like ps s \<or> (case s of [] \<Rightarrow> False | _ # t \<Rightarrow> like (p # ps) t))
      else (case s of
          [] \<Rightarrow> False
        | c # t \<Rightarrow> if p = CHR ''_'' then like ps (skip_utf8 t) else lower_char p = lower_char c \<and> like ps t))"
  by pat_completeness auto
termination
  by (relation "measures [\<lambda>(p, s). length p, \<lambda>(p, s). length s]") auto

definition like_contains :: "string \<Rightarrow> string \<Rightarrow> bool" where
  "like_contains query s = like (''%'' @ query @ ''%'') s"

text \<open>Inserting with the next \<open>AUTOINCREMENT\<close> id, and \<open>SELECT ... WHERE P ORDER BY id DESC LIMIT n\<close>.\<close>

definition insert_row :: "(int \<Rightarrow> 'r \<Rightarrow> 'r) \<Rightarrow> 'r \<Rightarrow> int \<Rightarrow> 'r list \<Rightarrow> 'r list" where
  "insert_row assign r seq rows = rows @ [assign (seq + 1) r]"

definition newest :: "('r \<Rightarrow> int) \<Rightarrow> int \<Rightarrow> ('r \<Rightarrow> bool) \<Rightarrow> 'r list \<Rightarrow> 'r list" where
  "newest ident n P rows = limit n (order_desc ident (filter P rows))"

definition rows_ok :: "('r \<Rightarrow> int) \<Rightarrow> int \<Rightarrow> 'r list \<Rightarrow> bool" where
  "rows_ok ident seq rows \<longleftrightarrow> 0 \<le> seq \<and> sorted_wrt (<) (map ident rows)
     \<and> list_all (\<lambda>r. 0 < ident r \<and> ident r \<le> seq) rows"

definition keys_distinct :: "('r \<Rightarrow> 'k) \<Rightarrow> 'r list \<Rightarrow> bool" where
  "keys_distinct key rows = distinct (map key rows)"

section \<open>Facts about the statements\<close>

lemma set_update_rows: "set (update_rows P f rows) \<subseteq> f ` set rows \<union> set rows"
  by (auto simp: update_rows_def)

lemma list_all_update: "list_all Q rows \<Longrightarrow> (\<And>r. Q r \<Longrightarrow> Q (f r)) \<Longrightarrow> list_all Q (update_rows P f rows)"
  by (auto simp: list_all_iff update_rows_def)

lemma list_all_delete [simp]: "list_all Q rows \<Longrightarrow> list_all Q (delete_rows P rows)"
  by (auto simp: list_all_iff delete_rows_def)

lemma list_all_upsert:
  "list_all Q rows \<Longrightarrow> Q r \<Longrightarrow> (\<And>x. key x = key r \<Longrightarrow> Q (merge x r)) \<Longrightarrow> list_all Q (upsert key merge r rows)"
  by (auto simp: list_all_iff upsert_def)

lemma map_update_rows: "(\<And>r. f (g r) = f r) \<Longrightarrow> map f (update_rows P g rows) = map f rows"
  by (auto simp: update_rows_def)

lemma filter_update_rows:
  "(\<And>r. Q (f r) = Q r) \<Longrightarrow> filter Q (update_rows P f rows) = update_rows P f (filter Q rows)"
  by (induction rows) (auto simp: update_rows_def)

lemma limit_length: "0 \<le> n \<Longrightarrow> length (limit n rows) \<le> nat n"
  by (simp add: limit_offset_def)

lemma limit_subset: "set (limit_offset n m rows) \<subseteq> set rows"
  by (auto simp: limit_offset_def dest: in_set_takeD in_set_dropD)

lemma rows_ok_snoc: "rows_ok ident seq rows \<Longrightarrow> ident r = seq + 1 \<Longrightarrow> rows_ok ident (seq + 1) (rows @ [r])"
  by (auto simp: rows_ok_def sorted_wrt_append list_all_iff)

text \<open>Every string that contains the query matches, whatever wildcards the query has.\<close>

lemma like_percent: "like ps s \<Longrightarrow> like (CHR ''%'' # ps) (a @ s)"
proof (induction a)
  case Nil
  then show ?case by (cases s) simp_all
next
  case (Cons c a)
  then show ?case by simp
qed

lemma like_any: "like ''%'' s"
  using like_percent[of "[]" "[]" s] by simp

lemma like_literal:
  "list_all (\<lambda>c. c \<noteq> CHR ''_'' \<and> c \<noteq> CHR ''%'') q \<Longrightarrow> like ps s \<Longrightarrow> like (q @ ps) (q @ s)"
  by (induction q) auto

lemma like_contains_sublist:
  assumes "list_all (\<lambda>c. c \<noteq> CHR ''_'' \<and> c \<noteq> CHR ''%'') q"
  shows "like_contains q (a @ q @ b)"
  unfolding like_contains_def
  using like_percent[OF like_literal[OF assms like_any], of a b] by simp

lemma find_append: "find P (xs @ ys) = (case find P xs of None \<Rightarrow> find P ys | Some x \<Rightarrow> Some x)"
  by (induction xs) auto

text \<open>With distinct keys, a further condition is checked on the one row of the key.\<close>

lemma find_conj:
  assumes "keys_distinct key rows"
  shows "find (\<lambda>r. key r = k \<and> Q r) rows = (case find (\<lambda>r. key r = k) rows of None \<Rightarrow> None | Some r \<Rightarrow> if Q r then Some r else None)"
  using assms
proof (induction rows)
  case (Cons a rows)
  have "find (\<lambda>r. key r = k \<and> P r) rows = None" if "key a = k" for P
    using Cons.prems that by (auto simp: keys_distinct_def find_None_iff) (metis image_eqI)
  then show ?case using Cons by (auto simp: keys_distinct_def)
qed simp

section \<open>Tables with a key\<close>

text \<open>
  The contract of a table with a primary key: \<open>key\<close> is the key column, \<open>val\<close> what the readers
  select, and \<open>merge\<close> the \<open>DO UPDATE SET\<close> of an upsert, which keeps the key and takes the new value.
\<close>

locale keyed_table =
  fixes key :: "'r \<Rightarrow> 'k" and val :: "'r \<Rightarrow> 'v" and merge :: "'r \<Rightarrow> 'r \<Rightarrow> 'r"
  assumes key_merge: "key r = key x \<Longrightarrow> key (merge x r) = key x"
    and val_merge: "key r = key x \<Longrightarrow> val (merge x r) = val r"
begin

definition lookup :: "'r list \<Rightarrow> 'k \<Rightarrow> 'v option" where
  "lookup rows k = map_option val (find (\<lambda>r. key r = k) rows)"

lemma lookup_Nil [simp]: "lookup [] k = None"
  by (simp add: lookup_def)

lemma lookup_Cons [simp]: "lookup (r # rows) k = (if key r = k then Some (val r) else lookup rows k)"
  by (simp add: lookup_def)

lemma lookup_append: "lookup (xs @ ys) k = (case lookup xs k of None \<Rightarrow> lookup ys k | Some v \<Rightarrow> Some v)"
  by (induction xs) auto

lemma lookup_None: "lookup rows k = None \<longleftrightarrow> k \<notin> key ` set rows"
  by (induction rows) auto

lemma map_key_upsert:
  "map key (upsert key merge r rows) = (if key r \<in> key ` set rows then map key rows else map key rows @ [key r])"
  by (auto simp: upsert_def list_ex_iff key_merge rev_image_eqI)

lemma keys_upsert: "keys_distinct key rows \<Longrightarrow> keys_distinct key (upsert key merge r rows)"
  by (simp add: keys_distinct_def map_key_upsert)

lemma keys_delete: "keys_distinct key rows \<Longrightarrow> keys_distinct key (delete_rows P rows)"
  by (simp add: keys_distinct_def delete_rows_def distinct_map_filter)

lemma keys_replace: "keys_distinct key rows \<Longrightarrow> keys_distinct key (replace_row key r rows)"
  by (auto simp: keys_distinct_def replace_row_def distinct_map_filter)

lemma lookup_merge_map:
  "lookup (map (\<lambda>x. if key x = key r then merge x r else x) rows) k
     = (if k = key r \<and> k \<in> key ` set rows then Some (val r) else lookup rows k)"
  by (induction rows) (auto simp: key_merge val_merge)

lemma lookup_upsert: "lookup (upsert key merge r rows) = (lookup rows)(key r \<mapsto> val r)"
proof
  fix k
  show "lookup (upsert key merge r rows) k = ((lookup rows)(key r \<mapsto> val r)) k"
  proof (cases "key r \<in> key ` set rows")
    case True
    then show ?thesis
      by (auto simp: upsert_def list_ex_iff lookup_merge_map)
  next
    case False
    then have "upsert key merge r rows = rows @ [r]" by (auto simp: upsert_def list_ex_iff rev_image_eqI)
    moreover have "lookup rows (key r) = None" using False by (simp add: lookup_None)
    ultimately show ?thesis by (auto simp: lookup_append split: option.split)
  qed
qed

lemma lookup_filter:
  "(\<And>r. key r = k \<Longrightarrow> P r) \<Longrightarrow> lookup (filter P rows) k = lookup rows k"
  by (induction rows) auto

lemma lookup_delete_key: "lookup (delete_rows (\<lambda>r. key r = k) rows) = (lookup rows)(k := None)"
proof
  fix k'
  show "lookup (delete_rows (\<lambda>r. key r = k) rows) k' = ((lookup rows)(k := None)) k'"
    by (cases "k' = k") (auto simp: lookup_None lookup_filter delete_rows_def)
qed

lemma lookup_replace: "lookup (replace_row key r rows) = (lookup rows)(key r \<mapsto> val r)"
proof
  fix k
  show "lookup (replace_row key r rows) k = ((lookup rows)(key r \<mapsto> val r)) k"
  proof (cases "k = key r")
    case True
    moreover have "lookup (filter (\<lambda>x. key x \<noteq> key r) rows) (key r) = None" by (auto simp: lookup_None)
    ultimately show ?thesis by (simp add: replace_row_def lookup_append)
  next
    case False
    then show ?thesis
      by (auto simp: replace_row_def lookup_append lookup_filter split: option.split)
  qed
qed

lemma upsert_upsert:
  "key r = key r' \<Longrightarrow> lookup (upsert key merge r (upsert key merge r' rows)) = lookup (upsert key merge r rows)"
  by (simp add: lookup_upsert)

lemma find_iff:
  assumes "keys_distinct key rows"
  shows "find (\<lambda>r. key r = k) rows = Some r \<longleftrightarrow> r \<in> set rows \<and> key r = k"
  using assms by (induction rows) (auto simp: keys_distinct_def image_iff)

end

section \<open>Histories\<close>

text \<open>
  The contract of a table with an \<open>AUTOINCREMENT\<close> id: \<open>assign\<close> gives a new row its id, and ids are
  handed out in increasing order from a counter that never goes back, so insertion order is id
  order and \<open>ORDER BY id DESC\<close> reads newest first.
\<close>

locale history =
  fixes ident :: "'r \<Rightarrow> int" and assign :: "int \<Rightarrow> 'r \<Rightarrow> 'r"
  assumes ident_assign [simp]: "ident (assign i r) = i"
begin

lemma ok_empty: "rows_ok ident 0 []"
  by (simp add: rows_ok_def)

lemma ok_insert: "rows_ok ident seq rows \<Longrightarrow> rows_ok ident (seq + 1) (insert_row assign r seq rows)"
  by (auto simp: rows_ok_def insert_row_def sorted_wrt_append list_all_iff)

lemma sorted_filter_ident: "sorted_wrt (<) (map ident rows) \<Longrightarrow> sorted_wrt (<) (map ident (filter P rows))"
  by (induction rows) auto

lemma ok_delete: "rows_ok ident seq rows \<Longrightarrow> rows_ok ident seq (delete_rows P rows)"
  by (auto simp: rows_ok_def delete_rows_def sorted_filter_ident list_all_iff)

lemma ok_update: "(\<And>r. ident (f r) = ident r) \<Longrightarrow> rows_ok ident seq rows \<Longrightarrow> rows_ok ident seq (update_rows P f rows)"
  by (auto simp: rows_ok_def map_update_rows intro: list_all_update)

lemma order_desc_ok: "sorted_wrt (<) (map ident rows) \<Longrightarrow> order_desc ident rows = rev rows"
  unfolding order_desc_def
  by (simp add: sorted_sort_id strict_sorted_imp_sorted sort_key_id_if_sorted)

lemma newest_ok: "rows_ok ident seq rows \<Longrightarrow> newest ident n P rows = limit n (rev (filter P rows))"
  by (simp add: newest_def rows_ok_def order_desc_ok sorted_filter_ident)

lemma newest_insert:
  assumes "rows_ok ident seq rows" and "P (assign (seq + 1) r)" and "0 < n"
  shows "newest ident n P (insert_row assign r seq rows) = assign (seq + 1) r # newest ident (n - 1) P rows"
proof -
  have n: "nat n = Suc (nat (n - 1))" using assms(3) by simp
  have "newest ident n P (insert_row assign r seq rows) = limit n (rev (filter P (insert_row assign r seq rows)))"
    by (rule newest_ok[OF ok_insert[OF assms(1)]])
  also have "\<dots> = limit n (assign (seq + 1) r # rev (filter P rows))"
    using assms(2) by (simp add: insert_row_def)
  also have "\<dots> = assign (seq + 1) r # limit (n - 1) (rev (filter P rows))"
    using assms(3) by (simp add: limit_offset_def n)
  finally show ?thesis by (simp add: newest_ok[OF assms(1)])
qed

lemma newest_insert_other:
  "rows_ok ident seq rows \<Longrightarrow> \<not> P (assign (seq + 1) r) \<Longrightarrow> newest ident n P (insert_row assign r seq rows) = newest ident n P rows"
  using newest_ok[OF ok_insert, of seq rows n P r] by (simp add: newest_ok insert_row_def)

text \<open>A page is strictly descending, has no row twice, and holds matching rows of the table only.\<close>

lemma newest_sorted: "rows_ok ident seq rows \<Longrightarrow> sorted_wrt (\<lambda>a b. ident b < ident a) (newest ident n P rows)"
proof -
  assume a: "rows_ok ident seq rows"
  have "sorted_wrt (<) (map ident (filter P rows))"
    using a by (simp add: rows_ok_def sorted_filter_ident)
  then have "sorted_wrt (\<lambda>a b. ident b < ident a) (rev (filter P rows))"
    by (simp add: sorted_wrt_rev sorted_wrt_map)
  then have "sorted_wrt (\<lambda>a b. ident b < ident a) (limit n (rev (filter P rows)))"
    by (auto simp: limit_offset_def intro: sorted_wrt_take)
  then show ?thesis by (simp add: newest_ok[OF a])
qed

lemma newest_members: "set (newest ident n P rows) \<subseteq> {r \<in> set rows. P r}"
  using limit_subset[of n 0 "order_desc ident (filter P rows)"] by (auto simp: newest_def order_desc_def)

lemma find_ident:
  assumes "rows_ok ident seq rows"
  shows "find (\<lambda>r. ident r = i) rows = Some r \<longleftrightarrow> r \<in> set rows \<and> ident r = i"
proof -
  have "distinct (map ident rows)" using assms by (simp add: rows_ok_def strict_sorted_iff)
  then show ?thesis by (induction rows) (auto simp: image_iff)
qed

lemma ident_inj: "rows_ok ident seq rows \<Longrightarrow> r \<in> set rows \<Longrightarrow> r' \<in> set rows \<Longrightarrow> ident r = ident r' \<Longrightarrow> r = r'"
  by (metis find_ident option.inject)

lemma fresh_id: "rows_ok ident seq rows \<Longrightarrow> r \<in> set rows \<Longrightarrow> ident r \<noteq> seq + 1"
  by (fastforce simp: rows_ok_def list_all_iff)

end

end
