(* ===== verification/Json.thy ===== *)
theory Json
  imports GoFmt
begin

text \<open>
  The JSON of \<open>encoding/json\<close> as far as the program uses it: the reader behind \<open>json.Unmarshal\<close>, the
  writer behind \<open>json.Marshal\<close> for strings, lists and maps, and the conversions to Go values. Texts
  are byte strings; a byte sequence that is not UTF-8 is read and written as U+FFFD.
\<close>

section \<open>UTF-8\<close>

definition cont :: "char \<Rightarrow> bool" where
  "cont c \<longleftrightarrow> 128 \<le> byte c \<and> byte c < 192"

definition in_range :: "nat \<Rightarrow> nat \<Rightarrow> char \<Rightarrow> bool" where
  "in_range a b c \<longleftrightarrow> a \<le> byte c \<and> byte c \<le> b"

text \<open>The length of the encoded character at the head, 0 when there is none.\<close>

definition utf8_need :: "char \<Rightarrow> nat" where
  "utf8_need c = (if byte c < 128 then 1 else if in_range 0xC2 0xDF c then 2 else if in_range 0xE0 0xEF c then 3
     else if in_range 0xF0 0xF4 c then 4 else 0)"

definition second_ok :: "char \<Rightarrow> char \<Rightarrow> bool" where
  "second_ok c d = in_range (if byte c = 0xE0 then 0xA0 else if byte c = 0xF0 then 0x90 else 0x80)
     (if byte c = 0xED then 0x9F else if byte c = 0xF4 then 0x8F else 0xBF) d"

fun utf8_len :: "string \<Rightarrow> nat" where
  "utf8_len [] = 0"
| "utf8_len (c # s) =
     (let n = utf8_need c in
      if n \<le> 1 then n
      else if length s < n - 1 then 0
      else if second_ok c (hd s) \<and> list_all cont (take (n - 1) s) then n else 0)"

definition utf8_encode :: "nat \<Rightarrow> string" where
  "utf8_encode n =
     (if n < 0x80 then [char_of n]
      else if n < 0x800 then [char_of (0xC0 + n div 64), char_of (0x80 + n mod 64)]
      else if n < 0x10000 then [char_of (0xE0 + n div 4096), char_of (0x80 + n div 64 mod 64), char_of (0x80 + n mod 64)]
      else [char_of (0xF0 + n div 262144), char_of (0x80 + n div 4096 mod 64), char_of (0x80 + n div 64 mod 64),
            char_of (0x80 + n mod 64)])"

definition replacement :: string where
  "replacement = [CHR 0xEF, CHR 0xBF, CHR 0xBD]"

declare utf8_len.simps [simp del]

function valid_utf8 :: "string \<Rightarrow> bool" where
  "valid_utf8 s = (if s = [] then True else if utf8_len s = 0 then False else valid_utf8 (drop (utf8_len s) s))"
  by pat_completeness auto
termination
  by (relation "measure length") auto

declare valid_utf8.simps [simp del]

lemma utf8_len_le: "utf8_len s \<le> length s"
  by (cases s) (auto simp: utf8_len.simps Let_def)

section \<open>Strings\<close>

definition ctrl_escape :: "char \<Rightarrow> string" where
  "ctrl_escape c = bsl @ ''u00'' @ [hex_digit (byte c div 16), hex_digit (byte c mod 16)]"

definition esc_char :: "char \<Rightarrow> string" where
  "esc_char c =
     (if c = CHR 0x22 then bsl @ dquo else if c = CHR 0x5C then bsl @ bsl
      else if c = CHR 0x08 then bsl @ ''b'' else if c = CHR 0x0C then bsl @ ''f''
      else if c = CHR 0x0A then bsl @ ''n'' else if c = CHR 0x0D then bsl @ ''r'' else if c = CHR 0x09 then bsl @ ''t''
      else if byte c < 32 \<or> c = CHR ''<'' \<or> c = CHR ''>'' \<or> c = CHR 0x26 then ctrl_escape c
      else [c])"

function enc_string :: "string \<Rightarrow> string" where
  "enc_string [] = []"
| "enc_string (c # s) =
     (if byte c < 128 then esc_char c @ enc_string s
      else let n = utf8_len (c # s) in
        if n = 0 then bsl @ ''ufffd'' @ enc_string s
        else if take 3 (c # s) = [CHR 0xE2, CHR 0x80, CHR 0xA8] then bsl @ ''u2028'' @ enc_string (drop 2 s)
        else if take 3 (c # s) = [CHR 0xE2, CHR 0x80, CHR 0xA9] then bsl @ ''u2029'' @ enc_string (drop 2 s)
        else take n (c # s) @ enc_string (drop (n - 1) s))"
  by pat_completeness auto
termination
  by (relation "measure length") auto

definition json_string :: "string \<Rightarrow> string" where
  "json_string s = dquo @ enc_string s @ dquo"

text \<open>Four hexadecimal digits, as \<open>getu4\<close> reads them.\<close>

fun hex4 :: "string \<Rightarrow> (nat \<times> string) option" where
  "hex4 (a # b # c # d # r) =
     (case (hex_read a, hex_read b, hex_read c, hex_read d) of
        (Some w, Some x, Some y, Some z) \<Rightarrow> Some (4096 * w + 256 * x + 16 * y + z, r)
      | _ \<Rightarrow> None)"
| "hex4 _ = None"

definition surrogate :: "nat \<Rightarrow> bool" where
  "surrogate n \<longleftrightarrow> 0xD800 \<le> n \<and> n < 0xE000"

text \<open>The rune of a \<open>\\u\<close> escape and what is left; an unpaired surrogate is U+FFFD.\<close>

definition uni_escape :: "string \<Rightarrow> (string \<times> string) option" where
  "uni_escape s =
     (case hex4 s of
        None \<Rightarrow> None
      | Some (n, r) \<Rightarrow>
          if \<not> surrogate n then Some (utf8_encode n, r)
          else (case r of
              x # y # t \<Rightarrow>
                (if x = CHR 0x5C \<and> y = CHR ''u'' then
                   (case hex4 t of
                      Some (m, u) \<Rightarrow> if n < 0xDC00 \<and> 0xDC00 \<le> m \<and> m < 0xE000
                        then Some (utf8_encode (0x10000 + 1024 * (n - 0xD800) + (m - 0xDC00)), u) else Some (replacement, r)
                    | None \<Rightarrow> Some (replacement, r))
                 else Some (replacement, r))
            | _ \<Rightarrow> Some (replacement, r)))"

definition simple_escape :: "char \<Rightarrow> char option" where
  "simple_escape c =
     (if c = CHR 0x22 \<or> c = CHR 0x5C \<or> c = CHR ''/'' then Some c
      else if c = CHR ''b'' then Some (CHR 0x08) else if c = CHR ''f'' then Some (CHR 0x0C)
      else if c = CHR ''n'' then Some (CHR 0x0A) else if c = CHR ''r'' then Some (CHR 0x0D)
      else if c = CHR ''t'' then Some (CHR 0x09) else None)"

lemma hex4_shorter: "hex4 s = Some (n, r) \<Longrightarrow> length r < length s"
  by (induction s rule: hex4.induct) (auto split: option.splits)

lemma uni_escape_shorter: "uni_escape s = Some (v, r) \<Longrightarrow> length r < length s"
  by (auto simp: uni_escape_def split: option.splits list.splits if_splits dest!: hex4_shorter)

text \<open>What follows an opening quote: the string read, and the rest after the closing quote.\<close>

function dec_string :: "string \<Rightarrow> (string \<times> string) option" where
  "dec_string [] = None"
| "dec_string (c # s) =
     (if c = CHR 0x22 then Some ([], s)
      else if byte c < 32 then None
      else if c = CHR 0x5C then
        (case s of
           [] \<Rightarrow> None
         | e # t \<Rightarrow>
             (if e = CHR ''u'' then
                (case uni_escape t of None \<Rightarrow> None | Some (v, r) \<Rightarrow> map_option (\<lambda>(w, q). (v @ w, q)) (dec_string r))
              else (case simple_escape e of
                  None \<Rightarrow> None
                | Some v \<Rightarrow> map_option (\<lambda>(w, q). (v # w, q)) (dec_string t))))
      else let n = utf8_len (c # s) in
        if n = 0 then map_option (\<lambda>(w, q). (replacement @ w, q)) (dec_string s)
        else map_option (\<lambda>(w, q). (take n (c # s) @ w, q)) (dec_string (drop (n - 1) s)))"
  by pat_completeness auto
termination
  by (relation "measure length") (auto dest: uni_escape_shorter)

lemma utf8_len_take:
  assumes "utf8_len s \<noteq> 0"
  shows "utf8_len (take (utf8_len s) s @ t) = utf8_len s"
proof (cases s)
  case (Cons c u)
  let ?n = "utf8_need c"
  show ?thesis
  proof (cases "?n \<le> 1")
    case True
    then show ?thesis using assms Cons by (cases ?n) (auto simp: utf8_len.simps)
  next
    case False
    then obtain m where m: "?n = Suc (Suc m)" by (metis One_nat_def not_less_eq_eq old.nat.exhaust zero_le)
    then have n: "utf8_len s = ?n" "Suc m \<le> length u" "second_ok c (hd u)" "list_all cont (take (Suc m) u)"
      using assms Cons by (auto simp: utf8_len.simps Let_def split: if_splits)
    then obtain d v where "u = d # v" by (cases u) auto
    then show ?thesis using n m Cons by (simp add: utf8_len.simps)
  qed
qed (use assms in \<open>simp add: utf8_len.simps\<close>)

lemma utf8_len_ascii: "byte c < 128 \<Longrightarrow> utf8_len (c # s) = 1"
  by (simp add: utf8_len.simps utf8_need_def)

lemma byte_inject: "byte c = byte d \<longleftrightarrow> c = d"
  by (metis char_of_byte)

lemma dec_plain:
  assumes "c \<noteq> CHR 0x22" and "c \<noteq> CHR 0x5C" and "32 \<le> byte c" and "utf8_len (c # s) \<noteq> 0"
  shows "dec_string (take (utf8_len (c # s)) (c # s) @ t)
    = map_option (\<lambda>(w, q). (take (utf8_len (c # s)) (c # s) @ w, q)) (dec_string t)"
proof -
  let ?n = "utf8_len (c # s)"
  obtain m where m: "?n = Suc m" using assms(4) by (cases ?n) simp
  have le: "?n \<le> length (c # s)" by (rule utf8_len_le)
  have e: "take ?n (c # s) @ t = c # (take m s @ t)" using m by simp
  have "utf8_len (c # (take m s @ t)) = ?n" using utf8_len_take[OF assms(4), of t] e by simp
  moreover have "take ?n (c # (take m s @ t)) = take ?n (c # s)" "drop (?n - 1) (take m s @ t) = t"
    using m le by simp_all
  ultimately show ?thesis
    unfolding e using assms(1-4) by (simp add: Let_def)
qed

lemma uni_escape_ascii:
  assumes "byte c < 128"
  shows "uni_escape (''00'' @ [hex_digit (byte c div 16), hex_digit (byte c mod 16)] @ t) = Some ([c], t)"
proof -
  have "hex_read (CHR ''0'') = Some 0" by code_simp
  moreover have "byte c div 16 < 16" "byte c mod 16 < 16" using assms by auto
  ultimately have "hex4 (''00'' @ [hex_digit (byte c div 16), hex_digit (byte c mod 16)] @ t) = Some (byte c, t)"
    by (simp add: hex_read_digit)
  then show ?thesis using assms by (simp add: uni_escape_def surrogate_def utf8_encode_def)
qed

lemma dec_esc_char:
  assumes "byte c < 128"
  shows "dec_string (esc_char c @ t) = map_option (\<lambda>(w, q). (c # w, q)) (dec_string t)"
proof -
  have u: "dec_string (ctrl_escape c @ t) = map_option (\<lambda>(w, q). (c # w, q)) (dec_string t)"
    using uni_escape_ascii[OF assms, of t] by (simp add: ctrl_escape_def bsl_def byte_def)
  have p: "dec_string (c # t) = map_option (\<lambda>(w, q). (c # w, q)) (dec_string t)"
    if "c \<noteq> CHR 0x22" "c \<noteq> CHR 0x5C" "32 \<le> byte c"
    using dec_plain[of c "[]" t] that assms by (simp add: utf8_len_ascii)
  have s: "dec_string (bsl @ e # t) = map_option (\<lambda>(w, q). (v # w, q)) (dec_string t)"
    if "simple_escape e = Some v" "e \<noteq> CHR ''u''" for e v
    using that by (simp add: bsl_def byte_def)
  show ?thesis
    unfolding esc_char_def using u p s by (auto simp: simple_escape_def dquo_def bsl_def not_less)
qed

lemma dec_u2028:
  "dec_string (bsl @ ''u2028'' @ t) = map_option (\<lambda>(w, q). ([CHR 0xE2, CHR 0x80, CHR 0xA8] @ w, q)) (dec_string t)"
  "dec_string (bsl @ ''u2029'' @ t) = map_option (\<lambda>(w, q). ([CHR 0xE2, CHR 0x80, CHR 0xA9] @ w, q)) (dec_string t)"
proof -
  have "hex_read (CHR ''0'') = Some 0" "hex_read (CHR ''2'') = Some 2" "hex_read (CHR ''8'') = Some 8" "hex_read (CHR ''9'') = Some 9"
    by code_simp+
  then have "hex4 (''2028'' @ t) = Some (0x2028, t)" "hex4 (''2029'' @ t) = Some (0x2029, t)" by simp_all
  moreover have "char_of (226 :: nat) = CHR 0xE2" "char_of (128 :: nat) = CHR 0x80" "char_of (168 :: nat) = CHR 0xA8"
    "char_of (169 :: nat) = CHR 0xA9" by code_simp+
  then have "utf8_encode 0x2028 = [CHR 0xE2, CHR 0x80, CHR 0xA8]" "utf8_encode 0x2029 = [CHR 0xE2, CHR 0x80, CHR 0xA9]"
    by (simp_all add: utf8_encode_def)
  ultimately have "uni_escape (''2028'' @ t) = Some ([CHR 0xE2, CHR 0x80, CHR 0xA8], t)"
    "uni_escape (''2029'' @ t) = Some ([CHR 0xE2, CHR 0x80, CHR 0xA9], t)"
    by (simp_all add: uni_escape_def surrogate_def)
  then show "dec_string (bsl @ ''u2028'' @ t) = map_option (\<lambda>(w, q). ([CHR 0xE2, CHR 0x80, CHR 0xA8] @ w, q)) (dec_string t)"
    "dec_string (bsl @ ''u2029'' @ t) = map_option (\<lambda>(w, q). ([CHR 0xE2, CHR 0x80, CHR 0xA9] @ w, q)) (dec_string t)"
    by (simp_all add: bsl_def byte_def)
qed

lemma valid_utf8_Cons:
  "valid_utf8 (c # s) \<Longrightarrow> utf8_len (c # s) \<noteq> 0 \<and> valid_utf8 (drop (utf8_len (c # s) - 1) s)"
  by (subst (asm) valid_utf8.simps) (auto simp: drop_Cons' split: if_splits)

lemma three_bytes:
  assumes "take 3 (c # s) = [CHR 0xE2, CHR 0x80, x]" and "cont x"
  shows "utf8_len (c # s) = 3" "s = [CHR 0x80, x] @ drop 2 s"
proof -
  have "length (take 3 (c # s)) = 3" by (simp only: assms(1)) simp
  then obtain a b u where s: "s = a # b # u" by (cases s; cases "tl s") auto
  have e: "c = CHR 0xE2" "a = CHR 0x80" "b = x" using assms(1) by (simp_all add: s numeral_3_eq_3)
  show "s = [CHR 0x80, x] @ drop 2 s" using e s by simp
  have "utf8_need c = 3" "second_ok c a" "cont a" by (simp_all add: e utf8_need_def second_ok_def in_range_def cont_def byte_def)
  then show "utf8_len (c # s) = 3" using assms(2) e by (simp add: s utf8_len.simps numeral_2_eq_2)
qed

lemma enc_multi:
  assumes "\<not> byte c < 128" and "utf8_len (c # s) \<noteq> 0"
  obtains "enc_string (c # s) = bsl @ ''u2028'' @ enc_string (drop (utf8_len (c # s) - 1) s)" "c # s = [CHR 0xE2, CHR 0x80, CHR 0xA8] @ drop (utf8_len (c # s) - 1) s"
  | "enc_string (c # s) = bsl @ ''u2029'' @ enc_string (drop (utf8_len (c # s) - 1) s)" "c # s = [CHR 0xE2, CHR 0x80, CHR 0xA9] @ drop (utf8_len (c # s) - 1) s"
  | "enc_string (c # s) = take (utf8_len (c # s)) (c # s) @ enc_string (drop (utf8_len (c # s) - 1) s)"
proof -
  have k: "cont (CHR 0xA8)" "cont (CHR 0xA9)" by (simp_all add: cont_def byte_def)
  have hd: "c = CHR 0xE2" if "take 3 (c # s) = [CHR 0xE2, CHR 0x80, x]" for x using that by (simp add: numeral_3_eq_3)
  consider "take 3 (c # s) = [CHR 0xE2, CHR 0x80, CHR 0xA8]" | "take 3 (c # s) = [CHR 0xE2, CHR 0x80, CHR 0xA9]"
    | "take 3 (c # s) \<noteq> [CHR 0xE2, CHR 0x80, CHR 0xA8]" "take 3 (c # s) \<noteq> [CHR 0xE2, CHR 0x80, CHR 0xA9]" by blast
  then show thesis
  proof cases
    case 1
    have "enc_string (c # s) = bsl @ ''u2028'' @ enc_string (drop (utf8_len (c # s) - 1) s)"
      using assms 1 three_bytes(1)[OF 1 k(1)] by (simp only: enc_string.simps if_False if_True Let_def refl) (simp add: eval_nat_numeral)
    moreover have "c # s = [CHR 0xE2, CHR 0x80, CHR 0xA8] @ drop (utf8_len (c # s) - 1) s"
      using three_bytes[OF 1 k(1)] hd[OF 1] by (simp add: numeral_2_eq_2)
    ultimately show thesis by (rule that(1))
  next
    case 2
    have "enc_string (c # s) = bsl @ ''u2029'' @ enc_string (drop (utf8_len (c # s) - 1) s)"
      using assms 2 three_bytes(1)[OF 2 k(2)] by (simp only: enc_string.simps if_False if_True Let_def refl) (simp add: eval_nat_numeral)
    moreover have "c # s = [CHR 0xE2, CHR 0x80, CHR 0xA9] @ drop (utf8_len (c # s) - 1) s"
      using three_bytes[OF 2 k(2)] hd[OF 2] by (simp add: numeral_2_eq_2)
    ultimately show thesis by (rule that(2))
  next
    case 3
    then have "enc_string (c # s) = take (utf8_len (c # s)) (c # s) @ enc_string (drop (utf8_len (c # s) - 1) s)"
      using assms by (simp only: enc_string.simps if_False Let_def)
    then show thesis by (rule that(3))
  qed
qed

lemma string_roundtrip:
  "valid_utf8 s \<Longrightarrow> dec_string (enc_string s @ dquo @ r) = Some (s, r)"
proof (induction "length s" arbitrary: s rule: less_induct)
  case less
  show ?case
  proof (cases s)
    case Nil
    then show ?thesis by (simp add: dquo_def)
  next
    case (Cons c t)
    have n: "utf8_len (c # t) \<noteq> 0" and v: "valid_utf8 (drop (utf8_len (c # t) - 1) t)"
      using valid_utf8_Cons[of c t] less.prems Cons by auto
    let ?t = "drop (utf8_len (c # t) - 1) t"
    have ih: "dec_string (enc_string ?t @ dquo @ r) = Some (?t, r)"
      by (rule less.hyps[OF _ v]) (simp add: Cons)
    show ?thesis
    proof (cases "byte c < 128")
      case True
      then show ?thesis using ih utf8_len_ascii[OF True, of t] by (simp add: Cons dec_esc_char)
    next
      case False
      have c: "c \<noteq> CHR 0x22" "c \<noteq> CHR 0x5C" "32 \<le> byte c" using False by (auto simp: byte_def)
      show ?thesis unfolding Cons
      proof (rule enc_multi[OF False n], goal_cases)
        case 1
        then show ?case using ih dec_u2028(1)[of "enc_string ?t @ dquo @ r"] by (metis (no_types, lifting) append.assoc case_prod_conv option.map(2))
      next
        case 2
        then show ?case using ih dec_u2028(2)[of "enc_string ?t @ dquo @ r"] by (metis (no_types, lifting) append.assoc case_prod_conv option.map(2))
      next
        case 3
        have "take (utf8_len (c # t)) (c # t) @ ?t = c # t"
          using n append_take_drop_id[of "utf8_len (c # t)" "c # t"] by (simp add: drop_Cons')
        then show ?case using 3 ih dec_plain[OF c n, of "enc_string ?t @ dquo @ r"] by simp
      qed
    qed
  qed
qed

declare dec_string.simps [simp del]

lemma dec_string_shorter: "dec_string s = Some (v, r) \<Longrightarrow> length r < length s"
proof (induction s arbitrary: v r rule: dec_string.induct)
  case (2 c s)
  show ?case
  proof (cases "c = CHR 0x22 \<or> byte c < 32")
    case True
    then show ?thesis using 2(5) by (auto simp: dec_string.simps(2) split: if_splits)
  next
    case False
    show ?thesis
    proof (cases "c = CHR 0x5C")
      case True
      then show ?thesis
        using 2(5) False 2(1,2) uni_escape_shorter
        by (fastforce simp: dec_string.simps(2) split: list.splits if_splits option.splits)
    next
      case c: False
      then show ?thesis
        using 2(5) False 2(3,4) by (fastforce simp: dec_string.simps(2) Let_def split: if_splits)
    qed
  qed
qed (simp add: dec_string.simps)

section \<open>Values\<close>

datatype json = JNull | JBool bool | JNum string | JStr string | JArr "json list" | JObj "(string \<times> json) list"

definition json_ws :: "char \<Rightarrow> bool" where
  "json_ws c \<longleftrightarrow> c = CHR '' '' \<or> c = CHR 0x09 \<or> c = CHR 0x0D \<or> c = CHR 0x0A"

definition skip_ws :: "string \<Rightarrow> string" where
  "skip_ws s = dropWhile json_ws s"

definition digits1 :: "string \<Rightarrow> bool" where
  "digits1 s \<longleftrightarrow> s \<noteq> [] \<and> list_all is_digit s"

definition num_char :: "char \<Rightarrow> bool" where
  "num_char c \<longleftrightarrow> is_digit c \<or> c \<in> set ''+-.eE''"

definition exponent_ok :: "string \<Rightarrow> bool" where
  "exponent_ok e \<longleftrightarrow> digits1 (case e of c # r \<Rightarrow> if c = CHR ''+'' \<or> c = CHR ''-'' then r else e | [] \<Rightarrow> [])"

text \<open>\<open>-?(0|[1-9][0-9]*)(\.[0-9]+)?([eE][+-]?[0-9]+)?\<close>\<close>

definition number_ok :: "string \<Rightarrow> bool" where
  "number_ok s =
     (let u = trim_prefix ''-'' s;
          m = takeWhile (\<lambda>c. c \<noteq> CHR ''e'' \<and> c \<noteq> CHR ''E'') u;
          e = drop (length m) u;
          (i, f) = cut_char (CHR ''.'') m
      in digits1 i \<and> (hd i = CHR ''0'' \<longrightarrow> i = ''0'')
        \<and> (case f of None \<Rightarrow> True | Some d \<Rightarrow> digits1 d) \<and> (e = [] \<or> exponent_ok (tl e)))"

definition p_number :: "string \<Rightarrow> (json \<times> string) option" where
  "p_number s = (let n = takeWhile num_char s in if number_ok n then Some (JNum n, dropWhile num_char s) else None)"

definition p_word :: "string \<Rightarrow> (json \<times> string) option" where
  "p_word s =
     (if prefix ''true'' s then Some (JBool True, drop 4 s)
      else if prefix ''false'' s then Some (JBool False, drop 5 s)
      else if prefix ''null'' s then Some (JNull, drop 4 s) else p_number s)"

definition max_json_depth :: nat where "max_json_depth = 10000"

text \<open>
  The parser. The first argument is fuel, \<open>d\<close> the nesting still allowed. \<open>p_elems\<close> and \<open>p_members\<close> read
  what follows an opening bracket that is not closed at once.
\<close>

fun p_value :: "nat \<Rightarrow> nat \<Rightarrow> string \<Rightarrow> (json \<times> string) option"
  and p_elems :: "nat \<Rightarrow> nat \<Rightarrow> string \<Rightarrow> (json list \<times> string) option"
  and p_members :: "nat \<Rightarrow> nat \<Rightarrow> string \<Rightarrow> ((string \<times> json) list \<times> string) option" where
  "p_value 0 d s = None"
| "p_value (Suc n) d s =
     (case skip_ws s of
        [] \<Rightarrow> None
      | c # r \<Rightarrow>
          if c = CHR 0x22 then map_option (\<lambda>(v, t). (JStr v, t)) (dec_string r)
          else if c = CHR ''['' then
            (if d = 0 then None
             else if prefix '']'' (skip_ws r) then Some (JArr [], tl (skip_ws r))
             else map_option (\<lambda>(vs, t). (JArr vs, t)) (p_elems n (d - 1) r))
          else if c = CHR ''{'' then
            (if d = 0 then None
             else if prefix ''}'' (skip_ws r) then Some (JObj [], tl (skip_ws r))
             else map_option (\<lambda>(ms, t). (JObj ms, t)) (p_members n (d - 1) r))
          else p_word (c # r))"
| "p_elems 0 d s = None"
| "p_elems (Suc n) d s =
     (case p_value n d s of
        None \<Rightarrow> None
      | Some (v, t) \<Rightarrow>
          (case skip_ws t of
             [] \<Rightarrow> None
           | c # r \<Rightarrow>
               if c = CHR '']'' then Some ([v], r)
               else if c = CHR '','' then map_option (\<lambda>(vs, u). (v # vs, u)) (p_elems n d r) else None))"
| "p_members 0 d s = None"
| "p_members (Suc n) d s =
     (case skip_ws s of
        [] \<Rightarrow> None
      | q # s1 \<Rightarrow>
          if q \<noteq> CHR 0x22 then None
          else (case dec_string s1 of
              None \<Rightarrow> None
            | Some (k, s2) \<Rightarrow>
                (case skip_ws s2 of
                   [] \<Rightarrow> None
                 | c # s3 \<Rightarrow>
                     if c \<noteq> CHR '':'' then None
                     else (case p_value n d s3 of
                         None \<Rightarrow> None
                       | Some (v, s4) \<Rightarrow>
                           (case skip_ws s4 of
                              [] \<Rightarrow> None
                            | e # s5 \<Rightarrow>
                                if e = CHR ''}'' then Some ([(k, v)], s5)
                                else if e = CHR '','' then map_option (\<lambda>(ms, u). ((k, v) # ms, u)) (p_members n d s5)
                                else None)))))"

definition json_fuel :: "string \<Rightarrow> nat" where
  "json_fuel s = 2 * length s + 2"

definition json_parse :: "string \<Rightarrow> json option" where
  "json_parse s = (case p_value (json_fuel s) max_json_depth s of
      Some (v, r) \<Rightarrow> if skip_ws r = [] then Some v else None | None \<Rightarrow> None)"

section \<open>The fuel is enough\<close>

lemma skip_ws_le: "length (skip_ws s) \<le> length s"
  by (simp add: skip_ws_def length_dropWhile_le)

lemma skip_ws_Cons: "skip_ws s = c # r \<Longrightarrow> length r < length s"
  using skip_ws_le[of s] by simp

lemma number_ok_nonempty: "number_ok n \<Longrightarrow> n \<noteq> []"
  by (auto simp: number_ok_def digits1_def trim_prefix_def cut_char_def)

lemma p_word_shorter: "p_word s = Some (v, r) \<Longrightarrow> length r < length s"
proof -
  have "length (dropWhile num_char s) < length s" if "number_ok (takeWhile num_char s)"
    using number_ok_nonempty[OF that] length_append[of "takeWhile num_char s" "dropWhile num_char s"] by simp
  moreover have "length (drop k s) < length s" if "prefix p s" "length p = k" "0 < k" for p k
    using that prefix_length_le[OF that(1)] by simp
  ultimately show "p_word s = Some (v, r) \<Longrightarrow> length r < length s"
    by (auto simp: p_word_def p_number_def Let_def split: if_splits)
qed

lemma parse_shorter:
  "p_value n d s = Some (v, r) \<Longrightarrow> length r < length s"
  "p_elems n d s = Some (vs, r) \<Longrightarrow> length r < length s"
  "p_members n d s = Some (ms, r) \<Longrightarrow> length r < length s"
proof (induction n d s and n d s and n d s arbitrary: v r and vs r and ms r rule: p_value_p_elems_p_members.induct)
  case (2 n d s)
  obtain c u where s: "skip_ws s = c # u" using 2(3) by (auto split: list.splits)
  have u: "length u < length s" by (rule skip_ws_Cons[OF s])
  have t: "length (tl (skip_ws u)) < length s" using u skip_ws_le[of u] by simp
  show ?case
    using 2(3) u t 2(1)[OF s] 2(2)[OF s] dec_string_shorter[of u] p_word_shorter[of "c # u"]
    by (fastforce simp: s split: if_splits)
next
  case (4 n d s)
  obtain v t where v: "p_value n d s = Some (v, t)" using 4(3) by (auto split: option.splits)
  obtain c u where u: "skip_ws t = c # u" using 4(3) v by (auto split: list.splits)
  have "length u < length s" using 4(1)[OF v] skip_ws_Cons[OF u] by simp
  then show ?case using 4(3) v u 4(2)[OF v refl u] by (fastforce split: if_splits)
next
  case (6 n d s)
  obtain q s1 where s1: "skip_ws s = q # s1" using 6(3) by (auto split: list.splits)
  obtain k s2 where s2: "q = CHR 0x22" "dec_string s1 = Some (k, s2)" using 6(3) s1 by (auto split: option.splits if_splits)
  obtain c s3 where s3: "skip_ws s2 = c # s3" using 6(3) s1 s2 by (auto split: list.splits)
  obtain v s4 where s4: "c = CHR '':''" "p_value n d s3 = Some (v, s4)"
    using 6(3) s1 s2 s3 by (auto split: option.splits if_splits)
  obtain e s5 where s5: "skip_ws s4 = e # s5" using 6(3) s1 s2 s3 s4 by (auto split: list.splits)
  have l: "length s5 < length s"
    using skip_ws_Cons[OF s1] dec_string_shorter[OF s2(2)] skip_ws_Cons[OF s3] skip_ws_Cons[OF s5]
      6(1)[OF s1 _ s2(2) refl s3 _ s4(2)] s2(1) s4(1) by simp
  show ?case
    using 6(3) s1 s2 s3 s4 s5 l 6(2)[OF s1 _ s2(2) refl s3 _ s4(2) refl s5] by (fastforce split: if_splits)
qed auto

lemma parse_fuel:
  assumes "length s = l"
  shows "2 * l + 1 \<le> n \<Longrightarrow> 2 * l + 1 \<le> m \<Longrightarrow> p_value n d s = p_value m d s"
    and "2 * l + 2 \<le> n \<Longrightarrow> 2 * l + 2 \<le> m \<Longrightarrow> p_elems n d s = p_elems m d s"
    and "2 * l + 2 \<le> n \<Longrightarrow> 2 * l + 2 \<le> m \<Longrightarrow> p_members n d s = p_members m d s"
  using assms
proof (induction l arbitrary: s n m d rule: less_induct)
  case (less l)
  have val: "p_value n d s = p_value m d s" if l: "length s = l" "2 * l + 1 \<le> n" "2 * l + 1 \<le> m" for n m d s
  proof -
    obtain n' m' where nm: "n = Suc n'" "m = Suc m'" using l by (cases n; cases m) auto
    show ?thesis
    proof (cases "skip_ws s")
      case (Cons c u)
      have u: "length u < l" using skip_ws_Cons[OF Cons] l by simp
      have "p_elems n' (d - 1) u = p_elems m' (d - 1) u" "p_members n' (d - 1) u = p_members m' (d - 1) u"
        using less(2,3)[OF u, of n' m' u] u l nm by auto
      then show ?thesis by (simp add: nm Cons)
    qed (simp add: nm)
  qed
  {
    case 1 then show ?case by (intro val)
  next
    case 2
    obtain n' m' where nm: "n = Suc n'" "m = Suc m'" using 2 by (cases n; cases m) auto
    have v: "p_value n' d s = p_value m' d s" using val[of s n' m' d] 2 nm by simp
    show ?case
    proof (cases "p_value m' d s")
      case (Some p)
      obtain x t where p: "p = (x, t)" by (cases p)
      show ?thesis
      proof (cases "skip_ws t")
        case (Cons c u)
        have "length u < l" using parse_shorter(1)[of m' d s x t] Some p skip_ws_Cons[OF Cons] 2 by simp
        then have "p_elems n' d u = p_elems m' d u" using less(2)[of "length u" n' m' u] 2 nm by simp
        then show ?thesis using Some p Cons v by (simp add: nm)
      qed (use Some p v in \<open>simp add: nm\<close>)
    qed (use v in \<open>simp add: nm\<close>)
  next
    case 3
    obtain n' m' where nm: "n = Suc n'" "m = Suc m'" using 3 by (cases n; cases m) auto
    have v: "p_value n' d u = p_value m' d u" if "length u < l" for u using less(1)[of "length u" n' m' u] 3 nm that by simp
    have ms: "p_members n' d u = p_members m' d u" if "length u < l" for u using less(3)[of "length u" n' m' u] 3 nm that by simp
    have rest: "(case skip_ws s4 of [] \<Rightarrow> None | e # s5 \<Rightarrow> if e = CHR ''}'' then Some ([(k, x)], s5)
        else if e = CHR '','' then map_option (\<lambda>(ms, u). ((k, x) # ms, u)) (p_members n' d s5) else None)
      = (case skip_ws s4 of [] \<Rightarrow> None | e # s5 \<Rightarrow> if e = CHR ''}'' then Some ([(k, x)], s5)
        else if e = CHR '','' then map_option (\<lambda>(ms, u). ((k, x) # ms, u)) (p_members m' d s5) else None)"
      if "length s4 < l" for s4 k x
    proof (cases "skip_ws s4")
      case (Cons e s5)
      then have "length s5 < l" using skip_ws_Cons[OF Cons] that by simp
      then show ?thesis using ms by (simp add: Cons)
    qed simp
    show ?case
    proof (cases "\<exists>s1 k s2 s3. skip_ws s = CHR 0x22 # s1 \<and> dec_string s1 = Some (k, s2) \<and> skip_ws s2 = CHR '':'' # s3")
      case True
      then obtain s1 k s2 s3 where e: "skip_ws s = CHR 0x22 # s1" "dec_string s1 = Some (k, s2)" "skip_ws s2 = CHR '':'' # s3" by blast
      have l3: "length s3 < l"
        using skip_ws_Cons[OF e(1)] dec_string_shorter[OF e(2)] skip_ws_Cons[OF e(3)] 3 by simp
      show ?thesis
      proof (cases "p_value m' d s3")
        case None
        then show ?thesis using v[OF l3] by (simp add: nm e)
      next
        case (Some p)
        obtain x s4 where p: "p = (x, s4)" by (cases p)
        have "length s4 < l" using parse_shorter(1)[of m' d s3 x s4] Some p l3 by simp
        from rest[OF this, of k x] show ?thesis using v[OF l3] Some p by (simp add: nm e)
      qed
    next
      case False
      then show ?thesis by (auto simp: nm split: list.split option.split if_split)
    qed
  }
qed

text \<open>More fuel than the length calls for never changes the result.\<close>

lemma json_parse_fuel:
  assumes "json_fuel s \<le> n"
  shows "json_parse s = (case p_value n max_json_depth s of
      Some (v, r) \<Rightarrow> if skip_ws r = [] then Some v else None | None \<Rightarrow> None)"
  using parse_fuel(1)[OF refl, of s "json_fuel s" n max_json_depth] assms by (simp add: json_parse_def json_fuel_def)

section \<open>The writer, and reading back what it wrote\<close>

fun print_json :: "json \<Rightarrow> string" where
  "print_json JNull = ''null''"
| "print_json (JBool b) = (if b then ''true'' else ''false'')"
| "print_json (JNum n) = n"
| "print_json (JStr s) = json_string s"
| "print_json (JArr vs) = ''['' @ join '','' (map print_json vs) @ '']''"
| "print_json (JObj ms) = ''{'' @ join '','' (map (\<lambda>(k, v). json_string k @ '':'' @ print_json v) ms) @ ''}''"

text \<open>A value that can be written and read: \<open>json_fits d\<close> bounds the nesting by \<open>d\<close>.\<close>

fun json_fits :: "nat \<Rightarrow> json \<Rightarrow> bool" where
  "json_fits d (JNum n) \<longleftrightarrow> number_ok n \<and> list_all num_char n"
| "json_fits d (JStr s) \<longleftrightarrow> valid_utf8 s"
| "json_fits d (JArr vs) \<longleftrightarrow> 0 < d \<and> list_all (json_fits (d - 1)) vs"
| "json_fits d (JObj ms) \<longleftrightarrow> 0 < d \<and> list_all (\<lambda>(k, v). valid_utf8 k \<and> json_fits (d - 1) v) ms"
| "json_fits d _ \<longleftrightarrow> True"

definition boundary :: "string \<Rightarrow> bool" where
  "boundary r \<longleftrightarrow> (case r of [] \<Rightarrow> True | c # _ \<Rightarrow> \<not> num_char c)"

lemma boundary_simps [simp]:
  "boundary []" "boundary (CHR '','' # r)" "boundary (CHR '']'' # r)" "boundary (CHR ''}'' # r)"
  by (simp_all add: boundary_def num_char_def is_digit_def)

lemma skip_ws_id: "c # s = u \<Longrightarrow> \<not> json_ws c \<Longrightarrow> skip_ws (u @ r) = u @ r"
  by (auto simp: skip_ws_def)

lemma take_drop_number:
  assumes "list_all num_char n" and "boundary r"
  shows "takeWhile num_char (n @ r) = n" "dropWhile num_char (n @ r) = r"
  using assms by (auto simp: list_all_iff boundary_def takeWhile_append dropWhile_append split: list.splits)

lemma p_value_word:
  assumes "s = c # u" and "\<not> json_ws c" and "c \<notin> set (dquo @ ''[{'')"
  shows "p_value (Suc n) d s = p_word s"
  using assms by (simp add: skip_ws_def dquo_def)

lemma p_value_number:
  assumes "number_ok k" and "list_all num_char k" and "boundary r"
  shows "p_value (Suc n) d (k @ r) = Some (JNum k, r)"
proof -
  obtain c u where k: "k = c # u" using number_ok_nonempty[OF assms(1)] by (cases k) auto
  then have c: "num_char c" using assms(2) by simp
  then have "\<not> json_ws c" "c \<notin> set (dquo @ ''[{'')" "c \<noteq> CHR ''t''" "c \<noteq> CHR ''f''" "c \<noteq> CHR ''n''"
    by (auto simp: num_char_def json_ws_def is_digit_def dquo_def)
  then have "p_value (Suc n) d (k @ r) = p_number (k @ r)"
    using p_value_word[of "k @ r" c "u @ r" n d] by (simp add: k p_word_def)
  then show ?thesis using take_drop_number[OF assms(2,3)] assms(1) by (simp add: p_number_def)
qed

lemma print_head:
  assumes "json_fits d v"
  shows "\<exists>c u. print_json v = c # u \<and> \<not> json_ws c \<and> c \<noteq> CHR '']'' \<and> c \<noteq> CHR ''}''"
proof (cases v)
  case (JNum n)
  then obtain c u where "n = c # u" using assms number_ok_nonempty[of n] by (cases n) auto
  then show ?thesis using assms JNum by (auto simp: num_char_def json_ws_def is_digit_def)
qed (auto simp: json_ws_def json_string_def dquo_def)

lemma skip_print: "json_fits d v \<Longrightarrow> skip_ws (print_json v @ r) = print_json v @ r"
  using print_head[of d v] by (auto simp: skip_ws_def)

lemma join_map_Cons: "xs \<noteq> [] \<Longrightarrow> join '','' (map f (x # xs)) @ r = f x @ '','' @ join '','' (map f xs) @ r"
  by (simp add: join_Cons)

lemma member_parse:
  assumes "valid_utf8 k" and "p_value n d (print_json v @ t) = Some (v, t)" and "skip_ws t = e # u"
  shows "p_members (Suc n) d (json_string k @ '':'' @ print_json v @ t)
    = (if e = CHR ''}'' then Some ([(k, v)], u)
       else if e = CHR '','' then map_option (\<lambda>(ms, w). ((k, v) # ms, w)) (p_members n d u) else None)"
proof -
  have "skip_ws (json_string k @ '':'' @ print_json v @ t) = CHR 0x22 # enc_string k @ dquo @ CHR '':'' # print_json v @ t"
    by (simp add: json_string_def dquo_def skip_ws_def json_ws_def)
  moreover have "dec_string (enc_string k @ dquo @ CHR '':'' # print_json v @ t) = Some (k, CHR '':'' # print_json v @ t)"
    by (rule string_roundtrip[OF assms(1)])
  moreover have "skip_ws (CHR '':'' # print_json v @ t) = CHR '':'' # print_json v @ t"
    by (simp add: skip_ws_def json_ws_def)
  ultimately show ?thesis using assms(2,3) by simp
qed

lemma print_parse:
  "json_fits d v \<Longrightarrow> boundary r \<Longrightarrow> 2 * length (print_json v @ r) + 1 \<le> n \<Longrightarrow> p_value n d (print_json v @ r) = Some (v, r)"
proof (induction v arbitrary: d r n)
  case JNull
  then show ?case by (cases n) (simp_all add: skip_ws_def json_ws_def p_word_def)
next
  case (JBool b)
  then show ?case by (cases n) (simp_all add: skip_ws_def json_ws_def p_word_def)
next
  case (JNum k)
  then show ?case using p_value_number by (cases n) auto
next
  case (JStr s)
  then show ?case
    using string_roundtrip[of s r] by (cases n) (simp_all add: skip_ws_def json_ws_def json_string_def dquo_def)
next
  case (JArr vs)
  have el: "p_elems m (d - 1) (join '','' (map print_json ws) @ CHR '']'' # r) = Some (ws, r)"
    if "ws \<noteq> []" "set ws \<subseteq> set vs" "2 * length (join '','' (map print_json ws) @ CHR '']'' # r) + 2 \<le> m" for ws m
    using that
  proof (induction ws arbitrary: m)
    case (Cons w ws)
    have fit: "json_fits (d - 1) w" using JArr.prems(1) Cons.prems(2) by (auto simp: list_all_iff)
    obtain m' where m: "m = Suc m'" using Cons.prems(3) by (cases m) auto
    show ?case
    proof (cases "ws = []")
      case True
      have "p_value m' (d - 1) (print_json w @ CHR '']'' # r) = Some (w, CHR '']'' # r)"
        using JArr.IH[of w "d - 1" "CHR '']'' # r" m'] fit Cons.prems True m by simp
      then show ?thesis using True by (simp add: m skip_ws_def json_ws_def)
    next
      case False
      let ?t = "CHR '','' # join '','' (map print_json ws) @ CHR '']'' # r"
      have e: "join '','' (map print_json (w # ws)) @ CHR '']'' # r = print_json w @ ?t"
        using join_map_Cons[OF False, of print_json w] by simp
      have "p_value m' (d - 1) (print_json w @ ?t) = Some (w, ?t)"
        using JArr.IH[of w "d - 1" ?t m'] fit Cons.prems m unfolding e by simp
      moreover have "p_elems m' (d - 1) (join '','' (map print_json ws) @ CHR '']'' # r) = Some (ws, r)"
        using Cons.IH[OF False, of m'] Cons.prems m unfolding e by simp
      ultimately show ?thesis unfolding e by (simp add: m skip_ws_def json_ws_def)
    qed
  qed simp
  obtain m where n: "n = Suc m" using JArr.prems(3) by (cases n) auto
  have d: "d \<noteq> 0" using JArr.prems(1) by simp
  show ?case
  proof (cases vs)
    case Nil
    then show ?thesis using d by (simp add: n skip_ws_def json_ws_def)
  next
    case (Cons w ws)
    have f: "json_fits (d - 1) w" using JArr.prems(1) Cons by simp
    let ?s = "join '','' (map print_json vs) @ CHR '']'' # r"
    have "\<exists>x. ?s = print_json w @ x" by (cases ws) (simp_all add: Cons join_Cons)
    then obtain x where x: "?s = print_json w @ x" by blast
    have "skip_ws ?s = ?s" unfolding x by (rule skip_print[OF f])
    moreover have "\<not> prefix '']'' ?s" unfolding x using print_head[OF f] by auto
    moreover have "p_elems m (d - 1) ?s = Some (vs, r)" using el[of vs m] Cons JArr.prems(3) n by simp
    ultimately show ?thesis using d by (simp add: n skip_ws_def json_ws_def)
  qed
next
  case (JObj ms)
  let ?f = "\<lambda>(k, v). json_string k @ '':'' @ print_json v"
  have el: "p_members m (d - 1) (join '','' (map ?f ws) @ CHR ''}'' # r) = Some (ws, r)"
    if "ws \<noteq> []" "set ws \<subseteq> set ms" "2 * length (join '','' (map ?f ws) @ CHR ''}'' # r) + 2 \<le> m" for ws m
    using that
  proof (induction ws arbitrary: m)
    case (Cons kv ws)
    obtain k v where kv: "kv = (k, v)" by (cases kv)
    have fit: "valid_utf8 k" "json_fits (d - 1) v" using JObj.prems(1) Cons.prems(2) kv by (auto simp: list_all_iff)
    have mem: "(k, v) \<in> set ms" "v \<in> Basic_BNFs.snds (k, v)" using Cons.prems(2) kv by auto
    obtain m' where m: "m = Suc m'" using Cons.prems(3) by (cases m) auto
    show ?case
    proof (cases "ws = []")
      case True
      let ?t = "CHR ''}'' # r"
      have "p_value m' (d - 1) (print_json v @ ?t) = Some (v, ?t)"
        using JObj.IH[OF mem, of "d - 1" ?t m'] fit Cons.prems True m kv by simp
      from member_parse[OF fit(1) this, of "CHR ''}''" r] show ?thesis
        using True kv by (simp add: m skip_ws_def json_ws_def)
    next
      case False
      let ?t = "CHR '','' # join '','' (map ?f ws) @ CHR ''}'' # r"
      have e: "join '','' (map ?f (kv # ws)) @ CHR ''}'' # r = json_string k @ '':'' @ print_json v @ ?t"
        using join_map_Cons[OF False, of ?f kv] kv by simp
      have v: "p_value m' (d - 1) (print_json v @ ?t) = Some (v, ?t)"
        using JObj.IH[OF mem, of "d - 1" ?t m'] fit Cons.prems m unfolding e by simp
      have s: "skip_ws ?t = CHR '','' # join '','' (map ?f ws) @ CHR ''}'' # r" by (simp add: skip_ws_def json_ws_def)
      have "p_members m' (d - 1) (join '','' (map ?f ws) @ CHR ''}'' # r) = Some (ws, r)"
        using Cons.IH[OF False, of m'] Cons.prems m unfolding e by simp
      then show ?thesis unfolding e m member_parse[OF fit(1) v s] by (simp add: kv)
    qed
  qed simp
  obtain m where n: "n = Suc m" using JObj.prems(3) by (cases n) auto
  have d: "d \<noteq> 0" using JObj.prems(1) by simp
  show ?case
  proof (cases ms)
    case Nil
    then show ?thesis using d by (simp add: n skip_ws_def json_ws_def)
  next
    case (Cons kv ws)
    let ?s = "join '','' (map ?f ms) @ CHR ''}'' # r"
    have "\<exists>x. ?s = CHR 0x22 # x" by (cases ws; cases kv) (simp_all add: Cons join_Cons json_string_def dquo_def)
    then have "skip_ws ?s = ?s" "\<not> prefix ''}'' ?s" by (auto simp: skip_ws_def json_ws_def)
    moreover have "p_members m (d - 1) ?s = Some (ms, r)" using el[of ms m] Cons JObj.prems(3) n by simp
    ultimately show ?thesis using d by (simp add: n skip_ws_def json_ws_def)
  qed
qed

lemma json_roundtrip: "json_fits max_json_depth v \<Longrightarrow> json_parse (print_json v) = Some v"
  using print_parse[of max_json_depth v "[]" "json_fuel (print_json v)"] by (simp add: json_parse_def json_fuel_def skip_ws_def)

section \<open>Go values\<close>

text \<open>
  \<open>json.Marshal\<close> of a slice and of a map (whose keys it sorts); a nil value is written as \<open>null\<close>. The
  model has one empty slice and one empty map, which stand for the nil ones. \<open>json.Unmarshal\<close> into the
  same types: \<open>null\<close> elements are empty strings, of duplicate keys the last one counts, and any other
  value is an error, whose text is not modelled.
\<close>

definition marshal_texts :: "string list \<Rightarrow> string" where
  "marshal_texts xs = (if xs = [] then ''null'' else print_json (JArr (map JStr xs)))"

definition canonical_map :: "go_map \<Rightarrow> go_map" where
  "canonical_map m = map (\<lambda>k. (k, mget m k)) (sorted_keys m)"

definition marshal_text_map :: "go_map \<Rightarrow> string" where
  "marshal_text_map m = (if m = [] then ''null'' else print_json (JObj (map (\<lambda>(k, v). (k, JStr v)) (canonical_map m))))"

fun json_text :: "json \<Rightarrow> string option" where
  "json_text (JStr s) = Some s"
| "json_text JNull = Some []"
| "json_text _ = None"

fun json_texts :: "json list \<Rightarrow> string list option" where
  "json_texts [] = Some []"
| "json_texts (v # vs) = (case (json_text v, json_texts vs) of (Some s, Some ss) \<Rightarrow> Some (s # ss) | _ \<Rightarrow> None)"

fun json_text_map :: "(string \<times> json) list \<Rightarrow> go_map \<Rightarrow> go_map option" where
  "json_text_map [] m = Some m"
| "json_text_map ((k, v) # ms) m = (case json_text v of Some s \<Rightarrow> json_text_map ms (AList.update k s m) | None \<Rightarrow> None)"

definition unmarshal_texts :: "string \<Rightarrow> string list option" where
  "unmarshal_texts raw = (case json_parse raw of Some (JArr vs) \<Rightarrow> json_texts vs | Some JNull \<Rightarrow> Some [] | _ \<Rightarrow> None)"

definition unmarshal_text_map :: "string \<Rightarrow> go_map option" where
  "unmarshal_text_map raw = (case json_parse raw of Some (JObj ms) \<Rightarrow> json_text_map ms [] | Some JNull \<Rightarrow> Some [] | _ \<Rightarrow> None)"

text \<open>
  A string field of a struct: every member whose name matches without regard to case sets it, \<open>null\<close>
  leaves it alone.
\<close>

fun struct_text :: "string \<Rightarrow> (string \<times> json) list \<Rightarrow> string \<Rightarrow> string option" where
  "struct_text name [] s = Some s"
| "struct_text name ((k, v) # ms) s =
     (if equal_fold k name then (case v of JStr x \<Rightarrow> struct_text name ms x | JNull \<Rightarrow> struct_text name ms s | _ \<Rightarrow> None)
      else struct_text name ms s)"

definition unmarshal_members :: "string \<Rightarrow> (string \<times> json) list option" where
  "unmarshal_members raw = (case json_parse raw of Some (JObj ms) \<Rightarrow> Some ms | Some JNull \<Rightarrow> Some [] | _ \<Rightarrow> None)"

definition utf8_map :: "go_map \<Rightarrow> bool" where
  "utf8_map m \<longleftrightarrow> list_all (\<lambda>(k, v). valid_utf8 k \<and> valid_utf8 v) m"

lemma json_texts_map [simp]: "json_texts (map JStr xs) = Some xs"
  by (induction xs) simp_all

lemma marshal_texts_roundtrip: "list_all valid_utf8 xs \<Longrightarrow> unmarshal_texts (marshal_texts xs) = Some xs"
proof (cases "xs = []")
  case True
  have "json_parse ''null'' = Some JNull" using json_roundtrip[of JNull] by simp
  then show ?thesis using True by (simp add: unmarshal_texts_def marshal_texts_def)
next
  case False
  assume "list_all valid_utf8 xs"
  then have "json_fits max_json_depth (JArr (map JStr xs))" by (simp add: max_json_depth_def list_all_iff)
  from json_roundtrip[OF this] show ?thesis using False by (simp add: unmarshal_texts_def marshal_texts_def del: print_json.simps)
qed

lemma json_text_map_distinct:
  "distinct (map fst m @ map fst ms) \<Longrightarrow> json_text_map (map (\<lambda>(k, v). (k, JStr v)) ms) m = Some (m @ ms)"
proof (induction ms arbitrary: m)
  case (Cons kv ms)
  obtain k v where kv: "kv = (k, v)" by (cases kv)
  have "AList.update k v m = m @ [(k, v)]" using Cons.prems kv by (induction m) auto
  then show ?case using Cons.IH[of "m @ [(k, v)]"] Cons.prems kv by simp
qed simp

lemma keys_canonical: "map fst (canonical_map m) = sorted_keys m"
  by (simp add: canonical_map_def comp_def)

lemma mget_in: "(k, v) \<in> set m \<Longrightarrow> (k, mget m k) \<in> set m"
  by (auto simp: mget_def map_of_SomeD split: option.split dest: weak_map_of_SomeI)

lemma utf8_canonical: "utf8_map m \<Longrightarrow> utf8_map (canonical_map m)"
  using mget_in by (fastforce simp: utf8_map_def canonical_map_def list_all_iff)

lemma marshal_map_roundtrip:
  assumes "utf8_map m" and "distinct_keys m"
  shows "unmarshal_text_map (marshal_text_map m) = Some (canonical_map m)"
proof (cases "m = []")
  case True
  have "json_parse ''null'' = Some JNull" using json_roundtrip[of JNull] by simp
  then show ?thesis using True by (simp add: unmarshal_text_map_def marshal_text_map_def canonical_map_def sorted_keys_def)
next
  case False
  let ?ms = "map (\<lambda>(k, v). (k, JStr v)) (canonical_map m)"
  have "json_fits max_json_depth (JObj ?ms)"
    using utf8_canonical[OF assms(1)] by (auto simp: max_json_depth_def list_all_iff utf8_map_def)
  moreover have "distinct (map fst (canonical_map m))"
    using assms(2) by (simp add: keys_canonical sorted_keys_def distinct_keys_def)
  ultimately show ?thesis
    using False json_roundtrip[of "JObj ?ms"] json_text_map_distinct[of "[]" "canonical_map m"]
    by (simp add: unmarshal_text_map_def marshal_text_map_def del: print_json.simps)
qed

end
