(* ===== verification/Store.thy ===== *)
theory Store
  imports Tables Json Validate "HOL-Library.AList"
begin

text \<open>
  The data layer: \<open>internal/models/store.go\<close>, with the tables of \<open>internal/models/migrations\<close>.

  A \<^emph>\<open>store\<close> is the state of the database. Every method of \<open>Store\<close> is a program of the state monad
  over it, a sequence of SQL statements. Any statement may fail (a full disk, a locked file, a
  cancelled context): \<open>st_faults\<close> is the schedule of these failures, one entry per statement, and a
  statement that fails changes nothing. When the schedule has run out, statements succeed. The
  connection pool holds one connection (\<open>db.go\<close>), so statements of different callers interleave but
  never overlap.

  Times are Unix seconds; \<open>time.Now()\<close> is an argument \<open>now\<close> where the code reads the clock. The
  injected \<open>SecretCodec\<close> is a parameter; it draws a fresh nonce for every value, so \<open>sc_encrypt\<close> also
  sees how many it has drawn.
\<close>

section \<open>Rows\<close>

record user =
  u_id :: int
  u_name :: string
  u_password_hash :: string

record session =
  se_id :: string
  se_user_id :: int
  se_created_at :: int
  se_expires_at :: int

record shared_variable =
  sh_scope :: string
  sh_scope_id :: string
  sh_key :: string
  sh_value :: string

record credential =
  cr_name :: string
  cr_nonce :: string
  cr_ciphertext :: string

datatype deploy_status = DeployQueued | DeployRunning | DeploySuccess | DeployFailed

fun status_text :: "deploy_status \<Rightarrow> string" where
  "status_text DeployQueued = ''queued''"
| "status_text DeployRunning = ''running''"
| "status_text DeploySuccess = ''success''"
| "status_text DeployFailed = ''failed''"

record deployment =
  d_id :: int
  d_project_id :: string
  d_target_type :: string
  d_commit_sha :: string
  d_ref :: string
  d_image_tag :: string
  d_status :: deploy_status
  d_trigger :: string
  d_log :: string
  d_error :: string
  d_started_at :: int
  d_finished_at :: int

record remote_command =
  rc_id :: int
  rc_server_id :: string
  rc_server_type :: string
  rc_action :: string
  rc_deployment_id :: int
  rc_command :: string
  rc_error :: string
  rc_executed_at :: int

record delivery =
  dl_provider :: string
  dl_project_id :: string
  dl_id :: string
  dl_commit_sha :: string
  dl_received_at :: int

record retired_domain =
  rd_project_id :: string
  rd_domain :: string
  rd_retired_at :: int

record api_token =
  tk_id :: int
  tk_name :: string
  tk_hash :: string
  tk_scope :: string
  tk_created_at :: int
  tk_last_used_at :: int

text \<open>
  The rows of servers and projects keep their lists and maps as JSON text; the fields of the entry that
  have no column of their own are blank in the row.
\<close>

record server_row =
  sr_server :: server
  sr_services :: string

record project_row =
  pr_project :: project
  pr_mappings :: string
  pr_build_env :: string
  pr_env :: string

record secret_codec =
  sc_encrypt :: "nat \<Rightarrow> string \<Rightarrow> string \<Rightarrow> string res"
  sc_decrypt :: "string \<Rightarrow> string \<Rightarrow> string res"

record store =
  st_users :: "user list"
  st_user_seq :: int
  st_sessions :: "session list"
  st_meta :: "(string \<times> string) list"
  st_credentials :: "credential list"
  st_shared :: "shared_variable list"
  st_deployments :: "deployment list"
  st_deploy_seq :: int
  st_commands :: "remote_command list"
  st_command_seq :: int
  st_deliveries :: "delivery list"
  st_retired :: "retired_domain list"
  st_tokens :: "api_token list"
  st_token_seq :: int
  st_servers :: "server_row list"
  st_projects :: "project_row list"
  st_codec :: "secret_codec option"
  st_draws :: nat
  st_faults :: "string option list"

definition empty_store :: "secret_codec option \<Rightarrow> string option list \<Rightarrow> store" where
  "empty_store codec faults = \<lparr>st_users = [], st_user_seq = 0, st_sessions = [], st_meta = [],
     st_credentials = [], st_shared = [], st_deployments = [], st_deploy_seq = 0, st_commands = [],
     st_command_seq = 0, st_deliveries = [], st_retired = [], st_tokens = [], st_token_seq = 0,
     st_servers = [], st_projects = [], st_codec = codec, st_draws = 0, st_faults = faults\<rparr>"

text \<open>The life of a deployment: its status only moves up in this order.\<close>

instantiation deploy_status :: linorder
begin

definition status_rank :: "deploy_status \<Rightarrow> nat" where
  "status_rank s = (case s of DeployQueued \<Rightarrow> 0 | DeployRunning \<Rightarrow> 1 | DeploySuccess \<Rightarrow> 2 | DeployFailed \<Rightarrow> 3)"

definition less_eq_deploy_status :: "deploy_status \<Rightarrow> deploy_status \<Rightarrow> bool" where
  "less_eq_deploy_status a b = (status_rank a \<le> status_rank b)"

definition less_deploy_status :: "deploy_status \<Rightarrow> deploy_status \<Rightarrow> bool" where
  "less_deploy_status a b = (status_rank a < status_rank b)"

instance
  by intro_classes (auto simp: less_eq_deploy_status_def less_deploy_status_def status_rank_def
      split: deploy_status.splits)

end

definition terminal :: "deploy_status \<Rightarrow> bool" where
  "terminal s \<longleftrightarrow> DeploySuccess \<le> s"

section \<open>Statements and errors\<close>

text \<open>
  \<open>Failed what cause\<close> is a driver error wrapped with \<open>what\<close> (returned as it is when \<open>what\<close> is empty), \<open>Constraint what\<close> one for a violated constraint,
  whose text is the driver's, \<open>Refused\<close> an error of the package's own checks.
\<close>

datatype store_error = ErrNotFound | ErrAlreadyInitialized | Failed string string | Constraint string | Refused string

type_synonym 'a sres = "store_error + 'a"
type_synonym 'a dbm = "(store, 'a sres) state"

fun error_text :: "store_error \<Rightarrow> string" where
  "error_text ErrNotFound = ''not found''"
| "error_text ErrAlreadyInitialized = ''already initialized''"
| "error_text (Failed what cause) = (if what = [] then cause else what @ '': '' @ cause)"
| "error_text (Constraint what) = what"
| "error_text (Refused e) = e"

definition stmt :: "string \<Rightarrow> (store \<Rightarrow> store_error + ('a \<times> store)) \<Rightarrow> 'a dbm" where
  "stmt what f = State (\<lambda>s.
     (let s1 = s\<lparr>st_faults := tl (st_faults s)\<rparr> in
      case st_faults s of
        Some cause # _ \<Rightarrow> (Inl (Failed what cause), s1)
      | _ \<Rightarrow> (case f s1 of Inl e \<Rightarrow> (Inl e, s1) | Inr (x, s2) \<Rightarrow> (Inr x, s2))))"

definition exec_stmt :: "string \<Rightarrow> (store \<Rightarrow> store) \<Rightarrow> unit dbm" where
  "exec_stmt what f = stmt what (\<lambda>s. Inr ((), f s))"

definition query_stmt :: "string \<Rightarrow> (store \<Rightarrow> 'a) \<Rightarrow> 'a dbm" where
  "query_stmt what f = stmt what (\<lambda>s. Inr (f s, s))"

definition db_ok :: "'a \<Rightarrow> 'a dbm" where "db_ok x = State_Monad.return (Inr x)"

definition db_fail :: "store_error \<Rightarrow> 'a dbm" where "db_fail e = State_Monad.return (Inl e)"

definition db_then :: "'a dbm \<Rightarrow> ('a \<Rightarrow> 'b dbm) \<Rightarrow> 'b dbm" where
  "db_then m k = do { r \<leftarrow> m; case r of Inl e \<Rightarrow> db_fail e | Inr x \<Rightarrow> k x }"

definition max_deployment_log_bytes :: nat where "max_deployment_log_bytes = 4 * 1024 * 1024"
definition max_deployment_error_len :: nat where "max_deployment_error_len = 16 * 1024"
definition max_audit_text_len :: nat where "max_audit_text_len = 64 * 1024"

definition cap_stored_text :: "string \<Rightarrow> nat \<Rightarrow> string" where
  "cap_stored_text value lim = (if length value \<le> lim then value else drop (length value - lim) value)"

text \<open>\<open>err == sql.ErrNoRows\<close>: an empty result becomes \<open>ErrNotFound\<close>.\<close>

definition or_not_found :: "'a option dbm \<Rightarrow> 'a dbm" where
  "or_not_found m = db_then m (\<lambda>row. case row of None \<Rightarrow> db_fail ErrNotFound | Some x \<Rightarrow> db_ok x)"

section \<open>Users and sessions\<close>

definition set_user_id :: "int \<Rightarrow> user \<Rightarrow> user" where "set_user_id i u = u\<lparr>u_id := i\<rparr>"

definition merge_user :: "user \<Rightarrow> user \<Rightarrow> user" where
  "merge_user old new = old\<lparr>u_password_hash := u_password_hash new\<rparr>"

definition new_user :: "store \<Rightarrow> string \<Rightarrow> string \<Rightarrow> user" where
  "new_user s name hash = \<lparr>u_id = st_user_seq s + 1, u_name = name, u_password_hash = hash\<rparr>"

definition upsert_user :: "string \<Rightarrow> string \<Rightarrow> unit dbm" where
  "upsert_user name hash = exec_stmt ''upsert user'' (\<lambda>s.
     s\<lparr>st_users := upsert u_name merge_user (new_user s name hash) (st_users s),
       st_user_seq := (if list_ex (\<lambda>u. u_name u = name) (st_users s) then st_user_seq s else st_user_seq s + 1)\<rparr>)"

definition user_by_username :: "string \<Rightarrow> user dbm" where
  "user_by_username name =
     or_not_found (query_stmt ''get user'' (\<lambda>s. find (\<lambda>u. u_name u = name) (st_users s)))"

definition count_users :: "int dbm" where
  "count_users = query_stmt ''count users'' (\<lambda>s. int (length (st_users s)))"

definition create_first_user :: "string \<Rightarrow> string \<Rightarrow> user dbm" where
  "create_first_user name hash =
     db_then (stmt ''create first user'' (\<lambda>s.
         if st_users s = []
         then Inr (1::int, s\<lparr>st_users := st_users s @ [new_user s name hash], st_user_seq := st_user_seq s + 1\<rparr>)
         else Inr (0, s)))
       (\<lambda>n. if n = 0 then db_fail ErrAlreadyInitialized else user_by_username name)"

definition create_session :: "int \<Rightarrow> string \<Rightarrow> int \<Rightarrow> int \<Rightarrow> unit dbm" where
  "create_session now token_hash user_id expires = stmt ''create session'' (\<lambda>s.
     if list_ex (\<lambda>r. se_id r = token_hash) (st_sessions s) \<or> \<not> list_ex (\<lambda>u. u_id u = user_id) (st_users s)
     then Inl (Constraint ''create session'')
     else Inr ((), s\<lparr>st_sessions := st_sessions s @ [\<lparr>se_id = token_hash, se_user_id = user_id,
            se_created_at = now, se_expires_at = expires\<rparr>]\<rparr>))"

definition session_username :: "store \<Rightarrow> string \<Rightarrow> int \<Rightarrow> string option" where
  "session_username s token_hash now =
     (case find (\<lambda>r. se_id r = token_hash \<and> now < se_expires_at r) (st_sessions s) of
        None \<Rightarrow> None
      | Some r \<Rightarrow> map_option u_name (find (\<lambda>u. u_id u = se_user_id r) (st_users s)))"

definition username_by_session :: "string \<Rightarrow> int \<Rightarrow> string dbm" where
  "username_by_session token_hash now =
     or_not_found (query_stmt ''lookup session'' (\<lambda>s. session_username s token_hash now))"

definition delete_session :: "string \<Rightarrow> unit dbm" where
  "delete_session token_hash = exec_stmt ''delete session'' (\<lambda>s.
     s\<lparr>st_sessions := delete_rows (\<lambda>r. se_id r = token_hash) (st_sessions s)\<rparr>)"

definition delete_expired_sessions :: "int \<Rightarrow> unit dbm" where
  "delete_expired_sessions now = exec_stmt ''prune sessions'' (\<lambda>s.
     s\<lparr>st_sessions := delete_rows (\<lambda>r. se_expires_at r \<le> now) (st_sessions s)\<rparr>)"

section \<open>Settings\<close>

definition merge_meta :: "string \<times> string \<Rightarrow> string \<times> string \<Rightarrow> string \<times> string" where
  "merge_meta old new = (fst old, snd new)"

definition get_meta :: "string \<Rightarrow> string dbm" where
  "get_meta k = db_then (query_stmt (''get meta '' @ quote k) (\<lambda>s. find (\<lambda>r. fst r = k) (st_meta s)))
     (\<lambda>row. db_ok (case row of None \<Rightarrow> [] | Some r \<Rightarrow> snd r))"

definition set_meta :: "string \<Rightarrow> string \<Rightarrow> unit dbm" where
  "set_meta k v = exec_stmt (''set meta '' @ quote k) (\<lambda>s.
     s\<lparr>st_meta := upsert fst merge_meta (k, v) (st_meta s)\<rparr>)"

section \<open>Secrets at rest\<close>

definition encrypted_secret_prefix :: string where "encrypted_secret_prefix = ''enc:v1:''"

definition encode_secret :: "string \<Rightarrow> string \<Rightarrow> string dbm" where
  "encode_secret name value = State (\<lambda>s.
     (case st_codec s of
        None \<Rightarrow> (Inr value, s)
      | Some codec \<Rightarrow>
          (if value = [] \<or> value = ''null'' then (Inr value, s)
           else (case sc_encrypt codec (st_draws s) name value of
               Inl e \<Rightarrow> (Inl (Failed (''encrypt '' @ name) e), s\<lparr>st_draws := Suc (st_draws s)\<rparr>)
             | Inr x \<Rightarrow> (Inr (encrypted_secret_prefix @ x), s\<lparr>st_draws := Suc (st_draws s)\<rparr>)))))"

definition decode_secret :: "secret_codec option \<Rightarrow> string \<Rightarrow> string \<Rightarrow> string sres" where
  "decode_secret codec name value =
     (if \<not> prefix encrypted_secret_prefix value then Inr value
      else (case codec of
          None \<Rightarrow> Inl (Refused (''encrypted '' @ name @ '' requires the application master key''))
        | Some c \<Rightarrow>
            (case sc_decrypt c name (trim_prefix encrypted_secret_prefix value) of
               Inl e \<Rightarrow> Inl (Failed (''decrypt '' @ name) e)
             | Inr x \<Rightarrow> Inr x)))"

definition shared_secret_name :: "shared_variable \<Rightarrow> string" where
  "shared_secret_name v = ''shared:'' @ sh_scope v @ '':'' @ sh_scope_id v @ '':'' @ sh_key v"

text \<open>A loop over rows that stops at the first error.\<close>

fun collect :: "('r \<Rightarrow> 'a sres) \<Rightarrow> 'r list \<Rightarrow> 'a list sres" where
  "collect f [] = Inr []"
| "collect f (r # rs) =
     (case f r of
        Inl e \<Rightarrow> Inl e
      | Inr x \<Rightarrow> (case collect f rs of Inl e \<Rightarrow> Inl e | Inr xs \<Rightarrow> Inr (x # xs)))"

definition db_lift :: "'a sres \<Rightarrow> 'a dbm" where "db_lift r = State_Monad.return r"

definition merge_shared :: "shared_variable \<Rightarrow> shared_variable \<Rightarrow> shared_variable" where
  "merge_shared old new = old\<lparr>sh_value := sh_value new\<rparr>"

definition shared_key :: "shared_variable \<Rightarrow> string \<times> string \<times> string" where
  "shared_key v = (sh_scope v, sh_scope_id v, sh_key v)"

definition decode_shared :: "secret_codec option \<Rightarrow> shared_variable \<Rightarrow> shared_variable sres" where
  "decode_shared codec v =
     (case decode_secret codec (shared_secret_name v) (sh_value v) of
        Inl e \<Rightarrow> Inl e | Inr x \<Rightarrow> Inr (v\<lparr>sh_value := x\<rparr>))"

definition list_shared_variables :: "shared_variable list dbm" where
  "list_shared_variables =
     db_then (query_stmt ''list shared variables'' (\<lambda>s. (st_codec s,
         sort_key sh_scope (sort_key sh_scope_id (sort_key sh_key (st_shared s))))))
       (\<lambda>(codec, rows). db_lift (collect (decode_shared codec) rows))"

definition shared_variable_error :: "shared_variable \<Rightarrow> string option" where
  "shared_variable_error v =
     (if sh_scope v \<noteq> ''project'' \<and> sh_scope v \<noteq> ''environment''
      then Some ''shared variable scope must be project or environment''
      else if trim_space (sh_scope_id v) = [] then Some ''shared variable scope_id is required''
      else (case validate_env_key (sh_key v) of
          Some e \<Rightarrow> Some e
        | None \<Rightarrow>
            (if contains_any (sh_value v) ctl_chars
             then Some (''shared variable '' @ quote (sh_key v) @ '' contains a newline or NUL'') else None)))"

definition upsert_shared_variable :: "shared_variable \<Rightarrow> unit dbm" where
  "upsert_shared_variable v =
     (case shared_variable_error v of
        Some e \<Rightarrow> db_fail (Refused e)
      | None \<Rightarrow>
          db_then (encode_secret (shared_secret_name v) (sh_value v))
            (\<lambda>stored. exec_stmt ''upsert shared variable'' (\<lambda>s.
               s\<lparr>st_shared := upsert shared_key merge_shared (v\<lparr>sh_value := stored\<rparr>) (st_shared s)\<rparr>)))"

definition delete_shared_variable :: "string \<Rightarrow> string \<Rightarrow> string \<Rightarrow> unit dbm" where
  "delete_shared_variable scope scope_id k = exec_stmt ''delete shared variable'' (\<lambda>s.
     s\<lparr>st_shared := delete_rows (\<lambda>r. shared_key r = (scope, scope_id, k)) (st_shared s)\<rparr>)"

definition visible_shared :: "string \<Rightarrow> string \<Rightarrow> shared_variable \<Rightarrow> bool" where
  "visible_shared grp env r \<longleftrightarrow>
     sh_scope r = ''project'' \<and> sh_scope_id r = grp
     \<or> sh_scope r = ''environment'' \<and> sh_scope_id r = grp @ ''/'' @ env"

definition shared_ref :: "shared_variable \<Rightarrow> string" where
  "shared_ref v = sh_scope v @ ''.'' @ sh_key v"

text \<open>\<open>out[scope+"."+key] = decoded\<close> in the order of the rows; \<open>AList.update\<close> replaces an earlier entry.\<close>

definition shared_variables_for :: "string \<Rightarrow> string \<Rightarrow> go_map dbm" where
  "shared_variables_for grp env =
     db_then (query_stmt ''shared variables for project'' (\<lambda>s.
         (st_codec s, filter (visible_shared grp env) (st_shared s))))
       (\<lambda>(codec, rows). db_lift
         (case collect (\<lambda>r. case decode_shared codec r of Inl e \<Rightarrow> Inl e | Inr v \<Rightarrow> Inr (shared_ref v, sh_value v)) rows of
            Inl e \<Rightarrow> Inl e
          | Inr kvs \<Rightarrow> Inr (foldl (\<lambda>m (k, v). AList.update k v m) [] kvs)))"

section \<open>Credentials\<close>

definition merge_credential :: "credential \<Rightarrow> credential \<Rightarrow> credential" where
  "merge_credential old new = old\<lparr>cr_nonce := cr_nonce new, cr_ciphertext := cr_ciphertext new\<rparr>"

definition put_credential :: "string \<Rightarrow> string \<Rightarrow> string \<Rightarrow> unit dbm" where
  "put_credential name nonce ct = exec_stmt (''put credential '' @ quote name) (\<lambda>s.
     s\<lparr>st_credentials := upsert cr_name merge_credential
         \<lparr>cr_name = name, cr_nonce = nonce, cr_ciphertext = ct\<rparr> (st_credentials s)\<rparr>)"

definition credential_blob :: "string \<Rightarrow> (string \<times> string) dbm" where
  "credential_blob name = or_not_found (query_stmt (''get credential '' @ quote name) (\<lambda>s.
     map_option (\<lambda>c. (cr_nonce c, cr_ciphertext c)) (find (\<lambda>c. cr_name c = name) (st_credentials s))))"

definition credential_names :: "string list dbm" where
  "credential_names = query_stmt ''list credentials'' (\<lambda>s. sort (map cr_name (st_credentials s)))"

definition delete_credential :: "string \<Rightarrow> unit dbm" where
  "delete_credential name = exec_stmt (''delete credential '' @ quote name) (\<lambda>s.
     s\<lparr>st_credentials := delete_rows (\<lambda>c. cr_name c = name) (st_credentials s)\<rparr>)"

section \<open>Deployments\<close>

definition set_deployment_id :: "int \<Rightarrow> deployment \<Rightarrow> deployment" where "set_deployment_id i d = d\<lparr>d_id := i\<rparr>"

text \<open>The columns \<open>CreateDeployment\<close> does not insert take their defaults.\<close>

definition create_deployment :: "deployment \<Rightarrow> int dbm" where
  "create_deployment d = stmt ''create deployment'' (\<lambda>s.
     Inr (st_deploy_seq s + 1,
       s\<lparr>st_deployments := insert_row set_deployment_id (d\<lparr>d_log := [], d_error := [], d_finished_at := 0\<rparr>)
           (st_deploy_seq s) (st_deployments s),
         st_deploy_seq := st_deploy_seq s + 1\<rparr>))"

definition on_deployment :: "int \<Rightarrow> (deployment \<Rightarrow> deployment) \<Rightarrow> store \<Rightarrow> store" where
  "on_deployment i f s = s\<lparr>st_deployments := update_rows (\<lambda>d. d_id d = i) f (st_deployments s)\<rparr>"

definition set_deployment_status :: "int \<Rightarrow> deploy_status \<Rightarrow> string \<Rightarrow> unit dbm" where
  "set_deployment_status i st artifact = exec_stmt ''set deployment status''
     (on_deployment i (\<lambda>d. d\<lparr>d_status := st, d_image_tag := artifact\<rparr>))"

definition append_deployment_log :: "int \<Rightarrow> string \<Rightarrow> unit dbm" where
  "append_deployment_log i chunk =
     db_then (query_stmt ''read deployment log'' (\<lambda>s. map_option d_log (find (\<lambda>d. d_id d = i) (st_deployments s))))
       (\<lambda>row. case row of
          None \<Rightarrow> db_fail (Failed ''read deployment log'' ''sql: no rows in result set'')
        | Some current \<Rightarrow>
            (let combined = cap_stored_text (current @ chunk) max_deployment_log_bytes in
             exec_stmt ''append deployment log'' (on_deployment i (\<lambda>d. d\<lparr>d_log := combined\<rparr>))))"

definition finish_deployment :: "int \<Rightarrow> deploy_status \<Rightarrow> string \<Rightarrow> int \<Rightarrow> unit dbm" where
  "finish_deployment i st msg finished =
     (let e = cap_stored_text msg max_deployment_error_len in
      exec_stmt ''finish deployment''
        (on_deployment i (\<lambda>d. d\<lparr>d_status := st, d_error := e, d_finished_at := finished\<rparr>)))"

definition interrupted_error :: string where
  "interrupted_error = ''deployment interrupted by service restart''"

definition interrupted :: "deployment \<Rightarrow> bool" where
  "interrupted d \<longleftrightarrow> d_status d = DeployQueued \<or> d_status d = DeployRunning"

definition fail_interrupted_deployments :: "int \<Rightarrow> int dbm" where
  "fail_interrupted_deployments now = stmt ''fail interrupted deployments'' (\<lambda>s.
     Inr (int (length (filter interrupted (st_deployments s))),
       s\<lparr>st_deployments := update_rows interrupted
           (\<lambda>d. d\<lparr>d_status := DeployFailed, d_error := interrupted_error, d_finished_at := now\<rparr>)
           (st_deployments s)\<rparr>))"

definition get_deployment :: "int \<Rightarrow> deployment dbm" where
  "get_deployment i = or_not_found (query_stmt [] (\<lambda>s. find (\<lambda>d. d_id d = i) (st_deployments s)))"

definition list_deployments :: "string \<Rightarrow> int \<Rightarrow> deployment list dbm" where
  "list_deployments pid n = query_stmt ''list deployments'' (\<lambda>s.
     newest d_id n (\<lambda>d. d_project_id d = pid) (st_deployments s))"

definition successful_deployments :: "string \<Rightarrow> int \<Rightarrow> deployment list dbm" where
  "successful_deployments pid n = query_stmt ''list successful deployments'' (\<lambda>s.
     newest d_id n (\<lambda>d. d_project_id d = pid \<and> d_status d = DeploySuccess) (st_deployments s))"

definition recent_deployments :: "int \<Rightarrow> deployment list dbm" where
  "recent_deployments n = query_stmt ''recent deployments'' (\<lambda>s. newest d_id n (\<lambda>_. True) (st_deployments s))"

definition deployment_status_counts :: "(string \<times> int) list dbm" where
  "deployment_status_counts = query_stmt ''deployment status counts'' (\<lambda>s.
     map (\<lambda>st. (st, int (count_list (map (status_text \<circ> d_status) (st_deployments s)) st)))
       (remdups (map (status_text \<circ> d_status) (st_deployments s))))"

definition prune_deployments :: "int \<Rightarrow> unit dbm" where
  "prune_deployments before = exec_stmt ''prune deployments'' (\<lambda>s.
     s\<lparr>st_deployments := delete_rows (\<lambda>d. d_started_at d < before
         \<and> (d_status d = DeploySuccess \<or> d_status d = DeployFailed)) (st_deployments s)\<rparr>)"

text \<open>\<open>scanDeployment\<close>: a finish time that is not positive reads as no time.\<close>

definition finished_time :: "deployment \<Rightarrow> int option" where
  "finished_time d = (if 0 < d_finished_at d then Some (d_finished_at d) else None)"

section \<open>The audit table\<close>

definition set_command_id :: "int \<Rightarrow> remote_command \<Rightarrow> remote_command" where "set_command_id i r = r\<lparr>rc_id := i\<rparr>"

definition insert_remote_command :: "remote_command \<Rightarrow> unit dbm" where
  "insert_remote_command rc = exec_stmt ''insert remote command'' (\<lambda>s.
     s\<lparr>st_commands := insert_row set_command_id
           (rc\<lparr>rc_command := cap_stored_text (rc_command rc) max_audit_text_len,
              rc_error := cap_stored_text (rc_error rc) max_deployment_error_len\<rparr>)
           (st_command_seq s) (st_commands s),
       st_command_seq := st_command_seq s + 1\<rparr>)"

definition list_remote_commands :: "int \<Rightarrow> remote_command list dbm" where
  "list_remote_commands n = query_stmt ''list remote commands'' (\<lambda>s. newest rc_id n (\<lambda>_. True) (st_commands s))"

record command_filter =
  cf_server_id :: string
  cf_action :: string
  cf_query :: string
  cf_since :: "int option"
  cf_limit :: int
  cf_offset :: int

definition command_matches :: "command_filter \<Rightarrow> remote_command \<Rightarrow> bool" where
  "command_matches f r \<longleftrightarrow>
     (cf_server_id f = [] \<or> rc_server_id r = cf_server_id f)
     \<and> (cf_action f = [] \<or> rc_action r = cf_action f)
     \<and> (case cf_since f of None \<Rightarrow> True | Some t \<Rightarrow> t \<le> rc_executed_at r)
     \<and> (cf_query f = [] \<or> like_contains (cf_query f) (rc_command r) \<or> like_contains (cf_query f) (rc_error r))"

definition list_remote_commands_filtered :: "command_filter \<Rightarrow> (remote_command list \<times> int) dbm" where
  "list_remote_commands_filtered f =
     db_then (query_stmt ''count remote commands'' (\<lambda>s. int (length (filter (command_matches f) (st_commands s)))))
       (\<lambda>total. let n = (if cf_limit f \<le> 0 then 50 else cf_limit f) in
          db_then (query_stmt ''list remote commands filtered'' (\<lambda>s.
              limit_offset n (cf_offset f) (order_desc rc_id (filter (command_matches f) (st_commands s)))))
            (\<lambda>rows. db_ok (rows, total)))"

definition prune_remote_commands :: "int \<Rightarrow> unit dbm" where
  "prune_remote_commands before = exec_stmt ''prune remote commands'' (\<lambda>s.
     s\<lparr>st_commands := delete_rows (\<lambda>r. rc_executed_at r < before) (st_commands s)\<rparr>)"

section \<open>Servers and projects\<close>

definition json_error :: string where "json_error = ''invalid JSON''"

definition server_key :: "server_row \<Rightarrow> string" where "server_key r = sv_id (sr_server r)"
definition project_key :: "project_row \<Rightarrow> string" where "project_key r = p_id (pr_project r)"

definition server_defaults :: "server \<Rightarrow> server" where
  "server_defaults srv =
     (let s1 = (if sv_ssh_port srv = 0 then srv\<lparr>sv_ssh_port := 22\<rparr> else srv)
      in if sv_winrm_transport s1 = [] then s1\<lparr>sv_winrm_transport := ''ntlm''\<rparr> else s1)"

definition server_columns :: "server \<Rightarrow> server_row" where
  "server_columns srv = \<lparr>sr_server = srv\<lparr>sv_services := []\<rparr>, sr_services = marshal_texts (sv_services srv)\<rparr>"

definition upsert_server :: "server \<Rightarrow> unit dbm" where
  "upsert_server srv =
     (case validate_resource_id ''server id'' (sv_id srv) of
        Some e \<Rightarrow> db_fail (Refused e)
      | None \<Rightarrow> exec_stmt (''upsert server '' @ quote (sv_id srv)) (\<lambda>s.
          s\<lparr>st_servers := upsert server_key (\<lambda>_ new. new) (server_columns (server_defaults srv)) (st_servers s)\<rparr>))"

definition scan_server :: "server_row \<Rightarrow> server sres" where
  "scan_server r =
     (if sr_services r = [] \<or> sr_services r = ''null'' then Inr (sr_server r)
      else (case unmarshal_texts (sr_services r) of
          None \<Rightarrow> Inl (Failed ''decode server services'' json_error)
        | Some xs \<Rightarrow> Inr ((sr_server r)\<lparr>sv_services := xs\<rparr>)))"

definition list_servers :: "server list dbm" where
  "list_servers = db_then (query_stmt ''list servers'' (\<lambda>s. sort_key server_key (st_servers s)))
     (\<lambda>rows. db_lift (collect scan_server rows))"

definition get_server :: "string \<Rightarrow> server dbm" where
  "get_server i = db_then (or_not_found (query_stmt ''scan server'' (\<lambda>s. find (\<lambda>r. server_key r = i) (st_servers s))))
     (\<lambda>r. db_lift (scan_server r))"

definition project_defaults :: "project \<Rightarrow> project" where
  "project_defaults p0 =
     (let p1 = (if p_branch p0 = [] then p0\<lparr>p_branch := ''main''\<rparr> else p0);
          p2 = (if p_health_path p1 = [] then p1\<lparr>p_health_path := ''/''\<rparr> else p1);
          p3 = (if p_port p2 = 0 then p2\<lparr>p_port := effective_host_port p2\<rparr> else p2);
          p4 = (if p_group p3 = [] then p3\<lparr>p_group := ''Default''\<rparr> else p3)
      in if p_environment p4 = [] then p4\<lparr>p_environment := ''production''\<rparr> else p4)"

definition env_name :: "string \<Rightarrow> string" where "env_name i = ''project:'' @ i @ '':env''"
definition build_env_name :: "string \<Rightarrow> string" where "build_env_name i = ''project:'' @ i @ '':build_env''"

definition project_columns :: "project \<Rightarrow> string \<Rightarrow> string \<Rightarrow> project_row" where
  "project_columns p env benv = \<lparr>pr_project = p\<lparr>p_ports_mappings := [], p_env := [], p_build_env := []\<rparr>,
     pr_mappings = marshal_texts (p_ports_mappings p), pr_build_env = benv, pr_env = env\<rparr>"

definition project_refusal :: "project \<Rightarrow> string option" where
  "project_refusal p =
     (case validate_env_values ''env'' (p_env p) of
        Some e \<Rightarrow> Some e
      | None \<Rightarrow> validate_env_values ''build_env'' (p_build_env p))"

definition upsert_project :: "project \<Rightarrow> unit dbm" where
  "upsert_project p0 =
     (case validate_resource_id ''project id'' (p_id p0) of
        Some e \<Rightarrow> db_fail (Refused e)
      | None \<Rightarrow>
          (let p = project_defaults p0 in
           case project_refusal p of
             Some e \<Rightarrow> db_fail (Refused e)
           | None \<Rightarrow>
               db_then (encode_secret (env_name (p_id p)) (marshal_text_map (p_env p))) (\<lambda>env.
               db_then (encode_secret (build_env_name (p_id p)) (marshal_text_map (p_build_env p))) (\<lambda>benv.
               exec_stmt (''upsert project '' @ quote (p_id p)) (\<lambda>s.
                 s\<lparr>st_projects := upsert project_key (\<lambda>_ new. new) (project_columns p env benv) (st_projects s)\<rparr>)))))"

definition decode_json_map :: "string \<Rightarrow> go_map option" where
  "decode_json_map raw = (if raw = [] \<or> raw = ''null'' then Some [] else unmarshal_text_map raw)"

definition scan_project :: "secret_codec option \<Rightarrow> project_row \<Rightarrow> project sres" where
  "scan_project codec r =
     (let p = pr_project r; what = ''decode project '' @ quote (p_id p) in
      case decode_secret codec (env_name (p_id p)) (pr_env r) of
        Inl e \<Rightarrow> Inl e
      | Inr env_json \<Rightarrow>
          (case decode_secret codec (build_env_name (p_id p)) (pr_build_env r) of
             Inl e \<Rightarrow> Inl e
           | Inr benv_json \<Rightarrow>
               (case decode_json_map env_json of
                  None \<Rightarrow> Inl (Failed (what @ '' env'') json_error)
                | Some env \<Rightarrow>
                    (case decode_json_map benv_json of
                       None \<Rightarrow> Inl (Failed (what @ '' build env'') json_error)
                     | Some benv \<Rightarrow>
                         (let q = p\<lparr>p_env := env, p_build_env := benv\<rparr> in
                          if pr_mappings r = [] \<or> pr_mappings r = ''null'' then Inr q
                          else (case unmarshal_texts (pr_mappings r) of
                              None \<Rightarrow> Inl (Failed (what @ '' ports mappings'') json_error)
                            | Some xs \<Rightarrow> Inr (q\<lparr>p_ports_mappings := xs\<rparr>)))))))"

definition list_projects :: "project list dbm" where
  "list_projects = db_then (query_stmt ''list projects'' (\<lambda>s. (st_codec s, sort_key project_key (st_projects s))))
     (\<lambda>(codec, rows). db_lift (collect (scan_project codec) rows))"

definition get_project :: "string \<Rightarrow> project dbm" where
  "get_project i = db_then (or_not_found (query_stmt [] (\<lambda>s.
       map_option (\<lambda>r. (st_codec s, r)) (find (\<lambda>r. project_key r = i) (st_projects s)))))
     (\<lambda>(codec, r). db_lift (scan_project codec r))"

definition count_servers :: "int dbm" where "count_servers = query_stmt ''count'' (\<lambda>s. int (length (st_servers s)))"
definition count_projects :: "int dbm" where "count_projects = query_stmt ''count'' (\<lambda>s. int (length (st_projects s)))"

definition count_projects_by_server :: "string \<Rightarrow> int dbm" where
  "count_projects_by_server i = query_stmt (''count projects for '' @ quote i) (\<lambda>s.
     int (length (filter (\<lambda>r. p_server_id (pr_project r) = i) (st_projects s))))"

definition delete_server :: "string \<Rightarrow> unit dbm" where
  "delete_server i = exec_stmt (''delete server '' @ quote i) (\<lambda>s.
     s\<lparr>st_servers := delete_rows (\<lambda>r. server_key r = i) (st_servers s)\<rparr>)"

definition delete_project :: "string \<Rightarrow> unit dbm" where
  "delete_project i = exec_stmt (''delete project '' @ quote i) (\<lambda>s.
     s\<lparr>st_projects := delete_rows (\<lambda>r. project_key r = i) (st_projects s)\<rparr>)"

text \<open>\<open>deployments d LEFT JOIN projects p ON p.id = d.project_id\<close>: without a project row the name is NULL and matches nothing.\<close>

definition project_name_like :: "string \<Rightarrow> string \<Rightarrow> store \<Rightarrow> bool" where
  "project_name_like query pid s =
     (case find (\<lambda>r. project_key r = pid) (st_projects s) of None \<Rightarrow> False | Some r \<Rightarrow> like_contains query (p_name (pr_project r)))"

definition deployment_matches :: "string \<Rightarrow> string \<Rightarrow> store \<Rightarrow> deployment \<Rightarrow> bool" where
  "deployment_matches status query s d \<longleftrightarrow>
     (status = [] \<or> status_text (d_status d) = status)
     \<and> (query = [] \<or> like_contains query (d_project_id d) \<or> project_name_like query (d_project_id d) s)"

definition list_deployments_page :: "string \<Rightarrow> string \<Rightarrow> int \<Rightarrow> int \<Rightarrow> (deployment list \<times> int) dbm" where
  "list_deployments_page status query n off =
     db_then (query_stmt ''count deployments'' (\<lambda>s. int (length (filter (deployment_matches status query s) (st_deployments s)))))
       (\<lambda>total. db_then (query_stmt ''list deployments page'' (\<lambda>s.
            limit_offset (if n \<le> 0 then 25 else n) off
              (order_desc d_id (filter (deployment_matches status query s) (st_deployments s)))))
          (\<lambda>rows. db_ok (rows, total)))"

section \<open>Webhook deliveries\<close>

definition delivery_key :: "delivery \<Rightarrow> string \<times> string \<times> string" where
  "delivery_key r = (dl_provider r, dl_project_id r, dl_id r)"

definition merge_delivery :: "delivery \<Rightarrow> delivery \<Rightarrow> delivery" where
  "merge_delivery old new = old\<lparr>dl_commit_sha := dl_commit_sha new, dl_received_at := dl_received_at new\<rparr>"

definition delivery_retention :: int where "delivery_retention = 30 * 24 * 3600"
definition delivery_window :: int where "delivery_window = 10 * 60"

definition delivery_upsert :: "int \<Rightarrow> delivery \<Rightarrow> store \<Rightarrow> int \<times> store" where
  "delivery_upsert now r s =
     (case find (\<lambda>x. delivery_key x = delivery_key r) (st_deliveries s) of
        Some x \<Rightarrow> (if dl_received_at x < now - delivery_window
                  then (1, s\<lparr>st_deliveries := upsert delivery_key merge_delivery r (st_deliveries s)\<rparr>) else (0, s))
      | None \<Rightarrow> (1, s\<lparr>st_deliveries := st_deliveries s @ [r]\<rparr>))"

definition record_webhook_delivery :: "int \<Rightarrow> string \<Rightarrow> string \<Rightarrow> string \<Rightarrow> string \<Rightarrow> bool dbm" where
  "record_webhook_delivery now provider pid delivery commit = do {
     _ \<leftarrow> exec_stmt ''delete'' (\<lambda>s.
       s\<lparr>st_deliveries := delete_rows (\<lambda>r. dl_received_at r < now - delivery_retention) (st_deliveries s)\<rparr>);
     db_then (stmt ''record webhook delivery'' (\<lambda>s. Inr (delivery_upsert now
         \<lparr>dl_provider = provider, dl_project_id = pid, dl_id = delivery, dl_commit_sha = commit,
          dl_received_at = now\<rparr> s)))
       (\<lambda>n. db_ok (n = 1)) }"

definition delete_webhook_delivery :: "string \<Rightarrow> string \<Rightarrow> string \<Rightarrow> unit dbm" where
  "delete_webhook_delivery provider pid delivery = exec_stmt ''delete webhook delivery'' (\<lambda>s.
     s\<lparr>st_deliveries := delete_rows (\<lambda>r. delivery_key r = (provider, pid, delivery)) (st_deliveries s)\<rparr>)"

section \<open>Retired proxy domains\<close>

definition retired_key :: "retired_domain \<Rightarrow> string \<times> string" where
  "retired_key r = (rd_project_id r, rd_domain r)"

definition retire_proxy_domain :: "int \<Rightarrow> string \<Rightarrow> string \<Rightarrow> unit dbm" where
  "retire_proxy_domain now pid domain =
     (if pid = [] \<or> domain = [] then db_ok ()
      else exec_stmt ''retire proxy domain'' (\<lambda>s. s\<lparr>st_retired := replace_row retired_key
          \<lparr>rd_project_id = pid, rd_domain = domain, rd_retired_at = now\<rparr> (st_retired s)\<rparr>))"

definition list_retired_proxy_domains :: "string \<Rightarrow> string list dbm" where
  "list_retired_proxy_domains pid = query_stmt ''list retired proxy domains'' (\<lambda>s.
     sort (map rd_domain (filter (\<lambda>r. rd_project_id r = pid) (st_retired s))))"

definition delete_retired_proxy_domain :: "string \<Rightarrow> string \<Rightarrow> unit dbm" where
  "delete_retired_proxy_domain pid domain = exec_stmt ''delete retired proxy domain'' (\<lambda>s.
     s\<lparr>st_retired := delete_rows (\<lambda>r. retired_key r = (pid, domain)) (st_retired s)\<rparr>)"

definition delete_retired_proxy_domains :: "string \<Rightarrow> unit dbm" where
  "delete_retired_proxy_domains pid = exec_stmt ''delete retired proxy domains'' (\<lambda>s.
     s\<lparr>st_retired := delete_rows (\<lambda>r. rd_project_id r = pid) (st_retired s)\<rparr>)"

section \<open>API tokens\<close>

definition set_token_id :: "int \<Rightarrow> api_token \<Rightarrow> api_token" where "set_token_id i t = t\<lparr>tk_id := i\<rparr>"

definition create_api_token :: "int \<Rightarrow> string \<Rightarrow> string \<Rightarrow> string \<Rightarrow> int dbm" where
  "create_api_token now name token_hash scope = stmt ''create api token'' (\<lambda>s.
     if list_ex (\<lambda>t. tk_hash t = token_hash) (st_tokens s) then Inl (Constraint ''create api token'')
     else Inr (st_token_seq s + 1,
       s\<lparr>st_tokens := insert_row set_token_id \<lparr>tk_id = 0, tk_name = name, tk_hash = token_hash, tk_scope = scope,
           tk_created_at = now, tk_last_used_at = 0\<rparr> (st_token_seq s) (st_tokens s),
         st_token_seq := st_token_seq s + 1\<rparr>))"

definition list_api_tokens :: "api_token list dbm" where
  "list_api_tokens = query_stmt ''list api tokens'' (\<lambda>s. order_desc tk_id (st_tokens s))"

definition api_token_by_hash :: "string \<Rightarrow> api_token dbm" where
  "api_token_by_hash token_hash =
     or_not_found (query_stmt ''lookup api token'' (\<lambda>s. find (\<lambda>t. tk_hash t = token_hash) (st_tokens s)))"

definition touch_api_token :: "int \<Rightarrow> int \<Rightarrow> unit dbm" where
  "touch_api_token i now = exec_stmt ''touch api token'' (\<lambda>s.
     s\<lparr>st_tokens := update_rows (\<lambda>t. tk_id t = i) (\<lambda>t. t\<lparr>tk_last_used_at := now\<rparr>) (st_tokens s)\<rparr>)"

definition delete_api_token :: "int \<Rightarrow> unit dbm" where
  "delete_api_token i = exec_stmt ''delete api token'' (\<lambda>s.
     s\<lparr>st_tokens := delete_rows (\<lambda>t. tk_id t = i) (st_tokens s)\<rparr>)"

end
