(* ===== verification/StoreInv.thy ===== *)
theory StoreInv
  imports Store
begin

text \<open>
  What the data layer promises: its tables satisfy the contracts of \<open>Tables\<close>, and one invariant, the
  primary and unique keys, the foreign key of sessions, the increasing ids and the size caps of the
  stored texts, holds in every state any sequence of operations and failures can reach.
\<close>

section \<open>The tables satisfy their contracts\<close>

interpretation users: keyed_table u_name u_password_hash merge_user
  by unfold_locales (auto simp: merge_user_def)

interpretation settings: keyed_table fst snd merge_meta
  by unfold_locales (auto simp: merge_meta_def)

interpretation shared: keyed_table shared_key sh_value merge_shared
  by unfold_locales (auto simp: merge_shared_def shared_key_def)

interpretation credentials: keyed_table cr_name "\<lambda>c. (cr_nonce c, cr_ciphertext c)" merge_credential
  by unfold_locales (auto simp: merge_credential_def)

interpretation deliveries: keyed_table delivery_key dl_received_at merge_delivery
  by unfold_locales (auto simp: merge_delivery_def delivery_key_def)

interpretation retired: keyed_table retired_key rd_retired_at "\<lambda>_ new. new"
  by unfold_locales auto

interpretation servers: keyed_table server_key "\<lambda>r. r" "\<lambda>_ new. new"
  by unfold_locales simp_all

interpretation projects: keyed_table project_key "\<lambda>r. r" "\<lambda>_ new. new"
  by unfold_locales simp_all

interpretation deployments: history d_id set_deployment_id
  by unfold_locales (simp add: set_deployment_id_def)

interpretation commands: history rc_id set_command_id
  by unfold_locales (simp add: set_command_id_def)

interpretation tokens: history tk_id set_token_id
  by unfold_locales (simp add: set_token_id_def)

interpretation accounts: history u_id set_user_id
  by unfold_locales (simp add: set_user_id_def)

section \<open>Running statements\<close>

lemma run_bind: "run_state (State_Monad.bind m k) s = (case run_state m s of (x, t) \<Rightarrow> run_state (k x) t)"
  by (simp add: State_Monad.bind_def split_def)

lemma run_return [simp]: "run_state (State_Monad.return x) s = (x, s)"
  by (simp add: State_Monad.return_def)

lemma run_db_ok [simp]: "run_state (db_ok x) s = (Inr x, s)"
  by (simp add: db_ok_def)

lemma run_db_fail [simp]: "run_state (db_fail e) s = (Inl e, s)"
  by (simp add: db_fail_def)

lemma run_db_lift [simp]: "run_state (db_lift r) s = (r, s)"
  by (simp add: db_lift_def)

lemma run_db_then:
  "run_state (db_then m k) s = (case run_state m s of (Inl e, t) \<Rightarrow> (Inl e, t) | (Inr x, t) \<Rightarrow> run_state (k x) t)"
  by (auto simp: db_then_def run_bind split: prod.split sum.split)

text \<open>When no failure is scheduled, statements take effect.\<close>

definition sound :: "store \<Rightarrow> bool" where
  "sound s \<longleftrightarrow> st_faults s = []"

lemma faults_same [simp]: "st_faults s = [] \<Longrightarrow> s\<lparr>st_faults := []\<rparr> = s"
  by (cases s) simp

lemma run_stmt_sound: "sound s \<Longrightarrow> run_state (stmt what f) s = (case f s of Inl e \<Rightarrow> (Inl e, s) | Inr (x, t) \<Rightarrow> (Inr x, t))"
  by (simp add: stmt_def sound_def)

lemma run_query_sound [simp]: "sound s \<Longrightarrow> run_state (query_stmt what f) s = (Inr (f s), s)"
  by (simp add: query_stmt_def run_stmt_sound)

lemma run_exec_sound [simp]: "sound s \<Longrightarrow> run_state (exec_stmt what f) s = (Inr (), f s)"
  by (simp add: exec_stmt_def run_stmt_sound)

section \<open>Invariants of the store\<close>

text \<open>
  An invariant does not look at the failures still to come or at the number of nonces drawn; it is
  kept by a program when every statement keeps it.
\<close>

locale store_invariant =
  fixes I :: "store \<Rightarrow> bool"
  assumes I_faults [simp]: "I (s\<lparr>st_faults := fs\<rparr>) = I s"
    and I_draws [simp]: "I (s\<lparr>st_draws := n\<rparr>) = I s"
begin

definition keeps :: "'a dbm \<Rightarrow> bool" where
  "keeps m \<longleftrightarrow> (\<forall>s. I s \<longrightarrow> I (snd (run_state m s)))"

lemma keeps_stmt: "(\<And>s x t. I s \<Longrightarrow> f s = Inr (x, t) \<Longrightarrow> I t) \<Longrightarrow> keeps (stmt what f)"
proof -
  assume f: "\<And>s x t. I s \<Longrightarrow> f s = Inr (x, t) \<Longrightarrow> I t"
  have "I (snd (run_state (stmt what f) s))" if "I s" for s
    using f[of "s\<lparr>st_faults := tl (st_faults s)\<rparr>"] that
    by (auto simp: stmt_def Let_def split: list.split option.split sum.split prod.split)
  then show ?thesis by (simp add: keeps_def)
qed

lemma keeps_exec: "(\<And>s. I s \<Longrightarrow> I (f s)) \<Longrightarrow> keeps (exec_stmt what f)"
  unfolding exec_stmt_def by (rule keeps_stmt) auto

lemma keeps_query: "keeps (query_stmt what f)"
  unfolding query_stmt_def by (rule keeps_stmt) auto

lemma keeps_ok: "keeps (db_ok x)" and keeps_fail: "keeps (db_fail e)" and keeps_lift: "keeps (db_lift r)"
  by (simp_all add: keeps_def)

lemma keeps_then:
  assumes "keeps m" and "\<And>x. keeps (k x)"
  shows "keeps (db_then m k)"
  using assms by (fastforce simp: keeps_def run_db_then split: prod.splits sum.splits)

lemma keeps_bind:
  assumes "keeps m" and "\<And>x. keeps (k x)"
  shows "keeps (State_Monad.bind m k)"
  using assms by (fastforce simp: keeps_def run_bind split: prod.splits)

lemma keeps_encode: "keeps (encode_secret name v)"
  by (auto simp: keeps_def encode_secret_def split: option.split sum.split)

lemma keeps_not_found: "keeps m \<Longrightarrow> keeps (or_not_found m)"
  unfolding or_not_found_def by (rule keeps_then) (auto intro: keeps_ok keeps_fail split: option.split)

lemmas keeps_intros = keeps_query keeps_ok keeps_fail keeps_lift keeps_then keeps_bind keeps_encode keeps_not_found

text \<open>An invariant that does not look at servers and projects is kept by the operations on them.\<close>

lemma keeps_inventory:
  assumes "\<And>s r. I (s\<lparr>st_servers := r\<rparr>) = I s" and "\<And>s r. I (s\<lparr>st_projects := r\<rparr>) = I s"
  shows "keeps (upsert_server srv)" and "keeps (upsert_project p)" and "keeps (delete_server i)" and "keeps (delete_project i)"
  unfolding upsert_server_def upsert_project_def delete_server_def delete_project_def Let_def
  by (auto intro!: keeps_intros keeps_exec simp: assms split: option.split)

end

text \<open>The operations that change the store.\<close>

datatype store_op =
    Upsert_User string string
  | Create_First_User string string
  | Create_Session int string int int
  | Delete_Session string
  | Delete_Expired_Sessions int
  | Set_Meta string string
  | Upsert_Shared_Variable shared_variable
  | Delete_Shared_Variable string string string
  | Put_Credential string string string
  | Delete_Credential string
  | Create_Deployment deployment
  | Set_Deployment_Status int deploy_status string
  | Append_Deployment_Log int string
  | Finish_Deployment int deploy_status string int
  | Fail_Interrupted int
  | Prune_Deployments int
  | Insert_Remote_Command remote_command
  | Prune_Remote_Commands int
  | Record_Delivery int string string string string
  | Delete_Delivery string string string
  | Retire_Domain int string string
  | Delete_Retired string string
  | Delete_All_Retired string
  | Create_Token int string string string
  | Touch_Token int int
  | Delete_Token int
  | Upsert_Server server
  | Upsert_Project project
  | Delete_Server string
  | Delete_Project string

definition effect :: "'a dbm \<Rightarrow> store \<Rightarrow> store" where
  "effect m s = snd (run_state m s)"

fun apply_op :: "store_op \<Rightarrow> store \<Rightarrow> store" where
  "apply_op (Upsert_User a b) = effect (upsert_user a b)"
| "apply_op (Create_First_User a b) = effect (create_first_user a b)"
| "apply_op (Create_Session a b c d) = effect (create_session a b c d)"
| "apply_op (Delete_Session a) = effect (delete_session a)"
| "apply_op (Delete_Expired_Sessions a) = effect (delete_expired_sessions a)"
| "apply_op (Set_Meta a b) = effect (set_meta a b)"
| "apply_op (Upsert_Shared_Variable a) = effect (upsert_shared_variable a)"
| "apply_op (Delete_Shared_Variable a b c) = effect (delete_shared_variable a b c)"
| "apply_op (Put_Credential a b c) = effect (put_credential a b c)"
| "apply_op (Delete_Credential a) = effect (delete_credential a)"
| "apply_op (Create_Deployment a) = effect (create_deployment a)"
| "apply_op (Set_Deployment_Status a b c) = effect (set_deployment_status a b c)"
| "apply_op (Append_Deployment_Log a b) = effect (append_deployment_log a b)"
| "apply_op (Finish_Deployment a b c d) = effect (finish_deployment a b c d)"
| "apply_op (Fail_Interrupted a) = effect (fail_interrupted_deployments a)"
| "apply_op (Prune_Deployments a) = effect (prune_deployments a)"
| "apply_op (Insert_Remote_Command a) = effect (insert_remote_command a)"
| "apply_op (Prune_Remote_Commands a) = effect (prune_remote_commands a)"
| "apply_op (Record_Delivery a b c d e) = effect (record_webhook_delivery a b c d e)"
| "apply_op (Delete_Delivery a b c) = effect (delete_webhook_delivery a b c)"
| "apply_op (Retire_Domain a b c) = effect (retire_proxy_domain a b c)"
| "apply_op (Delete_Retired a b) = effect (delete_retired_proxy_domain a b)"
| "apply_op (Delete_All_Retired a) = effect (delete_retired_proxy_domains a)"
| "apply_op (Create_Token a b c d) = effect (create_api_token a b c d)"
| "apply_op (Touch_Token a b) = effect (touch_api_token a b)"
| "apply_op (Delete_Token a) = effect (delete_api_token a)"
| "apply_op (Upsert_Server a) = effect (upsert_server a)"
| "apply_op (Upsert_Project a) = effect (upsert_project a)"
| "apply_op (Delete_Server a) = effect (delete_server a)"
| "apply_op (Delete_Project a) = effect (delete_project a)"

lemmas store_mutators = upsert_user_def create_first_user_def create_session_def delete_session_def
  delete_expired_sessions_def set_meta_def upsert_shared_variable_def delete_shared_variable_def
  put_credential_def delete_credential_def create_deployment_def set_deployment_status_def
  append_deployment_log_def finish_deployment_def fail_interrupted_deployments_def prune_deployments_def
  insert_remote_command_def prune_remote_commands_def record_webhook_delivery_def
  delete_webhook_delivery_def retire_proxy_domain_def delete_retired_proxy_domain_def
  delete_retired_proxy_domains_def create_api_token_def touch_api_token_def delete_api_token_def
  user_by_username_def

section \<open>The invariant\<close>

definition deployment_ok :: "deployment \<Rightarrow> bool" where
  "deployment_ok d \<longleftrightarrow> length (d_log d) \<le> max_deployment_log_bytes \<and> length (d_error d) \<le> max_deployment_error_len"

definition command_ok :: "remote_command \<Rightarrow> bool" where
  "command_ok r \<longleftrightarrow> length (rc_command r) \<le> max_audit_text_len \<and> length (rc_error r) \<le> max_deployment_error_len"

definition users_ok :: "store \<Rightarrow> bool" where
  "users_ok s \<longleftrightarrow> rows_ok u_id (st_user_seq s) (st_users s) \<and> keys_distinct u_name (st_users s)
     \<and> keys_distinct se_id (st_sessions s)
     \<and> list_all (\<lambda>r. se_user_id r \<in> u_id ` set (st_users s)) (st_sessions s)"

definition keyed_ok :: "store \<Rightarrow> bool" where
  "keyed_ok s \<longleftrightarrow> keys_distinct fst (st_meta s) \<and> keys_distinct cr_name (st_credentials s)
     \<and> keys_distinct shared_key (st_shared s) \<and> keys_distinct delivery_key (st_deliveries s)
     \<and> keys_distinct retired_key (st_retired s) \<and> keys_distinct server_key (st_servers s)
     \<and> keys_distinct project_key (st_projects s)"

definition history_ok :: "store \<Rightarrow> bool" where
  "history_ok s \<longleftrightarrow> rows_ok d_id (st_deploy_seq s) (st_deployments s) \<and> list_all deployment_ok (st_deployments s)
     \<and> rows_ok rc_id (st_command_seq s) (st_commands s) \<and> list_all command_ok (st_commands s)
     \<and> rows_ok tk_id (st_token_seq s) (st_tokens s) \<and> keys_distinct tk_hash (st_tokens s)"

definition store_ok :: "store \<Rightarrow> bool" where
  "store_ok s \<longleftrightarrow> users_ok s \<and> keyed_ok s \<and> history_ok s"

interpretation ok: store_invariant store_ok
  by unfold_locales (simp_all add: store_ok_def users_ok_def keyed_ok_def history_ok_def)

lemmas store_ok_unfold = store_ok_def users_ok_def keyed_ok_def history_ok_def

named_theorems kept \<open>operations that keep the invariant of the store\<close>

lemma cap_length [simp]: "length (cap_stored_text v n) \<le> n"
  by (simp add: cap_stored_text_def)

lemma keys_distinct_delete [simp]: "keys_distinct key rows \<Longrightarrow> keys_distinct key (delete_rows P rows)"
  by (simp add: keys_distinct_def delete_rows_def distinct_map_filter)

lemma keys_distinct_update: "(\<And>r. key (f r) = key r) \<Longrightarrow> keys_distinct key (update_rows P f rows) = keys_distinct key rows"
  by (simp add: keys_distinct_def map_update_rows)

lemma rows_ok_same_ids: "map ident rows = map ident rows' \<Longrightarrow> rows_ok ident seq rows = rows_ok ident seq rows'"
proof -
  assume m: "map ident rows = map ident rows'"
  have "list_all (\<lambda>r. P (ident r)) rows = list_all P (map ident rows)" for P rows by (simp add: list.pred_map comp_def)
  then have "list_all (\<lambda>r. P (ident r)) rows = list_all (\<lambda>r. P (ident r)) rows'" for P by (metis m)
  from this[of "\<lambda>i. 0 < i \<and> i \<le> seq"] show ?thesis by (simp add: rows_ok_def m)
qed

lemma map_u_id_upsert:
  "map u_id (upsert u_name merge_user r rows)
     = (if list_ex (\<lambda>u. u_name u = u_name r) rows then map u_id rows else map u_id rows @ [u_id r])"
  by (auto simp: upsert_def merge_user_def)

lemma users_ok_insert:
  assumes "users_ok s" and "u_name u \<notin> u_name ` set (st_users s)" and "u_id u = st_user_seq s + 1"
  shows "users_ok (s\<lparr>st_users := st_users s @ [u], st_user_seq := st_user_seq s + 1\<rparr>)"
  using assms by (auto simp: users_ok_def rows_ok_def keys_distinct_def sorted_wrt_append list_all_iff)

lemma users_ok_upsert:
  assumes "users_ok s" and "u_id u = st_user_seq s + 1"
  shows "users_ok (s\<lparr>st_users := upsert u_name merge_user u (st_users s),
    st_user_seq := (if list_ex (\<lambda>x. u_name x = u_name u) (st_users s) then st_user_seq s else st_user_seq s + 1)\<rparr>)"
proof (cases "list_ex (\<lambda>x. u_name x = u_name u) (st_users s)")
  case True
  then have m: "map u_id (upsert u_name merge_user u (st_users s)) = map u_id (st_users s)"
    by (simp add: map_u_id_upsert)
  then have "u_id ` set (upsert u_name merge_user u (st_users s)) = u_id ` set (st_users s)"
    by (metis list.set_map)
  then show ?thesis
    using assms True rows_ok_same_ids[OF m] by (simp add: users_ok_def users.keys_upsert)
next
  case False
  then have "upsert u_name merge_user u (st_users s) = st_users s @ [u]" "u_name u \<notin> u_name ` set (st_users s)"
    by (auto simp: upsert_def list_ex_iff)
  then show ?thesis using False users_ok_insert[OF assms(1) _ assms(2)] by simp
qed

subsection \<open>Users, sessions and keyed tables\<close>

lemma keep_upsert_user [kept]: "ok.keeps (upsert_user a b)"
  unfolding upsert_user_def
proof (rule ok.keeps_exec)
  fix s assume "store_ok s"
  then show "store_ok (s\<lparr>st_users := upsert u_name merge_user (new_user s a b) (st_users s),
      st_user_seq := (if list_ex (\<lambda>u. u_name u = a) (st_users s) then st_user_seq s else st_user_seq s + 1)\<rparr>)"
    using users_ok_upsert[of s "new_user s a b"]
    by (simp add: store_ok_def new_user_def keyed_ok_def history_ok_def)
qed

lemma keep_create_first_user [kept]: "ok.keeps (create_first_user a b)"
proof -
  have "store_ok (s\<lparr>st_users := st_users s @ [new_user s a b], st_user_seq := st_user_seq s + 1\<rparr>)"
    if "store_ok s" "st_users s = []" for s
    using that users_ok_insert[of s "new_user s a b"]
    by (simp add: store_ok_def new_user_def keyed_ok_def history_ok_def)
  then show ?thesis
    unfolding create_first_user_def user_by_username_def
    by (intro ok.keeps_then ok.keeps_stmt) (auto split: if_splits intro: ok.keeps_intros)
qed

lemma keep_create_session [kept]: "ok.keeps (create_session a b c d)"
  unfolding create_session_def
  by (rule ok.keeps_stmt)
    (auto split: if_splits simp: store_ok_unfold keys_distinct_def list_all_iff list_ex_iff)

lemma keep_delete_sessions [kept]: "ok.keeps (delete_session a)" "ok.keeps (delete_expired_sessions t)"
  unfolding delete_session_def delete_expired_sessions_def
  by (rule ok.keeps_exec; simp add: store_ok_unfold)+

lemma keep_set_meta [kept]: "ok.keeps (set_meta k v)"
  unfolding set_meta_def by (rule ok.keeps_exec) (simp add: store_ok_unfold settings.keys_upsert)

lemma keep_put_credential [kept]: "ok.keeps (put_credential n a b)" "ok.keeps (delete_credential n)"
  unfolding put_credential_def delete_credential_def
  by (rule ok.keeps_exec; simp add: store_ok_unfold credentials.keys_upsert)+

lemma keep_upsert_shared [kept]: "ok.keeps (upsert_shared_variable v)"
  by (cases "shared_variable_error v")
    (auto simp: upsert_shared_variable_def store_ok_unfold shared.keys_upsert
      intro!: ok.keeps_intros ok.keeps_exec)

lemma keep_delete_shared [kept]: "ok.keeps (delete_shared_variable a b c)"
  unfolding delete_shared_variable_def by (rule ok.keeps_exec) (simp add: store_ok_unfold)

lemma delivery_upsert_ok: "store_ok s \<Longrightarrow> store_ok (snd (delivery_upsert now r s))"
  using deliveries.keys_upsert[of "st_deliveries s" r]
  by (auto simp: delivery_upsert_def store_ok_unfold keys_distinct_def find_None_iff split: option.split)

lemma keep_record_delivery [kept]: "ok.keeps (record_webhook_delivery now a b c d)"
  unfolding record_webhook_delivery_def
  by (intro ok.keeps_bind ok.keeps_exec ok.keeps_then ok.keeps_stmt ok.keeps_ok)
    (simp_all add: store_ok_unfold, metis delivery_upsert_ok store_ok_unfold snd_conv)

lemma keep_delete_delivery [kept]: "ok.keeps (delete_webhook_delivery a b c)"
  unfolding delete_webhook_delivery_def by (rule ok.keeps_exec) (simp add: store_ok_unfold)

lemma keep_retire [kept]: "ok.keeps (retire_proxy_domain now a b)"
  by (auto simp: retire_proxy_domain_def store_ok_unfold retired.keys_replace intro!: ok.keeps_exec ok.keeps_ok)

lemma keep_delete_retired [kept]: "ok.keeps (delete_retired_proxy_domain a b)" "ok.keeps (delete_retired_proxy_domains a)"
  unfolding delete_retired_proxy_domain_def delete_retired_proxy_domains_def
  by (rule ok.keeps_exec; simp add: store_ok_unfold)+

lemma keep_inventory [kept]:
  "ok.keeps (upsert_server srv)" "ok.keeps (upsert_project p)" "ok.keeps (delete_server i)" "ok.keeps (delete_project i)"
  unfolding upsert_server_def upsert_project_def delete_server_def delete_project_def Let_def
  by (auto intro!: ok.keeps_intros ok.keeps_exec simp: store_ok_unfold servers.keys_upsert projects.keys_upsert split: option.split)

subsection \<open>Histories\<close>

lemma keep_create_deployment [kept]: "ok.keeps (create_deployment d)"
proof -
  have "store_ok (s\<lparr>st_deployments := insert_row set_deployment_id d' (st_deploy_seq s) (st_deployments s),
      st_deploy_seq := st_deploy_seq s + 1\<rparr>)"
    if "store_ok s" "deployment_ok d'" for s d'
    using that deployments.ok_insert[of "st_deploy_seq s" "st_deployments s" d']
    by (simp add: store_ok_unfold insert_row_def deployment_ok_def set_deployment_id_def)
  then show ?thesis
    unfolding create_deployment_def by (intro ok.keeps_stmt) (auto simp: deployment_ok_def)
qed

lemma keep_update_deployments:
  assumes "\<And>d. d_id (f d) = d_id d" and "\<And>d. deployment_ok d \<Longrightarrow> deployment_ok (f d)" and "store_ok s"
  shows "store_ok (s\<lparr>st_deployments := update_rows P f (st_deployments s)\<rparr>)"
  using assms(3) deployments.ok_update[of f "st_deploy_seq s" "st_deployments s" P, OF assms(1)]
    list_all_update[of deployment_ok "st_deployments s" f P] assms(2)
  by (simp add: store_ok_unfold)

lemma keep_set_deployment_status [kept]: "ok.keeps (set_deployment_status i st a)"
  unfolding set_deployment_status_def on_deployment_def
  by (rule ok.keeps_exec, rule keep_update_deployments) (simp_all add: deployment_ok_def)

lemma keep_append_log [kept]: "ok.keeps (append_deployment_log i c)"
  unfolding append_deployment_log_def Let_def on_deployment_def
  by (auto intro!: ok.keeps_intros ok.keeps_exec keep_update_deployments simp: deployment_ok_def split: option.split)

lemma keep_finish [kept]: "ok.keeps (finish_deployment i st m t)"
  unfolding finish_deployment_def Let_def on_deployment_def
  by (rule ok.keeps_exec, rule keep_update_deployments) (simp_all add: deployment_ok_def)

lemma keep_fail_interrupted [kept]: "ok.keeps (fail_interrupted_deployments t)"
  unfolding fail_interrupted_deployments_def
  by (rule ok.keeps_stmt)
    (auto intro!: keep_update_deployments
      simp: deployment_ok_def interrupted_error_def max_deployment_error_len_def)

lemma keep_prunes [kept]: "ok.keeps (prune_deployments t)" "ok.keeps (prune_remote_commands t)"
  unfolding prune_deployments_def prune_remote_commands_def
  by (rule ok.keeps_exec; simp add: store_ok_unfold deployments.ok_delete commands.ok_delete)+

lemma keep_insert_command [kept]: "ok.keeps (insert_remote_command rc)"
  unfolding insert_remote_command_def
  using commands.ok_insert
  by (intro ok.keeps_exec) (simp add: store_ok_unfold insert_row_def command_ok_def set_command_id_def)

lemma keep_create_token [kept]: "ok.keeps (create_api_token now a b c)"
  unfolding create_api_token_def
  by (intro ok.keeps_stmt)
    (auto split: if_splits simp: store_ok_unfold insert_row_def set_token_id_def keys_distinct_def list_ex_iff rows_ok_snoc)

lemma keep_tokens [kept]: "ok.keeps (touch_api_token i t)" "ok.keeps (delete_api_token i)"
  unfolding touch_api_token_def delete_api_token_def
  by (rule ok.keeps_exec; simp add: store_ok_unfold tokens.ok_update tokens.ok_delete keys_distinct_update)+

lemma apply_op_ok: "store_ok s \<Longrightarrow> store_ok (apply_op op s)"
proof -
  have k: "ok.keeps m \<Longrightarrow> store_ok s \<Longrightarrow> store_ok (effect m s)" for m :: "'a dbm" and s
    by (simp add: ok.keeps_def effect_def)
  show "store_ok s \<Longrightarrow> store_ok (apply_op op s)"
    by (cases op) (simp_all add: k kept)
qed

end
