(* ===== verification/StoreSpec.thy ===== *)
theory StoreSpec
  imports StoreInv
begin

text \<open>
  The properties of the data layer, each over arbitrary histories of the operations of
  \<^typ>\<open>store_op\<close> where that makes sense: the invariant, the single first administrator, the life of
  a session, the rolling deployment log, replay protection of webhooks, the clean-up after a crash
  and the round trip of secrets at rest.
\<close>

section \<open>The invariant holds in every reachable state\<close>

lemma rows_ok_Nil [simp]: "rows_ok ident 0 []"
  by (simp add: rows_ok_def)

lemma empty_store_ok: "store_ok (empty_store codec faults)"
  by (simp add: store_ok_unfold empty_store_def keys_distinct_def)

lemma fold_op_ok: "store_ok s \<Longrightarrow> store_ok (fold apply_op ops s)"
  by (induction ops arbitrary: s) (simp_all add: apply_op_ok)

text \<open>
  C21: Whatever operations run in whatever order, and whichever of their statements fail, the database
  keeps its keys unique, its ids increasing, its sessions owned by existing users, and every stored
  log, error and audit text within its cap.
\<close>
theorem store_reachable_ok: "store_ok (fold apply_op ops (empty_store codec faults))"
  by (rule fold_op_ok[OF empty_store_ok])

section \<open>The first administrator\<close>

interpretation occupied: store_invariant "\<lambda>s. st_users s \<noteq> []"
  by unfold_locales simp_all

lemma upsert_nonempty [simp]: "upsert key merge r rows \<noteq> []"
  by (auto simp: upsert_def)

lemma delivery_upsert_users [simp]: "st_users (snd (delivery_upsert now r s)) = st_users s"
  by (simp add: delivery_upsert_def split: option.split)

lemma occupied_op: "st_users s \<noteq> [] \<Longrightarrow> st_users (apply_op op s) \<noteq> []"
proof -
  assume a: "st_users s \<noteq> []"
  have k: "occupied.keeps m \<Longrightarrow> st_users (effect m s) \<noteq> []" for m :: "'a dbm"
    using a by (simp add: occupied.keeps_def effect_def)
  have d: "occupied.keeps (record_webhook_delivery now b c e f)" for now b c e f
    unfolding record_webhook_delivery_def
    by (intro occupied.keeps_bind occupied.keeps_exec occupied.keeps_then occupied.keeps_stmt occupied.keeps_ok)
      (auto, metis delivery_upsert_users snd_conv)
  show ?thesis
    by (cases op; simp only: apply_op.simps; rule k)
      (auto simp: store_mutators on_deployment_def d[unfolded record_webhook_delivery_def]
        intro!: occupied.keeps_intros occupied.keeps_inventory occupied.keeps_exec occupied.keeps_stmt
        split: if_splits option.split)
qed

lemma occupied_fold: "st_users s \<noteq> [] \<Longrightarrow> st_users (fold apply_op ops s) \<noteq> []"
  by (induction ops arbitrary: s) (simp_all add: occupied_op)

lemma run_user_by_username:
  "case run_state (user_by_username a) s of
     (Inr u, t) \<Rightarrow> st_users t = st_users s \<and> find (\<lambda>u. u_name u = a) (st_users s) = Some u
   | (Inl _, t) \<Rightarrow> st_users t = st_users s"
  by (auto simp: user_by_username_def or_not_found_def run_db_then query_stmt_def stmt_def Let_def
      split: list.split option.split)

lemma create_first_user_occupied:
  assumes "st_users s \<noteq> []"
  shows "\<exists>e t. run_state (create_first_user a b) s = (Inl e, t) \<and> st_users t = st_users s"
  using assms by (auto simp: create_first_user_def run_db_then stmt_def Let_def split: list.split option.split)

lemma create_first_user_created:
  assumes "run_state (create_first_user a b) s = (Inr u, t)"
  shows "st_users s = [] \<and> u_name u = a \<and> u_password_hash u = b \<and> st_users t = [u]"
proof -
  have e: "st_users s = []" using create_first_user_occupied[of s a b] assms by fastforce
  obtain s1 where s1: "run_state (user_by_username a) s1 = (Inr u, t)" "st_users s1 = [new_user s a b]"
    using assms e
    by (auto simp: create_first_user_def run_db_then stmt_def Let_def new_user_def split: list.splits option.splits)
  then show ?thesis
    using run_user_by_username[where a = a and s = s1] e by (auto simp: new_user_def split: if_splits)
qed

text \<open>
  C22: The first-run registration can succeed only once: a success means there was no account, the
  new account is the only one and carries the given name and hash, and after any further operations
  every other attempt fails and leaves the accounts alone.
\<close>
theorem first_user_once:
  "case run_state (create_first_user name hash) s of
     (Inr u, t) \<Rightarrow>
       st_users s = [] \<and> st_users t = [u] \<and> u_name u = name \<and> u_password_hash u = hash \<and>
       (case run_state (create_first_user name' hash') (fold apply_op ops t) of
          (Inr _, _) \<Rightarrow> False
        | (Inl _, t') \<Rightarrow> st_users t' = st_users (fold apply_op ops t))
   | (Inl _, t) \<Rightarrow> if st_users s = [] then True else st_users t = st_users s"
proof -
  obtain r t where r: "run_state (create_first_user name hash) s = (r, t)" by fastforce
  show ?thesis
  proof (cases r)
    case (Inl e)
    then show ?thesis using r create_first_user_occupied[of s name hash] by auto
  next
    case (Inr u)
    note c = create_first_user_created[OF r[unfolded Inr]]
    then have "st_users (fold apply_op ops t) \<noteq> []" by (simp add: occupied_fold)
    from create_first_user_occupied[OF this, of name' hash'] show ?thesis
      using r Inr c by auto
  qed
qed

section \<open>Sessions\<close>

lemma sound_simps [simp]:
  "sound (s\<lparr>st_sessions := x\<rparr>) = sound s" "sound (s\<lparr>st_deployments := d\<rparr>) = sound s"
  "sound (s\<lparr>st_deliveries := y\<rparr>) = sound s" "sound (s\<lparr>st_draws := n\<rparr>) = sound s" "sound (s\<lparr>st_shared := v\<rparr>) = sound s"
  by (simp_all add: sound_def)

lemma run_username_by_session:
  "sound s \<Longrightarrow> fst (run_state (username_by_session h now) s)
     = (case session_username s h now of None \<Rightarrow> Inl ErrNotFound | Some n \<Rightarrow> Inr n)"
  by (simp add: username_by_session_def or_not_found_def run_db_then split: option.split)

lemma find_user:
  assumes "store_ok s" and "u \<in> set (st_users s)"
  shows "find (\<lambda>x. u_id x = u_id u) (st_users s) = Some u"
  using assms accounts.find_ident[of "st_user_seq s" "st_users s" "u_id u" u] by (simp add: store_ok_unfold)

text \<open>
  C23: A new session resolves to its user's name exactly until it expires, logging out ends it, and
  pruning expired sessions never ends a live one.
\<close>
theorem session_lifecycle:
  assumes "store_ok s" and "sound s" and "u \<in> set (st_users s)"
    and "token \<notin> se_id ` set (st_sessions s)"
    and "t = effect (create_session now token (u_id u) expires) s"
  shows "fst (run_state (create_session now token (u_id u) expires) s) = Inr ()
    \<and> fst (run_state (username_by_session token when) t)
        = (if when < expires then Inr (u_name u) else Inl ErrNotFound)
    \<and> fst (run_state (username_by_session token when) (effect (delete_session token) t)) = Inl ErrNotFound
    \<and> fst (run_state (username_by_session token when) (effect (delete_expired_sessions (min when pruned)) t))
        = (if when < expires then Inr (u_name u) else Inl ErrNotFound)"
proof -
  define r where "r = \<lparr>se_id = token, se_user_id = u_id u, se_created_at = now, se_expires_at = expires\<rparr>"
  have u: "list_ex (\<lambda>x. u_id x = u_id u) (st_users s)" using assms(3) by (auto simp: list_ex_iff)
  have f: "\<not> list_ex (\<lambda>x. se_id x = token) (st_sessions s)" using assms(4) by (auto simp: list_ex_iff)
  have run: "run_state (create_session now token (u_id u) expires) s = (Inr (), s\<lparr>st_sessions := st_sessions s @ [r]\<rparr>)"
    using u f assms(2) by (simp add: create_session_def run_stmt_sound r_def)
  then have t: "t = s\<lparr>st_sessions := st_sessions s @ [r]\<rparr>" by (simp add: assms(5) effect_def)
  have old: "find (\<lambda>x. se_id x = token \<and> when < se_expires_at x) (filter P (st_sessions s)) = None" for P
    using assms(4) by (auto simp: find_None_iff)
  have old1: "find (\<lambda>x. se_id x = token \<and> when < se_expires_at x) (st_sessions s) = None"
    using old[of "\<lambda>_. True"] by simp
  have fu: "find (\<lambda>x. u_id x = u_id u) (st_users s) = Some u" by (rule find_user[OF assms(1,3)])
  have live: "session_username t token when = (if when < expires then Some (u_name u) else None)"
    using old1 fu by (simp add: session_username_def t find_append r_def)
  have d: "effect (delete_session token) t = t\<lparr>st_sessions := delete_rows (\<lambda>r. se_id r = token) (st_sessions t)\<rparr>"
    using assms(2) by (simp add: effect_def delete_session_def t)
  have "find (\<lambda>r. se_id r = token \<and> when < se_expires_at r) (filter (\<lambda>r. se_id r \<noteq> token) (st_sessions t)) = None"
    by (auto simp: find_None_iff)
  then have dead: "session_username (effect (delete_session token) t) token when = None"
    by (simp add: d session_username_def delete_rows_def)
  have p: "effect (delete_expired_sessions (min when pruned)) t
      = t\<lparr>st_sessions := delete_rows (\<lambda>r. se_expires_at r \<le> min when pruned) (st_sessions t)\<rparr>"
    using assms(2) by (simp add: effect_def delete_expired_sessions_def t)
  have kept: "session_username (effect (delete_expired_sessions (min when pruned)) t) token when
      = (if when < expires then Some (u_name u) else None)"
    unfolding p using old fu by (auto simp: session_username_def t find_append r_def delete_rows_def)
  have snd: "sound t" "sound (effect (delete_session token) t)"
    "sound (effect (delete_expired_sessions (min when pruned)) t)"
    using assms(2) unfolding d p by (simp_all add: t)
  have created: "fst (run_state (create_session now token (u_id u) expires) s) = Inr ()" by (simp add: run)
  show ?thesis
    by (simp add: created run_username_by_session snd live dead kept)
qed

theorem session_lifecycle_witness:
  "(let u = \<lparr>u_id = 1, u_name = ''admin'', u_password_hash = ''h''\<rparr>;
        s = (empty_store None [])\<lparr>st_users := [u], st_user_seq := 1\<rparr>;
        t = effect (create_session 100 ''tok'' (u_id u) 200) s
    in fst (run_state (username_by_session ''tok'' 150) t) = Inr ''admin''
       \<and> fst (run_state (username_by_session ''tok'' 150) (effect (delete_session ''tok'') t)) = Inl ErrNotFound)"
proof -
  define u where "u = \<lparr>u_id = 1, u_name = ''admin'', u_password_hash = ''h''\<rparr>"
  define s where "s = (empty_store None [])\<lparr>st_users := [u], st_user_seq := 1\<rparr>"
  have ok: "store_ok s"
    by (simp add: s_def u_def store_ok_unfold empty_store_def keys_distinct_def rows_ok_def)
  have snd: "sound s" by (simp add: s_def sound_def empty_store_def)
  have "u \<in> set (st_users s)" "''tok'' \<notin> se_id ` set (st_sessions s)"
    by (simp_all add: s_def empty_store_def)
  from session_lifecycle[OF ok snd this refl, of 100 200 150 0]
  show ?thesis by (simp add: s_def u_def)
qed

section \<open>The deployment log\<close>

lemma cap_cap: "cap_stored_text (cap_stored_text a n @ b) n = cap_stored_text (a @ b) n"
  by (auto simp: cap_stored_text_def add.commute)

lemma cap_suffix: "suffix (cap_stored_text v n) v"
  by (simp add: cap_stored_text_def suffix_drop)

lemma update_rows_twice:
  "(\<And>r. P (f r) = P r) \<Longrightarrow> update_rows P g (update_rows P f rows) = update_rows P (\<lambda>r. g (f r)) rows"
  by (auto simp: update_rows_def)

lemma find_update_rows:
  "(\<And>r. P (f r) = P r) \<Longrightarrow> find P (update_rows P f rows) = map_option f (find P rows)"
  by (induction rows) (auto simp: update_rows_def)

lemma filter_update_other:
  "(\<And>r. P (f r) = P r) \<Longrightarrow> filter (\<lambda>r. \<not> P r) (update_rows P f rows) = filter (\<lambda>r. \<not> P r) rows"
  by (induction rows) (auto simp: update_rows_def)

lemma effect_append_log:
  assumes "sound s" and "find (\<lambda>d. d_id d = i) (st_deployments s) = Some d"
  shows "effect (append_deployment_log i c) s
    = on_deployment i (\<lambda>x. x\<lparr>d_log := cap_stored_text (d_log d @ c) max_deployment_log_bytes\<rparr>) s"
  using assms by (simp add: effect_def append_deployment_log_def run_db_then Let_def)

text \<open>
  The log of a deployment is the tail of everything written to it: after any number of appends it
  is the last 4 MiB of the old log followed by the chunks in order, and no other row changes.
\<close>
theorem log_is_tail:
  assumes "sound s" and "find (\<lambda>d. d_id d = i) (st_deployments s) = Some d"
    and "length (d_log d) \<le> max_deployment_log_bytes"
    and "t = fold (\<lambda>c. effect (append_deployment_log i c)) chunks s"
  shows "map_option d_log (find (\<lambda>d. d_id d = i) (st_deployments t))
      = Some (cap_stored_text (d_log d @ concat chunks) max_deployment_log_bytes)
    \<and> filter (\<lambda>d. d_id d \<noteq> i) (st_deployments t) = filter (\<lambda>d. d_id d \<noteq> i) (st_deployments s)"
  using assms
proof (induction chunks arbitrary: s d)
  case Nil
  then show ?case by (simp add: cap_stored_text_def)
next
  case (Cons c cs)
  define L where "L = cap_stored_text (d_log d @ c) max_deployment_log_bytes"
  define s1 where "s1 = effect (append_deployment_log i c) s"
  have s1: "s1 = on_deployment i (\<lambda>x. x\<lparr>d_log := L\<rparr>) s"
    unfolding s1_def L_def by (rule effect_append_log[OF Cons.prems(1,2)])
  have f: "find (\<lambda>d. d_id d = i) (st_deployments s1) = Some (d\<lparr>d_log := L\<rparr>)"
    using Cons.prems(2) by (simp add: s1 on_deployment_def find_update_rows)
  have o: "filter (\<lambda>d. d_id d \<noteq> i) (st_deployments s1) = filter (\<lambda>d. d_id d \<noteq> i) (st_deployments s)"
    by (simp add: s1 on_deployment_def filter_update_other)
  have "sound s1" using Cons.prems(1) by (simp add: s1 on_deployment_def)
  from Cons.IH[OF this f _ Cons.prems(4)[simplified, folded s1_def]] show ?case
    using o by (simp add: L_def cap_cap)
qed

definition sample_deployment :: deployment where
  "sample_deployment = \<lparr>d_id = 1, d_project_id = ''shop'', d_target_type = ''docker'', d_commit_sha = ''abc1234'',
     d_ref = ''main'', d_image_tag = ''cc-shop:abc1234'', d_status = DeployRunning, d_trigger = ''webhook'',
     d_log = ''a'', d_error = [], d_started_at = 100, d_finished_at = 0\<rparr>"

definition sample_store :: store where
  "sample_store = (empty_store None [])\<lparr>st_deployments := [sample_deployment], st_deploy_seq := 1\<rparr>"

lemma sample_store_sound [simp]: "sound sample_store"
  by (simp add: sample_store_def sound_def empty_store_def)

lemma sample_store_find: "find (\<lambda>d. d_id d = 1) (st_deployments sample_store) = Some sample_deployment"
  by (simp add: sample_store_def sample_deployment_def)

theorem log_is_tail_witness:
  "map_option d_log (find (\<lambda>d. d_id d = 1)
     (st_deployments (fold (\<lambda>c. effect (append_deployment_log 1 c)) [''b'', ''cd''] sample_store))) = Some ''abcd''"
  using log_is_tail[OF sample_store_sound sample_store_find _ refl, of "[''b'', ''cd'']"]
  by (simp add: sample_deployment_def cap_stored_text_def max_deployment_log_bytes_def)

section \<open>History\<close>

lemma run_create_deployment:
  "sound s \<Longrightarrow> run_state (create_deployment d) s = (Inr (st_deploy_seq s + 1),
     s\<lparr>st_deployments := insert_row set_deployment_id (d\<lparr>d_log := [], d_error := [], d_finished_at := 0\<rparr>)
         (st_deploy_seq s) (st_deployments s), st_deploy_seq := st_deploy_seq s + 1\<rparr>)"
  by (simp add: create_deployment_def run_stmt_sound)

lemma sound_created [simp]: "sound (s\<lparr>st_deployments := d, st_deploy_seq := n\<rparr>) = sound s"
  by (simp add: sound_def)

text \<open>
  A recorded attempt is the newest of its project and of no other, it is not yet among the
  successful ones, and it joins them when it is finished with success; the pages keep their older rows.
\<close>
theorem history_newest_first:
  assumes "store_ok s" and "sound s" and "d_status d = DeployQueued" and "0 < n"
    and "run_state (create_deployment d) s = (Inr i, t)"
    and "row = d\<lparr>d_id := i, d_log := [], d_error := [], d_finished_at := 0\<rparr>"
  shows "i = st_deploy_seq s + 1 \<and> i \<notin> d_id ` set (st_deployments s)
    \<and> newest d_id n (\<lambda>x. d_project_id x = d_project_id d) (st_deployments t)
        = row # newest d_id (n - 1) (\<lambda>x. d_project_id x = d_project_id d) (st_deployments s)
    \<and> fst (run_state (list_deployments other n) t)
        = (if other = d_project_id d
           then Inr (row # newest d_id (n - 1) (\<lambda>x. d_project_id x = other) (st_deployments s))
           else fst (run_state (list_deployments other n) s))
    \<and> fst (run_state (successful_deployments other n) t) = fst (run_state (successful_deployments other n) s)
    \<and> fst (run_state (successful_deployments (d_project_id d) n) (effect (finish_deployment i DeploySuccess [] when) t))
        = Inr (row\<lparr>d_status := DeploySuccess, d_finished_at := when\<rparr> # newest d_id (n - 1)
            (\<lambda>x. d_project_id x = d_project_id d \<and> d_status x = DeploySuccess) (st_deployments s))"
proof -
  define c where "c = d\<lparr>d_log := [], d_error := [], d_finished_at := 0\<rparr>"
  have i: "i = st_deploy_seq s + 1" and t: "t = s\<lparr>st_deployments :=
      insert_row set_deployment_id c (st_deploy_seq s) (st_deployments s), st_deploy_seq := st_deploy_seq s + 1\<rparr>"
    using assms(5) unfolding run_create_deployment[OF assms(2)] c_def by blast+
  have ok: "rows_ok d_id (st_deploy_seq s) (st_deployments s)" using assms(1) by (simp add: store_ok_unfold)
  have row: "set_deployment_id (st_deploy_seq s + 1) c = row"
    by (simp add: set_deployment_id_def c_def assms(6) i)
  have fresh: "i \<notin> d_id ` set (st_deployments s)"
    using deployments.fresh_id[OF ok] unfolding i by (metis imageE)
  have ins: "newest d_id n P (st_deployments t) = row # newest d_id (n - 1) P (st_deployments s)" if "P row" for P
    using deployments.newest_insert[OF ok _ assms(4), of P c] that row by (simp add: t)
  have oth: "newest d_id n P (st_deployments t) = newest d_id n P (st_deployments s)" if "\<not> P row" for P
    using deployments.newest_insert_other[OF ok, of P c n] that row by (simp add: t)
  have r: "d_project_id row = d_project_id d" "d_status row = DeployQueued" "d_id row = i"
    by (simp_all add: assms(3,6))
  have st: "sound t" using assms(2) by (simp add: t)
  define fin where "fin = row\<lparr>d_status := DeploySuccess, d_finished_at := when\<rparr>"
  have cap: "cap_stored_text [] n = []" for n by (simp add: cap_stored_text_def)
  have fd: "effect (finish_deployment i DeploySuccess [] when) t
      = t\<lparr>st_deployments := update_rows (\<lambda>x. d_id x = i)
          (\<lambda>x. x\<lparr>d_status := DeploySuccess, d_error := [], d_finished_at := when\<rparr>) (st_deployments t)\<rparr>"
    using st by (simp add: effect_def finish_deployment_def on_deployment_def Let_def cap)
  have old: "update_rows (\<lambda>x. d_id x = i) f (st_deployments s) = st_deployments s" for f
    using fresh by (force simp: update_rows_def intro: map_idI)
  have upd: "update_rows (\<lambda>x. d_id x = i) (\<lambda>x. x\<lparr>d_status := DeploySuccess, d_error := [], d_finished_at := when\<rparr>)
      (st_deployments t) = st_deployments s @ [fin]"
    using old r(3) row by (simp add: t insert_row_def update_rows_def fin_def assms(6))
  have "newest d_id n (\<lambda>x. d_project_id x = d_project_id d \<and> d_status x = DeploySuccess) (st_deployments s @ [fin])
      = fin # newest d_id (n - 1) (\<lambda>x. d_project_id x = d_project_id d \<and> d_status x = DeploySuccess) (st_deployments s)"
  proof -
    have "set_deployment_id (st_deploy_seq s + 1) fin = fin" using r(3) by (simp add: set_deployment_id_def fin_def i)
    then show ?thesis
      using deployments.newest_insert[OF ok _ assms(4), of "\<lambda>x. d_project_id x = d_project_id d \<and> d_status x = DeploySuccess" fin] r
      by (simp add: insert_row_def fin_def)
  qed
  then have succ: "fst (run_state (successful_deployments (d_project_id d) n) (effect (finish_deployment i DeploySuccess [] when) t))
      = Inr (fin # newest d_id (n - 1) (\<lambda>x. d_project_id x = d_project_id d \<and> d_status x = DeploySuccess) (st_deployments s))"
    using st by (simp add: successful_deployments_def fd upd)
  show ?thesis
    using i fresh ins[of "\<lambda>x. d_project_id x = d_project_id d"] r st assms(2) succ
    by (auto simp: list_deployments_def successful_deployments_def fin_def
        ins[of "\<lambda>x. d_project_id x = other"] oth)
qed

lemma sample_store_ok: "store_ok sample_store"
  by (simp add: store_ok_unfold sample_store_def sample_deployment_def empty_store_def keys_distinct_def rows_ok_def
      deployment_ok_def max_deployment_log_bytes_def)

theorem history_newest_first_witness:
  "fst (run_state (list_deployments ''shop'' 1)
     (effect (create_deployment (sample_deployment\<lparr>d_status := DeployQueued\<rparr>)) sample_store))
   = Inr [sample_deployment\<lparr>d_id := 2, d_status := DeployQueued, d_log := []\<rparr>]"
proof -
  define d where "d = sample_deployment\<lparr>d_status := DeployQueued\<rparr>"
  obtain i t where r: "run_state (create_deployment d) sample_store = (Inr i, t)"
    by (simp add: run_create_deployment)
  have i: "i = 2"
    using r unfolding run_create_deployment[OF sample_store_sound] by (auto simp: sample_store_def)
  have t: "effect (create_deployment d) sample_store = t" by (simp add: effect_def r)
  have "fst (run_state (list_deployments (d_project_id d) 1) t)
      = Inr (d\<lparr>d_id := i, d_log := [], d_error := [], d_finished_at := 0\<rparr>
          # newest d_id (1 - 1) (\<lambda>x. d_project_id x = d_project_id d) (st_deployments sample_store))"
    using history_newest_first[OF sample_store_ok sample_store_sound _ _ r refl, of 1 "d_project_id d" 0]
    by (simp add: d_def)
  then show ?thesis
    unfolding d_def[symmetric] t by (simp add: d_def sample_deployment_def i newest_def limit_offset_def)
qed

section \<open>After a crash\<close>

text \<open>
  The start-up clean-up leaves no deployment queued or running, reports how many it closed, keeps
  every finished one as it was, and does nothing when it runs again.
\<close>
theorem interrupted_are_closed:
  assumes "sound s" and "run_state (fail_interrupted_deployments now) s = (r, t)"
  shows "r = Inr (int (length (filter interrupted (st_deployments s))))
    \<and> filter interrupted (st_deployments t) = []
    \<and> map d_id (st_deployments t) = map d_id (st_deployments s)
    \<and> list_all2 (\<lambda>d d'. if terminal (d_status d) then d' = d
         else d_status d' = DeployFailed \<and> d_error d' = interrupted_error \<and> d_log d' = d_log d) (st_deployments s) (st_deployments t)
    \<and> run_state (fail_interrupted_deployments later) t = (Inr 0, t)"
proof -
  define f :: "deployment \<Rightarrow> deployment" where "f = (\<lambda>d. d\<lparr>d_status := DeployFailed, d_error := interrupted_error, d_finished_at := now\<rparr>)"
  have t: "t = s\<lparr>st_deployments := update_rows interrupted f (st_deployments s)\<rparr>"
    and r: "r = Inr (int (length (filter interrupted (st_deployments s))))"
    using assms by (auto simp: fail_interrupted_deployments_def run_stmt_sound f_def)
  have none: "filter interrupted (st_deployments t) = []"
    by (auto simp: t update_rows_def filter_empty_conv f_def interrupted_def)
  have ids: "map d_id (st_deployments t) = map d_id (st_deployments s)"
    by (simp add: t map_update_rows f_def)
  have closed: "terminal st \<longleftrightarrow> st \<noteq> DeployQueued \<and> st \<noteq> DeployRunning" for st
    by (cases st) (simp_all add: terminal_def less_eq_deploy_status_def status_rank_def)
  have each: "list_all2 (\<lambda>d d'. if terminal (d_status d) then d' = d
         else d_status d' = DeployFailed \<and> d_error d' = interrupted_error \<and> d_log d' = d_log d) (st_deployments s) (st_deployments t)"
    by (auto simp: t update_rows_def list_all2_map2 list_all2_same f_def interrupted_def closed)
  have nop: "update_rows interrupted g (st_deployments t) = st_deployments t" for g
    using none by (force simp: update_rows_def filter_empty_conv intro: map_idI)
  have again: "run_state (fail_interrupted_deployments later) t = (Inr 0, t)"
  proof -
    have "sound t" using assms(1) by (simp add: t)
    then show ?thesis by (simp add: fail_interrupted_deployments_def run_stmt_sound none nop)
  qed
  show ?thesis using r none ids each again by simp
qed

theorem interrupted_are_closed_witness:
  "filter interrupted (st_deployments (effect (fail_interrupted_deployments 500) sample_store)) = []"
proof -
  obtain r t where r: "run_state (fail_interrupted_deployments 500) sample_store = (r, t)" by fastforce
  then show ?thesis using interrupted_are_closed[OF sample_store_sound r] by (simp add: effect_def)
qed

section \<open>Replay protection of webhooks\<close>

text \<open>A delivery is held when it is on record with a time not before \<open>now\<close>.\<close>

definition delivery_held :: "string \<times> string \<times> string \<Rightarrow> int \<Rightarrow> store \<Rightarrow> bool" where
  "delivery_held k now s \<longleftrightarrow> list_ex (\<lambda>r. delivery_key r = k \<and> now \<le> dl_received_at r) (st_deliveries s)"

text \<open>Operations that neither release the delivery nor read a clock after \<open>until\<close> or before \<open>now\<close>.\<close>

fun keeps_delivery :: "string \<times> string \<times> string \<Rightarrow> int \<Rightarrow> int \<Rightarrow> store_op \<Rightarrow> bool" where
  "keeps_delivery k now until (Delete_Delivery a b c) \<longleftrightarrow> (a, b, c) \<noteq> k"
| "keeps_delivery k now until (Record_Delivery t _ _ _ _) \<longleftrightarrow> now \<le> t \<and> t \<le> until"
| "keeps_delivery k now until _ \<longleftrightarrow> True"

interpretation held: store_invariant "delivery_held k now" for k now
  by unfold_locales (simp_all add: delivery_held_def)

lemma held_upsert:
  assumes "delivery_held k now s" and "now \<le> dl_received_at r"
  shows "delivery_held k now (snd (delivery_upsert t r s))"
proof (cases "find (\<lambda>x. delivery_key x = delivery_key r) (st_deliveries s)")
  case None
  then show ?thesis using assms(1) by (simp add: delivery_upsert_def delivery_held_def)
next
  case (Some x)
  obtain y where y: "y \<in> set (st_deliveries s)" "delivery_key y = k" "now \<le> dl_received_at y"
    using assms(1) by (auto simp: delivery_held_def list_ex_iff)
  have "list_ex (\<lambda>r. delivery_key r = k \<and> now \<le> dl_received_at r) (upsert delivery_key merge_delivery r (st_deliveries s))"
  proof (cases "delivery_key y = delivery_key r")
    case True
    have "merge_delivery y r \<in> set (upsert delivery_key merge_delivery r (st_deliveries s))"
      using y(1) True by (auto simp: upsert_def list_ex_iff)
    moreover have "delivery_key (merge_delivery y r) = k" "now \<le> dl_received_at (merge_delivery y r)"
      using y(2) assms(2) by (simp_all add: merge_delivery_def delivery_key_def)
    ultimately show ?thesis by (auto simp: list_ex_iff)
  next
    case False
    then have "y \<in> set (upsert delivery_key merge_delivery r (st_deliveries s))"
      using y(1) by (auto simp: upsert_def intro: rev_image_eqI)
    then show ?thesis using y(2,3) by (auto simp: list_ex_iff)
  qed
  then show ?thesis using Some assms(1) by (simp add: delivery_upsert_def delivery_held_def)
qed

lemma held_delete: "delivery_held k now s \<Longrightarrow> (\<And>r. delivery_key r = k \<Longrightarrow> now \<le> dl_received_at r \<Longrightarrow> \<not> P r) \<Longrightarrow>
    delivery_held k now (s\<lparr>st_deliveries := delete_rows P (st_deliveries s)\<rparr>)"
  by (auto simp: delivery_held_def list_ex_iff delete_rows_def)

lemma held_record:
  assumes "now \<le> t" and "t \<le> now + delivery_retention"
  shows "held.keeps k now (record_webhook_delivery t a b c d)"
  unfolding record_webhook_delivery_def
proof (intro held.keeps_bind held.keeps_exec held.keeps_then held.keeps_stmt held.keeps_ok)
  fix s assume "delivery_held k now s"
  then show "delivery_held k now (s\<lparr>st_deliveries := delete_rows (\<lambda>r. dl_received_at r < t - delivery_retention) (st_deliveries s)\<rparr>)"
    by (rule held_delete) (use assms(2) in simp)
next
  fix s x u
  assume "delivery_held k now s"
    and "Inr (delivery_upsert t \<lparr>dl_provider = a, dl_project_id = b, dl_id = c, dl_commit_sha = d, dl_received_at = t\<rparr> s)
      = (Inr (x, u) :: store_error + int \<times> store)"
  then show "delivery_held k now u"
    using held_upsert[of k now s "\<lparr>dl_provider = a, dl_project_id = b, dl_id = c, dl_commit_sha = d, dl_received_at = t\<rparr>" t] assms(1)
    by (metis Inr_inject delivery.select_convs(5) snd_conv)
qed

lemma delivery_held_cong: "st_deliveries s' = st_deliveries s \<Longrightarrow> delivery_held k now s' = delivery_held k now s"
  by (simp add: delivery_held_def)

lemma held_op:
  assumes "keeps_delivery k now (now + delivery_window) op" and "delivery_held k now s"
  shows "delivery_held k now (apply_op op s)"
proof -
  have e: "held.keeps k now m \<Longrightarrow> delivery_held k now (effect m s)" for m :: "'a dbm"
    using assms(2) by (simp add: held.keeps_def effect_def)
  have d: "(a, b, c) \<noteq> k \<Longrightarrow> held.keeps k now (delete_webhook_delivery a b c)" for a b c
    unfolding delete_webhook_delivery_def by (rule held.keeps_exec, erule held_delete) simp
  show ?thesis
    by (insert assms(1), cases op; simp only: apply_op.simps; rule e)
      ((rule d, simp)
        | (rule held_record; simp add: delivery_window_def delivery_retention_def)
        | (auto simp: store_mutators on_deployment_def delivery_held_def
            intro!: held.keeps_intros held.keeps_inventory held.keeps_exec held.keeps_stmt split: if_splits option.split)[1])+
qed

lemma held_fold:
  "list_all (keeps_delivery k now (now + delivery_window)) ops \<Longrightarrow> delivery_held k now s \<Longrightarrow>
     delivery_held k now (fold apply_op ops s)"
  by (induction ops arbitrary: s) (simp_all add: held_op)

text \<open>The first statement of \<open>RecordWebhookDelivery\<close>, whose error is ignored.\<close>

lemma run_record_delivery:
  "run_state (record_webhook_delivery now a b c d) s = run_state
     (db_then (stmt ''record webhook delivery'' (\<lambda>s. Inr (delivery_upsert now
         \<lparr>dl_provider = a, dl_project_id = b, dl_id = c, dl_commit_sha = d, dl_received_at = now\<rparr> s)))
       (\<lambda>n. db_ok (n = 1)))
     (effect (exec_stmt ''delete'' (\<lambda>s.
       s\<lparr>st_deliveries := delete_rows (\<lambda>r. dl_received_at r < now - delivery_retention) (st_deliveries s)\<rparr>)) s)"
  by (simp add: record_webhook_delivery_def run_bind effect_def split_def)

lemma held_after_purge:
  assumes "delivery_held k now s" and "t \<le> now + delivery_retention"
  shows "delivery_held k now (effect (exec_stmt w (\<lambda>s.
       s\<lparr>st_deliveries := delete_rows (\<lambda>r. dl_received_at r < t - delivery_retention) (st_deliveries s)\<rparr>)) s)"
proof -
  have "held.keeps k now (exec_stmt w (\<lambda>s.
       s\<lparr>st_deliveries := delete_rows (\<lambda>r. dl_received_at r < t - delivery_retention) (st_deliveries s)\<rparr>))"
    by (rule held.keeps_exec, erule held_delete) (use assms(2) in simp)
  then show ?thesis using assms(1) by (simp add: held.keeps_def effect_def)
qed

lemma keyed_after_purge:
  "store_ok s \<Longrightarrow> store_ok (effect (exec_stmt w (\<lambda>s.
       s\<lparr>st_deliveries := delete_rows (\<lambda>r. dl_received_at r < t - delivery_retention) (st_deliveries s)\<rparr>)) s)"
proof -
  have "ok.keeps (exec_stmt w (\<lambda>s.
       s\<lparr>st_deliveries := delete_rows (\<lambda>r. dl_received_at r < t - delivery_retention) (st_deliveries s)\<rparr>))"
    by (rule ok.keeps_exec) (simp add: store_ok_unfold)
  then show "store_ok s \<Longrightarrow> ?thesis" by (simp add: ok.keeps_def effect_def)
qed

lemma held_refused:
  assumes "store_ok s" and "delivery_held (delivery_key r) now s" and "t \<le> now + delivery_window"
  shows "delivery_upsert t r s = (0, s)"
proof -
  obtain y where y: "y \<in> set (st_deliveries s)" "delivery_key y = delivery_key r" "now \<le> dl_received_at y"
    using assms(2) by (auto simp: delivery_held_def list_ex_iff)
  have "keys_distinct delivery_key (st_deliveries s)" using assms(1) by (simp add: store_ok_unfold)
  from deliveries.find_iff[OF this, of "delivery_key r" y]
  have "find (\<lambda>x. delivery_key x = delivery_key r) (st_deliveries s) = Some y" using y by simp
  then show ?thesis using y(3) assms(3) by (simp add: delivery_upsert_def)
qed

definition delivery_row :: "string \<Rightarrow> string \<Rightarrow> string \<Rightarrow> string \<Rightarrow> int \<Rightarrow> delivery" where
  "delivery_row provider pid delivery commit now =
     \<lparr>dl_provider = provider, dl_project_id = pid, dl_id = delivery, dl_commit_sha = commit, dl_received_at = now\<rparr>"

lemma delivery_row_simps [simp]:
  "delivery_key (delivery_row a b c d n) = (a, b, c)" "dl_received_at (delivery_row a b c d n) = n"
  by (simp_all add: delivery_row_def delivery_key_def)

lemma upsert_held:
  assumes "delivery_upsert now r s = (1, t)"
  shows "delivery_held (delivery_key r) (dl_received_at r) t"
proof (cases "find (\<lambda>x. delivery_key x = delivery_key r) (st_deliveries s)")
  case None
  then have "t = s\<lparr>st_deliveries := st_deliveries s @ [r]\<rparr>" using assms by (simp add: delivery_upsert_def)
  then show ?thesis by (simp add: delivery_held_def)
next
  case (Some x)
  then have x: "x \<in> set (st_deliveries s)" "delivery_key x = delivery_key r" by (auto simp: find_Some_iff)
  have "t = s\<lparr>st_deliveries := upsert delivery_key merge_delivery r (st_deliveries s)\<rparr>"
    using assms Some by (auto simp: delivery_upsert_def split: if_splits)
  moreover have "merge_delivery x r \<in> set (upsert delivery_key merge_delivery r (st_deliveries s))"
    using x by (auto simp: upsert_def list_ex_iff)
  moreover have "delivery_key (merge_delivery x r) = delivery_key r" "dl_received_at (merge_delivery x r) = dl_received_at r"
    using x(2) by (simp_all add: merge_delivery_def delivery_key_def)
  ultimately show ?thesis by (auto simp: delivery_held_def list_ex_iff)
qed

text \<open>An accepted delivery is held from then on, and a held one is not accepted.\<close>

lemma accepted_held:
  assumes "run_state (record_webhook_delivery now provider pid delivery commit) s = (Inr True, t)"
  shows "delivery_held (provider, pid, delivery) now t"
proof -
  obtain s1 where "delivery_upsert now (delivery_row provider pid delivery commit now) s1 = (1, t)"
    using assms unfolding run_record_delivery delivery_row_def[symmetric]
    by (auto simp: run_db_then stmt_def Let_def split: list.splits option.splits prod.splits)
  from upsert_held[OF this] show ?thesis by simp
qed

lemma held_not_accepted:
  assumes "store_ok u" and "delivery_held (provider, pid, delivery) now u" and "again \<le> now + delivery_window"
  shows "fst (run_state (record_webhook_delivery again provider pid delivery commit) u) \<noteq> Inr True"
proof -
  let ?r = "delivery_row provider pid delivery commit again"
  define v where "v = effect (exec_stmt ''delete'' (\<lambda>s.
       s\<lparr>st_deliveries := delete_rows (\<lambda>r. dl_received_at r < again - delivery_retention) (st_deliveries s)\<rparr>)) u"
  have "again \<le> now + delivery_retention"
    using assms(3) by (simp add: delivery_window_def delivery_retention_def)
  from held_after_purge[OF assms(2) this] keyed_after_purge[OF assms(1)]
  have v: "delivery_held (provider, pid, delivery) now v" "store_ok v" unfolding v_def by blast+
  have z: "delivery_upsert again ?r (v\<lparr>st_faults := f\<rparr>) = (0, v\<lparr>st_faults := f\<rparr>)" for f
    using v assms(3) by (intro held_refused[where now = now]) simp_all
  have z0: "delivery_upsert again ?r v = (0, v)"
    using v assms(3) by (intro held_refused[where now = now]) simp_all
  show ?thesis
    unfolding run_record_delivery delivery_row_def[symmetric] v_def[symmetric]
    by (auto simp: run_db_then stmt_def Let_def z z0 split: list.splits option.splits)
qed

text \<open>
  A webhook delivery that was accepted is not accepted again within ten minutes, whatever else
  happens to the database in between, failing statements included, unless it is released.
\<close>
theorem delivery_not_replayed:
  assumes "store_ok s" and "run_state (record_webhook_delivery now provider pid delivery commit) s = (Inr True, t)"
    and "list_all (keeps_delivery (provider, pid, delivery) now (now + delivery_window)) ops"
    and "now \<le> again" and "again \<le> now + delivery_window"
  shows "fst (run_state (record_webhook_delivery again provider pid delivery commit') (fold apply_op ops t)) \<noteq> Inr True"
proof -
  have "store_ok t"
    using keep_record_delivery[of now provider pid delivery commit] assms(1,2) by (auto simp: ok.keeps_def dest!: spec[of _ s])
  from held_not_accepted[OF fold_op_ok[OF this] held_fold[OF assms(3) accepted_held[OF assms(2)]] assms(5)]
  show ?thesis .
qed

lemma run_first_delivery:
  "run_state (record_webhook_delivery 1000 ''github'' ''shop'' ''d-1'' ''abc'') (empty_store None [])
     = (Inr True, (empty_store None [])\<lparr>st_deliveries := [\<lparr>dl_provider = ''github'', dl_project_id = ''shop'', dl_id = ''d-1'',
         dl_commit_sha = ''abc'', dl_received_at = 1000\<rparr>]\<rparr>)"
  by (simp add: run_record_delivery run_db_then exec_stmt_def stmt_def effect_def empty_store_def delivery_upsert_def delete_rows_def)

theorem delivery_not_replayed_witness:
  "fst (run_state (record_webhook_delivery 1100 ''github'' ''shop'' ''d-1'' ''abc'')
     (fold apply_op [Record_Delivery 1050 ''github'' ''shop'' ''d-2'' ''abd''] (effect (record_webhook_delivery 1000 ''github'' ''shop'' ''d-1'' ''abc'')
        (empty_store None [])))) \<noteq> Inr True"
proof -
  have e: "effect (record_webhook_delivery 1000 ''github'' ''shop'' ''d-1'' ''abc'') (empty_store None [])
    = snd (run_state (record_webhook_delivery 1000 ''github'' ''shop'' ''d-1'' ''abc'') (empty_store None []))"
    by (simp add: effect_def)
  show ?thesis
    unfolding e run_first_delivery snd_conv
    using delivery_not_replayed[OF empty_store_ok run_first_delivery,
        of "[Record_Delivery 1050 ''github'' ''shop'' ''d-2'' ''abd'']" 1100 "''abc''"]
    by (simp add: delivery_window_def)
qed

text \<open>
  A delivery is accepted when it is not on record, when it was released, and when it was last
  seen more than ten minutes ago, and it is then on record with the time it was accepted.
\<close>
theorem delivery_accepted:
  assumes "sound s"
    and "list_all (\<lambda>r. delivery_key r \<noteq> (provider, pid, delivery) \<or> dl_received_at r < now - delivery_window) (st_deliveries s)"
  shows "fst (run_state (record_webhook_delivery now provider pid delivery commit) s) = Inr True
    \<and> delivery_held (provider, pid, delivery) now (effect (record_webhook_delivery now provider pid delivery commit) s)
    \<and> fst (run_state (record_webhook_delivery later provider pid delivery commit)
         (effect (delete_webhook_delivery provider pid delivery)
           (effect (record_webhook_delivery now provider pid delivery commit) s))) = Inr True"
proof -
  have acc: "fst (run_state (record_webhook_delivery now provider pid delivery commit) s) = Inr True
    \<and> delivery_held (provider, pid, delivery) now (effect (record_webhook_delivery now provider pid delivery commit) s)
    \<and> sound (effect (record_webhook_delivery now provider pid delivery commit) s)"
    if s: "sound s"
      and rows: "list_all (\<lambda>r. delivery_key r \<noteq> (provider, pid, delivery) \<or> dl_received_at r < now - delivery_window) (st_deliveries s)"
    for s :: store and now
  proof -
    define r where "r = \<lparr>dl_provider = provider, dl_project_id = pid, dl_id = delivery, dl_commit_sha = commit, dl_received_at = now\<rparr>"
    define rest where "rest = delete_rows (\<lambda>r. dl_received_at r < now - delivery_retention) (st_deliveries s)"
    have rk: "delivery_key r = (provider, pid, delivery)" by (simp add: r_def delivery_key_def)
    have run: "run_state (record_webhook_delivery now provider pid delivery commit) s
      = (let (n, t) = delivery_upsert now r (s\<lparr>st_deliveries := rest\<rparr>) in (Inr (n = 1), t))"
      using s by (simp add: run_record_delivery effect_def rest_def[symmetric] r_def[symmetric] run_db_then
          run_stmt_sound split_def Let_def)
    show ?thesis
    proof (cases "find (\<lambda>x. delivery_key x = delivery_key r) rest")
      case None
      then show ?thesis using s by (simp add: run effect_def delivery_upsert_def delivery_held_def rk) (simp add: r_def)
    next
      case (Some x)
      then have x: "x \<in> set rest" "delivery_key x = delivery_key r" by (auto simp: find_Some_iff)
      then have "dl_received_at x < now - delivery_window"
        using rows by (auto simp: rest_def delete_rows_def list_all_iff rk)
      moreover have "merge_delivery x r \<in> set (upsert delivery_key merge_delivery r rest)"
        using x by (auto simp: upsert_def list_ex_iff)
      moreover have "delivery_key (merge_delivery x r) = (provider, pid, delivery)" "dl_received_at (merge_delivery x r) = now"
        using x(2) rk by (simp_all add: merge_delivery_def delivery_key_def r_def)
      ultimately show ?thesis
        using s Some by (auto simp: run effect_def delivery_upsert_def delivery_held_def list_ex_iff)
    qed
  qed
  define t where "t = effect (record_webhook_delivery now provider pid delivery commit) s"
  define u where "u = effect (delete_webhook_delivery provider pid delivery) t"
  have a: "fst (run_state (record_webhook_delivery now provider pid delivery commit) s) = Inr True"
    "delivery_held (provider, pid, delivery) now t" "sound t"
    using acc[OF assms] by (simp_all add: t_def)
  have u: "u = t\<lparr>st_deliveries := delete_rows (\<lambda>r. delivery_key r = (provider, pid, delivery)) (st_deliveries t)\<rparr>"
    using a(3) by (simp add: u_def effect_def delete_webhook_delivery_def)
  have "sound u" using a(3) by (simp add: u)
  moreover have "list_all (\<lambda>r. delivery_key r \<noteq> (provider, pid, delivery) \<or> dl_received_at r < later - delivery_window) (st_deliveries u)"
    by (simp add: u list_all_iff delete_rows_def)
  ultimately have "fst (run_state (record_webhook_delivery later provider pid delivery commit) u) = Inr True"
    by (rule acc[THEN conjunct1])
  then show ?thesis using a by (simp add: t_def u_def)
qed

theorem delivery_accepted_witness:
  "fst (run_state (record_webhook_delivery 1000 ''github'' ''shop'' ''d-1'' ''abc'') sample_store) = Inr True"
  using delivery_accepted[OF sample_store_sound, of "''github''" "''shop''" "''d-1''" 1000 "''abc''" 0]
  by (simp add: sample_store_def empty_store_def)

end
