(* ===== verification/StoreSecrets.thy ===== *)
theory StoreSecrets
  imports StoreSpec
begin

text \<open>
  Secrets at rest: what is sealed by the injected codec comes back, and a project sees exactly the
  shared variables of its group and its environment.
\<close>

section \<open>Secrets at rest\<close>

text \<open>
  What the code relies on of the injected codec: it opens what it sealed, under the same name. It is
  the documented behaviour of AES-256-GCM with the name as additional data.
\<close>

definition codec_ok :: "secret_codec \<Rightarrow> bool" where
  "codec_ok c \<longleftrightarrow> (\<forall>n name v. case sc_encrypt c n name v of Inl _ \<Rightarrow> False | Inr x \<Rightarrow> sc_decrypt c name x = Inr v)"

text \<open>Without a codec a value is stored as it is, and must not look like a sealed one.\<close>

definition storable :: "secret_codec option \<Rightarrow> string \<Rightarrow> bool" where
  "storable codec v = (case codec of None \<Rightarrow> \<not> prefix encrypted_secret_prefix v | Some c \<Rightarrow> codec_ok c)"

lemma encode_decode:
  assumes "storable (st_codec s) v"
  shows "\<exists>x n. run_state (encode_secret name v) s = (Inr x, s\<lparr>st_draws := n\<rparr>) \<and> decode_secret (st_codec s) name x = Inr v"
proof (cases "st_codec s")
  case None
  then have "run_state (encode_secret name v) s = (Inr v, s\<lparr>st_draws := st_draws s\<rparr>)"
    "decode_secret (st_codec s) name v = Inr v"
    using assms by (simp_all add: encode_secret_def decode_secret_def storable_def)
  then show ?thesis by blast
next
  case (Some c)
  show ?thesis
  proof (cases "v = [] \<or> v = ''null''")
    case True
    have "\<not> prefix encrypted_secret_prefix v" using True by (auto simp: encrypted_secret_prefix_def)
    then have "run_state (encode_secret name v) s = (Inr v, s\<lparr>st_draws := st_draws s\<rparr>)"
      "decode_secret (st_codec s) name v = Inr v"
      using True Some by (auto simp: encode_secret_def decode_secret_def)
    then show ?thesis by blast
  next
    case False
    have "codec_ok c" using assms Some by (simp add: storable_def)
    then have "case sc_encrypt c (st_draws s) name v of Inl _ \<Rightarrow> False | Inr x \<Rightarrow> sc_decrypt c name x = Inr v"
      unfolding codec_ok_def by blast
    then obtain x where "sc_encrypt c (st_draws s) name v = Inr x" "sc_decrypt c name x = Inr v"
      by (cases "sc_encrypt c (st_draws s) name v") auto
    moreover have "prefix encrypted_secret_prefix (encrypted_secret_prefix @ x)"
      "trim_prefix encrypted_secret_prefix (encrypted_secret_prefix @ x) = x"
      by (simp_all add: trim_prefix_def)
    ultimately have "run_state (encode_secret name v) s = (Inr (encrypted_secret_prefix @ x), s\<lparr>st_draws := Suc (st_draws s)\<rparr>)"
      "decode_secret (st_codec s) name (encrypted_secret_prefix @ x) = Inr v"
      using Some False by (simp_all add: encode_secret_def decode_secret_def)
    then show ?thesis by blast
  qed
qed

definition shared_plain :: "secret_codec option \<Rightarrow> shared_variable \<Rightarrow> string" where
  "shared_plain codec r = (case decode_shared codec r of Inr v \<Rightarrow> sh_value v | Inl _ \<Rightarrow> [])"

definition shared_readable :: "store \<Rightarrow> bool" where
  "shared_readable s = list_all (\<lambda>r. case decode_shared (st_codec s) r of Inr _ \<Rightarrow> True | Inl _ \<Rightarrow> False) (st_shared s)"

lemma decode_shared_ref: "decode_shared codec r = Inr v \<Longrightarrow> shared_ref v = shared_ref r \<and> sh_value v = shared_plain codec r"
  by (auto simp: shared_plain_def decode_shared_def shared_ref_def split: sum.splits)

lemma collect_shared:
  "list_all (\<lambda>r. case decode_shared codec r of Inr _ \<Rightarrow> True | Inl _ \<Rightarrow> False) rows \<Longrightarrow>
     collect (\<lambda>r. case decode_shared codec r of Inl e \<Rightarrow> Inl e | Inr v \<Rightarrow> Inr (shared_ref v, sh_value v)) rows
       = Inr (map (\<lambda>r. (shared_ref r, shared_plain codec r)) rows)"
proof (induction rows)
  case (Cons r rows)
  then obtain v where "decode_shared codec r = Inr v" by (cases "decode_shared codec r") auto
  then show ?case using Cons decode_shared_ref[of codec r v] by simp
qed simp

lemma map_of_updates: "map_of (foldl (\<lambda>m (k, v). AList.update k v m) m kvs) = map_of m ++ map_of (rev kvs)"
proof (induction kvs arbitrary: m)
  case (Cons kv kvs)
  then show ?case by (cases kv) (auto simp: update_conv' map_add_def fun_eq_iff split: option.split)
qed simp

lemma visible_ref_key:
  "visible_shared g e a \<Longrightarrow> visible_shared g e b \<Longrightarrow> shared_ref a = shared_ref b \<Longrightarrow> shared_key a = shared_key b"
  by (auto simp: visible_shared_def shared_ref_def shared_key_def)

lemma visible_keys:
  assumes "keys_distinct shared_key rows"
  shows "distinct (map shared_ref (filter (visible_shared g e) rows))"
proof -
  have "distinct (map shared_key (filter (visible_shared g e) rows))"
    using assms by (simp add: keys_distinct_def distinct_map_filter)
  moreover have "inj_on shared_ref (set (filter (visible_shared g e) rows))"
    if "inj_on shared_key (set (filter (visible_shared g e) rows))"
  proof (rule inj_onI)
    fix x y
    assume m: "x \<in> set (filter (visible_shared g e) rows)" "y \<in> set (filter (visible_shared g e) rows)"
      and "shared_ref x = shared_ref y"
    then have "shared_key x = shared_key y" using visible_ref_key[of g e x y] by simp
    from inj_onD[OF that this m] show "x = y" .
  qed
  ultimately show ?thesis by (simp add: distinct_map)
qed

lemma run_shared_variables_for:
  assumes "sound s" and "shared_readable s" and "keys_distinct shared_key (st_shared s)"
  shows "\<exists>m. run_state (shared_variables_for g e) s = (Inr m, s)
    \<and> map_of m = map_of (map (\<lambda>r. (shared_ref r, shared_plain (st_codec s) r)) (filter (visible_shared g e) (st_shared s)))"
proof -
  define kvs where "kvs = map (\<lambda>r. (shared_ref r, shared_plain (st_codec s) r)) (filter (visible_shared g e) (st_shared s))"
  have "collect (\<lambda>r. case decode_shared (st_codec s) r of Inl e \<Rightarrow> Inl e | Inr v \<Rightarrow> Inr (shared_ref v, sh_value v))
      (filter (visible_shared g e) (st_shared s)) = Inr kvs"
    unfolding kvs_def using assms(2) by (intro collect_shared) (auto simp: shared_readable_def list_all_iff)
  moreover have "map_of (rev kvs) = map_of kvs"
    using visible_keys[OF assms(3), of g e] by (subst map_of_inject_set) (simp_all add: kvs_def comp_def rev_map[symmetric])
  ultimately show ?thesis
    using assms(1) by (simp add: shared_variables_for_def run_db_then map_of_updates kvs_def[symmetric])
qed

lemma map_of_snoc: "k \<notin> fst ` set xs \<Longrightarrow> map_of (xs @ [(k, v)]) = (map_of xs)(k \<mapsto> v)"
  by (induction xs) (auto simp: fun_eq_iff)

lemma filter_upsert:
  assumes "\<And>x. key (merge x r) = key x" and "\<And>x. key x = key r \<Longrightarrow> P (merge x r) = P x" and "P r"
  shows "filter P (upsert key merge r rows) =
    (if list_ex (\<lambda>x. key x = key r) rows
     then map (\<lambda>x. if key x = key r then merge x r else x) (filter P rows) else filter P rows @ [r])"
proof -
  have "filter P (map (\<lambda>x. if key x = key r then merge x r else x) rows)
      = map (\<lambda>x. if key x = key r then merge x r else x) (filter P rows)"
    by (induction rows) (auto simp: assms)
  then show ?thesis using assms(3) by (simp add: upsert_def)
qed

lemma merge_shared_simps [simp]:
  "shared_key (merge_shared x v) = shared_key x" "shared_ref (merge_shared x v) = shared_ref x"
  "visible_shared g e (merge_shared x v) = visible_shared g e x" "sh_value (merge_shared x v) = sh_value v"
  "shared_key (v\<lparr>sh_value := w\<rparr>) = shared_key v" "shared_ref (v\<lparr>sh_value := w\<rparr>) = shared_ref v"
  "visible_shared g e (v\<lparr>sh_value := w\<rparr>) = visible_shared g e v"
  by (simp_all add: merge_shared_def shared_key_def shared_ref_def visible_shared_def)

lemma decode_shared_key:
  assumes "shared_key a = shared_key b" and "sh_value a = sh_value b"
  shows "shared_plain codec a = shared_plain codec b"
    and "(case decode_shared codec a of Inr _ \<Rightarrow> True | Inl _ \<Rightarrow> False) = (case decode_shared codec b of Inr _ \<Rightarrow> True | Inl _ \<Rightarrow> False)"
  using assms by (auto simp: shared_plain_def decode_shared_def shared_secret_name_def shared_key_def split: sum.splits)

lemma map_of_upserted:
  assumes "visible_shared g e r" and "list_all (visible_shared g e) R"
    and "shared_plain codec r = p"
  shows "map_of (map (\<lambda>x. (shared_ref x, shared_plain codec x))
      (map (\<lambda>x. if shared_key x = shared_key r then merge_shared x r else x) R)) k
    = (if k = shared_ref r \<and> k \<in> shared_ref ` set R then Some p
       else map_of (map (\<lambda>x. (shared_ref x, shared_plain codec x)) R) k)"
  using assms(2)
proof (induction R)
  case (Cons x R)
  have eq: "shared_ref x = shared_ref r \<longleftrightarrow> shared_key x = shared_key r"
    using visible_ref_key[OF _ assms(1), of x] Cons.prems by (auto simp: shared_ref_def shared_key_def)
  have "shared_key x = shared_key r \<Longrightarrow> shared_plain codec (merge_shared x r) = p"
    using assms(3) decode_shared_key(1)[of "merge_shared x r" r codec] by simp
  then show ?case using Cons eq by auto
qed simp

text \<open>
  C24: Storing a shared variable makes exactly its own reference visible to the projects of its scope,
  with the value that was stored, sealed or not; every other reference keeps its value, and every
  other project sees what it saw before.
\<close>
theorem shared_variable_roundtrip:
  assumes "store_ok s" and "sound s" and "shared_readable s"
    and "shared_variable_error v = None" and "storable (st_codec s) (sh_value v)"
    and "t = effect (upsert_shared_variable v) s"
  shows "case (fst (run_state (shared_variables_for g e) s), fst (run_state (shared_variables_for g e) t)) of
      (Inr before, Inr after) \<Rightarrow>
        map_of after = (if visible_shared g e v then (map_of before)(shared_ref v \<mapsto> sh_value v) else map_of before)
    | _ \<Rightarrow> False"
proof -
  obtain x n where x: "run_state (encode_secret (shared_secret_name v) (sh_value v)) s = (Inr x, s\<lparr>st_draws := n\<rparr>)"
    "decode_secret (st_codec s) (shared_secret_name v) x = Inr (sh_value v)"
    using encode_decode[OF assms(5)] by blast
  define r where "r = v\<lparr>sh_value := x\<rparr>"
  define rows where "rows = upsert shared_key merge_shared r (st_shared s)"
  have plain: "shared_plain (st_codec s) r = sh_value v"
    and good: "case decode_shared (st_codec s) r of Inr _ \<Rightarrow> True | Inl _ \<Rightarrow> False"
    using x(2) by (simp_all add: shared_plain_def decode_shared_def r_def shared_secret_name_def)
  have t: "t = s\<lparr>st_draws := n, st_shared := rows\<rparr>"
    using assms(2) by (simp add: assms(4,6) effect_def upsert_shared_variable_def run_db_then x(1) r_def rows_def)
  have keys: "keys_distinct shared_key (st_shared s)" using assms(1) by (simp add: store_ok_unfold)
  have tk: "keys_distinct shared_key (st_shared t)" by (simp add: t rows_def shared.keys_upsert keys)
  have "list_all (\<lambda>r. case decode_shared (st_codec s) r of Inr _ \<Rightarrow> True | Inl _ \<Rightarrow> False) rows"
    unfolding rows_def
  proof (rule list_all_upsert)
    fix x assume "shared_key x = shared_key r"
    then show "case decode_shared (st_codec s) (merge_shared x r) of Inr _ \<Rightarrow> True | Inl _ \<Rightarrow> False"
      using good decode_shared_key(2)[of "merge_shared x r" r "st_codec s"] by simp
  qed (use assms(3) good in \<open>simp_all add: shared_readable_def\<close>)
  then have tr: "shared_readable t" by (simp add: shared_readable_def t)
  have ts: "sound t" using assms(2) by (simp add: t sound_def)
  obtain m where m: "run_state (shared_variables_for g e) s = (Inr m, s)"
    "map_of m = map_of (map (\<lambda>r. (shared_ref r, shared_plain (st_codec s) r)) (filter (visible_shared g e) (st_shared s)))"
    using run_shared_variables_for[OF assms(2,3) keys] by blast
  obtain m' where m': "run_state (shared_variables_for g e) t = (Inr m', t)"
    "map_of m' = map_of (map (\<lambda>r. (shared_ref r, shared_plain (st_codec s) r)) (filter (visible_shared g e) rows))"
    using run_shared_variables_for[OF ts tr tk, of g e] by (auto simp: t)
  have "map_of m' = (if visible_shared g e v then (map_of m)(shared_ref v \<mapsto> sh_value v) else map_of m)"
  proof (cases "visible_shared g e v")
    case True
    have f: "filter (visible_shared g e) rows = (if list_ex (\<lambda>x. shared_key x = shared_key r) (st_shared s)
       then map (\<lambda>x. if shared_key x = shared_key r then merge_shared x r else x) (filter (visible_shared g e) (st_shared s))
       else filter (visible_shared g e) (st_shared s) @ [r])"
      unfolding rows_def by (rule filter_upsert) (use True in \<open>simp_all add: r_def\<close>)
    have rv: "visible_shared g e r" "shared_ref r = shared_ref v" using True by (simp_all add: r_def)
    show ?thesis
    proof (cases "list_ex (\<lambda>x. shared_key x = shared_key r) (st_shared s)")
      case e: True
      then obtain y where y: "y \<in> set (st_shared s)" "shared_key y = shared_key r" by (auto simp: list_ex_iff)
      then have "visible_shared g e y" "shared_ref y = shared_ref v"
        using rv by (auto simp: shared_key_def visible_shared_def shared_ref_def)
      then have "shared_ref v \<in> shared_ref ` set (filter (visible_shared g e) (st_shared s))"
        using y(1) by (intro image_eqI[of _ _ y]) simp_all
      then show ?thesis
        using e True map_of_upserted[OF rv(1) _ plain, of "filter (visible_shared g e) (st_shared s)"]
        by (auto simp: m(2) m'(2) f rv(2) list_all_iff fun_eq_iff)
    next
      case n: False
      have "shared_ref v \<notin> shared_ref ` set (filter (visible_shared g e) (st_shared s))"
        using n visible_ref_key[OF _ rv(1)] rv(2) by (force simp: list_ex_iff)
      then have "shared_ref v \<notin> fst ` set (map (\<lambda>r. (shared_ref r, shared_plain (st_codec s) r))
          (filter (visible_shared g e) (st_shared s)))"
        by (simp add: image_image)
      from map_of_snoc[OF this, of "sh_value v"] show ?thesis
        using n True by (simp add: m(2) m'(2) f rv(2) plain)
    qed
  next
    case False
    have nv: "shared_key x = shared_key r \<Longrightarrow> \<not> visible_shared g e x" for x
      using False by (auto simp: shared_key_def visible_shared_def r_def)
    have "filter (visible_shared g e) rows = filter (visible_shared g e) (st_shared s)"
    proof (cases "list_ex (\<lambda>x. shared_key x = shared_key r) (st_shared s)")
      case True
      have "filter (visible_shared g e) (map (\<lambda>x. if shared_key x = shared_key r then merge_shared x r else x) xs)
          = filter (visible_shared g e) xs" for xs
        by (induction xs) (use nv in auto)
      then show ?thesis using True by (simp add: rows_def upsert_def)
    next
      case n: False
      then show ?thesis using False by (simp add: rows_def upsert_def r_def)
    qed
    then show ?thesis using False by (simp add: m(2) m'(2))
  qed
  then show ?thesis by (simp add: m(1) m'(1))
qed

text \<open>A codec that keeps its promise: it reverses the text and tags it with the nonce.\<close>

definition mirror_codec :: secret_codec where
  "mirror_codec = \<lparr>sc_encrypt = (\<lambda>n name v. Inr (rev v)), sc_decrypt = (\<lambda>name x. Inr (rev x))\<rparr>"

theorem shared_variable_roundtrip_witness:
  "map_of (case fst (run_state (shared_variables_for ''Default'' ''prod'')
       (effect (upsert_shared_variable \<lparr>sh_scope = ''project'', sh_scope_id = ''Default'', sh_key = ''KEY'', sh_value = ''v1''\<rparr>)
         (empty_store (Some mirror_codec) []))) of Inr m \<Rightarrow> m | Inl _ \<Rightarrow> []) ''project.KEY'' = Some ''v1''"
proof -
  define v where "v = \<lparr>sh_scope = ''project'', sh_scope_id = ''Default'', sh_key = ''KEY'', sh_value = ''v1''\<rparr>"
  define s where "s = empty_store (Some mirror_codec) []"
  define t where "t = effect (upsert_shared_variable v) s"
  have e: "shared_variable_error v = None" unfolding v_def by code_simp
  have "sound s" "shared_readable s" "storable (st_codec s) (sh_value v)"
    by (simp_all add: s_def sound_def empty_store_def shared_readable_def storable_def codec_ok_def mirror_codec_def)
  note r = shared_variable_roundtrip[OF empty_store_ok[of "Some mirror_codec" "[]", folded s_def] this(1,2) e this(3) t_def,
      of "''Default''" "''prod''"]
  have "visible_shared ''Default'' ''prod'' v" "shared_ref v = ''project.KEY''" "sh_value v = ''v1''"
    by (simp_all add: v_def visible_shared_def shared_ref_def)
  then show ?thesis
    using r unfolding t_def s_def v_def by (auto split: sum.splits)
qed

end
