(* ===== verification/SharedVars.thy ===== *)
theory SharedVars
  imports Runner "HOL-Library.AList"
begin

text \<open>
  Shared variables in environment values: \<open>internal/deployment/sharedvars.go\<close>. A value is cut into
  pieces, the references \<open>{{ name }}\<close> that the regular expression matches from the left and the text
  between them; white space and name characters are disjoint, so a match needs no backtracking.
\<close>

definition ref_char :: "char \<Rightarrow> bool" where
  "ref_char c \<longleftrightarrow> is_alnum c \<or> c \<in> set ''_.-''"

text \<open>A match of \<open>\{\{\s*([a-zA-Z0-9_.-]+)\s*\}\}\<close> at the start: the name and the rest.\<close>

definition ref_at :: "string \<Rightarrow> (string \<times> string) option" where
  "ref_at s =
     (if \<not> prefix ''{{'' s then None
      else (let r = dropWhile is_re_space (drop 2 s);
                name = takeWhile ref_char r;
                rest = dropWhile is_re_space (dropWhile ref_char r)
            in if name \<noteq> [] \<and> prefix ''}}'' rest then Some (name, drop 2 rest) else None))"

datatype piece = Lit char | Ref string

lemma ref_at_shorter: "ref_at s = Some (name, r) \<Longrightarrow> length r < length s"
proof -
  assume a: "ref_at s = Some (name, r)"
  then have p: "prefix ''{{'' s" by (auto simp: ref_at_def split: if_splits)
  have r: "r = drop 2 (dropWhile is_re_space (dropWhile ref_char (dropWhile is_re_space (drop 2 s))))"
    using a p by (auto simp: ref_at_def Let_def split: if_splits)
  have "length r \<le> length (drop 2 s)"
    unfolding r by (metis (no_types) le_trans length_drop diff_le_self length_dropWhile_le)
  moreover have "2 \<le> length s" using prefix_length_le[OF p] by simp
  ultimately show ?thesis by simp
qed

function pieces :: "string \<Rightarrow> piece list" where
  "pieces [] = []"
| "pieces (c # s) =
     (case ref_at (c # s) of Some (name, r) \<Rightarrow> Ref name # pieces r | None \<Rightarrow> Lit c # pieces s)"
  by pat_completeness auto
termination
  by (relation "measure length") (auto dest: ref_at_shorter)

definition is_ref :: "piece \<Rightarrow> bool" where
  "is_ref p = (case p of Ref _ \<Rightarrow> True | Lit _ \<Rightarrow> False)"

definition has_shared_refs :: "go_map \<Rightarrow> bool" where
  "has_shared_refs m = list_ex (\<lambda>(k, v). list_ex is_ref (pieces v)) m"

text \<open>
  \<open>ReplaceAllStringFunc\<close> with the closure of \<open>expandValue\<close>: it keeps the last unknown name in
  \<open>refErr\<close>.
\<close>

fun expand_pieces :: "go_map \<Rightarrow> piece list \<Rightarrow> string option \<Rightarrow> string \<times> string option" where
  "expand_pieces vars [] err = ([], err)"
| "expand_pieces vars (Lit c # ps) err = (let (out, e) = expand_pieces vars ps err in (c # out, e))"
| "expand_pieces vars (Ref name0 # ps) err =
     (let name = trim_space name0 in
      case map_of vars name of
        None \<Rightarrow> expand_pieces vars ps (Some (''unknown shared variable '' @ quote name))
      | Some value \<Rightarrow> (let (out, e) = expand_pieces vars ps err in (value @ out, e)))"

definition expand_value :: "string \<Rightarrow> go_map \<Rightarrow> string res" where
  "expand_value v vars =
     (case expand_pieces vars (pieces v) None of (_, Some e) \<Rightarrow> Inl e | (out, None) \<Rightarrow> Inr out)"

fun expand_shared_vars :: "go_map \<Rightarrow> go_map \<Rightarrow> go_map res" where
  "expand_shared_vars [] vars = Inr []"
| "expand_shared_vars ((k, v) # m) vars =
     (case expand_value v vars of
        Inl e \<Rightarrow> Inl (''env '' @ k @ '': '' @ e)
      | Inr x \<Rightarrow> (case expand_shared_vars m vars of Inl e \<Rightarrow> Inl e | Inr out \<Rightarrow> Inr ((k, x) # out)))"

section \<open>What expansion does\<close>

lemma expand_pieces_err: "snd (expand_pieces vars ps err) = None \<longleftrightarrow>
    err = None \<and> list_all (\<lambda>p. case p of Ref n \<Rightarrow> map_of vars (trim_space n) \<noteq> None | Lit _ \<Rightarrow> True) ps"
  by (induction vars ps err rule: expand_pieces.induct) (auto simp: Let_def split: prod.splits option.splits)

lemma expand_no_refs: "\<not> list_ex is_ref (pieces v) \<Longrightarrow> expand_value v vars = Inr v"
proof -
  have "\<not> list_ex is_ref (pieces v) \<Longrightarrow> expand_pieces vars (pieces v) None = (v, None)"
    by (induction v rule: pieces.induct) (auto simp: is_ref_def split: option.splits prod.splits)
  then show "\<not> list_ex is_ref (pieces v) \<Longrightarrow> expand_value v vars = Inr v" by (simp add: expand_value_def)
qed

lemma expand_no_refs_map: "\<not> has_shared_refs m \<Longrightarrow> expand_shared_vars m vars = Inr m"
  by (induction m) (auto simp: has_shared_refs_def expand_no_refs)

lemma expand_keys: "expand_shared_vars m vars = Inr out \<Longrightarrow> map fst out = map fst m"
  by (induction m arbitrary: out) (auto split: sum.splits)

text \<open>Templates: the texts an operator writes, literal text without braces between references.\<close>

datatype token = Text string | Reference string

fun render :: "token list \<Rightarrow> string" where
  "render [] = []"
| "render (Text t # ts) = t @ render ts"
| "render (Reference n # ts) = ''{{ '' @ n @ '' }}'' @ render ts"

fun token_ok :: "token \<Rightarrow> bool" where
  "token_ok (Text t) \<longleftrightarrow> CHR ''{'' \<notin> set t"
| "token_ok (Reference n) \<longleftrightarrow> n \<noteq> [] \<and> list_all ref_char n"

fun token_value :: "go_map \<Rightarrow> token \<Rightarrow> string" where
  "token_value vars (Text t) = t"
| "token_value vars (Reference n) = mget vars n"

fun token_known :: "go_map \<Rightarrow> token \<Rightarrow> bool" where
  "token_known vars (Text t) \<longleftrightarrow> True"
| "token_known vars (Reference n) \<longleftrightarrow> map_of vars n \<noteq> None"

lemma ref_char_plain: "ref_char c \<Longrightarrow> plain_char c" and ref_char_not_space: "ref_char c \<Longrightarrow> \<not> is_re_space c"
  by (auto simp: ref_char_def plain_char_def is_re_space_def is_alnum_def is_alpha_def is_lower_def is_upper_def is_digit_def)

lemma trim_ref: "list_all ref_char n \<Longrightarrow> trim_space n = n"
  by (rule trim_space_plain) (cases "n = []", auto simp: list_all_iff ref_char_plain)

lemma pieces_text: "CHR ''{'' \<notin> set t \<Longrightarrow> pieces (t @ s) = map Lit t @ pieces s"
  by (induction t) (auto simp: ref_at_def)

lemma ref_at_render:
  assumes "n \<noteq> []" and "list_all ref_char n"
  shows "ref_at (''{{ '' @ n @ '' }}'' @ s) = Some (n, s)"
proof -
  obtain c m where n: "n = c # m" using assms(1) by (cases n) auto
  have sp: "is_re_space CHR '' ''" "\<not> is_re_space c" "\<not> is_re_space CHR ''}''" "\<not> ref_char CHR '' ''"
    using assms(2) n ref_char_not_space[of c]
    by (auto simp: is_re_space_def ref_char_def is_alnum_def is_alpha_def is_lower_def is_upper_def is_digit_def)
  have all: "\<And>x. x \<in> set n \<Longrightarrow> ref_char x" using assms(2) by (auto simp: list_all_iff)
  have d: "dropWhile is_re_space (drop 2 (''{{ '' @ n @ '' }}'' @ s)) = n @ '' }}'' @ s"
    using sp by (simp add: n)
  have t: "takeWhile ref_char (n @ '' }}'' @ s) = n" "dropWhile ref_char (n @ '' }}'' @ s) = '' }}'' @ s"
    using all sp(4) by (simp_all add: takeWhile_append2 dropWhile_append2)
  have p: "prefix ''{{'' (''{{ '' @ n @ '' }}'' @ s)" by simp
  show ?thesis
    unfolding ref_at_def Let_def d t using assms(1) p sp by simp
qed

lemma pieces_render:
  "list_all token_ok ts \<Longrightarrow> pieces (render ts)
     = concat (map (\<lambda>t. case t of Text s \<Rightarrow> map Lit s | Reference n \<Rightarrow> [Ref n]) ts)"
proof (induction ts rule: render.induct)
  case (3 n ts)
  then have "ref_at (''{{ '' @ n @ '' }}'' @ render ts) = Some (n, render ts)"
    by (intro ref_at_render) simp_all
  then have "pieces (''{{ '' @ n @ '' }}'' @ render ts) = Ref n # pieces (render ts)" by simp
  then show ?case using 3 by simp
qed (simp_all add: pieces_text)

lemma expand_lits: "expand_pieces vars (map Lit s @ ps) err = (s @ fst (expand_pieces vars ps err), snd (expand_pieces vars ps err))"
  by (induction s) (simp_all add: split_def)

text \<open>
  A template whose references are all known expands to its text with every reference replaced
  by its value, verbatim: what a value contains, even another reference, is not expanded again. One
  unknown reference is an error instead of a value.
\<close>
theorem shared_refs_expand:
  assumes "list_all token_ok ts"
  shows "case expand_value (render ts) vars of
      Inr x \<Rightarrow> list_all (token_known vars) ts \<and> x = concat (map (token_value vars) ts)
    | Inl _ \<Rightarrow> \<not> list_all (token_known vars) ts"
proof -
  have all_true: "list_all (\<lambda>_. True) xs" for xs :: string by (induction xs) simp_all
  let ?ps = "\<lambda>ts. concat (map (\<lambda>t. case t of Text s \<Rightarrow> map Lit s | Reference n \<Rightarrow> [Ref n]) ts)"
  have known: "list_all (\<lambda>p. case p of Ref n \<Rightarrow> map_of vars (trim_space n) \<noteq> None | Lit _ \<Rightarrow> True) (?ps ts)
      = list_all (token_known vars) ts"
    using assms by (induction ts rule: render.induct) (auto simp: trim_ref list.pred_map comp_def all_true)
  have val: "list_all token_ok ts \<Longrightarrow> list_all (token_known vars) ts \<Longrightarrow>
      expand_pieces vars (?ps ts) None = (concat (map (token_value vars) ts), None)" for ts
    by (induction ts rule: render.induct) (auto simp: expand_lits trim_ref mget_def)
  have err: "snd (expand_pieces vars (pieces (render ts)) None) = None \<longleftrightarrow> list_all (token_known vars) ts"
    unfolding pieces_render[OF assms] expand_pieces_err known by simp
  show ?thesis
    using val[OF assms] err
    by (auto simp: expand_value_def pieces_render[OF assms] split: prod.splits option.splits)
qed

theorem shared_refs_expand_witness:
  "expand_value ''postgres://{{ project.USER }}@db'' [(''project.USER'', ''{{ project.USER }}'')]
     = Inr ''postgres://{{ project.USER }}@db''"
  using shared_refs_expand[of "[Text ''postgres://'', Reference ''project.USER'', Text ''@db'']"
      "[(''project.USER'', ''{{ project.USER }}'')]"]
  by (simp add: mget_def ref_char_def is_alnum_def is_alpha_def is_lower_def is_upper_def is_digit_def split: sum.splits)

end
