(* ===== verification/Deployer.thy ===== *)
theory Deployer
  imports Docker WinSvc StoreSecrets SharedVars
begin

text \<open>
  The deployer: \<open>internal/deployment/deployer.go\<close>, with the connection and pipeline factories of
  \<open>target.go\<close> and the audit recorder of \<open>cmd/control-center/main.go\<close>.

  The \<^emph>\<open>world\<close> a deployment acts on is the database, the trace of everything done on targets, the
  calls of the reverse proxy's registrar with their answers, and the events handed to the notifier.
  A target pipeline writes its log lines and its audit records to the database as it goes; the model
  replays them from the events the pipeline appended to the trace. \<open>log.Printf\<close> is not modelled.
  \<open>time.Now()\<close> is the argument \<open>now\<close>, one reading per phase.
\<close>

section \<open>Connections and pipelines\<close>

datatype proxy_call = Register string string | Deregister string

type_synonym registrar = "(proxy_call \<times> string option) list \<Rightarrow> proxy_call \<Rightarrow> string option"

record deployer =
  dp_cfg :: app_config
  dp_secrets :: secrets
  dp_local :: host
  dp_dial_winrm :: "server \<Rightarrow> string \<Rightarrow> host res"
  dp_dial_ssh :: "server \<Rightarrow> string \<Rightarrow> host res"
  dp_read_file :: "string \<Rightarrow> string res"
  dp_sha256 :: "string \<Rightarrow> string"
  dp_registrar :: registrar
  dp_lookup_host :: "string \<Rightarrow> string list res"
  dp_notifies :: bool
  dp_parse_url :: url_parser

definition is_windows :: "string \<Rightarrow> bool" where
  "is_windows ty \<longleftrightarrow> ty = server_type_iis \<or> ty = server_type_winsvc"

definition new_runner :: "deployer \<Rightarrow> server \<Rightarrow> host res" where
  "new_runner dp srv =
     (if is_windows (sv_type srv) then
        (if sv_local srv then Inr (dp_local dp)
         else (case resolve_ref (dp_secrets dp) (sv_credential_ref srv) of
             Inl e \<Rightarrow> Inl (''resolve winrm credential: '' @ e)
           | Inr password \<Rightarrow>
               (case dp_dial_winrm dp srv password of
                  Inl e \<Rightarrow> Inl (''connect to '' @ sv_winrm_endpoint srv @ '': '' @ e)
                | Inr host \<Rightarrow> Inr host)))
      else (case resolve_ref (dp_secrets dp) (sv_ssh_key_ref srv) of
          Inl e \<Rightarrow> Inl (''resolve ssh key: '' @ e)
        | Inr k \<Rightarrow>
            (case dp_dial_ssh dp srv k of
               Inl e \<Rightarrow> Inl (''connect to '' @ sv_ssh_host srv @ '': '' @ e)
             | Inr host \<Rightarrow> Inr host)))"

definition new_target :: "deployer \<Rightarrow> deploy_job \<Rightarrow> target_env res" where
  "new_target dp job =
     (case new_runner dp (dj_server job) of
        Inl e \<Rightarrow> Inl e
      | Inr host \<Rightarrow> Inr \<lparr>te_host = host, te_cfg = dp_cfg dp, te_secrets = Some (dp_secrets dp),
          te_read_file = dp_read_file dp, te_sha256 = dp_sha256 dp\<rparr>)"

text \<open>The only branch point between the three pipelines.\<close>

definition target_deploy :: "string \<Rightarrow> target_env \<Rightarrow> cmd_ctx \<Rightarrow> deploy_job \<Rightarrow> string res rt" where
  "target_deploy ty = (if ty = server_type_iis then iis_deploy
     else if ty = server_type_winsvc then winsvc_deploy else docker_deploy)"

definition target_rollback :: "string \<Rightarrow> target_env \<Rightarrow> cmd_ctx \<Rightarrow> deploy_job \<Rightarrow> string res rt" where
  "target_rollback ty = (if ty = server_type_iis then iis_rollback
     else if ty = server_type_winsvc then winsvc_rollback else docker_rollback)"

section \<open>The world\<close>

record deploy_event =
  ev_deployment_id :: int
  ev_project_id :: string
  ev_project_name :: string
  ev_server_id :: string
  ev_status :: string
  ev_commit_sha :: string
  ev_ref :: string
  ev_error :: string
  ev_github_repo :: string
  ev_url :: string

record world =
  w_store :: store
  w_trace :: trace
  w_proxy :: "(proxy_call \<times> string option) list"
  w_notes :: "deploy_event list"

type_synonym 'a wd = "(world, 'a) state"

definition on_store :: "'a dbm \<Rightarrow> 'a sres wd" where
  "on_store m = State (\<lambda>w. (let (r, s) = run_state m (w_store w) in (r, w\<lparr>w_store := s\<rparr>)))"

definition log_line :: "int \<Rightarrow> string \<Rightarrow> unit wd" where
  "log_line i line = do { _ \<leftarrow> on_store (append_deployment_log i (line @ nl)); State_Monad.return () }"

definition call_proxy :: "deployer \<Rightarrow> proxy_call \<Rightarrow> string option wd" where
  "call_proxy dp call = State (\<lambda>w. (let r = dp_registrar dp (w_proxy w) call in (r, w\<lparr>w_proxy := w_proxy w @ [(call, r)]\<rparr>)))"

definition event_commit :: "deploy_job \<Rightarrow> string" where
  "event_commit job =
     (if is_hex_revision (dj_commit job) then dj_commit job
      else if is_hex_revision (dj_artifact job) then dj_artifact job
      else (case before_last_any '':'' (dj_artifact job) of
          None \<Rightarrow> []
        | Some _ \<Rightarrow> if is_hex_revision (after_last_any '':'' (dj_artifact job))
                   then after_last_any '':'' (dj_artifact job) else []))"

definition notify :: "deployer \<Rightarrow> deploy_job \<Rightarrow> string \<Rightarrow> string \<Rightarrow> unit wd" where
  "notify dp job status err_text = State (\<lambda>w. ((),
     if \<not> dp_notifies dp then w
     else (let base = trim_right_set ''/'' (ac_public_url (dp_cfg dp)); p = dj_project job
       in w\<lparr>w_notes := w_notes w @ [\<lparr>ev_deployment_id = dj_id job, ev_project_id = p_id p,
            ev_project_name = p_name p, ev_server_id = sv_id (dj_server job), ev_status = status,
            ev_commit_sha = event_commit job, ev_ref = dj_ref job, ev_error = err_text,
            ev_github_repo = p_github_repo p,
            ev_url = (if base = [] then [] else base @ ''/projects/'' @ p_id p)\<rparr>]\<rparr>)))"

text \<open>
  What a target event leaves in the database: \<open>logf\<close> of \<open>run\<close>, and the audit recorder of \<open>main\<close>,
  which redacts the error once more and ignores a failure to persist.
\<close>

definition audit_record :: "int \<Rightarrow> audit_meta \<Rightarrow> string \<Rightarrow> string option \<Rightarrow> remote_command" where
  "audit_record now m text err =
     \<lparr>rc_id = 0, rc_server_id = am_server_id m, rc_server_type = am_server_type m, rc_action = am_action m,
      rc_deployment_id = am_deployment_id m, rc_command = text,
      rc_error = (case err of None \<Rightarrow> [] | Some e \<Rightarrow> redact_audit_text e), rc_executed_at = now\<rparr>"

fun persist :: "int \<Rightarrow> int \<Rightarrow> event \<Rightarrow> store \<Rightarrow> store" where
  "persist now i (Logged line) = effect (append_deployment_log i (line @ nl))"
| "persist now i (Audited m text err) = effect (insert_remote_command (audit_record now m text err))"
| "persist now i (Ran _ _ _) = (\<lambda>s. s)"

definition run_pipeline :: "int \<Rightarrow> int \<Rightarrow> 'a rt \<Rightarrow> 'a wd" where
  "run_pipeline now i m = State (\<lambda>w.
     (let (r, tr) = run_state m (w_trace w) in
      (r, w\<lparr>w_trace := tr, w_store := fold (persist now i) (drop (length (w_trace w)) tr) (w_store w)\<rparr>)))"

section \<open>One deployment\<close>

definition verb :: "deploy_job \<Rightarrow> string" where
  "verb job = (if dj_rollback job then ''rollback'' else ''deploy'')"

definition job_ctx :: "deploy_job \<Rightarrow> cmd_ctx" where
  "job_ctx job = \<lparr>cx_meta = \<lparr>am_server_id = sv_id (dj_server job), am_server_type = sv_type (dj_server job),
     am_action = verb job, am_deployment_id = dj_id job\<rparr>, cx_redact = None\<rparr>"

definition fail_job :: "deployer \<Rightarrow> int \<Rightarrow> deploy_job \<Rightarrow> string \<Rightarrow> unit wd" where
  "fail_job dp now job e = (let safe = redact_audit_text e in do {
     _ \<leftarrow> log_line (dj_id job) (''ERROR: '' @ safe);
     _ \<leftarrow> on_store (finish_deployment (dj_id job) DeployFailed safe now);
     notify dp job ''failed'' safe })"

definition resolve_shared_vars :: "project \<Rightarrow> project res wd" where
  "resolve_shared_vars p =
     (if \<not> has_shared_refs (p_env p) \<and> \<not> has_shared_refs (p_build_env p) then State_Monad.return (Inr p)
      else do {
        r \<leftarrow> on_store (shared_variables_for (p_group p) (p_environment p));
        State_Monad.return (case r of
            Inl e \<Rightarrow> Inl (error_text e)
          | Inr vars \<Rightarrow>
              (case expand_shared_vars (p_env p) vars of
                 Inl e \<Rightarrow> Inl e
               | Inr env \<Rightarrow>
                   (case expand_shared_vars (p_build_env p) vars of
                      Inl e \<Rightarrow> Inl e
                    | Inr benv \<Rightarrow>
                        (case validate_env_values ''env'' env of
                           Some e \<Rightarrow> Inl e
                         | None \<Rightarrow>
                             (case validate_env_values ''build_env'' benv of
                                Some e \<Rightarrow> Inl e
                              | None \<Rightarrow> Inr (p\<lparr>p_env := env, p_build_env := benv\<rparr>)))))) })"

definition proxy_scheme :: "string \<Rightarrow> string" where
  "proxy_scheme domain = (if suffix ''.sslip.io'' (to_lower domain) then ''http'' else ''https'')"

definition warn_if_domain_not_pointed_here :: "deployer \<Rightarrow> int \<Rightarrow> string \<Rightarrow> string \<Rightarrow> unit wd" where
  "warn_if_domain_not_pointed_here dp i public_ip domain =
     (if public_ip = [] then State_Monad.return ()
      else (case dp_lookup_host dp domain of
          Inl _ \<Rightarrow> log_line i (''WARNING: '' @ domain @ '' does not resolve yet; add a DNS A record pointing to the Caddy host ('' @ public_ip @ '') for TLS to be issued'')
        | Inr ips \<Rightarrow>
            (if public_ip \<in> set ips then log_line i (domain @ '' resolves to the Caddy host '' @ public_ip)
             else log_line i (''WARNING: '' @ domain @ '' resolves to '' @ join '', '' ips @ '', but the Caddy host is ''
               @ public_ip @ ''; add an A record pointing at Caddy for TLS to be issued''))))"

definition upstream_of :: "deployer \<Rightarrow> deploy_job \<Rightarrow> string" where
  "upstream_of dp job = target_host (dp_parse_url dp) (dj_server job) @ '':'' @ itoa (effective_host_port (dj_project job))"

definition register_proxy :: "deployer \<Rightarrow> deploy_job \<Rightarrow> unit res wd" where
  "register_proxy dp job =
     (let domain = p_domain (dj_project job); i = dj_id job in
      if domain = [] then do { _ \<leftarrow> log_line i ''no domain configured; skipping proxy registration''; State_Monad.return (Inr ()) }
      else if \<not> ac_proxy_enabled (dp_cfg dp)
      then do { _ \<leftarrow> log_line i (''proxy disabled; skipping registration for '' @ domain); State_Monad.return (Inr ()) }
      else if target_host (dp_parse_url dp) (dj_server job) = [] then State_Monad.return (Inl ''no target host configured for proxy registration'')
      else do {
        err \<leftarrow> call_proxy dp (Register domain (upstream_of dp job));
        case err of
          Some e \<Rightarrow> State_Monad.return (Inl (''register '' @ domain @ '': '' @ e))
        | None \<Rightarrow> do {
            _ \<leftarrow> log_line i (''registered '' @ proxy_scheme domain @ ''://'' @ domain @ '' -> '' @ upstream_of dp job);
            _ \<leftarrow> warn_if_domain_not_pointed_here dp i
              (if ac_proxy_public_ip (dp_cfg dp) = [] \<and> sv_local (dj_server job)
               then sv_public_ip (dj_server job) else ac_proxy_public_ip (dp_cfg dp)) domain;
            State_Monad.return (Inr ()) } })"

fun cleanup_domains :: "deployer \<Rightarrow> deploy_job \<Rightarrow> string list \<Rightarrow> unit wd" where
  "cleanup_domains dp job [] = State_Monad.return ()"
| "cleanup_domains dp job (domain # rest) = do {
     err \<leftarrow> call_proxy dp (Deregister domain);
     _ \<leftarrow> (case err of
         Some e \<Rightarrow> log_line (dj_id job) (''WARNING: remove retired proxy domain '' @ domain @ '': '' @ e)
       | None \<Rightarrow> do {
           r \<leftarrow> on_store (delete_retired_proxy_domain (p_id (dj_project job)) domain);
           case r of
             Inl e \<Rightarrow> log_line (dj_id job) (''WARNING: clear retired proxy domain '' @ domain @ '': '' @ error_text e)
           | Inr _ \<Rightarrow> State_Monad.return () });
     cleanup_domains dp job rest }"

definition cleanup_retired_proxy :: "deployer \<Rightarrow> deploy_job \<Rightarrow> unit wd" where
  "cleanup_retired_proxy dp job =
     (if \<not> ac_proxy_enabled (dp_cfg dp) then State_Monad.return ()
      else do {
        r \<leftarrow> on_store (list_retired_proxy_domains (p_id (dj_project job)));
        case r of
          Inl e \<Rightarrow> log_line (dj_id job) (''WARNING: list retired proxy domains: '' @ error_text e)
        | Inr domains \<Rightarrow> cleanup_domains dp job domains })"

text \<open>
  \<open>run\<close> in the three phases between which other requests are served: marking the attempt as running,
  the work on the target, and the outcome. \<open>start_job\<close> says whether the attempt goes on.
\<close>

definition start_job :: "deployer \<Rightarrow> deploy_job \<Rightarrow> bool wd" where
  "start_job dp job = do {
     r \<leftarrow> on_store (set_deployment_status (dj_id job) DeployRunning (dj_artifact job));
     case r of
       Inl _ \<Rightarrow> State_Monad.return False
     | Inr _ \<Rightarrow> do {
         _ \<leftarrow> notify dp job ''pending'' [];
         _ \<leftarrow> log_line (dj_id job) (verb job @ '' '' @ itoa (dj_id job) @ '' started: project='' @ p_id (dj_project job)
             @ '' target='' @ sv_type (dj_server job) @ '' trigger='' @ dj_trigger job @ '' commit='' @ short_sha (dj_commit job));
         State_Monad.return True } }"

definition run_on_target :: "int \<Rightarrow> target_env \<Rightarrow> deploy_job \<Rightarrow> string res wd" where
  "run_on_target now env job =
     run_pipeline now (dj_id job)
       ((if dj_rollback job then target_rollback else target_deploy) (sv_type (dj_server job)) env (job_ctx job) job)"

definition work_job :: "deployer \<Rightarrow> int \<Rightarrow> deploy_job \<Rightarrow> (deploy_job \<times> string res) wd" where
  "work_job dp now job = do {
     r \<leftarrow> resolve_shared_vars (dj_project job);
     case r of
       Inl e \<Rightarrow> State_Monad.return (job, Inl e)
     | Inr p \<Rightarrow>
         (let job1 = job\<lparr>dj_project := p\<rparr> in
          case new_target dp job1 of
            Inl e \<Rightarrow> State_Monad.return (job1, Inl e)
          | Inr env \<Rightarrow> do { out \<leftarrow> run_on_target now env job1; State_Monad.return (job1, out) }) }"

definition record_artifact :: "deploy_job \<Rightarrow> string \<Rightarrow> deploy_job wd" where
  "record_artifact job artifact =
     (if artifact = [] then State_Monad.return job
      else do { _ \<leftarrow> on_store (set_deployment_status (dj_id job) DeployRunning artifact);
                State_Monad.return (job\<lparr>dj_artifact := artifact\<rparr>) })"

definition succeed_job :: "deployer \<Rightarrow> int \<Rightarrow> deploy_job \<Rightarrow> unit wd" where
  "succeed_job dp now job = do {
     _ \<leftarrow> cleanup_retired_proxy dp job;
     _ \<leftarrow> log_line (dj_id job) (verb job @ '' '' @ itoa (dj_id job) @ '' succeeded: artifact='' @ dj_artifact job);
     _ \<leftarrow> on_store (finish_deployment (dj_id job) DeploySuccess [] now);
     notify dp job ''success'' [] }"

definition finish_job :: "deployer \<Rightarrow> int \<Rightarrow> deploy_job \<Rightarrow> string res \<Rightarrow> unit wd" where
  "finish_job dp now job r =
     (case r of
        Inl e \<Rightarrow> fail_job dp now job e
      | Inr artifact \<Rightarrow> do {
          job1 \<leftarrow> record_artifact job artifact;
          out \<leftarrow> register_proxy dp job1;
          case out of Inl e \<Rightarrow> fail_job dp now job1 e | Inr _ \<Rightarrow> succeed_job dp now job1 })"

definition run_job :: "deployer \<Rightarrow> int \<Rightarrow> deploy_job \<Rightarrow> unit wd" where
  "run_job dp now job = do {
     go \<leftarrow> start_job dp job;
     if go then do { (job1, r) \<leftarrow> work_job dp now job; finish_job dp now job1 r }
     else State_Monad.return () }"

section \<open>Requests\<close>

datatype worker = Waiting deploy_job | Working deploy_job | Finishing deploy_job "string res"

fun worker_job :: "worker \<Rightarrow> deploy_job" where
  "worker_job (Waiting job) = job"
| "worker_job (Working job) = job"
| "worker_job (Finishing job r) = job"

record system =
  sy_world :: world
  sy_in_flight :: "string list"
  sy_workers :: "worker list"

datatype request_error = ErrDeployInProgress | Request_failed store_error | No_rollback string

definition on_world :: "system \<Rightarrow> 'a dbm \<Rightarrow> 'a sres \<times> system" where
  "on_world sy m = (case run_state (on_store m) (sy_world sy) of (r, w) \<Rightarrow> (r, sy\<lparr>sy_world := w\<rparr>))"

definition release :: "string \<Rightarrow> system \<Rightarrow> system" where
  "release pid sy = sy\<lparr>sy_in_flight := remove1 pid (sy_in_flight sy)\<rparr>"

text \<open>\<open>CreateDeployment\<close> and the start of the goroutine, with the project held in flight.\<close>

definition enqueue :: "int \<Rightarrow> deploy_job \<Rightarrow> system \<Rightarrow> (request_error + int) \<times> system" where
  "enqueue now job sy =
     (case on_world sy (create_deployment \<lparr>d_id = 0, d_project_id = p_id (dj_project job),
          d_target_type = sv_type (dj_server job), d_commit_sha = dj_commit job,
          d_ref = (if dj_rollback job then [] else dj_ref job), d_image_tag = dj_artifact job, d_status = DeployQueued,
          d_trigger = dj_trigger job, d_log = [], d_error = [], d_started_at = now, d_finished_at = 0\<rparr>) of
        (Inl e, sy1) \<Rightarrow> (Inl (Request_failed e), release (p_id (dj_project job)) sy1)
      | (Inr i, sy1) \<Rightarrow> (Inr i, sy1\<lparr>sy_workers := sy_workers sy1 @ [Waiting (job\<lparr>dj_id := i\<rparr>)]\<rparr>))"

definition trigger :: "int \<Rightarrow> project \<Rightarrow> server \<Rightarrow> string \<Rightarrow> string \<Rightarrow> string \<Rightarrow> system \<Rightarrow> (request_error + int) \<times> system" where
  "trigger now p srv trig commit ref sy =
     (if p_id p \<in> set (sy_in_flight sy) then (Inl ErrDeployInProgress, sy)
      else (let sy0 = sy\<lparr>sy_in_flight := sy_in_flight sy @ [p_id p]\<rparr>;
                (found, sy1) = on_world sy0 (successful_deployments (p_id p) 1);
                previous = (case found of Inr (d # _) \<Rightarrow> d_image_tag d | _ \<Rightarrow> [])
            in enqueue now \<lparr>dj_id = 0, dj_project = p, dj_server = srv, dj_trigger = trig, dj_commit = commit,
                 dj_ref = ref, dj_artifact = [], dj_previous_artifact = previous, dj_rollback = False\<rparr> sy1))"

definition pick_rollback :: "deployment list \<Rightarrow> deployment list \<Rightarrow> request_error + deployment" where
  "pick_rollback latest successes =
     (let current = (case latest of d # _ \<Rightarrow> d_status d = DeploySuccess | [] \<Rightarrow> False) in
      case successes of
        [] \<Rightarrow> Inl (No_rollback ''no successful deployment to roll back to'')
      | s0 # s1 # _ \<Rightarrow> if current then Inr s1 else Inr s0
      | [s0] \<Rightarrow> if current then Inl (No_rollback ''no previous successful deployment to roll back to'') else Inr s0)"

definition previous_successful :: "string \<Rightarrow> system \<Rightarrow> (request_error + deployment) \<times> system" where
  "previous_successful pid sy =
     (case on_world sy (list_deployments pid 1) of
        (Inl e, sy1) \<Rightarrow> (Inl (Request_failed e), sy1)
      | (Inr latest, sy1) \<Rightarrow>
          (case on_world sy1 (successful_deployments pid 2) of
             (Inl e, sy2) \<Rightarrow> (Inl (Request_failed e), sy2)
           | (Inr successes, sy2) \<Rightarrow> (pick_rollback latest successes, sy2)))"

definition no_deployment :: deployment where
  "no_deployment = \<lparr>d_id = 0, d_project_id = [], d_target_type = [], d_commit_sha = [], d_ref = [], d_image_tag = [],
     d_status = DeployQueued, d_trigger = [], d_log = [], d_error = [], d_started_at = 0, d_finished_at = 0\<rparr>"

definition rollback_job :: "project \<Rightarrow> server \<Rightarrow> deployment \<Rightarrow> deploy_job" where
  "rollback_job p srv prev = \<lparr>dj_id = 0, dj_project = p, dj_server = srv, dj_trigger = ''rollback'',
     dj_commit = (if p_source p = source_compose \<and> d_image_tag prev \<noteq> [] then d_image_tag prev else d_commit_sha prev),
     dj_ref = d_ref prev, dj_artifact = d_image_tag prev, dj_previous_artifact = [], dj_rollback = True\<rparr>"

definition rollback :: "int \<Rightarrow> project \<Rightarrow> server \<Rightarrow> system \<Rightarrow> (request_error + int) \<times> system" where
  "rollback now p srv sy =
     (let (found, sy1) = (if is_windows (sv_type srv) then (Inr no_deployment, sy) else previous_successful (p_id p) sy) in
      case found of
        Inl e \<Rightarrow> (Inl e, sy1)
      | Inr prev \<Rightarrow>
          (if p_id p \<in> set (sy_in_flight sy1) then (Inl ErrDeployInProgress, sy1)
           else enqueue now (rollback_job p srv prev) (sy1\<lparr>sy_in_flight := sy_in_flight sy1 @ [p_id p]\<rparr>)))"

section \<open>Workers\<close>

definition run_world :: "'a wd \<Rightarrow> system \<Rightarrow> 'a \<times> system" where
  "run_world m sy = (case run_state m (sy_world sy) of (r, w) \<Rightarrow> (r, sy\<lparr>sy_world := w\<rparr>))"

text \<open>The next phase of the worker at position \<open>k\<close>; a worker that returns releases its project.\<close>

definition put_worker :: "nat \<Rightarrow> worker \<Rightarrow> system \<Rightarrow> system" where
  "put_worker k x sy = sy\<lparr>sy_workers := (sy_workers sy)[k := x]\<rparr>"

definition end_worker :: "nat \<Rightarrow> system \<Rightarrow> system" where
  "end_worker k sy = release (p_id (dj_project (worker_job (sy_workers sy ! k))))
     (sy\<lparr>sy_workers := take k (sy_workers sy) @ drop (Suc k) (sy_workers sy)\<rparr>)"

fun advance :: "deployer \<Rightarrow> int \<Rightarrow> nat \<Rightarrow> worker \<Rightarrow> system \<Rightarrow> system" where
  "advance dp now k (Waiting job) sy =
     (case run_world (start_job dp job) sy of (go, sy1) \<Rightarrow> if go then put_worker k (Working job) sy1 else end_worker k sy1)"
| "advance dp now k (Working job) sy =
     (case run_world (work_job dp now job) sy of ((job1, r), sy1) \<Rightarrow> put_worker k (Finishing job1 r) sy1)"
| "advance dp now k (Finishing job r) sy = end_worker k (snd (run_world (finish_job dp now job r) sy))"

text \<open>
  What can happen between two phases: a request, a worker's next phase, any other operation on the
  database, and a crash followed by a restart, which forgets the workers and closes their rows.
\<close>

fun foreign_op :: "store_op \<Rightarrow> bool" where
  "foreign_op (Create_Deployment _) \<longleftrightarrow> False"
| "foreign_op (Set_Deployment_Status _ _ _) \<longleftrightarrow> False"
| "foreign_op (Append_Deployment_Log _ _) \<longleftrightarrow> False"
| "foreign_op (Finish_Deployment _ _ _ _) \<longleftrightarrow> False"
| "foreign_op (Fail_Interrupted _) \<longleftrightarrow> False"
| "foreign_op _ \<longleftrightarrow> True"

definition restart :: "int \<Rightarrow> system \<Rightarrow> system" where
  "restart now sy = (snd (on_world sy (fail_interrupted_deployments now)))\<lparr>sy_in_flight := [], sy_workers := []\<rparr>"

definition other_op :: "store_op \<Rightarrow> system \<Rightarrow> system" where
  "other_op op sy = sy\<lparr>sy_world := (sy_world sy)\<lparr>w_store := apply_op op (w_store (sy_world sy))\<rparr>\<rparr>"

inductive sys_step :: "deployer \<Rightarrow> system \<Rightarrow> system \<Rightarrow> bool" for dp where
  deploy_request: "sys_step dp sy (snd (trigger now p srv trig commit ref sy))"
| rollback_request: "sys_step dp sy (snd (rollback now p srv sy))"
| worker_phase: "k < length (sy_workers sy) \<Longrightarrow> sys_step dp sy (advance dp now k (sy_workers sy ! k) sy)"
| other_operation: "foreign_op op \<Longrightarrow> sys_step dp sy (other_op op sy)"
| crash_restart: "sys_step dp sy (restart now sy)"

definition initial_system :: "store \<Rightarrow> system" where
  "initial_system s = \<lparr>sy_world = \<lparr>w_store = s, w_trace = [], w_proxy = [], w_notes = []\<rparr>,
     sy_in_flight = [], sy_workers = []\<rparr>"

inductive sys_reachable :: "deployer \<Rightarrow> system \<Rightarrow> bool" for dp where
  boot: "sys_reachable dp (initial_system (empty_store codec faults))"
| step: "sys_reachable dp sy \<Longrightarrow> sys_step dp sy sy' \<Longrightarrow> sys_reachable dp sy'"

end
