(* ===== verification/DeployerInv.thy ===== *)
theory DeployerInv
  imports Deployer
begin

text \<open>
  What one deployment does to the database: a calculus for relations between the database before and
  after a phase, and the three phases of \<open>run\<close> in terms of it. Every relation that is reflexive,
  transitive and kept by the few statements a running deployment executes holds for its whole work.
\<close>

section \<open>Relations between the database before and after\<close>

definition moves :: "(store \<Rightarrow> store \<Rightarrow> bool) \<Rightarrow> 'a wd \<Rightarrow> bool" where
  "moves T m \<longleftrightarrow> (\<forall>w. T (w_store w) (w_store (snd (run_state m w))))"

lemma run_on_store: "run_state (on_store m) w = (fst (run_state m (w_store w)), w\<lparr>w_store := effect m (w_store w)\<rparr>)"
  by (simp add: on_store_def effect_def split_def Let_def)

text \<open>
  The statements of a running deployment with id \<open>i\<close>, apart from those that set its status.
\<close>

locale job_relation =
  fixes i :: int and T :: "store \<Rightarrow> store \<Rightarrow> bool"
  assumes T_refl: "T s s"
    and T_trans: "T a b \<Longrightarrow> T b c \<Longrightarrow> T a c"
    and T_log: "T s (effect (append_deployment_log i line) s)"
    and T_audit: "T s (effect (insert_remote_command rc) s)"
    and T_shared: "T s (effect (shared_variables_for g e) s)"
    and T_retired: "T s (effect (list_retired_proxy_domains pid) s)"
    and T_delete_retired: "T s (effect (delete_retired_proxy_domain pid domain) s)"
begin

lemma moves_return: "moves T (State_Monad.return x)"
  by (simp add: moves_def T_refl)

lemma moves_bind: "moves T m \<Longrightarrow> (\<And>x. moves T (k x)) \<Longrightarrow> moves T (State_Monad.bind m k)"
  unfolding moves_def run_bind by (metis (no_types, lifting) T_trans old.prod.case prod.collapse)

lemma moves_store: "(\<And>s. T s (effect m s)) \<Longrightarrow> moves T (on_store m)"
  by (simp add: moves_def run_on_store)

lemma moves_log: "j = i \<Longrightarrow> moves T (log_line j line)"
  unfolding log_line_def by (auto intro!: moves_bind moves_store moves_return T_log)

lemma moves_proxy: "moves T (call_proxy dp c)"
  by (simp add: moves_def call_proxy_def Let_def T_refl)

lemma moves_notify: "moves T (notify dp job st e)"
  by (simp add: moves_def notify_def Let_def T_refl)

lemma persist_T: "T s (persist now i ev s)"
  by (cases ev) (simp_all add: T_refl T_log T_audit)

lemma persist_fold_T: "T s (fold (persist now i) evs s)"
  by (induction evs arbitrary: s) (auto intro: T_refl T_trans persist_T)

lemma moves_pipeline: "j = i \<Longrightarrow> moves T (run_pipeline now j m)"
  by (simp add: moves_def run_pipeline_def split_def Let_def persist_fold_T)

lemma moves_resolve: "moves T (resolve_shared_vars p)"
  by (auto simp: resolve_shared_vars_def intro!: moves_return moves_bind moves_store T_shared)

lemma moves_work: "dj_id job = i \<Longrightarrow> moves T (work_job dp now job)"
  by (auto simp: work_job_def Let_def run_on_target_def
      intro!: moves_bind moves_resolve moves_return moves_pipeline split: sum.split)

lemma moves_warn: "j = i \<Longrightarrow> moves T (warn_if_domain_not_pointed_here dp j ip d)"
  by (auto simp: warn_if_domain_not_pointed_here_def intro!: moves_return moves_log split: sum.split)

lemma moves_register: "dj_id job = i \<Longrightarrow> moves T (register_proxy dp job)"
  by (auto simp: register_proxy_def Let_def intro!: moves_bind moves_return moves_log moves_proxy moves_warn
      split: option.split)

lemma moves_cleanup_domains: "dj_id job = i \<Longrightarrow> moves T (cleanup_domains dp job ds)"
  by (induction ds) (auto intro!: moves_bind moves_return moves_log moves_proxy moves_store T_delete_retired
      split: option.split sum.split)

lemma moves_cleanup: "dj_id job = i \<Longrightarrow> moves T (cleanup_retired_proxy dp job)"
  by (auto simp: cleanup_retired_proxy_def intro!: moves_bind moves_return moves_log moves_store T_retired
      moves_cleanup_domains split: sum.split)

lemmas moves_intros = moves_return moves_bind moves_log moves_notify moves_proxy moves_register moves_cleanup moves_work

end

section \<open>Only the deployment's own row changes\<close>

definition same_attempt :: "deployment \<Rightarrow> deployment \<Rightarrow> bool" where
  "same_attempt d d' \<longleftrightarrow> d_id d' = d_id d \<and> d_project_id d' = d_project_id d \<and> d_target_type d' = d_target_type d
     \<and> d_commit_sha d' = d_commit_sha d \<and> d_ref d' = d_ref d \<and> d_trigger d' = d_trigger d
     \<and> d_started_at d' = d_started_at d"

definition row_step :: "int \<Rightarrow> (deploy_status \<Rightarrow> deploy_status \<Rightarrow> bool) \<Rightarrow> store \<Rightarrow> store \<Rightarrow> bool" where
  "row_step i Q s s' \<longleftrightarrow> st_deploy_seq s' = st_deploy_seq s
     \<and> list_all2 (\<lambda>d d'. if d_id d = i then same_attempt d d' \<and> Q (d_status d) (d_status d') else d' = d)
         (st_deployments s) (st_deployments s')"

lemma row_step_refl: "(\<And>st. Q st st) \<Longrightarrow> row_step i Q s s"
  by (simp add: row_step_def list_all2_same same_attempt_def)

lemma row_step_trans:
  assumes "row_step i Q a b" and "row_step i R b c" and "\<And>x y z. Q x y \<Longrightarrow> R y z \<Longrightarrow> P x z"
  shows "row_step i P a c"
proof -
  have "list_all2 (\<lambda>d d'. if d_id d = i then same_attempt d d' \<and> P (d_status d) (d_status d') else d' = d)
      (st_deployments a) (st_deployments c)"
    by (rule list_all2_trans[OF _ assms(1)[unfolded row_step_def, THEN conjunct2] assms(2)[unfolded row_step_def, THEN conjunct2]])
      (auto simp: same_attempt_def assms(3) split: if_splits)
  then show ?thesis using assms(1,2) by (simp add: row_step_def)
qed

lemma row_step_mono: "row_step i Q a b \<Longrightarrow> (\<And>x y. Q x y \<Longrightarrow> R x y) \<Longrightarrow> row_step i R a b"
  by (auto simp: row_step_def elim!: list_all2_mono)

lemma row_step_same:
  "st_deployments s' = st_deployments s \<Longrightarrow> st_deploy_seq s' = st_deploy_seq s \<Longrightarrow> (\<And>st. Q st st) \<Longrightarrow> row_step i Q s s'"
  by (simp add: row_step_def list_all2_same same_attempt_def)

lemma row_step_on_deployment:
  "(\<And>d. same_attempt d (f d) \<and> Q (d_status d) (d_status (f d))) \<Longrightarrow> row_step i Q s (on_deployment i f s)"
  by (auto simp: row_step_def on_deployment_def update_rows_def list_all2_map2 list_all2_same)

text \<open>A statement either fails and leaves the rows alone or takes effect.\<close>

lemma effect_stmt_cases:
  obtains fs e where "run_state (stmt what f) s = (Inl e, s\<lparr>st_faults := fs\<rparr>)"
  | fs x t where "f (s\<lparr>st_faults := fs\<rparr>) = Inr (x, t)" "run_state (stmt what f) s = (Inr x, t)"
proof -
  let ?s = "s\<lparr>st_faults := tl (st_faults s)\<rparr>"
  consider c r where "st_faults s = Some c # r" | "\<And>c r. st_faults s \<noteq> Some c # r" by blast
  then show thesis
  proof cases
    case 1
    then have "run_state (stmt what f) s = (Inl (Failed what c), ?s)" by (simp add: stmt_def)
    then show thesis by (rule that(1))
  next
    case 2
    then have run: "run_state (stmt what f) s = (case f ?s of Inl e \<Rightarrow> (Inl e, ?s) | Inr (x, t) \<Rightarrow> (Inr x, t))"
      by (auto simp: stmt_def Let_def split: list.split option.split)
    show thesis
    proof (cases "f ?s")
      case (Inl e)
      then show thesis using run that(1) by simp
    next
      case (Inr p)
      then show thesis using run that(2) by (cases p) simp
    qed
  qed
qed

text \<open>Programs that do not touch the table.\<close>

interpretation frame: store_invariant "\<lambda>s. st_deployments s = D \<and> st_deploy_seq s = n" for D n
  by unfold_locales simp_all

lemma frame_effect:
  "(\<And>D n. frame.keeps D n m) \<Longrightarrow> st_deployments (effect m s) = st_deployments s \<and> st_deploy_seq (effect m s) = st_deploy_seq s"
  unfolding frame.keeps_def effect_def by blast

lemmas frame_intros = frame.keeps_intros frame.keeps_inventory frame.keeps_exec frame.keeps_stmt

lemma frame_delivery: "frame.keeps D n (record_webhook_delivery a b c d e)"
proof -
  have "st_deployments (snd (delivery_upsert t r s)) = st_deployments s
      \<and> st_deploy_seq (snd (delivery_upsert t r s)) = st_deploy_seq s" for t r s
    by (simp add: delivery_upsert_def split: option.split)
  then show ?thesis
    unfolding record_webhook_delivery_def
    by (intro frame.keeps_bind frame.keeps_exec frame.keeps_then frame.keeps_stmt frame.keeps_ok) (simp, metis Inr_inject snd_conv)
qed

lemma frame_reads:
  "frame.keeps D n (shared_variables_for g e)" "frame.keeps D n (list_retired_proxy_domains pid)"
  "frame.keeps D n (list_deployments pid k)" "frame.keeps D n (successful_deployments pid k)"
  by (auto simp: shared_variables_for_def list_retired_proxy_domains_def list_deployments_def successful_deployments_def
      intro!: frame_intros split: prod.split)

lemma frame_writes:
  "frame.keeps D n (insert_remote_command rc)" "frame.keeps D n (delete_retired_proxy_domain pid domain)"
  by (auto simp: insert_remote_command_def delete_retired_proxy_domain_def intro!: frame_intros)

lemmas frame_effects = frame_reads[THEN frame_effect] frame_writes[THEN frame_effect]

lemma on_deployment_faults [simp]:
  "st_deployments (on_deployment i f (s\<lparr>st_faults := fs\<rparr>)) = st_deployments (on_deployment i f s)"
  "st_deploy_seq (on_deployment i f s) = st_deploy_seq s"
  by (simp_all add: on_deployment_def)

lemma row_step_cong:
  "st_deployments s' = st_deployments t \<Longrightarrow> st_deploy_seq s' = st_deploy_seq t \<Longrightarrow>
   st_deployments s = st_deployments u \<Longrightarrow> st_deploy_seq s = st_deploy_seq u \<Longrightarrow> row_step i Q u t \<Longrightarrow> row_step i Q s s'"
  by (simp add: row_step_def)

lemma row_step_exec:
  assumes "\<And>d. same_attempt d (f d) \<and> Q (d_status d) (d_status (f d))" and "\<And>st. Q st st"
  shows "row_step i Q s (effect (exec_stmt what (on_deployment i f)) s)"
  unfolding exec_stmt_def
proof (rule effect_stmt_cases[of what "\<lambda>s. Inr ((), on_deployment i f s)" s])
  fix fs e assume "run_state (stmt what (\<lambda>s. Inr ((), on_deployment i f s))) s = (Inl e, s\<lparr>st_faults := fs\<rparr>)"
  then show "row_step i Q s (effect (stmt what (\<lambda>s. Inr ((), on_deployment i f s))) s)"
    by (simp add: effect_def row_step_same assms(2))
next
  fix fs x t
  assume "Inr ((), on_deployment i f (s\<lparr>st_faults := fs\<rparr>)) = (Inr (x, t) :: store_error + unit \<times> store)"
    and "run_state (stmt what (\<lambda>s. Inr ((), on_deployment i f s))) s = (Inr x, t)"
  then have "effect (stmt what (\<lambda>s. Inr ((), on_deployment i f s))) s = on_deployment i f (s\<lparr>st_faults := fs\<rparr>)"
    by (simp add: effect_def)
  then show "row_step i Q s (effect (stmt what (\<lambda>s. Inr ((), on_deployment i f s))) s)"
    using row_step_on_deployment[of f Q i s, OF assms(1)] by (auto intro: row_step_cong)
qed

lemma row_step_append:
  assumes "\<And>st. Q st st" and "\<And>a b c. Q a b \<Longrightarrow> Q b c \<Longrightarrow> Q a c"
  shows "row_step i Q s (effect (append_deployment_log i c) s)"
proof -
  define q where "q = query_stmt ''read deployment log'' (\<lambda>s. map_option d_log (find (\<lambda>d. d_id d = i) (st_deployments s)))"
  obtain r s1 where q: "run_state q s = (r, s1)" by fastforce
  have "frame.keeps D n q" for D n unfolding q_def by (rule frame.keeps_query)
  from frame_effect[OF this, of s] have s1: "row_step i Q s s1"
    using q assms(1) by (simp add: effect_def row_step_same)
  have e: "effect (append_deployment_log i c) s = (case r of Inl e \<Rightarrow> s1
      | Inr None \<Rightarrow> s1
      | Inr (Some old) \<Rightarrow> effect (exec_stmt ''append deployment log'' (on_deployment i
          (\<lambda>d. d\<lparr>d_log := cap_stored_text (old @ c) max_deployment_log_bytes\<rparr>))) s1)"
    using q by (auto simp: effect_def append_deployment_log_def q_def[symmetric] run_db_then Let_def
        split: sum.split option.split)
  have "row_step i Q s1 (effect (exec_stmt ''append deployment log'' (on_deployment i
          (\<lambda>d. d\<lparr>d_log := cap_stored_text (old @ c) max_deployment_log_bytes\<rparr>))) s1)" for old
    by (rule row_step_exec) (simp_all add: same_attempt_def assms(1))
  from row_step_trans[OF s1 this, of Q] show ?thesis
    using s1 assms(2) by (auto simp: e split: sum.split option.split)
qed

lemma job_relation_row:
  assumes "\<And>st. Q st st" and "\<And>a b c. Q a b \<Longrightarrow> Q b c \<Longrightarrow> Q a c"
  shows "job_relation i (row_step i Q)"
proof
  show "row_step i Q s s" for s by (rule row_step_refl) (rule assms(1))
  show "row_step i Q a b \<Longrightarrow> row_step i Q b c \<Longrightarrow> row_step i Q a c" for a b c
    using row_step_trans[of i Q a b Q c Q] assms(2) by blast
  show "row_step i Q s (effect (append_deployment_log i line) s)" for s line
    by (rule row_step_append) (auto intro: assms)
qed (auto intro!: row_step_same assms(1) simp: frame_effects)

text \<open>
  While a deployment works, no status changes; over a whole phase only its own row does, and its
  status at most moves on to running or beyond.
\<close>

definition active_step :: "deploy_status \<Rightarrow> deploy_status \<Rightarrow> bool" where
  "active_step a b \<longleftrightarrow> b = a \<or> DeployRunning \<le> b"

lemma active_statuses [simp]: "DeployRunning \<le> DeploySuccess" "DeployRunning \<le> DeployFailed"
  by (simp_all add: less_eq_deploy_status_def status_rank_def)

interpretation quiet: job_relation i "row_step i (=)" for i
  by (rule job_relation_row) auto

interpretation own: job_relation i "row_step i active_step" for i
  by (rule job_relation_row) (auto simp: active_step_def)

interpretation kept: job_relation i "\<lambda>s s'. store_ok s \<longrightarrow> store_ok s'" for i
proof
  have k: "ok.keeps m \<Longrightarrow> store_ok s \<longrightarrow> store_ok (effect m s)" for m :: "'a dbm" and s
    by (simp add: ok.keeps_def effect_def)
  show "store_ok s \<longrightarrow> store_ok (effect (append_deployment_log i line) s)" for s line by (rule k[OF keep_append_log])
  show "store_ok s \<longrightarrow> store_ok (effect (insert_remote_command rc) s)" for s rc by (rule k[OF keep_insert_command])
  show "store_ok s \<longrightarrow> store_ok (effect (shared_variables_for g e) s)" for s g e
    by (rule k) (auto simp: shared_variables_for_def intro!: ok.keeps_intros split: prod.split)
  show "store_ok s \<longrightarrow> store_ok (effect (list_retired_proxy_domains pid) s)" for s pid
    by (rule k) (auto simp: list_retired_proxy_domains_def intro!: ok.keeps_intros)
  show "store_ok s \<longrightarrow> store_ok (effect (delete_retired_proxy_domain pid d) s)" for s pid d
    by (rule k[OF keep_delete_retired(1)])
qed auto

section \<open>The three phases\<close>

lemma run_set_status:
  "run_state (set_deployment_status i st a) s = (r, t) \<Longrightarrow>
     row_step i (case r of Inl _ \<Rightarrow> (=) | Inr _ \<Rightarrow> (\<lambda>_ x. x = st)) s t"
  unfolding set_deployment_status_def exec_stmt_def
proof (rule effect_stmt_cases[of "''set deployment status''" "\<lambda>s. Inr ((), on_deployment i (\<lambda>d. d\<lparr>d_status := st, d_image_tag := a\<rparr>) s)" s])
  fix fs e
  assume "run_state (stmt ''set deployment status'' (\<lambda>s. Inr ((), on_deployment i (\<lambda>d. d\<lparr>d_status := st, d_image_tag := a\<rparr>) s))) s = (r, t)"
    "run_state (stmt ''set deployment status'' (\<lambda>s. Inr ((), on_deployment i (\<lambda>d. d\<lparr>d_status := st, d_image_tag := a\<rparr>) s))) s
      = (Inl e, s\<lparr>st_faults := fs\<rparr>)"
  then show ?thesis by (auto intro!: row_step_same)
next
  fix fs x u
  assume "run_state (stmt ''set deployment status'' (\<lambda>s. Inr ((), on_deployment i (\<lambda>d. d\<lparr>d_status := st, d_image_tag := a\<rparr>) s))) s = (r, t)"
    "run_state (stmt ''set deployment status'' (\<lambda>s. Inr ((), on_deployment i (\<lambda>d. d\<lparr>d_status := st, d_image_tag := a\<rparr>) s))) s = (Inr x, u)"
    "Inr ((), on_deployment i (\<lambda>d. d\<lparr>d_status := st, d_image_tag := a\<rparr>) (s\<lparr>st_faults := fs\<rparr>)) = (Inr (x, u) :: store_error + unit \<times> store)"
  then have r: "r = Inr ()" and t: "t = on_deployment i (\<lambda>d. d\<lparr>d_status := st, d_image_tag := a\<rparr>) (s\<lparr>st_faults := fs\<rparr>)" by auto
  have "row_step i (\<lambda>_ x. x = st) s (on_deployment i (\<lambda>d. d\<lparr>d_status := st, d_image_tag := a\<rparr>) s)"
    by (rule row_step_on_deployment) (simp add: same_attempt_def)
  then show ?thesis unfolding r t by (auto intro: row_step_cong)
qed

lemma quiet_moves: "moves (row_step i (=)) m \<Longrightarrow> run_state m w = (x, w') \<Longrightarrow> row_step i (=) (w_store w) (w_store w')"
  unfolding moves_def by (metis snd_conv)

lemma start_row:
  assumes "run_state (start_job dp job) w = (go, w')"
  shows "row_step (dj_id job) (if go then (\<lambda>_ st. st = DeployRunning) else (=)) (w_store w) (w_store w')"
proof -
  obtain r s1 where r: "run_state (set_deployment_status (dj_id job) DeployRunning (dj_artifact job)) (w_store w) = (r, s1)"
    by fastforce
  note st = run_set_status[OF r]
  define rest where "rest = do { _ \<leftarrow> notify dp job ''pending'' [];
         _ \<leftarrow> log_line (dj_id job) (verb job @ '' '' @ itoa (dj_id job) @ '' started: project='' @ p_id (dj_project job)
             @ '' target='' @ sv_type (dj_server job) @ '' trigger='' @ dj_trigger job @ '' commit='' @ short_sha (dj_commit job));
         State_Monad.return True }"
  have q: "moves (row_step (dj_id job) (=)) rest"
    unfolding rest_def by (intro quiet.moves_bind quiet.moves_notify quiet.moves_log quiet.moves_return refl)
  have run: "run_state (start_job dp job) w = (case r of Inl _ \<Rightarrow> (False, w\<lparr>w_store := s1\<rparr>)
      | Inr _ \<Rightarrow> run_state rest (w\<lparr>w_store := s1\<rparr>))"
    using r unfolding start_job_def rest_def[symmetric]
    by (auto simp: run_bind run_on_store effect_def split: sum.split)
  show ?thesis
  proof (cases r)
    case (Inl e)
    then show ?thesis using run assms st by auto
  next
    case (Inr u)
    then have rest: "run_state rest (w\<lparr>w_store := s1\<rparr>) = (go, w')" using run assms by simp
    then have "go" by (auto simp: rest_def run_bind split: prod.splits)
    have "row_step (dj_id job) (=) s1 (w_store w')" using quiet_moves[OF q rest] by simp
    from row_step_trans[OF st[unfolded Inr, simplified] this] show ?thesis using \<open>go\<close> by auto
  qed
qed

lemma work_row: "run_state (work_job dp now job) w = (x, w') \<Longrightarrow> row_step (dj_id job) (=) (w_store w) (w_store w')"
  by (rule quiet_moves[OF quiet.moves_work[OF refl]])

lemma work_job_same:
  assumes "run_state (work_job dp now job) w = ((job1, r), w')"
  shows "dj_id job1 = dj_id job \<and> p_id (dj_project job1) = p_id (dj_project job) \<and> p_domain (dj_project job1) = p_domain (dj_project job)
    \<and> dj_server job1 = dj_server job \<and> dj_rollback job1 = dj_rollback job"
proof -
  have res: "\<exists>e b. p = (dj_project job)\<lparr>p_env := e, p_build_env := b\<rparr>"
    if r: "run_state (resolve_shared_vars (dj_project job)) w = (Inr p, w1)" for p w1
  proof (cases "\<not> has_shared_refs (p_env (dj_project job)) \<and> \<not> has_shared_refs (p_build_env (dj_project job))")
    case True
    then have "p = dj_project job" using r by (simp add: resolve_shared_vars_def)
    then have "p = (dj_project job)\<lparr>p_env := p_env p, p_build_env := p_build_env p\<rparr>" by simp
    then show ?thesis by blast
  next
    case False
    then show ?thesis
      using r by (auto simp: resolve_shared_vars_def run_bind split: prod.splits sum.splits option.splits)
        (rule exI, rule exI, rule refl)+
  qed
  obtain q w1 where q: "run_state (resolve_shared_vars (dj_project job)) w = (q, w1)" by fastforce
  show ?thesis
  proof (cases q)
    case (Inl e)
    then show ?thesis using assms q by (auto simp: work_job_def run_bind)
  next
    case (Inr p)
    then obtain e b where "p = (dj_project job)\<lparr>p_env := e, p_build_env := b\<rparr>" using res q by blast
    moreover have "job1 = job\<lparr>dj_project := p\<rparr>"
      using assms q Inr by (auto simp: work_job_def run_bind Let_def split: sum.splits prod.splits)
    ultimately show ?thesis by simp
  qed
qed

lemma own_status: "DeployRunning \<le> st \<Longrightarrow> row_step i active_step s (effect (set_deployment_status i st a) s)"
  unfolding set_deployment_status_def by (rule row_step_exec) (simp_all add: same_attempt_def active_step_def)

lemma own_finish: "DeployRunning \<le> st \<Longrightarrow> row_step i active_step s (effect (finish_deployment i st e t) s)"
  unfolding finish_deployment_def Let_def by (rule row_step_exec) (simp_all add: same_attempt_def active_step_def)

lemma own_fail_job: "dj_id job = i \<Longrightarrow> moves (row_step i active_step) (fail_job dp now job e)"
  unfolding fail_job_def Let_def
  by (intro own.moves_bind own.moves_log own.moves_store own.moves_notify) (auto intro: own_finish)

lemma own_record_artifact: "dj_id job = i \<Longrightarrow> moves (row_step i active_step) (record_artifact job a)"
  by (auto simp: record_artifact_def intro!: own.moves_bind own.moves_store own.moves_return own_status)

lemma own_succeed_job: "dj_id job = i \<Longrightarrow> moves (row_step i active_step) (succeed_job dp now job)"
  unfolding succeed_job_def
  by (intro own.moves_bind own.moves_log own.moves_store own.moves_notify own.moves_cleanup) (auto intro: own_finish)

lemma own_finish_job: "moves (row_step (dj_id job) active_step) (finish_job dp now job r)"
proof -
  have id: "dj_id job1 = dj_id job" if "run_state (record_artifact job a) w = (job1, w1)" for a w job1 w1
    using that by (auto simp: record_artifact_def run_bind split: if_splits prod.splits)
  show ?thesis
  proof (cases r)
    case (Inl e)
    then show ?thesis by (simp add: finish_job_def own_fail_job)
  next
    case (Inr a)
    have "row_step (dj_id job) active_step (w_store w) (w_store (snd (run_state (finish_job dp now job r) w)))" for w
    proof -
      obtain job1 w1 where a: "run_state (record_artifact job a) w = (job1, w1)" by fastforce
      define rest where "rest = do { out \<leftarrow> register_proxy dp job1;
          case out of Inl e \<Rightarrow> fail_job dp now job1 e | Inr _ \<Rightarrow> succeed_job dp now job1 }"
      have "moves (row_step (dj_id job) active_step) rest"
        unfolding rest_def using id[OF a]
        by (auto intro!: own.moves_bind own.moves_register own_fail_job own_succeed_job split: sum.split)
      moreover have "row_step (dj_id job) active_step (w_store w) (w_store w1)"
        using own_record_artifact[OF refl, of job a] a unfolding moves_def by (metis snd_conv)
      moreover have "run_state (finish_job dp now job r) w = run_state rest w1"
        using a Inr by (simp add: finish_job_def run_bind rest_def)
      ultimately show ?thesis
        using own.T_trans[of "dj_id job"] by (simp add: moves_def)
    qed
    then show ?thesis by (simp add: moves_def)
  qed
qed

subsection \<open>The invariant of the database\<close>

lemma kept_on_store: "ok.keeps m \<Longrightarrow> moves (\<lambda>s s'. store_ok s \<longrightarrow> store_ok s') (on_store m)"
  by (simp add: moves_def run_on_store ok.keeps_def effect_def)

lemmas kept_stores = keep_set_deployment_status[THEN kept_on_store] keep_finish[THEN kept_on_store]

lemma kept_start: "moves (\<lambda>s s'. store_ok s \<longrightarrow> store_ok s') (start_job dp job)"
  unfolding start_job_def
  by (intro kept.moves_bind kept_stores)
    (auto intro!: kept.moves_bind kept.moves_return kept.moves_notify kept.moves_log[OF refl] split: sum.split)

lemma kept_work: "moves (\<lambda>s s'. store_ok s \<longrightarrow> store_ok s') (work_job dp now job)"
  by (rule kept.moves_work[OF refl])

lemma kept_fail: "moves (\<lambda>s s'. store_ok s \<longrightarrow> store_ok s') (fail_job dp now job e)"
  unfolding fail_job_def Let_def
  by (intro kept.moves_bind kept.moves_log[OF refl] kept_stores kept.moves_notify)

lemma kept_succeed: "moves (\<lambda>s s'. store_ok s \<longrightarrow> store_ok s') (succeed_job dp now job)"
  unfolding succeed_job_def
  by (intro kept.moves_bind kept.moves_log[OF refl] kept_stores kept.moves_notify kept.moves_cleanup[OF refl])

lemma kept_finish: "moves (\<lambda>s s'. store_ok s \<longrightarrow> store_ok s') (finish_job dp now job r)"
  by (auto simp: finish_job_def record_artifact_def
      intro!: kept.moves_bind kept_fail kept_succeed kept_stores kept.moves_return kept.moves_register[OF refl]
      split: sum.split)

subsection \<open>Without failing statements\<close>

interpretation calm: job_relation i "\<lambda>s s'. sound s \<longrightarrow> sound s'" for i
proof
  have k: "sound (s\<lparr>st_deployments := a\<rparr>) = sound s" for s a by (simp add: sound_def)
  show "sound s \<longrightarrow> sound (effect (append_deployment_log i line) s)" for s line
    by (auto simp: effect_def append_deployment_log_def run_db_then Let_def on_deployment_def split: option.split)
  show "sound s \<longrightarrow> sound (effect (insert_remote_command rc) s)" for s rc
    by (auto simp: effect_def insert_remote_command_def) (simp add: sound_def)
  show "sound s \<longrightarrow> sound (effect (shared_variables_for g e) s)" for s g e
    by (auto simp: effect_def shared_variables_for_def run_db_then)
  show "sound s \<longrightarrow> sound (effect (list_retired_proxy_domains pid) s)" for s pid
    by (auto simp: effect_def list_retired_proxy_domains_def)
  show "sound s \<longrightarrow> sound (effect (delete_retired_proxy_domain pid d) s)" for s pid d
    by (auto simp: effect_def delete_retired_proxy_domain_def) (simp add: sound_def)
qed auto

text \<open>Each way to end leaves the row with a terminal status.\<close>

lemma finish_status:
  "sound s \<Longrightarrow> row_step i (\<lambda>_ x. x = st) s (effect (finish_deployment i st e t) s)"
  by (auto simp: effect_def finish_deployment_def Let_def intro!: row_step_on_deployment simp: same_attempt_def)

lemma end_with:
  assumes pre: "moves (row_step i active_step) pre" "moves (\<lambda>s s'. sound s \<longrightarrow> sound s') pre"
    and "sound (w_store w)"
  shows "row_step i (\<lambda>_ x. x = st) (w_store w)
    (w_store (snd (run_state (do { x \<leftarrow> pre; _ \<leftarrow> on_store (finish_deployment i st e now); notify dp job ns ne }) w)))"
proof -
  obtain x w1 where x: "run_state pre w = (x, w1)" by fastforce
  have a: "row_step i active_step (w_store w) (w_store w1)" and s: "sound (w_store w1)"
    using pre assms(3) x unfolding moves_def by (metis snd_conv)+
  have "w_store (snd (run_state (notify dp job ns ne) u)) = w_store u" for u
    by (simp add: notify_def Let_def)
  then have "w_store (snd (run_state (do { x \<leftarrow> pre; _ \<leftarrow> on_store (finish_deployment i st e now); notify dp job ns ne }) w))
      = effect (finish_deployment i st e now) (w_store w1)"
    by (simp add: run_bind x run_on_store)
  then show ?thesis using row_step_trans[OF a finish_status[OF s]] by simp
qed

lemma fail_status:
  assumes "sound (w_store w)"
  shows "row_step (dj_id job) (\<lambda>_ x. x = DeployFailed) (w_store w) (w_store (snd (run_state (fail_job dp now job e) w)))"
proof -
  have m: "moves (row_step (dj_id job) active_step) (log_line (dj_id job) (''ERROR: '' @ redact_audit_text e))"
    "moves (\<lambda>s s'. sound s \<longrightarrow> sound s') (log_line (dj_id job) (''ERROR: '' @ redact_audit_text e))"
    by (rule own.moves_log[OF refl], rule calm.moves_log[OF refl])
  from end_with[OF m assms, of DeployFailed "redact_audit_text e" now dp job "''failed''" "redact_audit_text e"]
  show ?thesis by (simp add: fail_job_def Let_def)
qed

lemma succeed_status:
  assumes "sound (w_store w)"
  shows "row_step (dj_id job) (\<lambda>_ x. x = DeploySuccess) (w_store w) (w_store (snd (run_state (succeed_job dp now job) w)))"
proof -
  define pre where "pre = do { _ \<leftarrow> cleanup_retired_proxy dp job;
     log_line (dj_id job) (verb job @ '' '' @ itoa (dj_id job) @ '' succeeded: artifact='' @ dj_artifact job) }"
  have m: "moves (row_step (dj_id job) active_step) pre" "moves (\<lambda>s s'. sound s \<longrightarrow> sound s') pre"
    unfolding pre_def
    by (intro own.moves_bind own.moves_cleanup own.moves_log refl) (intro calm.moves_bind calm.moves_cleanup[OF refl] calm.moves_log[OF refl])
  from end_with[OF m assms, of DeploySuccess "[]" now dp job "''success''" "[]"]
  show ?thesis by (simp add: succeed_job_def pre_def)
qed

lemma sound_status: "sound s \<longrightarrow> sound (effect (set_deployment_status i st a) s)"
  by (auto simp: effect_def set_deployment_status_def on_deployment_def)

lemma calm_record: "moves (\<lambda>s s'. sound s \<longrightarrow> sound s') (record_artifact job a)"
  by (auto simp: record_artifact_def intro!: calm.moves_bind calm.moves_return calm.moves_store sound_status)

text \<open>What decides the outcome: the target's result and, if it succeeded, the registration of the route.\<close>

definition registered :: "deployer \<Rightarrow> deploy_job \<Rightarrow> world \<Rightarrow> bool" where
  "registered dp job w = (case fst (run_state (register_proxy dp job) w) of Inr _ \<Rightarrow> True | Inl _ \<Rightarrow> False)"

definition final_status :: "deployer \<Rightarrow> deploy_job \<Rightarrow> string res \<Rightarrow> world \<Rightarrow> deploy_status" where
  "final_status dp job r w =
     (case r of Inl _ \<Rightarrow> DeployFailed
      | Inr a \<Rightarrow> (case run_state (record_artifact job a) w of (job1, w1) \<Rightarrow>
          if registered dp job1 w1 then DeploySuccess else DeployFailed))"

lemma finish_final:
  assumes "sound (w_store w)"
  shows "row_step (dj_id job) (\<lambda>_ x. x = final_status dp job r w) (w_store w)
    (w_store (snd (run_state (finish_job dp now job r) w)))"
proof (cases r)
  case (Inl e)
  then show ?thesis using fail_status[OF assms] by (simp add: finish_job_def final_status_def)
next
  case (Inr a)
  obtain job1 w1 where a: "run_state (record_artifact job a) w = (job1, w1)" by fastforce
  have id: "dj_id job1 = dj_id job" using a by (auto simp: record_artifact_def run_bind split: if_splits prod.splits)
  have r1: "row_step (dj_id job) active_step (w_store w) (w_store w1)" "sound (w_store w1)"
    using own_record_artifact[OF refl, of job a] calm_record[of job a] a assms unfolding moves_def by (metis snd_conv)+
  obtain out w2 where o: "run_state (register_proxy dp job1) w1 = (out, w2)" by fastforce
  have r2: "row_step (dj_id job) active_step (w_store w1) (w_store w2)" "sound (w_store w2)"
    using own.moves_register[OF id, of dp] calm.moves_register[OF refl, of dp job1] o r1(2) unfolding moves_def by (metis snd_conv)+
  have r12: "row_step (dj_id job) active_step (w_store w) (w_store w2)"
    by (rule row_step_trans[OF r1(1) r2(1)]) (auto simp: active_step_def)
  show ?thesis
  proof (cases out)
    case (Inl e)
    have "row_step (dj_id job) (\<lambda>_ x. x = DeployFailed) (w_store w) (w_store (snd (run_state (fail_job dp now job1 e) w2)))"
      using row_step_trans[OF r12 fail_status[OF r2(2), of job1, unfolded id]] by simp
    then show ?thesis using Inl Inr a o by (simp add: finish_job_def final_status_def run_bind registered_def)
  next
    case (Inr u)
    have "row_step (dj_id job) (\<lambda>_ x. x = DeploySuccess) (w_store w) (w_store (snd (run_state (succeed_job dp now job1) w2)))"
      using row_step_trans[OF r12 succeed_status[OF r2(2), of job1, unfolded id]] by simp
    then show ?thesis using Inr \<open>r = Inr a\<close> a o by (simp add: finish_job_def final_status_def run_bind registered_def)
  qed
qed

end
