(* ===== verification/Concurrency.thy ===== *)
theory Concurrency
  imports DeployerInv
begin

text \<open>
  Deployments side by side: the step relation of \<open>Deployer\<close> interleaves requests, the phases of the
  running workers, every other operation on the database and restarts. Its invariant ties the
  in-flight guard, the workers and the rows of the deployment table together.
\<close>

section \<open>The invariant\<close>

definition worker_project :: "worker \<Rightarrow> string" where
  "worker_project x = p_id (dj_project (worker_job x))"

definition worker_id :: "worker \<Rightarrow> int" where
  "worker_id x = dj_id (worker_job x)"

fun worker_status :: "worker \<Rightarrow> deploy_status" where
  "worker_status (Waiting _) = DeployQueued"
| "worker_status (Working _) = DeployRunning"
| "worker_status (Finishing _ _) = DeployRunning"

definition worker_row :: "store \<Rightarrow> worker \<Rightarrow> bool" where
  "worker_row s x \<longleftrightarrow> list_ex (\<lambda>d. d_id d = worker_id x \<and> d_project_id d = worker_project x \<and> d_status d = worker_status x)
     (st_deployments s)"

definition sys_ok :: "system \<Rightarrow> bool" where
  "sys_ok sy \<longleftrightarrow> store_ok (w_store (sy_world sy))
     \<and> sy_in_flight sy = map worker_project (sy_workers sy) \<and> distinct (map worker_project (sy_workers sy))
     \<and> list_all (worker_row (w_store (sy_world sy))) (sy_workers sy)"

lemma worker_row_cong: "st_deployments s' = st_deployments s \<Longrightarrow> worker_row s' = worker_row s"
  by (rule ext) (simp add: worker_row_def)

lemma status_not_terminal: "\<not> terminal (worker_status x)"
  by (cases x) (simp_all add: terminal_def less_eq_deploy_status_def status_rank_def)

lemma deploy_ids: "store_ok s \<Longrightarrow> d \<in> set (st_deployments s) \<Longrightarrow> d' \<in> set (st_deployments s) \<Longrightarrow> d_id d = d_id d' \<Longrightarrow> d = d'"
  using deployments.ident_inj[of "st_deploy_seq s" "st_deployments s"] by (simp add: store_ok_unfold)

lemma worker_ids_distinct:
  assumes "sys_ok sy" and "x \<in> set (sy_workers sy)" and "y \<in> set (sy_workers sy)" and "worker_id x = worker_id y"
  shows "x = y"
proof -
  have "worker_row (w_store (sy_world sy)) x" "worker_row (w_store (sy_world sy)) y"
    using assms(1-3) by (auto simp: sys_ok_def list_all_iff)
  then obtain d d' where d: "d \<in> set (st_deployments (w_store (sy_world sy)))" "d_id d = worker_id x" "d_project_id d = worker_project x"
    and d': "d' \<in> set (st_deployments (w_store (sy_world sy)))" "d_id d' = worker_id y" "d_project_id d' = worker_project y"
    by (auto simp: worker_row_def list_ex_iff)
  have "d = d'" using deploy_ids[OF _ d(1) d'(1)] assms(1,4) d(2) d'(2) by (simp add: sys_ok_def)
  then have "worker_project x = worker_project y" using d d' by simp
  moreover have "inj_on worker_project (set (sy_workers sy))" using assms(1) by (simp add: sys_ok_def distinct_map)
  ultimately show ?thesis using assms(2,3) by (auto dest: inj_onD)
qed

section \<open>Steps on the table\<close>

lemma list_all2_find_row:
  assumes "row_step i Q s s'" and "d \<in> set (st_deployments s)"
  shows "\<exists>d' \<in> set (st_deployments s'). if d_id d = i then same_attempt d d' \<and> Q (d_status d) (d_status d') else d' = d"
  using assms by (auto simp: row_step_def list_all2_conv_all_nth in_set_conv_nth) (metis nth_mem)

lemma worker_row_other: "row_step i Q s s' \<Longrightarrow> worker_id x \<noteq> i \<Longrightarrow> worker_row s x \<Longrightarrow> worker_row s' x"
  by (auto simp: worker_row_def list_ex_iff) (metis (no_types, lifting) list_all2_find_row)

lemma worker_row_own:
  assumes "row_step i Q s s'" and "worker_row s x" and "worker_id x = i" and "worker_id y = i"
    and "worker_project y = worker_project x" and "\<And>st. Q (worker_status x) st \<Longrightarrow> st = worker_status y"
  shows "worker_row s' y"
proof -
  obtain d where d: "d \<in> set (st_deployments s)" "d_id d = i" "d_project_id d = worker_project x" "d_status d = worker_status x"
    using assms(2,3) by (auto simp: worker_row_def list_ex_iff)
  from list_all2_find_row[OF assms(1) d(1)] obtain d' where
    "d' \<in> set (st_deployments s')" "same_attempt d d'" "Q (worker_status x) (d_status d')"
    using d by auto
  then show ?thesis using assms(4-6) d by (auto simp: worker_row_def list_ex_iff same_attempt_def)
qed

text \<open>Replacing or ending the worker at a position.\<close>

lemma nth_split: "k < length xs \<Longrightarrow> xs = take k xs @ xs ! k # drop (Suc k) xs"
  by (simp add: id_take_nth_drop)

lemma put_worker_ok:
  assumes ok: "sys_ok sy" and k: "k < length (sy_workers sy)" and x: "sy_workers sy ! k = x"
    and st: "store_ok (w_store w)" and step: "row_step (worker_id x) Q (w_store (sy_world sy)) (w_store w)"
    and y: "worker_id y = worker_id x" "worker_project y = worker_project x"
    and q: "\<And>st. Q (worker_status x) st \<Longrightarrow> st = worker_status y"
  shows "sys_ok (put_worker k y (sy\<lparr>sy_world := w\<rparr>))"
proof -
  have "worker_row (w_store w) z" if "z \<in> set ((sy_workers sy)[k := y])" for z
  proof -
    from that have "\<exists>i. i < length (sy_workers sy) \<and> z = (sy_workers sy)[k := y] ! i"
      by (auto simp: in_set_conv_nth)
    then obtain i where i: "i < length (sy_workers sy)" "z = (sy_workers sy)[k := y] ! i" by blast
    consider "z = y" | j where "j < length (sy_workers sy)" "j \<noteq> k" "z = sy_workers sy ! j"
      using i by (cases "i = k") auto
    then show ?thesis
    proof cases
      case 1
      have "worker_row (w_store (sy_world sy)) x" using ok k x by (auto simp: sys_ok_def list_all_iff)
      then show ?thesis using worker_row_own[OF step _ refl y q] 1 by simp
    next
      case 2
      have "z \<in> set (sy_workers sy)" "x \<in> set (sy_workers sy)" using 2 k x by auto
      moreover have "z \<noteq> x"
        using 2 k x ok distinct_map[of worker_project "sy_workers sy"] by (auto simp: sys_ok_def nth_eq_iff_index_eq)
      ultimately have "worker_id z \<noteq> worker_id x" using worker_ids_distinct[OF ok] by blast
      moreover have "worker_row (w_store (sy_world sy)) z"
        using ok \<open>z \<in> set (sy_workers sy)\<close> by (auto simp: sys_ok_def list_all_iff)
      ultimately show ?thesis by (rule worker_row_other[OF step])
    qed
  qed
  moreover have "map worker_project ((sy_workers sy)[k := y]) = map worker_project (sy_workers sy)"
    using k x y(2) by (simp add: map_update list_update_same_conv)
  ultimately show ?thesis using ok st by (simp add: sys_ok_def put_worker_def list_all_iff)
qed

lemma end_worker_ok:
  assumes ok: "sys_ok sy" and k: "k < length (sy_workers sy)" and x: "sy_workers sy ! k = x"
    and st: "store_ok (w_store w)" and step: "row_step (worker_id x) Q (w_store (sy_world sy)) (w_store w)"
  shows "sys_ok (end_worker k (sy\<lparr>sy_world := w\<rparr>))"
proof -
  let ?a = "take k (sy_workers sy)" and ?b = "drop (Suc k) (sy_workers sy)"
  have s: "sy_workers sy = ?a @ x # ?b" using nth_split[OF k] x by simp
  have "sy_in_flight sy = map worker_project (sy_workers sy)" "distinct (map worker_project (sy_workers sy))"
    using ok by (simp_all add: sys_ok_def)
  then have fs: "sy_in_flight sy = map worker_project (?a @ x # ?b)" and d: "distinct (map worker_project (?a @ x # ?b))"
    using s by metis+
  then have fl: "remove1 (worker_project x) (sy_in_flight sy) = map worker_project (?a @ ?b)"
    unfolding fs by (simp add: remove1_append)
  have rows: "worker_row (w_store w) z" if "z \<in> set (?a @ ?b)" for z
  proof -
    have z: "z \<in> set (sy_workers sy)" using that s by (metis UnCI UnE insertCI list.set(2) set_append)
    have "z \<noteq> x" using d that by auto
    then have "worker_id z \<noteq> worker_id x" using worker_ids_distinct[OF ok z, of x] k x by auto
    moreover have "worker_row (w_store (sy_world sy)) z" using ok z by (auto simp: sys_ok_def list_all_iff)
    ultimately show ?thesis by (rule worker_row_other[OF step])
  qed
  have "distinct (map worker_project (?a @ ?b))" using d by auto
  then show ?thesis
    using fl rows st x by (simp add: sys_ok_def end_worker_def release_def worker_project_def[symmetric] list_all_iff)
qed

section \<open>Every step keeps the invariant\<close>

lemma run_world_eq: "run_world m sy = (fst (run_state m (sy_world sy)), sy\<lparr>sy_world := snd (run_state m (sy_world sy))\<rparr>)"
  by (simp add: run_world_def split_def)

lemma advance_ok:
  assumes ok: "sys_ok sy" and k: "k < length (sy_workers sy)"
  shows "sys_ok (advance dp now k (sy_workers sy ! k) sy)"
proof -
  let ?w = "sy_world sy"
  have st: "store_ok (w_store ?w)" using ok by (simp add: sys_ok_def)
  show ?thesis
  proof (cases "sy_workers sy ! k")
    case (Waiting job)
    obtain go w1 where r: "run_state (start_job dp job) ?w = (go, w1)" by fastforce
    note step = start_row[OF r]
    have st1: "store_ok (w_store w1)" using kept_start[of dp job] st r unfolding moves_def by (metis snd_conv)
    show ?thesis
    proof (cases go)
      case True
      then show ?thesis
        using put_worker_ok[OF ok k Waiting st1, of _ "Working job"] step
        by (simp add: Waiting run_world_eq r worker_id_def worker_project_def)
    next
      case False
      then show ?thesis
        using end_worker_ok[OF ok k Waiting st1] step by (simp add: Waiting run_world_eq r worker_id_def)
    qed
  next
    case (Working job)
    obtain job1 res w1 where r: "run_state (work_job dp now job) ?w = ((job1, res), w1)" by (metis prod.exhaust)
    note step = work_row[OF r] and same = work_job_same[OF r]
    have st1: "store_ok (w_store w1)" using kept_work[of dp now job] st r unfolding moves_def by (metis snd_conv)
    show ?thesis
      using put_worker_ok[OF ok k Working st1, of "(=)" "Finishing job1 res"] step same
      by (simp add: Working run_world_eq r worker_id_def worker_project_def)
  next
    case (Finishing job res)
    define w1 where "w1 = snd (run_state (finish_job dp now job res) ?w)"
    have step: "row_step (dj_id job) active_step (w_store ?w) (w_store w1)"
      using own_finish_job[of job dp now res] by (simp add: moves_def w1_def)
    have st1: "store_ok (w_store w1)" using kept_finish[of dp now job res] st by (simp add: moves_def w1_def)
    show ?thesis
      using end_worker_ok[OF ok k Finishing st1] step
      by (simp add: Finishing run_world_eq w1_def[symmetric] worker_id_def)
  qed
qed

text \<open>Operations that only read the history.\<close>

lemma on_world_eq: "on_world sy m = (fst (run_state m (w_store (sy_world sy))),
    sy\<lparr>sy_world := (sy_world sy)\<lparr>w_store := effect m (w_store (sy_world sy))\<rparr>\<rparr>)"
  by (simp add: on_world_def run_on_store split_def)

definition same_table :: "system \<Rightarrow> system \<Rightarrow> bool" where
  "same_table sy sy' \<longleftrightarrow> st_deployments (w_store (sy_world sy')) = st_deployments (w_store (sy_world sy))
     \<and> st_deploy_seq (w_store (sy_world sy')) = st_deploy_seq (w_store (sy_world sy))
     \<and> sy_in_flight sy' = sy_in_flight sy \<and> sy_workers sy' = sy_workers sy
     \<and> (store_ok (w_store (sy_world sy)) \<longrightarrow> store_ok (w_store (sy_world sy')))"

lemma same_table_refl: "same_table sy sy"
  by (simp add: same_table_def)

lemma same_table_trans: "same_table a b \<Longrightarrow> same_table b c \<Longrightarrow> same_table a c"
  by (simp add: same_table_def)

lemma same_table_ok: "same_table sy sy' \<Longrightarrow> sys_ok sy \<Longrightarrow> sys_ok sy'"
  using worker_row_cong[of "w_store (sy_world sy')" "w_store (sy_world sy)"] by (simp add: same_table_def sys_ok_def)

lemma same_table_read:
  assumes "\<And>D n. frame.keeps D n m" and "ok.keeps m"
  shows "same_table sy (snd (on_world sy m))"
  using frame_effect[OF assms(1)] assms(2) by (simp add: same_table_def on_world_eq ok.keeps_def effect_def)

lemma keep_reads [kept]: "ok.keeps (list_deployments pid n)" "ok.keeps (successful_deployments pid n)"
  by (simp_all add: list_deployments_def successful_deployments_def ok.keeps_query)

lemmas same_table_reads = same_table_read[OF frame_reads(3) keep_reads(1)] same_table_read[OF frame_reads(4) keep_reads(2)]

lemma same_table_previous: "same_table sy (snd (previous_successful pid sy))"
proof -
  obtain a sy1 where a: "on_world sy (list_deployments pid 1) = (a, sy1)" by fastforce
  obtain b sy2 where b: "on_world sy1 (successful_deployments pid 2) = (b, sy2)" by fastforce
  have "same_table sy sy1" "same_table sy1 sy2"
    using same_table_reads(1)[of sy pid 1] same_table_reads(2)[of sy1 pid 2] a b by simp_all
  then show ?thesis
    using a b by (auto simp: previous_successful_def intro: same_table_trans split: sum.split)
qed

lemma remove1_last: "x \<notin> set xs \<Longrightarrow> remove1 x (xs @ [x]) = xs"
  by (simp add: remove1_append)

lemma run_create:
  obtains fs e where "run_state (create_deployment d) s = (Inl e, s\<lparr>st_faults := fs\<rparr>)"
  | fs where "run_state (create_deployment d) s = (Inr (st_deploy_seq s + 1),
      s\<lparr>st_faults := fs, st_deployments := st_deployments s @ [d\<lparr>d_id := st_deploy_seq s + 1, d_log := [], d_error := [],
        d_finished_at := 0\<rparr>], st_deploy_seq := st_deploy_seq s + 1\<rparr>)"
proof -
  define f where "f = (\<lambda>s. Inr (st_deploy_seq s + 1,
       s\<lparr>st_deployments := insert_row set_deployment_id (d\<lparr>d_log := [], d_error := [], d_finished_at := 0\<rparr>)
           (st_deploy_seq s) (st_deployments s), st_deploy_seq := st_deploy_seq s + 1\<rparr>) :: store_error + int \<times> store)"
  have c: "create_deployment d = stmt ''create deployment'' f" by (simp add: create_deployment_def f_def)
  show ?thesis
  proof (rule effect_stmt_cases[of "''create deployment''" f s])
    fix fs e assume "run_state (stmt ''create deployment'' f) s = (Inl e, s\<lparr>st_faults := fs\<rparr>)"
    then show thesis using that(1) by (simp add: c)
  next
    fix fs x u assume "f (s\<lparr>st_faults := fs\<rparr>) = Inr (x, u)" "run_state (stmt ''create deployment'' f) s = (Inr x, u)"
    then have "run_state (create_deployment d) s = (Inr (st_deploy_seq s + 1),
      s\<lparr>st_faults := fs, st_deployments := st_deployments s @ [d\<lparr>d_id := st_deploy_seq s + 1, d_log := [], d_error := [],
        d_finished_at := 0\<rparr>], st_deploy_seq := st_deploy_seq s + 1\<rparr>)"
      by (auto simp: c f_def insert_row_def set_deployment_id_def)
    then show thesis by (rule that(2))
  qed
qed

lemma enqueue_ok:
  assumes ok: "sys_ok sy" and fresh: "p_id (dj_project job) \<notin> set (sy_in_flight sy)"
  shows "sys_ok (snd (enqueue now job (sy\<lparr>sy_in_flight := sy_in_flight sy @ [p_id (dj_project job)]\<rparr>)))"
proof -
  let ?s = "w_store (sy_world sy)" and ?pid = "p_id (dj_project job)"
  define d where "d = \<lparr>d_id = 0, d_project_id = ?pid,
          d_target_type = sv_type (dj_server job), d_commit_sha = dj_commit job,
          d_ref = (if dj_rollback job then [] else dj_ref job), d_image_tag = dj_artifact job, d_status = DeployQueued,
          d_trigger = dj_trigger job, d_log = [], d_error = [], d_started_at = now, d_finished_at = 0\<rparr>"
  have dd: "d_project_id d = ?pid" "d_status d = DeployQueued" by (simp_all add: d_def)
  have st: "store_ok (effect (create_deployment d) ?s)"
    using keep_create_deployment[of d] ok by (simp add: ok.keeps_def effect_def sys_ok_def)
  show ?thesis
  proof (rule run_create[of d ?s])
    fix fs e assume r: "run_state (create_deployment d) ?s = (Inl e, ?s\<lparr>st_faults := fs\<rparr>)"
    then show ?thesis
      using ok fresh by (simp add: enqueue_def d_def[symmetric] on_world_eq release_def remove1_last sys_ok_def effect_def
          worker_row_cong[of "?s\<lparr>st_faults := fs\<rparr>" ?s])
  next
    fix fs assume r: "run_state (create_deployment d) ?s = (Inr (st_deploy_seq ?s + 1),
      ?s\<lparr>st_faults := fs, st_deployments := st_deployments ?s @ [d\<lparr>d_id := st_deploy_seq ?s + 1, d_log := [], d_error := [],
        d_finished_at := 0\<rparr>], st_deploy_seq := st_deploy_seq ?s + 1\<rparr>)"
    have old: "worker_row ?s x \<Longrightarrow> worker_row (effect (create_deployment d) ?s) x" for x
      by (simp add: effect_def r worker_row_def)
    have new: "worker_row (effect (create_deployment d) ?s) (Waiting (job\<lparr>dj_id := st_deploy_seq ?s + 1\<rparr>))"
      using dd by (simp add: effect_def r worker_row_def worker_id_def worker_project_def)
    have "list_all (worker_row (effect (create_deployment d) ?s)) (sy_workers sy)"
      using ok old by (auto simp: sys_ok_def list_all_iff)
    then show ?thesis
      using ok fresh st new
      by (simp add: enqueue_def d_def[symmetric] on_world_eq r sys_ok_def worker_project_def)
  qed
qed

lemma trigger_ok: "sys_ok sy \<Longrightarrow> sys_ok (snd (trigger now p srv trig commit ref sy))"
proof -
  assume ok: "sys_ok sy"
  show ?thesis
  proof (cases "p_id p \<in> set (sy_in_flight sy)")
    case True
    then show ?thesis using ok by (simp add: trigger_def)
  next
    case False
    define sy1 where "sy1 = snd (on_world sy (successful_deployments (p_id p) 1))"
    have t: "same_table sy sy1" unfolding sy1_def by (rule same_table_reads(2))
    have fl: "sy_in_flight sy1 = sy_in_flight sy" using t by (simp add: same_table_def)
    have e: "snd (on_world (sy\<lparr>sy_in_flight := f\<rparr>) m) = (snd (on_world sy m))\<lparr>sy_in_flight := f\<rparr>" for f m
      by (simp add: on_world_eq)
    have "sys_ok (snd (enqueue now job (sy1\<lparr>sy_in_flight := sy_in_flight sy @ [p_id p]\<rparr>)))" if "dj_project job = p" for job
      using enqueue_ok[OF same_table_ok[OF t ok], of job now] False fl that by simp
    then show ?thesis
      using False by (simp add: trigger_def Let_def split_def e sy1_def[symmetric])
  qed
qed

lemma rollback_ok: "sys_ok sy \<Longrightarrow> sys_ok (snd (rollback now p srv sy))"
proof -
  assume ok: "sys_ok sy"
  obtain found sy1 where f: "(if is_windows (sv_type srv) then (Inr no_deployment, sy) else previous_successful (p_id p) sy) = (found, sy1)"
    by fastforce
  have t: "same_table sy sy1"
    using f same_table_previous[of sy "p_id p"] by (auto simp: same_table_refl split: if_splits)
  note ok1 = same_table_ok[OF t ok]
  show ?thesis
    using ok1 enqueue_ok[OF ok1, of "rollback_job p srv _" now]
    by (auto simp: rollback_def f rollback_job_def split: sum.split)
qed

end
