(* ===== verification/DeploySafety.thy ===== *)
theory DeploySafety
  imports Concurrency
begin

text \<open>
  What holds in every state deployments can reach side by side: one worker per project, a history
  that only moves forward, and, when no statement fails, no attempt without a worker.
\<close>

section \<open>Other operations and restarts\<close>

definition prunes :: "(deployment \<Rightarrow> bool) \<Rightarrow> bool" where
  "prunes P \<longleftrightarrow> (\<forall>d. P d \<longrightarrow> terminal (d_status d))"

lemma terminal_iff: "terminal st \<longleftrightarrow> st = DeploySuccess \<or> st = DeployFailed"
  by (cases st) (simp_all add: terminal_def less_eq_deploy_status_def status_rank_def)

lemma frame_foreign:
  assumes "foreign_op op" and "\<And>t. op \<noteq> Prune_Deployments t"
  shows "st_deployments (apply_op op s) = st_deployments s \<and> st_deploy_seq (apply_op op s) = st_deploy_seq s"
proof -
  have k: "(\<And>D n. frame.keeps D n m) \<Longrightarrow> st_deployments (effect m s) = st_deployments s \<and> st_deploy_seq (effect m s) = st_deploy_seq s"
    for m :: "'a dbm" by (rule frame_effect)
  show ?thesis
    by (insert assms, cases op; simp only: apply_op.simps foreign_op.simps; (rule k)?)
      ((rule frame_delivery) | (auto simp: store_mutators intro!: frame_intros split: if_splits option.split)[1])+
qed

lemma effect_prune:
  "\<exists>P. prunes P \<and> st_deployments (effect (prune_deployments t) s) = delete_rows P (st_deployments s)
     \<and> st_deploy_seq (effect (prune_deployments t) s) = st_deploy_seq s"
  unfolding prune_deployments_def exec_stmt_def
proof (rule effect_stmt_cases[of "''prune deployments''" "\<lambda>s. Inr ((), s\<lparr>st_deployments := delete_rows (\<lambda>d. d_started_at d < t
         \<and> (d_status d = DeploySuccess \<or> d_status d = DeployFailed)) (st_deployments s)\<rparr>)" s], goal_cases)
  case (1 fs e)
  have "prunes (\<lambda>_. False)" "st_deployments s = delete_rows (\<lambda>_. False) (st_deployments s)"
    by (simp_all add: prunes_def delete_rows_def)
  then show ?case using 1 by (auto simp: effect_def)
next
  case (2 fs x u)
  then show ?case
    by (intro exI[of _ "\<lambda>d. d_started_at d < t \<and> (d_status d = DeploySuccess \<or> d_status d = DeployFailed)"])
      (auto simp: effect_def prunes_def terminal_iff)
qed

lemma foreign_table:
  assumes "foreign_op op"
  shows "\<exists>P. prunes P \<and> st_deployments (apply_op op s) = delete_rows P (st_deployments s)
     \<and> st_deploy_seq (apply_op op s) = st_deploy_seq s"
proof (cases "\<exists>t. op = Prune_Deployments t")
  case True
  then show ?thesis using effect_prune by auto
next
  case False
  then have "st_deployments (apply_op op s) = delete_rows (\<lambda>_. False) (st_deployments s)"
    using frame_foreign[OF assms] by (simp add: delete_rows_def)
  moreover have "prunes (\<lambda>_. False)" by (simp add: prunes_def)
  ultimately show ?thesis using frame_foreign[OF assms] False by blast
qed

lemma other_op_ok:
  assumes "foreign_op op" and "sys_ok sy"
  shows "sys_ok (other_op op sy)"
proof -
  let ?s = "w_store (sy_world sy)"
  obtain P where p: "prunes P" "st_deployments (apply_op op ?s) = delete_rows P (st_deployments ?s)"
    using foreign_table[OF assms(1)] by blast
  have "worker_row (apply_op op ?s) x" if "worker_row ?s x" for x
    using that p status_not_terminal[of x]
    by (auto simp: worker_row_def list_ex_iff delete_rows_def prunes_def)
  then show ?thesis using assms(2) apply_op_ok by (auto simp: sys_ok_def other_op_def list_all_iff)
qed

lemma restart_ok: "sys_ok sy \<Longrightarrow> sys_ok (restart now sy)"
  using keep_fail_interrupted[of now] by (simp add: restart_def on_world_eq sys_ok_def ok.keeps_def effect_def)

lemma sys_step_ok: "sys_step dp sy sy' \<Longrightarrow> sys_ok sy \<Longrightarrow> sys_ok sy'"
  by (induction rule: sys_step.induct) (simp_all add: trigger_ok rollback_ok advance_ok other_op_ok restart_ok)

lemma initial_ok: "sys_ok (initial_system (empty_store codec faults))"
  by (simp add: sys_ok_def initial_system_def empty_store_ok)

lemma sys_reachable_ok: "sys_reachable dp sy \<Longrightarrow> sys_ok sy"
  by (induction rule: sys_reachable.induct) (auto intro: initial_ok sys_step_ok)

subsection \<open>A run of the system\<close>

definition sample_config :: app_config where
  "sample_config = \<lparr>ac_deploy = \<lparr>dc_work_dir = ''/srv/deployments'', dc_iis_work_dir = [], dc_iis_backup_dir = [],
     dc_target_root = [], dc_allow_external = False, dc_nssm_source = [], dc_nssm_sha256 = [], dc_health_timeout = 60,
     dc_health_interval = 2, dc_retention_days = 0, dc_timeout_minutes = 30\<rparr>, ac_install_dir = [],
     ac_proxy_enabled = True, ac_proxy_public_ip = [], ac_public_url = ''https://cc.example''\<rparr>"

definition sample_host :: host where
  "sample_host = (\<lambda>tr c. (''ok'', None))"

definition sample_deployer :: deployer where
  "sample_deployer = \<lparr>dp_cfg = sample_config, dp_secrets = (\<lambda>_. Inr ''key''), dp_local = sample_host,
     dp_dial_winrm = (\<lambda>_ _. Inr sample_host), dp_dial_ssh = (\<lambda>_ _. Inr sample_host), dp_read_file = (\<lambda>_. Inl ''no file''),
     dp_sha256 = (\<lambda>s. s), dp_registrar = (\<lambda>_ _. None), dp_lookup_host = (\<lambda>_. Inr []), dp_notifies = True,
     dp_parse_url = (\<lambda>_. None)\<rparr>"

definition sample_queued :: system where
  "sample_queued = snd (trigger 100 sample_project sample_server ''webhook'' ''abc1234'' ''main'' (initial_system (empty_store None [])))"

definition sample_running :: system where
  "sample_running = advance sample_deployer 101 0 (sy_workers sample_queued ! 0) sample_queued"

lemma sample_phase: "sys_step sample_deployer sample_queued sample_running"
  unfolding sample_running_def by (rule worker_phase) code_simp

lemma sample_queued_reachable: "sys_reachable sample_deployer sample_queued"
  unfolding sample_queued_def by (rule sys_reachable.step[OF boot deploy_request])

text \<open>Without a failing statement an attempt starts.\<close>

lemma start_goes: "sound (w_store w) \<Longrightarrow> fst (run_state (start_job dp job) w)"
  by (auto simp: start_job_def run_bind run_on_store set_deployment_status_def split: prod.split)

lemma advance_waiting:
  assumes "sy_workers sy ! k = Waiting job" and "sound (w_store (sy_world sy))"
  shows "advance dp now k (sy_workers sy ! k) sy = put_worker k (Working job) (snd (run_world (start_job dp job) sy))"
  using start_goes[OF assms(2), of dp job] by (simp add: assms(1) run_world_eq)

definition sample_job :: deploy_job where
  "sample_job = \<lparr>dj_id = 1, dj_project = sample_project, dj_server = sample_server, dj_trigger = ''webhook'',
     dj_commit = ''abc1234'', dj_ref = ''main'', dj_artifact = [], dj_previous_artifact = [], dj_rollback = False\<rparr>"

lemma sample_queued_state:
  "sy_workers sample_queued = [Waiting sample_job]" "sy_in_flight sample_queued = [''web'']"
  "sound (w_store (sy_world sample_queued))" "map d_status (st_deployments (w_store (sy_world sample_queued))) = [DeployQueued]"
  "map d_id (st_deployments (w_store (sy_world sample_queued))) = [1]"
  unfolding sample_job_def by code_simp+

lemma sample_running_state:
  "sy_workers sample_running = [Working sample_job]" "sy_in_flight sample_running = [''web'']"
  "sy_world sample_running = snd (run_state (start_job sample_deployer sample_job) (sy_world sample_queued))"
  using sample_queued_state advance_waiting[of sample_queued 0 sample_job sample_deployer 101]
  by (simp_all add: sample_running_def put_worker_def run_world_eq)

lemma sample_running_status: "map d_status (st_deployments (w_store (sy_world sample_running))) = [DeployRunning]"
proof -
  obtain go w where r: "run_state (start_job sample_deployer sample_job) (sy_world sample_queued) = (go, w)" by fastforce
  then have "go" using start_goes[OF sample_queued_state(3), of sample_deployer sample_job] by simp
  then have "row_step 1 (\<lambda>_ st. st = DeployRunning) (w_store (sy_world sample_queued)) (w_store w)"
    using start_row[OF r] by (simp add: sample_job_def)
  then show ?thesis
    using sample_queued_state(5) r by (auto simp: sample_running_state(3) row_step_def list_all2_Cons1)
qed

text \<open>
  C2: In every reachable state no two workers run for one project, the in-flight guard holds exactly
  the projects that have a worker, every worker's attempt is on record with the status of its phase,
  and the database satisfies its invariant. Failing statements and restarts are included.
\<close>
theorem one_worker_per_project:
  assumes "sys_reachable dp sy"
  shows "distinct (map worker_project (sy_workers sy))
    \<and> set (sy_in_flight sy) = worker_project ` set (sy_workers sy)
    \<and> list_all (worker_row (w_store (sy_world sy))) (sy_workers sy)
    \<and> store_ok (w_store (sy_world sy))"
  using sys_reachable_ok[OF assms] by (simp add: sys_ok_def)

theorem one_worker_per_project_witness:
  "sy_in_flight sample_running = [''web''] \<and> list_all (worker_row (w_store (sy_world sample_running))) (sy_workers sample_running)
    \<and> store_ok (w_store (sy_world sample_running))"
  using one_worker_per_project[OF sys_reachable.step[OF sample_queued_reachable sample_phase]] sample_running_state by simp

section \<open>History only moves forward\<close>

definition history_le :: "store \<Rightarrow> store \<Rightarrow> bool" where
  "history_le s s' \<longleftrightarrow> list_all (\<lambda>d. list_all (\<lambda>d'.
      if d_id d' = d_id d then d_status d \<le> d_status d' \<and> (if terminal (d_status d) then d' = d else same_attempt d d') else True)
    (st_deployments s')) (st_deployments s)"

lemma history_leI:
  "(\<And>d d'. d \<in> set (st_deployments s) \<Longrightarrow> d' \<in> set (st_deployments s') \<Longrightarrow> d_id d' = d_id d \<Longrightarrow>
     d' = d \<or> \<not> terminal (d_status d) \<and> d_status d \<le> d_status d' \<and> same_attempt d d') \<Longrightarrow> history_le s s'"
  by (fastforce simp: history_le_def list_all_iff same_attempt_def)

lemma history_le_subset:
  "store_ok s \<Longrightarrow> set (st_deployments s') \<subseteq> set (st_deployments s) \<Longrightarrow> history_le s s'"
  by (rule history_leI) (metis deploy_ids subsetD)

lemma history_le_append:
  assumes "store_ok s" and "st_deployments s' = st_deployments s @ [row]" and "d_id row = st_deploy_seq s + 1"
  shows "history_le s s'"
proof (rule history_leI)
  fix d d' assume d: "d \<in> set (st_deployments s)" "d' \<in> set (st_deployments s')" "d_id d' = d_id d"
  have "d_id d \<noteq> d_id row"
    using deployments.fresh_id[OF _ d(1), of "st_deploy_seq s"] assms(1,3) by (simp add: store_ok_unfold)
  then have "d' \<in> set (st_deployments s)" using d assms(2) by auto
  then have "d' = d" using deploy_ids[OF assms(1) _ d(1)] d(3) by simp
  then show "d' = d \<or> \<not> terminal (d_status d) \<and> d_status d \<le> d_status d' \<and> same_attempt d d'" ..
qed

lemma history_le_row:
  assumes ok: "store_ok s" and step: "row_step i Q s s'" and x: "worker_row s x" "worker_id x = i"
    and q: "\<And>st. Q (worker_status x) st \<Longrightarrow> worker_status x \<le> st"
  shows "history_le s s'"
proof (rule history_leI)
  fix d d' assume d: "d \<in> set (st_deployments s)" "d' \<in> set (st_deployments s')" "d_id d' = d_id d"
  obtain d0 where d0: "d0 \<in> set (st_deployments s)"
    "if d_id d0 = i then same_attempt d0 d' \<and> Q (d_status d0) (d_status d') else d' = d0"
    using step d(2) by (auto simp: row_step_def list_all2_conv_all_nth in_set_conv_nth) (metis nth_mem)
  then have "d_id d0 = d_id d" using d(3) by (auto simp: same_attempt_def split: if_splits)
  then have e: "d0 = d" using deploy_ids[OF ok d0(1) d(1)] by simp
  show "d' = d \<or> \<not> terminal (d_status d) \<and> d_status d \<le> d_status d' \<and> same_attempt d d'"
  proof (cases "d_id d = i")
    case True
    obtain dx where "dx \<in> set (st_deployments s)" "d_id dx = i" "d_status dx = worker_status x"
      using x by (auto simp: worker_row_def list_ex_iff)
    then have "d_status d = worker_status x" using deploy_ids[OF ok _ d(1)] True by metis
    then show ?thesis using d0(2) e True q status_not_terminal[of x] by auto
  next
    case False
    then show ?thesis using d0(2) e by simp
  qed
qed

lemma history_advance:
  assumes ok: "sys_ok sy" and k: "k < length (sy_workers sy)"
  shows "history_le (w_store (sy_world sy)) (w_store (sy_world (advance dp now k (sy_workers sy ! k) sy)))"
proof -
  let ?w = "sy_world sy"
  have st: "store_ok (w_store ?w)" and row: "worker_row (w_store ?w) (sy_workers sy ! k)"
    using ok k by (auto simp: sys_ok_def list_all_iff)
  have e: "w_store (sy_world (end_worker k sy1)) = w_store (sy_world sy1)" "w_store (sy_world (put_worker k x sy1)) = w_store (sy_world sy1)" for x sy1
    by (simp_all add: end_worker_def put_worker_def release_def)
  show ?thesis
  proof (cases "sy_workers sy ! k")
    case (Waiting job)
    obtain go w1 where r: "run_state (start_job dp job) ?w = (go, w1)" by fastforce
    have "history_le (w_store ?w) (w_store w1)"
      by (rule history_le_row[OF st start_row[OF r] row])
        (auto simp: Waiting worker_id_def less_eq_deploy_status_def status_rank_def split: if_splits)
    then show ?thesis by (simp add: Waiting run_world_eq r e)
  next
    case (Working job)
    obtain job1 res w1 where r: "run_state (work_job dp now job) ?w = ((job1, res), w1)" by (metis prod.exhaust)
    have "history_le (w_store ?w) (w_store w1)"
      by (rule history_le_row[OF st work_row[OF r] row]) (auto simp: Working worker_id_def)
    then show ?thesis by (simp add: Working run_world_eq r e)
  next
    case (Finishing job res)
    have "row_step (dj_id job) active_step (w_store ?w) (w_store (snd (run_state (finish_job dp now job res) ?w)))"
      using own_finish_job[of job dp now res] by (simp add: moves_def)
    then have "history_le (w_store ?w) (w_store (snd (run_state (finish_job dp now job res) ?w)))"
      by (rule history_le_row[OF st _ row]) (auto simp: Finishing worker_id_def active_step_def)
    then show ?thesis by (simp add: Finishing run_world_eq e)
  qed
qed

lemma same_table_history: "same_table sy sy' \<Longrightarrow> store_ok (w_store (sy_world sy)) \<Longrightarrow>
    history_le (w_store (sy_world sy)) (w_store (sy_world sy'))"
  by (rule history_le_subset) (simp_all add: same_table_def)

lemma history_enqueue:
  assumes "store_ok (w_store (sy_world sy))"
  shows "history_le (w_store (sy_world sy)) (w_store (sy_world (snd (enqueue now job sy))))"
proof -
  let ?s = "w_store (sy_world sy)"
  define d where "d = \<lparr>d_id = 0, d_project_id = p_id (dj_project job),
          d_target_type = sv_type (dj_server job), d_commit_sha = dj_commit job,
          d_ref = (if dj_rollback job then [] else dj_ref job), d_image_tag = dj_artifact job, d_status = DeployQueued,
          d_trigger = dj_trigger job, d_log = [], d_error = [], d_started_at = now, d_finished_at = 0\<rparr>"
  have w: "w_store (sy_world (snd (enqueue now job sy))) = effect (create_deployment d) ?s"
    by (simp add: enqueue_def on_world_eq d_def[symmetric] release_def split: sum.split)
  show ?thesis
  proof (rule run_create[of d ?s])
    fix fs e assume "run_state (create_deployment d) ?s = (Inl e, ?s\<lparr>st_faults := fs\<rparr>)"
    then show ?thesis unfolding w by (intro history_le_subset[OF assms]) (simp add: effect_def)
  next
    fix fs assume r: "run_state (create_deployment d) ?s = (Inr (st_deploy_seq ?s + 1),
      ?s\<lparr>st_faults := fs, st_deployments := st_deployments ?s @ [d\<lparr>d_id := st_deploy_seq ?s + 1, d_log := [], d_error := [],
        d_finished_at := 0\<rparr>], st_deploy_seq := st_deploy_seq ?s + 1\<rparr>)"
    show ?thesis unfolding w
      by (rule history_le_append[OF assms, where row = "d\<lparr>d_id := st_deploy_seq ?s + 1, d_log := [], d_error := [], d_finished_at := 0\<rparr>"])
        (simp_all add: effect_def r)
  qed
qed

lemma history_le_cong: "st_deployments s = st_deployments t \<Longrightarrow> history_le s s' = history_le t s'"
  by (simp add: history_le_def)

lemma history_trigger:
  assumes "store_ok (w_store (sy_world sy))"
  shows "history_le (w_store (sy_world sy)) (w_store (sy_world (snd (trigger now p srv trig commit ref sy))))"
proof (cases "p_id p \<in> set (sy_in_flight sy)")
  case True
  then show ?thesis using history_le_subset[OF assms] by (simp add: trigger_def)
next
  case False
  define sy1 where "sy1 = snd (on_world (sy\<lparr>sy_in_flight := sy_in_flight sy @ [p_id p]\<rparr>) (successful_deployments (p_id p) 1))"
  have t: "same_table (sy\<lparr>sy_in_flight := sy_in_flight sy @ [p_id p]\<rparr>) sy1" unfolding sy1_def by (rule same_table_reads(2))
  have "store_ok (w_store (sy_world sy1))" "st_deployments (w_store (sy_world sy1)) = st_deployments (w_store (sy_world sy))"
    using t assms by (simp_all add: same_table_def)
  then have "history_le (w_store (sy_world sy)) (w_store (sy_world (snd (enqueue now job sy1))))" for job
    using history_enqueue[of sy1 now job] history_le_cong by metis
  then show ?thesis using False by (simp add: trigger_def Let_def split_def sy1_def[symmetric])
qed

lemma history_rollback:
  assumes "store_ok (w_store (sy_world sy))"
  shows "history_le (w_store (sy_world sy)) (w_store (sy_world (snd (rollback now p srv sy))))"
proof -
  obtain found sy1 where f: "(if is_windows (sv_type srv) then (Inr no_deployment, sy) else previous_successful (p_id p) sy) = (found, sy1)"
    by fastforce
  have t: "same_table sy sy1"
    using f same_table_previous[of sy "p_id p"] by (auto simp: same_table_refl split: if_splits)
  have d: "store_ok (w_store (sy_world sy1))" "st_deployments (w_store (sy_world sy1)) = st_deployments (w_store (sy_world sy))"
    using t assms by (simp_all add: same_table_def)
  have "history_le (w_store (sy_world sy)) (w_store (sy_world (snd (enqueue now job (sy1\<lparr>sy_in_flight := fl\<rparr>)))))" for job fl
    using history_enqueue[of "sy1\<lparr>sy_in_flight := fl\<rparr>" now job] d history_le_cong[OF d(2)] by simp
  then show ?thesis
    using same_table_history[OF t assms] by (auto simp: rollback_def f split: sum.split)
qed

lemma history_restart:
  assumes "store_ok (w_store (sy_world sy))"
  shows "history_le (w_store (sy_world sy)) (w_store (sy_world (restart now sy)))"
proof -
  let ?s = "w_store (sy_world sy)"
  define f :: "deployment \<Rightarrow> deployment"
    where "f = (\<lambda>d. d\<lparr>d_status := DeployFailed, d_error := interrupted_error, d_finished_at := now\<rparr>)"
  define g :: "store \<Rightarrow> store_error + int \<times> store"
    where "g = (\<lambda>s. Inr (int (length (filter interrupted (st_deployments s))), s\<lparr>st_deployments := update_rows interrupted f (st_deployments s)\<rparr>))"
  have c: "fail_interrupted_deployments now = stmt ''fail interrupted deployments'' g"
    by (simp add: fail_interrupted_deployments_def g_def f_def)
  have w: "w_store (sy_world (restart now sy)) = effect (stmt ''fail interrupted deployments'' g) ?s"
    by (simp add: restart_def on_world_eq c)
  show ?thesis
    unfolding w
  proof (rule effect_stmt_cases[of "''fail interrupted deployments''" g ?s], goal_cases)
    case (1 fs e)
    then show ?case by (intro history_le_subset[OF assms]) (simp add: effect_def)
  next
    case (2 fs x u)
    then have u: "st_deployments u = update_rows interrupted f (st_deployments ?s)" by (auto simp: g_def)
    have "history_le ?s u"
    proof (rule history_leI)
      fix d d' assume d: "d \<in> set (st_deployments ?s)" "d' \<in> set (st_deployments u)" "d_id d' = d_id d"
      obtain d0 where d0: "d0 \<in> set (st_deployments ?s)" "d' = (if interrupted d0 then f d0 else d0)"
        using d(2) by (auto simp: u update_rows_def)
      then have "d0 = d" using deploy_ids[OF assms d0(1) d(1)] d(3) by (auto simp: f_def split: if_splits)
      then show "d' = d \<or> \<not> terminal (d_status d) \<and> d_status d \<le> d_status d' \<and> same_attempt d d'"
        using d0(2) by (auto simp: f_def interrupted_def terminal_iff same_attempt_def less_eq_deploy_status_def status_rank_def)
    qed
    then show ?case using 2 by (simp add: effect_def)
  qed
qed

lemma sys_step_history: "sys_step dp sy sy' \<Longrightarrow> sys_ok sy \<Longrightarrow> history_le (w_store (sy_world sy)) (w_store (sy_world sy'))"
proof (induction rule: sys_step.induct)
  case (other_operation op sy)
  obtain P where "st_deployments (apply_op op (w_store (sy_world sy))) = delete_rows P (st_deployments (w_store (sy_world sy)))"
    using foreign_table[OF other_operation(1)] by blast
  then show ?case
    using other_operation(2) by (intro history_le_subset) (auto simp: other_op_def sys_ok_def delete_rows_def)
qed (simp_all add: sys_ok_def history_trigger history_rollback history_advance[unfolded sys_ok_def] history_restart)

text \<open>
  C5: The record of a deployment only moves forward: no step turns a status back, a finished attempt
  never changes again as long as it is kept, and what identifies an attempt never changes.
\<close>
theorem history_monotone:
  assumes "sys_reachable dp sy" and "sys_step dp sy sy'"
  shows "history_le (w_store (sy_world sy)) (w_store (sy_world sy'))"
  by (rule sys_step_history[OF assms(2) sys_reachable_ok[OF assms(1)]])

theorem history_monotone_witness:
  "history_le (w_store (sy_world sample_queued)) (w_store (sy_world sample_running))
    \<and> map d_status (st_deployments (w_store (sy_world sample_queued))) = [DeployQueued]
    \<and> map d_status (st_deployments (w_store (sy_world sample_running))) = [DeployRunning]"
  using history_monotone[OF sample_queued_reachable sample_phase] sample_queued_state(4) sample_running_status by simp

end
