(* ===== verification/DeployRun.thy ===== *)
theory DeployRun
  imports DeploySafety
begin

text \<open>
  Runs in which no database statement fails: no attempt is ever left behind without its worker, every
  worker comes to an end, and then nothing is unfinished.
\<close>

section \<open>Programs on the database without failures\<close>

definition calm_op :: "'a dbm \<Rightarrow> bool" where
  "calm_op m \<longleftrightarrow> (\<forall>s. sound s \<longrightarrow> sound (snd (run_state m s)))"

lemma calm_stmt: "(\<And>s x t. f s = Inr (x, t) \<Longrightarrow> st_faults t = st_faults s) \<Longrightarrow> calm_op (stmt what f)"
  by (auto simp: calm_op_def run_stmt_sound sound_def split: sum.split) 

lemma calm_exec: "(\<And>s. st_faults (f s) = st_faults s) \<Longrightarrow> calm_op (exec_stmt what f)"
  unfolding exec_stmt_def by (rule calm_stmt) auto

lemma calm_query: "calm_op (query_stmt what f)"
  unfolding query_stmt_def by (rule calm_stmt) auto

lemma calm_pure: "calm_op (db_ok x)" "calm_op (db_fail e)" "calm_op (db_lift r)"
  by (simp_all add: calm_op_def)

lemma calm_then: "calm_op m \<Longrightarrow> (\<And>x. calm_op (k x)) \<Longrightarrow> calm_op (db_then m k)"
  by (fastforce simp: calm_op_def run_db_then split: prod.splits sum.splits)

lemma calm_bind: "calm_op m \<Longrightarrow> (\<And>x. calm_op (k x)) \<Longrightarrow> calm_op (State_Monad.bind m k)"
  by (fastforce simp: calm_op_def run_bind split: prod.splits)

lemma calm_encode: "calm_op (encode_secret name v)"
  by (auto simp: calm_op_def encode_secret_def sound_def split: option.split sum.split)

lemma calm_not_found: "calm_op m \<Longrightarrow> calm_op (or_not_found m)"
  unfolding or_not_found_def by (rule calm_then) (auto intro: calm_pure split: option.split)

lemmas calm_intros = calm_query calm_pure calm_then calm_bind calm_encode calm_not_found calm_exec calm_stmt

lemma delivery_upsert_faults: "st_faults (snd (delivery_upsert t r s)) = st_faults s"
  by (simp add: delivery_upsert_def split: option.split)

lemma calm_inventory:
  "calm_op (upsert_server srv)" "calm_op (upsert_project p)" "calm_op (delete_server i)" "calm_op (delete_project i)"
  unfolding upsert_server_def upsert_project_def delete_server_def delete_project_def Let_def
  by (auto intro!: calm_intros split: option.split)

lemma apply_op_sound: "sound s \<Longrightarrow> sound (apply_op op s)"
proof -
  have k: "calm_op m \<Longrightarrow> sound s \<Longrightarrow> sound (effect m s)" for m :: "'a dbm" and s
    by (simp add: calm_op_def effect_def)
  have "sound s \<Longrightarrow> sound (apply_op op s)"
  proof (cases op)
    case (Record_Delivery a b c d e)
    have "calm_op (record_webhook_delivery a b c d e)"
      unfolding record_webhook_delivery_def
      by (intro calm_intros) (simp, metis delivery_upsert_faults Inr_inject snd_conv)
    then show "sound s \<Longrightarrow> sound (apply_op op s)" by (simp add: Record_Delivery k)
  qed (auto intro!: k calm_intros calm_inventory simp: store_mutators Let_def on_deployment_def split: if_splits option.splits)
  then show "sound s \<Longrightarrow> sound (apply_op op s)" .
qed

section \<open>The phases without failures\<close>

lemma calm_store: "calm_op m \<Longrightarrow> moves (\<lambda>s s'. sound s \<longrightarrow> sound s') (on_store m)"
  by (simp add: moves_def run_on_store calm_op_def effect_def)

lemma calm_status: "calm_op (set_deployment_status i st a)" and calm_finish: "calm_op (finish_deployment i st e t)"
  unfolding set_deployment_status_def finish_deployment_def Let_def
  by (rule calm_exec; simp add: on_deployment_def)+

lemma calm_start: "moves (\<lambda>s s'. sound s \<longrightarrow> sound s') (start_job dp job)"
  unfolding start_job_def
  by (intro calm.moves_bind calm_store[OF calm_status])
    (auto intro!: calm.moves_bind calm.moves_return calm.moves_notify calm.moves_log[OF refl] split: sum.split)

lemma calm_work: "moves (\<lambda>s s'. sound s \<longrightarrow> sound s') (work_job dp now job)"
  by (rule calm.moves_work[OF refl])

lemma calm_fail: "moves (\<lambda>s s'. sound s \<longrightarrow> sound s') (fail_job dp now job e)"
  unfolding fail_job_def Let_def
  by (intro calm.moves_bind calm.moves_log[OF refl] calm_store[OF calm_finish] calm.moves_notify)

lemma calm_succeed: "moves (\<lambda>s s'. sound s \<longrightarrow> sound s') (succeed_job dp now job)"
  unfolding succeed_job_def
  by (intro calm.moves_bind calm.moves_log[OF refl] calm_store[OF calm_finish] calm.moves_notify calm.moves_cleanup[OF refl])

lemma calm_finish_job: "moves (\<lambda>s s'. sound s \<longrightarrow> sound s') (finish_job dp now job r)"
  unfolding finish_job_def
  by (auto intro!: calm.moves_bind calm_fail calm_succeed calm_record calm.moves_register[OF refl] split: sum.split)

lemma calm_moves: "moves (\<lambda>s s'. sound s \<longrightarrow> sound s') m \<Longrightarrow> sound (w_store w) \<Longrightarrow> sound (w_store (snd (run_state m w)))"
  by (simp add: moves_def)

section \<open>Nothing is left behind\<close>

definition attended :: "store \<Rightarrow> worker list \<Rightarrow> bool" where
  "attended s xs \<longleftrightarrow> list_all (\<lambda>d. if terminal (d_status d) then True else d_id d \<in> set (map worker_id xs)) (st_deployments s)"

definition calm_sys :: "system \<Rightarrow> bool" where
  "calm_sys sy \<longleftrightarrow> sys_ok sy \<and> sound (w_store (sy_world sy)) \<and> attended (w_store (sy_world sy)) (sy_workers sy)"

lemma attended_row:
  assumes "row_step i Q s s'" and "attended s xs"
    and "\<And>j. j \<noteq> i \<Longrightarrow> j \<in> set (map worker_id xs) \<Longrightarrow> j \<in> set (map worker_id ys)"
    and "i \<in> set (map worker_id ys) \<or> (\<forall>a b. Q a b \<longrightarrow> terminal b)"
  shows "attended s' ys"
  unfolding attended_def list_all_iff
proof (intro ballI)
  fix d' assume "d' \<in> set (st_deployments s')"
  then obtain d where d: "d \<in> set (st_deployments s)"
    "if d_id d = i then same_attempt d d' \<and> Q (d_status d) (d_status d') else d' = d"
    using assms(1) by (auto simp: row_step_def list_all2_conv_all_nth in_set_conv_nth) (metis nth_mem)
  show "if terminal (d_status d') then True else d_id d' \<in> set (map worker_id ys)"
  proof (cases "d_id d = i")
    case True
    then show ?thesis using d(2) assms(4) by (auto simp: same_attempt_def)
  next
    case False
    then show ?thesis using d assms(2,3) by (auto simp: attended_def list_all_iff)
  qed
qed

lemma attended_subset:
  "attended s xs \<Longrightarrow> set (st_deployments s') \<subseteq> set (st_deployments s) \<Longrightarrow> attended s' xs"
  by (auto simp del: set_map simp: attended_def list_all_iff)

lemma ids_update: "k < length xs \<Longrightarrow> worker_id y = worker_id (xs ! k) \<Longrightarrow> map worker_id (xs[k := y]) = map worker_id xs"
  by (simp add: map_update list_update_same_conv)

lemma in_ids: "k < length xs \<Longrightarrow> worker_id (xs ! k) \<in> set (map worker_id xs)"
  by simp

lemma calm_advance:
  assumes "calm_sys sy" and k: "k < length (sy_workers sy)"
  shows "calm_sys (advance dp now k (sy_workers sy ! k) sy)"
proof -
  let ?w = "sy_world sy" and ?xs = "sy_workers sy"
  have ok: "sys_ok sy" and snd: "sound (w_store ?w)" and att: "attended (w_store ?w) ?xs"
    using assms(1) by (simp_all add: calm_sys_def)
  note keep = advance_ok[OF ok k, of dp now]
  show ?thesis
  proof (cases "?xs ! k")
    case (Waiting job)
    obtain go w1 where r: "run_state (start_job dp job) ?w = (go, w1)" by fastforce
    have go: "go" using start_goes[OF snd, of dp job] r by simp
    have s1: "sound (w_store w1)" using calm_moves[OF calm_start snd, of dp job] r by simp
    have e: "worker_id (Working job) = worker_id (?xs ! k)" "dj_id job = worker_id (?xs ! k)"
      using Waiting by (simp_all add: worker_id_def)
    have "attended (w_store w1) (?xs[k := Working job])"
      by (rule attended_row[OF start_row[OF r] att]) (simp_all only: ids_update[OF k e(1)] e(2) in_ids[OF k] simp_thms)
    then show ?thesis using keep s1 go by (simp add: calm_sys_def Waiting run_world_eq r put_worker_def)
  next
    case (Working job)
    obtain job1 res w1 where r: "run_state (work_job dp now job) ?w = ((job1, res), w1)" by (metis prod.exhaust)
    have id: "dj_id job1 = dj_id job" using work_job_same[OF r] by simp
    have s1: "sound (w_store w1)" using calm_moves[OF calm_work snd, of dp now job] r by simp
    have e: "worker_id (Finishing job1 res) = worker_id (?xs ! k)" "dj_id job = worker_id (?xs ! k)"
      using id Working by (simp_all add: worker_id_def)
    have "attended (w_store w1) (?xs[k := Finishing job1 res])"
      by (rule attended_row[OF work_row[OF r] att]) (simp_all only: ids_update[OF k e(1)] e(2) in_ids[OF k] simp_thms)
    then show ?thesis using keep s1 by (simp add: calm_sys_def Working run_world_eq r put_worker_def)
  next
    case (Finishing job res)
    define w1 where "w1 = snd (run_state (finish_job dp now job res) ?w)"
    have step: "row_step (dj_id job) (\<lambda>_ x. x = final_status dp job res ?w) (w_store ?w) (w_store w1)"
      using finish_final[OF snd] by (simp add: w1_def)
    have t: "terminal (final_status dp job res ?w)"
      by (auto simp: final_status_def terminal_iff split: sum.split prod.split)
    have s1: "sound (w_store w1)" using calm_moves[OF calm_finish_job snd] by (simp add: w1_def)
    have xs: "?xs = take k ?xs @ ?xs ! k # drop (Suc k) ?xs" by (rule nth_split[OF k])
    have "set (map worker_id ?xs) = set (map worker_id (take k ?xs @ ?xs ! k # drop (Suc k) ?xs))"
      using xs by simp
    then have "j \<in> set (map worker_id (take k ?xs @ drop (Suc k) ?xs))"
      if "j \<noteq> dj_id job" "j \<in> set (map worker_id ?xs)" for j
      using that Finishing by (auto simp: worker_id_def)
    then have "attended (w_store w1) (take k ?xs @ drop (Suc k) ?xs)"
      using attended_row[OF step att] t by blast
    then show ?thesis
      using keep s1 by (simp add: calm_sys_def Finishing run_world_eq w1_def[symmetric] end_worker_def release_def)
  qed
qed

section \<open>Requests without failures\<close>

lemma world_same [simp]: "sy\<lparr>sy_world := (sy_world sy)\<lparr>w_store := w_store (sy_world sy)\<rparr>\<rparr> = sy"
  by (cases sy) simp

lemma read_calm:
  assumes "sound (w_store (sy_world sy))"
  shows "on_world sy (query_stmt what f) = (Inr (f (w_store (sy_world sy))), sy)"
  using assms by (simp add: on_world_eq effect_def)

definition new_row :: "int \<Rightarrow> deploy_job \<Rightarrow> store \<Rightarrow> deployment" where
  "new_row now job s = \<lparr>d_id = st_deploy_seq s + 1, d_project_id = p_id (dj_project job), d_target_type = sv_type (dj_server job),
     d_commit_sha = dj_commit job, d_ref = (if dj_rollback job then [] else dj_ref job), d_image_tag = dj_artifact job,
     d_status = DeployQueued, d_trigger = dj_trigger job, d_log = [], d_error = [], d_started_at = now, d_finished_at = 0\<rparr>"

text \<open>The state after a request that was accepted.\<close>

definition queued :: "int \<Rightarrow> deploy_job \<Rightarrow> system \<Rightarrow> system" where
  "queued now job sy = (let s = w_store (sy_world sy) in sy\<lparr>
     sy_world := (sy_world sy)\<lparr>w_store := s\<lparr>st_deployments := st_deployments s @ [new_row now job s], st_deploy_seq := st_deploy_seq s + 1\<rparr>\<rparr>,
     sy_in_flight := sy_in_flight sy @ [p_id (dj_project job)],
     sy_workers := sy_workers sy @ [Waiting (job\<lparr>dj_id := st_deploy_seq s + 1\<rparr>)]\<rparr>)"

lemma enqueue_calm:
  assumes "sound (w_store (sy_world sy))"
  shows "enqueue now job (sy\<lparr>sy_in_flight := sy_in_flight sy @ [p_id (dj_project job)]\<rparr>)
    = (Inr (st_deploy_seq (w_store (sy_world sy)) + 1), queued now job sy)"
  using assms
  by (simp add: enqueue_def on_world_eq effect_def run_create_deployment insert_row_def set_deployment_id_def queued_def
      new_row_def Let_def)

text \<open>A project's attempts, the newest first, in the order of their ids.\<close>

definition attempts :: "string \<Rightarrow> store \<Rightarrow> deployment list" where
  "attempts pid s = rev (filter (\<lambda>d. d_project_id d = pid) (st_deployments s))"

definition succeeded :: "deployment \<Rightarrow> bool" where
  "succeeded d \<longleftrightarrow> d_status d = DeploySuccess"

lemma newest_attempts:
  assumes "store_ok s" and "0 \<le> n"
  shows "newest d_id n (\<lambda>d. d_project_id d = pid) (st_deployments s) = take (nat n) (attempts pid s)"
    and "newest d_id n (\<lambda>d. d_project_id d = pid \<and> d_status d = DeploySuccess) (st_deployments s)
      = take (nat n) (filter succeeded (attempts pid s))"
  using assms
  by (simp_all add: deployments.newest_ok[of "st_deploy_seq s"] store_ok_unfold limit_offset_def attempts_def
      rev_filter succeeded_def conj_commute cong: filter_cong)

definition deploy_job_for :: "project \<Rightarrow> server \<Rightarrow> string \<Rightarrow> string \<Rightarrow> string \<Rightarrow> store \<Rightarrow> deploy_job" where
  "deploy_job_for p srv trig commit ref s = \<lparr>dj_id = 0, dj_project = p, dj_server = srv, dj_trigger = trig, dj_commit = commit,
     dj_ref = ref, dj_artifact = [],
     dj_previous_artifact = (case find succeeded (attempts (p_id p) s) of Some d \<Rightarrow> d_image_tag d | None \<Rightarrow> []), dj_rollback = False\<rparr>"

lemma take_find: "take (Suc 0) (filter P xs) = (case find P xs of Some x \<Rightarrow> [x] | None \<Rightarrow> [])"
  by (induction xs) auto

lemma trigger_calm:
  assumes ok: "store_ok (w_store (sy_world sy))" "sound (w_store (sy_world sy))" and free: "p_id p \<notin> set (sy_in_flight sy)"
  shows "trigger now p srv trig commit ref sy
    = (Inr (st_deploy_seq (w_store (sy_world sy)) + 1), queued now (deploy_job_for p srv trig commit ref (w_store (sy_world sy))) sy)"
proof -
  let ?s = "w_store (sy_world sy)"
  have r: "on_world (sy\<lparr>sy_in_flight := f\<rparr>) (successful_deployments (p_id p) 1)
      = (Inr (take 1 (filter succeeded (attempts (p_id p) ?s))), sy\<lparr>sy_in_flight := f\<rparr>)" for f
    using newest_attempts(2)[OF ok(1), of 1 "p_id p"] ok(2)
    by (simp add: successful_deployments_def read_calm)
  show ?thesis
    using free enqueue_calm[OF ok(2), of now "deploy_job_for p srv trig commit ref ?s"]
    by (simp add: trigger_def r deploy_job_for_def take_find split: option.splits)
qed

text \<open>Which attempt a rollback returns to: the newest success before the newest attempt.\<close>

definition rollback_source :: "string \<Rightarrow> store \<Rightarrow> deployment option" where
  "rollback_source pid s = find succeeded (drop 1 (attempts pid s))"

lemma pick_rollback_source:
  "(case pick_rollback (take 1 xs) (take 2 (filter succeeded xs)) of Inr d \<Rightarrow> Some d | Inl _ \<Rightarrow> None) = find succeeded (drop 1 xs)"
proof (cases xs)
  case (Cons d ys)
  have f: "(case take n (filter succeeded ys) of a # _ \<Rightarrow> Some a | [] \<Rightarrow> None) = (if n = 0 then None else find succeeded ys)" for n
    by (induction ys) (auto split: nat.split simp: take_Cons')
  show ?thesis
  proof (cases "succeeded d")
    case True
    then show ?thesis
      using f[of 1] by (auto simp: Cons pick_rollback_def succeeded_def split: list.splits)
  next
    case False
    then show ?thesis
      using f[of 2] by (auto simp: Cons pick_rollback_def succeeded_def split: list.splits)
  qed
qed (simp add: pick_rollback_def)

text \<open>
  A rollback in a sound state: which attempt it restores, and what it queues.
\<close>

definition rollback_of :: "project \<Rightarrow> server \<Rightarrow> store \<Rightarrow> deployment option" where
  "rollback_of p srv s = (if is_windows (sv_type srv) then Some no_deployment else rollback_source (p_id p) s)"

lemma previous_calm:
  assumes "store_ok (w_store (sy_world sy))" "sound (w_store (sy_world sy))"
  shows "previous_successful pid sy = (pick_rollback (take 1 (attempts pid (w_store (sy_world sy))))
     (take 2 (filter succeeded (attempts pid (w_store (sy_world sy))))), sy)"
  using newest_attempts[OF assms(1), of 1 pid] newest_attempts[OF assms(1), of 2 pid] assms(2)
  by (simp add: previous_successful_def list_deployments_def successful_deployments_def read_calm)

lemma rollback_calm:
  assumes "store_ok (w_store (sy_world sy))" "sound (w_store (sy_world sy))"
  shows "(case rollback_of p srv (w_store (sy_world sy)) of
      None \<Rightarrow> (\<exists>e. rollback now p srv sy = (Inl (No_rollback e), sy))
    | Some prev \<Rightarrow> rollback now p srv sy =
        (if p_id p \<in> set (sy_in_flight sy) then (Inl ErrDeployInProgress, sy)
         else (Inr (st_deploy_seq (w_store (sy_world sy)) + 1), queued now (rollback_job p srv prev) sy)))"
proof -
  let ?s = "w_store (sy_world sy)"
  have q: "enqueue now (rollback_job p srv prev) (sy\<lparr>sy_in_flight := sy_in_flight sy @ [p_id p]\<rparr>)
      = (Inr (st_deploy_seq ?s + 1), queued now (rollback_job p srv prev) sy)" for prev
    using enqueue_calm[OF assms(2), of now "rollback_job p srv prev"] by (simp add: rollback_job_def)
  have n: "\<exists>m. e = No_rollback m" if "pick_rollback a b = Inl e" for a b e
    using that by (auto simp: pick_rollback_def Let_def split: list.splits if_splits)
  show ?thesis
  proof (cases "is_windows (sv_type srv)")
    case True
    then show ?thesis by (simp add: rollback_of_def rollback_def q)
  next
    case False
    show ?thesis
      using pick_rollback_source[of "attempts (p_id p) ?s"] n False
      by (auto simp: rollback_of_def rollback_source_def rollback_def previous_calm[OF assms] q split: sum.splits option.splits) metis+
  qed
qed


section \<open>Every step\<close>

lemma attended_queued: "attended s xs \<Longrightarrow> attended (s\<lparr>st_deployments := st_deployments s @ [d], st_deploy_seq := n\<rparr>) (xs @ [x])"
  if "worker_id x = d_id d"
  using that by (auto simp: attended_def list_all_iff)

lemma sound_queued: "sound (w_store (sy_world sy)) \<Longrightarrow> sound (w_store (sy_world (queued now job sy)))"
  by (simp add: queued_def Let_def)

lemma attended_queue:
  "attended (w_store (sy_world sy)) (sy_workers sy) \<Longrightarrow> attended (w_store (sy_world (queued now job sy))) (sy_workers (queued now job sy))"
  by (auto simp: queued_def Let_def new_row_def worker_id_def intro!: attended_queued)

lemma calm_trigger: "calm_sys sy \<Longrightarrow> calm_sys (snd (trigger now p srv trig commit ref sy))"
  using trigger_ok[of sy now p srv trig commit ref] trigger_calm[of sy p now srv trig commit ref]
    sound_queued[of sy] attended_queue[of sy]
  by (cases "p_id p \<in> set (sy_in_flight sy)") (simp_all add: calm_sys_def sys_ok_def trigger_def)

lemma calm_rollback: "calm_sys sy \<Longrightarrow> calm_sys (snd (rollback now p srv sy))"
  using rollback_ok[of sy now p srv] rollback_calm[of sy now p srv] sound_queued[of sy] attended_queue[of sy]
  by (auto simp: calm_sys_def sys_ok_def split: option.splits if_splits)

lemma calm_other: "calm_sys sy \<Longrightarrow> foreign_op op \<Longrightarrow> calm_sys (other_op op sy)"
proof -
  assume a: "calm_sys sy" "foreign_op op"
  let ?s = "w_store (sy_world sy)"
  have "set (st_deployments (apply_op op ?s)) \<subseteq> set (st_deployments ?s)"
    using foreign_table[OF a(2), of ?s] by (auto simp: delete_rows_def)
  then have "attended (apply_op op ?s) (sy_workers sy)"
    using a(1) attended_subset[of ?s _ "apply_op op ?s"] by (simp add: calm_sys_def)
  then show ?thesis
    using a other_op_ok[OF a(2)] apply_op_sound by (simp add: calm_sys_def other_op_def)
qed

lemma run_interrupted:
  "sound s \<Longrightarrow> effect (fail_interrupted_deployments now) s = s\<lparr>st_deployments := update_rows interrupted
     (\<lambda>d. d\<lparr>d_status := DeployFailed, d_error := interrupted_error, d_finished_at := now\<rparr>) (st_deployments s)\<rparr>"
  by (simp add: effect_def fail_interrupted_deployments_def run_stmt_sound)

lemma calm_restart: "calm_sys sy \<Longrightarrow> calm_sys (restart now sy)"
proof -
  assume a: "calm_sys sy"
  have "terminal (d_status d)" if "d \<in> set (update_rows interrupted (\<lambda>d. d\<lparr>d_status := DeployFailed, d_error := interrupted_error,
      d_finished_at := now\<rparr>) ds)" for d ds
    using that by (auto simp: update_rows_def interrupted_def terminal_iff split: if_splits) (metis deploy_status.exhaust)
  then show ?thesis
    using a restart_ok[of sy now]
    by (simp add: calm_sys_def restart_def on_world_eq run_interrupted attended_def list_all_iff sound_def)
qed

lemma calm_step: "sys_step dp sy sy' \<Longrightarrow> calm_sys sy \<Longrightarrow> calm_sys sy'"
  by (induction rule: sys_step.induct) (simp_all add: calm_trigger calm_rollback calm_advance calm_other calm_restart)

lemma calm_initial: "calm_sys (initial_system (empty_store codec []))"
  using initial_ok[of codec "[]"] by (simp add: calm_sys_def initial_system_def empty_store_def sound_def attended_def)

lemma calm_run: "(sys_step dp)\<^sup>*\<^sup>* (initial_system (empty_store codec [])) sy \<Longrightarrow> calm_sys sy"
  by (induction rule: rtranclp_induct) (auto intro: calm_initial calm_step)


section \<open>The theorems\<close>

lemma unfinished_worker:
  assumes "calm_sys sy" and "d \<in> set (st_deployments (w_store (sy_world sy)))" and "interrupted d"
  obtains x where "x \<in> set (sy_workers sy)" "worker_id x = d_id d" "worker_project x = d_project_id d"
proof -
  have "\<not> terminal (d_status d)" using assms(3) by (auto simp: interrupted_def terminal_iff)
  then have "d_id d \<in> set (map worker_id (sy_workers sy))"
    using assms(1,2) by (auto simp: calm_sys_def attended_def list_all_iff simp del: set_map)
  then obtain x where x: "x \<in> set (sy_workers sy)" "worker_id x = d_id d" by auto
  have "worker_row (w_store (sy_world sy)) x" using assms(1) x(1) by (auto simp: calm_sys_def sys_ok_def list_all_iff)
  then obtain d' where d': "d' \<in> set (st_deployments (w_store (sy_world sy)))" "d_id d' = worker_id x" "d_project_id d' = worker_project x"
    by (auto simp: worker_row_def list_ex_iff)
  have "d' = d" using deploy_ids[OF _ d'(1) assms(2)] d'(2) x(2) assms(1) by (simp add: calm_sys_def sys_ok_def)
  then show thesis using that x d'(3) by simp
qed

lemma worker_unique: "sys_ok sy \<Longrightarrow> x \<in> set (sy_workers sy) \<Longrightarrow> y \<in> set (sy_workers sy) \<Longrightarrow> worker_project x = worker_project y \<Longrightarrow> x = y"
  by (auto simp: sys_ok_def distinct_map dest: inj_onD)

lemma unfinished_distinct:
  assumes "calm_sys sy"
  shows "distinct (map d_project_id (filter interrupted (st_deployments (w_store (sy_world sy)))))"
proof -
  let ?ds = "st_deployments (w_store (sy_world sy))"
  have ok: "sys_ok sy" using assms by (simp add: calm_sys_def)
  have "rows_ok d_id (st_deploy_seq (w_store (sy_world sy))) ?ds" using ok by (simp add: sys_ok_def store_ok_unfold)
  then have "distinct ?ds"
    using strict_sorted_iff distinct_map by (auto simp: rows_ok_def)
  moreover have "d = d'" if d: "d \<in> set ?ds" "interrupted d" and d': "d' \<in> set ?ds" "interrupted d'"
    and e: "d_project_id d = d_project_id d'" for d d'
  proof -
    obtain x where x: "x \<in> set (sy_workers sy)" "worker_id x = d_id d" "worker_project x = d_project_id d"
      by (rule unfinished_worker[OF assms d])
    obtain y where y: "y \<in> set (sy_workers sy)" "worker_id y = d_id d'" "worker_project y = d_project_id d'"
      by (rule unfinished_worker[OF assms d'])
    have "x = y" using worker_unique[OF ok x(1) y(1)] x(3) y(3) e by simp
    then have "d_id d = d_id d'" using x(2) y(2) by simp
    then show ?thesis using deploy_ids[OF _ d(1) d'(1)] ok by (simp add: sys_ok_def)
  qed
  ultimately show ?thesis by (auto simp: distinct_map inj_on_def)
qed

text \<open>
  C3: As long as no statement fails, every unfinished attempt of the history belongs to a running
  worker, and no project has two unfinished attempts.
\<close>
theorem no_attempt_left_behind:
  assumes "(sys_step dp)\<^sup>*\<^sup>* (initial_system (empty_store codec [])) sy"
  shows "set (map d_id (filter interrupted (st_deployments (w_store (sy_world sy))))) \<subseteq> set (map worker_id (sy_workers sy))
    \<and> distinct (map d_project_id (filter interrupted (st_deployments (w_store (sy_world sy)))))"
proof -
  have c: "calm_sys sy" by (rule calm_run[OF assms])
  have "d_id d \<in> set (map worker_id (sy_workers sy))"
    if "d \<in> set (st_deployments (w_store (sy_world sy)))" "interrupted d" for d
    using unfinished_worker[OF c that] by (metis image_eqI set_map)
  then show ?thesis using unfinished_distinct[OF c] by auto
qed

theorem no_attempt_left_behind_witness:
  "set (map d_id (filter interrupted (st_deployments (w_store (sy_world sample_running))))) \<subseteq> {1}
    \<and> distinct (map d_project_id (filter interrupted (st_deployments (w_store (sy_world sample_running)))))"
proof -
  have q: "(sys_step sample_deployer)\<^sup>*\<^sup>* (initial_system (empty_store None [])) sample_queued"
    unfolding sample_queued_def by (rule r_into_rtranclp, rule deploy_request)
  have r: "(sys_step sample_deployer)\<^sup>*\<^sup>* (initial_system (empty_store None [])) sample_running"
    by (rule rtranclp.rtrancl_into_rtrancl[OF q sample_phase])
  show ?thesis
    using no_attempt_left_behind[OF r] sample_running_state by (simp add: worker_id_def sample_job_def)
qed

subsection \<open>Every worker comes to an end\<close>

fun phases_left :: "worker \<Rightarrow> nat" where
  "phases_left (Waiting _) = 3"
| "phases_left (Working _) = 2"
| "phases_left (Finishing _ _) = 1"

definition pending :: "system \<Rightarrow> nat" where
  "pending sy = sum_list (map phases_left (sy_workers sy))"

lemma phases_left_pos: "0 < phases_left x"
  by (cases x) simp_all

lemma pending_put:
  "k < length (sy_workers sy) \<Longrightarrow> phases_left y < phases_left (sy_workers sy ! k) \<Longrightarrow> pending (put_worker k y sy) < pending sy"
proof -
  assume k: "k < length (sy_workers sy)" and l: "phases_left y < phases_left (sy_workers sy ! k)"
  let ?xs = "sy_workers sy"
  have "?xs[k := y] = take k ?xs @ y # drop (Suc k) ?xs" using k by (rule upd_conv_take_nth_drop)
  moreover have "?xs = take k ?xs @ ?xs ! k # drop (Suc k) ?xs" using k by (rule nth_split)
  then have "sum_list (map phases_left ?xs) = sum_list (map phases_left (take k ?xs @ ?xs ! k # drop (Suc k) ?xs))" by simp
  ultimately show ?thesis using l by (simp add: pending_def put_worker_def)
qed

lemma pending_end: "k < length (sy_workers sy) \<Longrightarrow> pending (end_worker k sy) < pending sy"
proof -
  assume k: "k < length (sy_workers sy)"
  let ?xs = "sy_workers sy"
  have "?xs = take k ?xs @ ?xs ! k # drop (Suc k) ?xs" using k by (rule nth_split)
  then have "sum_list (map phases_left ?xs) = sum_list (map phases_left (take k ?xs @ ?xs ! k # drop (Suc k) ?xs))" by simp
  then show ?thesis using phases_left_pos[of "?xs ! k"] by (simp add: pending_def end_worker_def release_def)
qed

lemma pending_world [simp]: "pending (sy\<lparr>sy_world := w\<rparr>) = pending sy"
  by (simp add: pending_def)

lemma pending_advance:
  assumes "k < length (sy_workers sy)"
  shows "pending (advance dp now k (sy_workers sy ! k) sy) < pending sy"
proof -
  have p: "pending (put_worker k y (sy\<lparr>sy_world := w\<rparr>)) < pending sy" if "phases_left y < phases_left (sy_workers sy ! k)" for y w
    using pending_put[of k "sy\<lparr>sy_world := w\<rparr>" y] assms that by simp
  have e: "pending (end_worker k (sy\<lparr>sy_world := w\<rparr>)) < pending sy" for w
    using pending_end[of k "sy\<lparr>sy_world := w\<rparr>"] assms by simp
  show ?thesis
    by (cases "sy_workers sy ! k") (auto simp: run_world_eq p e split: prod.split)
qed

text \<open>An arbitrary order in which the workers take their phases, each with its own time.\<close>

fun schedule :: "deployer \<Rightarrow> (int \<times> nat) list \<Rightarrow> system \<Rightarrow> system" where
  "schedule dp [] sy = sy"
| "schedule dp ((now, k) # ks) sy =
     (if sy_workers sy = [] then sy
      else (let i = k mod length (sy_workers sy) in schedule dp ks (advance dp now i (sy_workers sy ! i) sy)))"

lemma schedule_ok: "sys_ok sy \<Longrightarrow> sys_ok (schedule dp ks sy)"
  by (induction dp ks sy rule: schedule.induct) (auto simp: Let_def advance_ok)

lemma schedule_done: "pending sy \<le> length ks \<Longrightarrow> sy_workers (schedule dp ks sy) = []"
proof (induction dp ks sy rule: schedule.induct)
  case (1 dp sy)
  then show ?case
    using phases_left_pos[of "hd (sy_workers sy)"] by (cases "sy_workers sy") (auto simp: pending_def)
next
  case (2 dp now k ks sy)
  show ?case
  proof (cases "sy_workers sy = []")
    case False
    let ?i = "k mod length (sy_workers sy)"
    have "pending (advance dp now ?i (sy_workers sy ! ?i) sy) < pending sy" using False by (intro pending_advance) simp
    then show ?thesis using 2 False by (simp add: Let_def)
  qed simp
qed



subsection \<open>Requests\<close>

text \<open>
  C8: A deployment request on a database that answers is refused exactly when the project is in
  flight; otherwise a queued attempt is recorded and handed to one new worker, with the artifact of
  the newest success of the project to fall back on.
\<close>
theorem deploy_request_outcome:
  assumes "store_ok (w_store (sy_world sy))" and "sound (w_store (sy_world sy))"
  shows "trigger now p srv trig commit ref sy =
    (if p_id p \<in> set (sy_in_flight sy) then (Inl ErrDeployInProgress, sy)
     else (Inr (st_deploy_seq (w_store (sy_world sy)) + 1),
       queued now (deploy_job_for p srv trig commit ref (w_store (sy_world sy))) sy))"
  using trigger_calm[OF assms] by (simp add: trigger_def)

theorem deploy_request_outcome_witness:
  "trigger 200 sample_project sample_server ''api'' [] ''main'' sample_queued = (Inl ErrDeployInProgress, sample_queued)"
proof -
  have "store_ok (w_store (sy_world sample_queued))"
    using sys_reachable_ok[OF sample_queued_reachable] by (simp add: sys_ok_def)
  moreover have "p_id sample_project \<in> set (sy_in_flight sample_queued)"
    unfolding sample_queued_state(2) by code_simp
  ultimately show ?thesis
    by (subst deploy_request_outcome[OF _ sample_queued_state(3)]) simp_all
qed

text \<open>
  C9: A rollback restores the newest successful attempt older than the newest attempt of the project
  (on a Windows target whatever backup the target finds), is refused when there is none, and otherwise
  like a deployment when the project is in flight.
\<close>
theorem rollback_request_outcome:
  assumes "store_ok (w_store (sy_world sy))" and "sound (w_store (sy_world sy))"
  shows "case rollback_of p srv (w_store (sy_world sy)) of
      None \<Rightarrow> (\<exists>e. rollback now p srv sy = (Inl (No_rollback e), sy))
    | Some prev \<Rightarrow> rollback now p srv sy =
        (if p_id p \<in> set (sy_in_flight sy) then (Inl ErrDeployInProgress, sy)
         else (Inr (st_deploy_seq (w_store (sy_world sy)) + 1), queued now (rollback_job p srv prev) sy))"
  by (rule rollback_calm[OF assms])

theorem rollback_request_outcome_witness:
  "\<exists>e. rollback 200 sample_project sample_server sample_queued = (Inl (No_rollback e), sample_queued)"
proof -
  have "store_ok (w_store (sy_world sample_queued))"
    using sys_reachable_ok[OF sample_queued_reachable] by (simp add: sys_ok_def)
  moreover have "rollback_of sample_project sample_server (w_store (sy_world sample_queued)) = None" by code_simp
  ultimately show ?thesis
    using rollback_request_outcome[OF _ sample_queued_state(3), of 200 sample_project sample_server] by simp
qed

end
