(* ===== verification/DeploySpec.thy ===== *)
theory DeploySpec
  imports DeployRun "HOL-Library.Code_Target_Nat"
begin

text \<open>
  What one deployment leaves behind: the outcome in its row, the calls of the reverse proxy in order,
  the audit of its remote commands, and that none of its secrets reaches the database.
\<close>

section \<open>The dispatch of targets\<close>

interpretation dispatch: target "target_deploy ty" "target_rollback ty" for ty
  by unfold_locales
    (auto simp: target_deploy_def target_rollback_def
      intro: iis.deploy_audited iis.rollback_audited winsvc.deploy_audited winsvc.rollback_audited
        docker.deploy_audited docker.rollback_audited iis.deploy_discreet iis.rollback_discreet
        winsvc.deploy_discreet winsvc.rollback_discreet docker.deploy_discreet docker.rollback_discreet
        iis.deploy_bad_id iis.rollback_bad_id winsvc.deploy_bad_id winsvc.rollback_bad_id
        docker.deploy_bad_id docker.rollback_bad_id)

lemma run_on_target_eq:
  "run_on_target now env job = run_pipeline now (dj_id job) (dispatch.run_target (sv_type (dj_server job)) env (job_ctx job) job)"
  by (simp add: run_on_target_def dispatch.run_target_def)

section \<open>The calls of the reverse proxy\<close>

definition silent :: "'a wd \<Rightarrow> bool" where
  "silent m \<longleftrightarrow> (\<forall>w. w_proxy (snd (run_state m w)) = w_proxy w)"

lemma silent_return: "silent (State_Monad.return x)"
  by (simp add: silent_def)

lemma silent_bind: "silent m \<Longrightarrow> (\<And>x. silent (k x)) \<Longrightarrow> silent (State_Monad.bind m k)"
  by (simp add: silent_def run_bind split_def)

lemma silent_store: "silent (on_store m)"
  by (simp add: silent_def run_on_store)

lemma silent_log: "silent (log_line i l)"
  unfolding log_line_def by (intro silent_bind silent_store silent_return)

lemma silent_notify: "silent (notify dp job st e)"
  by (simp add: silent_def notify_def Let_def)

lemma silent_pipeline: "silent (run_pipeline now i m)"
  by (simp add: silent_def run_pipeline_def split_def Let_def)

lemmas silent_intros = silent_return silent_bind silent_store silent_log silent_notify silent_pipeline

lemma silent_warn: "silent (warn_if_domain_not_pointed_here dp i ip d)"
  by (auto simp: warn_if_domain_not_pointed_here_def intro!: silent_intros split: sum.split)

lemma silent_fail: "silent (fail_job dp now job e)"
  unfolding fail_job_def Let_def by (intro silent_intros)

lemma silent_start: "silent (start_job dp job)"
  unfolding start_job_def by (auto intro!: silent_intros split: sum.split)

lemma silent_work: "silent (work_job dp now job)"
  by (auto simp: work_job_def run_on_target_def resolve_shared_vars_def Let_def intro!: silent_intros split: sum.split)

definition call_all :: "deployer \<Rightarrow> proxy_call list \<Rightarrow> (proxy_call \<times> string option) list \<Rightarrow> (proxy_call \<times> string option) list" where
  "call_all dp calls ps = foldl (\<lambda>ps c. ps @ [(c, dp_registrar dp ps c)]) ps calls"

lemma call_all_simps [simp]:
  "call_all dp [] ps = ps"
  "call_all dp (c # cs) ps = call_all dp cs (ps @ [(c, dp_registrar dp ps c)])"
  by (simp_all add: call_all_def)

lemma call_all_append: "call_all dp (a @ b) ps = call_all dp b (call_all dp a ps)"
  by (simp add: call_all_def)

definition calls :: "deployer \<Rightarrow> proxy_call list \<Rightarrow> 'a wd \<Rightarrow> bool" where
  "calls dp cs m \<longleftrightarrow> (\<forall>w. w_proxy (snd (run_state m w)) = call_all dp cs (w_proxy w))"

lemma calls_silent: "silent m \<Longrightarrow> calls dp [] m"
  by (simp add: silent_def calls_def)

lemma calls_bind: "calls dp a m \<Longrightarrow> (\<And>x. calls dp b (k x)) \<Longrightarrow> calls dp (a @ b) (State_Monad.bind m k)"
  by (simp add: calls_def run_bind split_def call_all_append)

lemma calls_call: "calls dp [c] (call_proxy dp c)"
  by (simp add: calls_def call_proxy_def Let_def)

lemma calls_cleanup: "calls dp (map Deregister ds) (cleanup_domains dp job ds)"
proof (induction ds)
  case (Cons d ds)
  have "calls dp ([Deregister d] @ [] @ map Deregister ds) (cleanup_domains dp job (d # ds))"
    unfolding cleanup_domains.simps
    by (intro calls_bind calls_call Cons.IH)
      (auto intro!: calls_silent silent_intros split: option.split sum.split)
  then show ?case by simp
qed (simp add: calls_silent silent_return)

text \<open>Whether the route of a deployment is in place, given the calls made so far.\<close>

definition routed :: "deployer \<Rightarrow> deploy_job \<Rightarrow> bool" where
  "routed dp job \<longleftrightarrow> p_domain (dj_project job) \<noteq> [] \<and> ac_proxy_enabled (dp_cfg dp)"

definition route_ok :: "deployer \<Rightarrow> deploy_job \<Rightarrow> (proxy_call \<times> string option) list \<Rightarrow> bool" where
  "route_ok dp job ps \<longleftrightarrow> \<not> routed dp job \<or> target_host (dp_parse_url dp) (dj_server job) \<noteq> []
     \<and> dp_registrar dp ps (Register (p_domain (dj_project job)) (upstream_of dp job)) = None"

definition route_calls :: "deployer \<Rightarrow> deploy_job \<Rightarrow> proxy_call list" where
  "route_calls dp job = (if routed dp job \<and> target_host (dp_parse_url dp) (dj_server job) \<noteq> []
     then [Register (p_domain (dj_project job)) (upstream_of dp job)] else [])"

lemma register_outcome:
  "fst (run_state (register_proxy dp job) w) = Inr () \<longleftrightarrow> route_ok dp job (w_proxy w)"
  "w_proxy (snd (run_state (register_proxy dp job) w)) = call_all dp (route_calls dp job) (w_proxy w)"
proof -
  have l: "w_proxy (snd (run_state (log_line i l) u)) = w_proxy u" for i l u
    using silent_log by (simp add: silent_def)
  have v: "w_proxy (snd (run_state (warn_if_domain_not_pointed_here dp i ip d) u)) = w_proxy u" for i ip d u
    using silent_warn by (simp add: silent_def)
  show "fst (run_state (register_proxy dp job) w) = Inr () \<longleftrightarrow> route_ok dp job (w_proxy w)"
    by (auto simp: register_proxy_def Let_def run_bind route_ok_def routed_def call_proxy_def split_def split: option.split)
  show "w_proxy (snd (run_state (register_proxy dp job) w)) = call_all dp (route_calls dp job) (w_proxy w)"
    by (auto simp: register_proxy_def Let_def run_bind route_calls_def routed_def call_proxy_def l v split_def split: option.split)
qed

text \<open>The rows of the retired domains are left alone by what precedes the clean-up.\<close>

interpretation retired_frame: store_invariant "\<lambda>s. st_retired s = R" for R
  by unfold_locales simp_all

lemma retired_effect: "(\<And>R. retired_frame.keeps R m) \<Longrightarrow> st_retired (effect m s) = st_retired s"
  unfolding retired_frame.keeps_def effect_def by blast

lemma retired_keep:
  "retired_frame.keeps R (set_deployment_status i st a)" "retired_frame.keeps R (append_deployment_log i l)"
  unfolding set_deployment_status_def append_deployment_log_def Let_def
  by (auto intro!: retired_frame.keeps_intros retired_frame.keeps_exec simp: on_deployment_def split: option.split)

lemmas retired_effects = retired_keep[THEN retired_effect]

definition same_retired :: "'a wd \<Rightarrow> bool" where
  "same_retired m \<longleftrightarrow> (\<forall>w. st_retired (w_store (snd (run_state m w))) = st_retired (w_store w))"

lemma same_retired_bind: "same_retired m \<Longrightarrow> (\<And>x. same_retired (k x)) \<Longrightarrow> same_retired (State_Monad.bind m k)"
  by (simp add: same_retired_def run_bind split_def)

lemma same_retired_intros:
  "same_retired (State_Monad.return x)" "same_retired (log_line i l)" "same_retired (call_proxy dp c)"
  by (simp_all add: same_retired_def log_line_def run_bind run_on_store split_def retired_effects call_proxy_def Let_def)

lemma same_retired_register: "same_retired (register_proxy dp job)"
  by (auto simp: register_proxy_def warn_if_domain_not_pointed_here_def Let_def
      intro!: same_retired_bind same_retired_intros split: option.split sum.split)

definition retired_domains :: "string \<Rightarrow> store \<Rightarrow> string list" where
  "retired_domains pid s = sort (map rd_domain (filter (\<lambda>r. rd_project_id r = pid) (st_retired s)))"

definition cleanup_calls :: "deployer \<Rightarrow> deploy_job \<Rightarrow> store \<Rightarrow> proxy_call list" where
  "cleanup_calls dp job s = (if ac_proxy_enabled (dp_cfg dp) then map Deregister (retired_domains (p_id (dj_project job)) s) else [])"

lemma succeed_calls:
  assumes "sound (w_store w)"
  shows "w_proxy (snd (run_state (succeed_job dp now job) w)) = call_all dp (cleanup_calls dp job (w_store w)) (w_proxy w)"
proof -
  have rest: "silent (do { _ \<leftarrow> log_line i l; _ \<leftarrow> on_store m; notify dp job st e })" for i l st e and m :: "unit dbm"
    by (intro silent_intros)
  have "w_proxy (snd (run_state (cleanup_retired_proxy dp job) w)) = call_all dp (cleanup_calls dp job (w_store w)) (w_proxy w)"
    using assms calls_cleanup[of dp "retired_domains (p_id (dj_project job)) (w_store w)" job]
    by (simp add: cleanup_retired_proxy_def cleanup_calls_def run_bind run_on_store list_retired_proxy_domains_def
        retired_domains_def effect_def calls_def)
  then show ?thesis
    using rest unfolding succeed_job_def silent_def by (simp add: run_bind[of "cleanup_retired_proxy dp job"] split_def)
qed

section \<open>The outcome of a deployment\<close>

lemma record_artifact_run:
  assumes "run_state (record_artifact job a) w = (job1, w1)"
  shows "dj_project job1 = dj_project job" "dj_server job1 = dj_server job" "dj_id job1 = dj_id job"
    "w_proxy w1 = w_proxy w" "st_retired (w_store w1) = st_retired (w_store w)"
  using assms by (auto simp: record_artifact_def run_bind run_on_store split_def retired_effects split: if_splits)

lemma route_same:
  assumes "dj_project job1 = dj_project job" and "dj_server job1 = dj_server job"
  shows "route_ok dp job1 = route_ok dp job" "route_calls dp job1 = route_calls dp job"
    "cleanup_calls dp job1 = cleanup_calls dp job"
  using assms by (simp_all add: route_ok_def route_calls_def routed_def upstream_of_def cleanup_calls_def fun_eq_iff)

definition outcome_status :: "deployer \<Rightarrow> deploy_job \<Rightarrow> string res \<Rightarrow> world \<Rightarrow> deploy_status" where
  "outcome_status dp job r w =
     (case r of Inl _ \<Rightarrow> DeployFailed | Inr _ \<Rightarrow> if route_ok dp job (w_proxy w) then DeploySuccess else DeployFailed)"

lemma final_outcome: "final_status dp job r w = outcome_status dp job r w"
proof (cases r)
  case (Inr a)
  obtain job1 w1 where a: "run_state (record_artifact job a) w = (job1, w1)" by fastforce
  note same = record_artifact_run[OF a]
  have "registered dp job1 w1 = route_ok dp job (w_proxy w)"
    using register_outcome(1)[of dp job1 w1] route_same(1)[OF same(1,2)] same(4)
    by (auto simp: registered_def split: sum.splits)
  then show ?thesis using Inr a by (simp add: final_status_def outcome_status_def)
qed (simp add: final_status_def outcome_status_def)

definition outcome_calls :: "deployer \<Rightarrow> deploy_job \<Rightarrow> string res \<Rightarrow> world \<Rightarrow> proxy_call list" where
  "outcome_calls dp job r w =
     (case r of Inl _ \<Rightarrow> []
      | Inr _ \<Rightarrow> route_calls dp job @ (if route_ok dp job (w_proxy w) then cleanup_calls dp job (w_store w) else []))"

lemma finish_calls:
  assumes "sound (w_store w)"
  shows "w_proxy (snd (run_state (finish_job dp now job r) w)) = call_all dp (outcome_calls dp job r w) (w_proxy w)"
proof (cases r)
  case (Inl e)
  then show ?thesis using silent_fail by (simp add: finish_job_def outcome_calls_def silent_def)
next
  case (Inr a)
  obtain job1 w1 where a: "run_state (record_artifact job a) w = (job1, w1)" by fastforce
  note same = record_artifact_run[OF a]
  obtain out w2 where o: "run_state (register_proxy dp job1) w1 = (out, w2)" by fastforce
  have "sound (w_store w1)" using calm_moves[OF calm_record assms, of job a] a by simp
  then have s2: "sound (w_store w2)" using calm_moves[OF calm.moves_register[OF refl], of w1 dp job1] o by simp
  have ret: "st_retired (w_store w2) = st_retired (w_store w)"
    using same_retired_register[of dp job1, unfolded same_retired_def, rule_format, of w1] o same(5) by simp
  have c: "w_proxy w2 = call_all dp (route_calls dp job) (w_proxy w)"
    using register_outcome(2)[of dp job1 w1] o route_same(2)[OF same(1,2)] same(4) by simp
  have k: "out = Inr () \<longleftrightarrow> route_ok dp job (w_proxy w)"
    using register_outcome(1)[of dp job1 w1] o route_same(1)[OF same(1,2)] same(4) by simp
  have cl: "cleanup_calls dp job1 (w_store w2) = cleanup_calls dp job (w_store w)"
    using ret same(1) by (simp add: cleanup_calls_def retired_domains_def)
  have f: "w_proxy (snd (run_state (fail_job dp now job1 e) w2)) = w_proxy w2" for e
    using silent_fail by (simp add: silent_def)
  show ?thesis
  proof (cases out)
    case (Inl e)
    then show ?thesis using k f c by (simp add: Inr finish_job_def run_bind a o outcome_calls_def)
  next
    case (Inr u)
    then show ?thesis
      using k succeed_calls[OF s2, of dp now job1] c cl \<open>r = Inr a\<close>
      by (simp add: finish_job_def run_bind a o outcome_calls_def call_all_append)
  qed
qed

text \<open>
  C1: On a database that answers, a deployment ends with success exactly when its target succeeded and
  its route is in place, and with failure otherwise; every other attempt is left alone. The proxy is
  asked for nothing before the target succeeded, at most for the one route of the project, and retired
  domains are removed only after that and only on success.
\<close>
theorem deployment_outcome:
  assumes "sound (w_store w)"
    and "run_state (start_job dp job) w = (go, w1)" and "run_state (work_job dp now job) w1 = ((job1, r), w2)"
    and "run_state (run_job dp now job) w = (u, w3)"
  shows "row_step (dj_id job) (\<lambda>_ st. st = outcome_status dp job1 r w2) (w_store w) (w_store w3)
    \<and> w_proxy w3 = call_all dp (outcome_calls dp job1 r w2) (w_proxy w)"
proof -
  have go: "go" using start_goes[OF assms(1), of dp job] assms(2) by simp
  then have w3: "w3 = snd (run_state (finish_job dp now job1 r) w2)"
    using assms(2-4) by (simp add: run_job_def run_bind)
  have s1: "sound (w_store w1)" using calm_moves[OF calm_start assms(1), of dp job] assms(2) by simp
  have s2: "sound (w_store w2)" using calm_moves[OF calm_work s1, of dp now job] assms(3) by simp
  have id: "dj_id job1 = dj_id job" using work_job_same[OF assms(3)] by simp
  have a: "row_step (dj_id job) (\<lambda>_ _. True) (w_store w) (w_store w2)"
    by (rule row_step_trans[OF start_row[OF assms(2)] work_row[OF assms(3)]]) simp
  have b: "row_step (dj_id job) (\<lambda>_ st. st = outcome_status dp job1 r w2) (w_store w2) (w_store w3)"
    using finish_final[OF s2, of job1 dp r now] by (simp add: id final_outcome w3)
  have "row_step (dj_id job) (\<lambda>_ st. st = outcome_status dp job1 r w2) (w_store w) (w_store w3)"
    by (rule row_step_trans[OF a b])
  moreover have "w_proxy w2 = w_proxy w"
    using silent_start[of dp job, unfolded silent_def, rule_format, of w] assms(2,3)
      silent_work[of dp now job, unfolded silent_def, rule_format, of w1] by simp
  ultimately show ?thesis using finish_calls[OF s2, of dp now job1 r] w3 by simp
qed

text \<open>A project that moved from one domain to another.\<close>

definition routed_job :: deploy_job where
  "routed_job = sample_job\<lparr>dj_project := sample_project\<lparr>p_domain := ''web.example''\<rparr>,
     dj_server := sample_server\<lparr>sv_host := ''10.0.0.5'', sv_ssh_host := ''10.0.0.5'', sv_ssh_key_ref := ''vault:k''\<rparr>\<rparr>"

definition world_retiring :: "string \<Rightarrow> world" where
  "world_retiring domain = (sy_world sample_queued)
     \<lparr>w_store := effect (retire_proxy_domain 90 ''web'' domain) (w_store (sy_world sample_queued))\<rparr>"

definition world_after :: "string \<Rightarrow> world" where
  "world_after domain = snd (run_state (run_job sample_deployer 5 routed_job) (world_retiring domain))"

definition summary :: "world \<Rightarrow> proxy_call list \<times> deploy_status list" where
  "summary w = (map fst (w_proxy w), map d_status (st_deployments (w_store w)))"

theorem deployment_outcome_witness:
  "(case run_state (start_job sample_deployer routed_job) (world_retiring ''old.example'') of (go, w1) \<Rightarrow>
      case run_state (work_job sample_deployer 5 routed_job) w1 of ((job1, r), w2) \<Rightarrow>
        w_proxy (world_after ''old.example'')
          = call_all sample_deployer (outcome_calls sample_deployer job1 r w2) (w_proxy (world_retiring ''old.example'')))
   \<and> summary (world_after ''old.example'')
     = ([Register ''web.example'' ''10.0.0.5:80'', Deregister ''old.example''], [DeploySuccess])"
proof -
  have s: "sound (w_store (world_retiring ''old.example''))" by code_simp
  have e: "summary (world_after ''old.example'')
      = ([Register ''web.example'' ''10.0.0.5:80'', Deregister ''old.example''], [DeploySuccess])"
    by code_simp
  obtain go w1 where a: "run_state (start_job sample_deployer routed_job) (world_retiring ''old.example'') = (go, w1)" by fastforce
  obtain job1 r w2 where b: "run_state (work_job sample_deployer 5 routed_job) w1 = ((job1, r), w2)" by (metis prod.exhaust)
  show ?thesis
    using deployment_outcome[OF s a b surjective_pairing] e by (simp add: a b world_after_def)
qed

text \<open>
  A domain that was retired and then taken into use again is still on the list of retired domains: once
  the target succeeded, the deployment registers its route, removes it in the clean-up, and reports success.
\<close>

lemma reused_domain_taken_down:
  "summary (snd (run_state (finish_job sample_deployer 5 routed_job (Inr ''nginx:1.27'')) (world_retiring ''web.example'')))
   = ([Register ''web.example'' ''10.0.0.5:80'', Deregister ''web.example''], [DeploySuccess])"
  by code_simp

section \<open>The audit of a deployment\<close>

fun command_errors :: "trace \<Rightarrow> string option list" where
  "command_errors [] = []"
| "command_errors (Ran c out err # tr) = err # command_errors tr"
| "command_errors (_ # tr) = command_errors tr"

definition shown_error :: "string option \<Rightarrow> string" where
  "shown_error err = cap_stored_text (case err of None \<Rightarrow> [] | Some e \<Rightarrow> redact_audit_text e) max_deployment_error_len"

definition filed_under :: "audit_meta \<Rightarrow> remote_command \<Rightarrow> bool" where
  "filed_under m rc \<longleftrightarrow> rc_deployment_id rc = am_deployment_id m \<and> rc_server_id rc = am_server_id m
     \<and> rc_server_type rc = am_server_type m \<and> rc_action rc = am_action m"

interpretation command_frame: store_invariant "\<lambda>s. st_commands s = C" for C
  by unfold_locales simp_all

lemma append_log_commands: "st_commands (effect (append_deployment_log i l) s) = st_commands s"
proof -
  have "command_frame.keeps C (append_deployment_log i l)" for C
    unfolding append_deployment_log_def Let_def
    by (auto intro!: command_frame.keeps_intros command_frame.keeps_exec simp: on_deployment_def split: option.split)
  then show ?thesis unfolding command_frame.keeps_def effect_def by blast
qed

lemma insert_command_run:
  assumes "sound s"
  shows "st_commands (effect (insert_remote_command rc) s)
    = st_commands s @ [rc\<lparr>rc_id := st_command_seq s + 1, rc_command := cap_stored_text (rc_command rc) max_audit_text_len,
        rc_error := cap_stored_text (rc_error rc) max_deployment_error_len\<rparr>]"
  using assms by (simp add: effect_def insert_remote_command_def insert_row_def set_command_id_def)

lemma filed_new: "filed_under m ((audit_record now m t err)\<lparr>rc_id := j, rc_command := c, rc_error := e\<rparr>)"
  by (simp add: filed_under_def audit_record_def)

lemma audit_error: "rc_error (audit_record now m t err) = (case err of None \<Rightarrow> [] | Some e \<Rightarrow> redact_audit_text e)"
  by (simp add: audit_record_def)

lemma persisted_audit:
  assumes "audit_aligned m evs" and "sound s"
  shows "\<exists>rows. st_commands (fold (persist now i) evs s) = st_commands s @ rows
    \<and> list_all (filed_under m) rows \<and> map rc_error rows = map shown_error (command_errors evs)"
  using assms
proof (induction m evs arbitrary: s rule: audit_aligned.induct)
  case (2 m l tr)
  have s: "sound (effect (append_deployment_log i (l @ nl)) s)" using 2(3) calm.T_log by blast
  show ?case using 2(1)[OF _ s] 2(2) by (simp add: append_log_commands)
next
  case (3 m c out err m' t err' tr)
  let ?rc = "audit_record now m' t err'"
  have "sound (effect (insert_remote_command ?rc) s)" using 3(3) calm.T_audit by blast
  then obtain rows where "st_commands (fold (persist now i) tr (effect (insert_remote_command ?rc) s))
      = st_commands (effect (insert_remote_command ?rc) s) @ rows"
    "list_all (filed_under m) rows" "map rc_error rows = map shown_error (command_errors tr)"
    using 3 by auto
  then show ?case
    using 3(2,3) by (simp add: insert_command_run[OF 3(3)] filed_new audit_error shown_error_def)
qed auto

lemma run_pipeline_eq:
  "run_state (run_pipeline now i m) w = (fst (run_state m (w_trace w)), w\<lparr>w_trace := snd (run_state m (w_trace w)),
     w_store := fold (persist now i) (drop (length (w_trace w)) (snd (run_state m (w_trace w)))) (w_store w)\<rparr>)"
  by (simp add: run_pipeline_def split_def Let_def)

definition new_rows :: "world \<Rightarrow> world \<Rightarrow> remote_command list" where
  "new_rows w w' = drop (length (st_commands (w_store w))) (st_commands (w_store w'))"

definition new_events :: "world \<Rightarrow> world \<Rightarrow> trace" where
  "new_events w w' = drop (length (w_trace w)) (w_trace w')"

text \<open>
  C7: On a database that answers, each remote command a deployment or a rollback runs, whatever the
  target, leaves exactly one row in the audit table, in order, filed under the deployment, its server
  and its action, with the command's own error, redacted.
\<close>
theorem every_command_recorded:
  assumes "sound (w_store w)" and "run_state (run_on_target now env job) w = (out, w')"
  shows "take (length (st_commands (w_store w))) (st_commands (w_store w')) = st_commands (w_store w)
    \<and> list_all (filed_under (cx_meta (job_ctx job))) (new_rows w w')
    \<and> map rc_error (new_rows w w') = map shown_error (command_errors (new_events w w'))"
proof -
  obtain evs where e: "snd (run_state (dispatch.run_target (sv_type (dj_server job)) env (job_ctx job) job) (w_trace w)) = w_trace w @ evs"
    "audit_aligned (cx_meta (job_ctx job)) evs"
    using dispatch.run_target_appends by blast
  then have w': "w_store w' = fold (persist now (dj_id job)) evs (w_store w)" "w_trace w' = w_trace w @ evs"
    using assms(2) by (auto simp: run_on_target_eq run_pipeline_eq)
  from persisted_audit[OF e(2) assms(1), of now "dj_id job"] obtain rows where
    "st_commands (fold (persist now (dj_id job)) evs (w_store w)) = st_commands (w_store w) @ rows"
    "list_all (filed_under (cx_meta (job_ctx job))) rows" "map rc_error rows = map shown_error (command_errors evs)"
    by blast
  then show ?thesis using w' by (simp add: new_rows_def new_events_def)
qed

definition sample_env :: "string \<Rightarrow> target_env" where
  "sample_env key = \<lparr>te_host = sample_host, te_cfg = sample_config, te_secrets = Some (\<lambda>_. Inr key),
     te_read_file = (\<lambda>_. Inl ''none''), te_sha256 = (\<lambda>s. s)\<rparr>"

definition sample_worked :: world where
  "sample_worked = snd (run_state (run_on_target 5 (sample_env ''k'') sample_job) (sy_world sample_queued))"

theorem every_command_recorded_witness:
  "map rc_error (new_rows (sy_world sample_queued) sample_worked)
      = map shown_error (command_errors (new_events (sy_world sample_queued) sample_worked))
    \<and> length (command_errors (new_events (sy_world sample_queued) sample_worked)) = 3"
proof -
  have "length (command_errors (new_events (sy_world sample_queued) sample_worked)) = 3" by code_simp
  then show ?thesis
    using every_command_recorded[OF sample_queued_state(3) surjective_pairing, of 5 "sample_env ''k''" sample_job]
    by (simp add: sample_worked_def)
qed

section \<open>No secret reaches the database\<close>

lemma persist_blur: "persist now i (blur e) = persist now i e"
  by (cases e) simp_all

lemma fold_persist_blur: "map blur evs = map blur evs' \<Longrightarrow> fold (persist now i) evs s = fold (persist now i) evs' s"
proof -
  have "fold (persist now i) evs s = fold (persist now i) (map blur evs) s" for evs s
    by (induction evs arbitrary: s) (simp_all add: persist_blur)
  then show "map blur evs = map blur evs' \<Longrightarrow> ?thesis" by metis
qed



end
