(* ===== verification/Inventory.thy ===== *)
theory Inventory
  imports StoreSecrets "HOL-Library.Code_Target_Nat"
begin

text \<open>
  The inventory in the database: what \<open>GetProject\<close> and \<open>GetServer\<close> read after \<open>UpsertProject\<close> and
  \<open>UpsertServer\<close>. A project passes through three encodings on the way, JSON for its lists and its
  two environments, the sealing of those environments, and the row itself, and comes back with its
  defaults filled in and its environments in key order.
\<close>

section \<open>One column\<close>

lemma canonical_Nil [simp]: "canonical_map [] = []"
  by (simp add: canonical_map_def sorted_keys_def)

text \<open>An encoded map starts with a brace or is \<open>null\<close>, so it never looks like a sealed value.\<close>

lemma marshal_map_plain: "\<not> prefix encrypted_secret_prefix (marshal_text_map m)"
  by (auto simp: marshal_text_map_def encrypted_secret_prefix_def)

lemma decode_json_map_marshal:
  assumes "utf8_map m" and "distinct_keys m"
  shows "decode_json_map (marshal_text_map m) = Some (canonical_map m)"
proof (cases "marshal_text_map m = [] \<or> marshal_text_map m = ''null''")
  case True
  then have "m = []" by (auto simp: marshal_text_map_def split: if_splits)
  then show ?thesis by (simp add: decode_json_map_def marshal_text_map_def)
next
  case False
  then show ?thesis by (simp add: decode_json_map_def marshal_map_roundtrip[OF assms])
qed

definition codec_trusted :: "secret_codec option \<Rightarrow> bool" where
  "codec_trusted codec = (case codec of None \<Rightarrow> True | Some c \<Rightarrow> codec_ok c)"

lemma storable_map: "codec_trusted codec \<Longrightarrow> storable codec (marshal_text_map m)"
  by (simp add: codec_trusted_def storable_def marshal_map_plain split: option.splits)

lemma encode_map:
  assumes "codec_trusted (st_codec s)" and "utf8_map m" and "distinct_keys m"
  shows "\<exists>x n. run_state (encode_secret name (marshal_text_map m)) s = (Inr x, s\<lparr>st_draws := n\<rparr>)
    \<and> (\<exists>raw. decode_secret (st_codec s) name x = Inr raw \<and> decode_json_map raw = Some (canonical_map m))"
  using encode_decode[OF storable_map[OF assms(1), of m], of name] decode_json_map_marshal[OF assms(2,3)] by blast

section \<open>Projects\<close>

definition storable_project :: "project \<Rightarrow> bool" where
  "storable_project p \<longleftrightarrow> utf8_map (p_env p) \<and> distinct_keys (p_env p)
     \<and> utf8_map (p_build_env p) \<and> distinct_keys (p_build_env p) \<and> list_all valid_utf8 (p_ports_mappings p)"

definition canonical_project :: "project \<Rightarrow> project" where
  "canonical_project p = p\<lparr>p_env := canonical_map (p_env p), p_build_env := canonical_map (p_build_env p)\<rparr>"

lemma project_defaults_keep [simp]:
  "p_id (project_defaults p) = p_id p" "p_env (project_defaults p) = p_env p"
  "p_build_env (project_defaults p) = p_build_env p" "p_ports_mappings (project_defaults p) = p_ports_mappings p"
  by (simp_all add: project_defaults_def Let_def)

lemma project_columns_simps [simp]:
  "project_key (project_columns p env benv) = p_id p" "pr_env (project_columns p env benv) = env"
  "pr_build_env (project_columns p env benv) = benv" "pr_mappings (project_columns p env benv) = marshal_texts (p_ports_mappings p)"
  "p_id (pr_project (project_columns p env benv)) = p_id p"
  by (simp_all add: project_columns_def project_key_def)

lemma marshal_texts_null: "marshal_texts xs = [] \<or> marshal_texts xs = ''null'' \<longleftrightarrow> xs = []"
  by (simp add: marshal_texts_def)

lemma scan_columns:
  assumes "storable_project p"
    and "decode_secret codec (env_name (p_id p)) env = Inr raw" and "decode_json_map raw = Some (canonical_map (p_env p))"
    and "decode_secret codec (build_env_name (p_id p)) benv = Inr raw'" and "decode_json_map raw' = Some (canonical_map (p_build_env p))"
  shows "scan_project codec (project_columns p env benv) = Inr (canonical_project p)"
proof -
  have m: "xs \<noteq> [] \<longrightarrow> unmarshal_texts (marshal_texts xs) = Some xs" if "xs = p_ports_mappings p" for xs
    using assms(1) that by (simp add: storable_project_def marshal_texts_roundtrip)
  have "pr_project (project_columns p env benv) = p\<lparr>p_ports_mappings := [], p_env := [], p_build_env := []\<rparr>"
    by (simp add: project_columns_def)
  moreover have "p\<lparr>p_ports_mappings := [], p_env := a, p_build_env := b\<rparr> = p\<lparr>p_env := a, p_build_env := b\<rparr>"
    if "p_ports_mappings p = []" for a b using that by (cases p) simp
  ultimately show ?thesis
    using m[OF refl] by (simp add: scan_project_def Let_def assms(2-) canonical_project_def marshal_texts_null)
qed

lemma run_get_project:
  "sound s \<Longrightarrow> run_state (get_project i) s =
     (case find (\<lambda>r. project_key r = i) (st_projects s) of
        None \<Rightarrow> (Inl ErrNotFound, s) | Some r \<Rightarrow> (scan_project (st_codec s) r, s))"
  by (simp add: get_project_def or_not_found_def run_db_then split: option.split)

lemma projects_lookup: "projects.lookup rows i = find (\<lambda>r. project_key r = i) rows"
  by (simp add: projects.lookup_def option.map_ident)

definition project_accepted :: "project \<Rightarrow> bool" where
  "project_accepted p \<longleftrightarrow> validate_resource_id ''project id'' (p_id p) = None \<and> project_refusal (project_defaults p) = None"

lemma run_upsert_project:
  assumes "sound s" and "project_accepted p" and "codec_trusted (st_codec s)" and "storable_project p"
  shows "\<exists>r n. run_state (upsert_project p) s =
      (Inr (), s\<lparr>st_draws := n, st_projects := upsert project_key (\<lambda>_ new. new) r (st_projects s)\<rparr>)
    \<and> project_key r = p_id p \<and> scan_project (st_codec s) r = Inr (canonical_project (project_defaults p))"
proof -
  let ?p = "project_defaults p"
  have sp: "storable_project ?p" using assms(4) by (simp add: storable_project_def)
  obtain x n raw where x: "run_state (encode_secret (env_name (p_id p)) (marshal_text_map (p_env p))) s = (Inr x, s\<lparr>st_draws := n\<rparr>)"
    "decode_secret (st_codec s) (env_name (p_id p)) x = Inr raw" "decode_json_map raw = Some (canonical_map (p_env p))"
    using encode_map[OF assms(3)] assms(4) unfolding storable_project_def by blast
  have c: "codec_trusted (st_codec (s\<lparr>st_draws := n\<rparr>))" using assms(3) by simp
  obtain y m raw' where y: "run_state (encode_secret (build_env_name (p_id p)) (marshal_text_map (p_build_env p))) (s\<lparr>st_draws := n\<rparr>)
      = (Inr y, s\<lparr>st_draws := m\<rparr>)"
    "decode_secret (st_codec s) (build_env_name (p_id p)) y = Inr raw'" "decode_json_map raw' = Some (canonical_map (p_build_env p))"
    using encode_map[OF c, of "p_build_env p" "build_env_name (p_id p)"] assms(4) unfolding storable_project_def by fastforce
  have scan: "scan_project (st_codec s) (project_columns ?p x y) = Inr (canonical_project ?p)"
    by (rule scan_columns[OF sp]) (use x y in simp_all)
  have "sound (s\<lparr>st_draws := m\<rparr>)" using assms(1) by (simp add: sound_def)
  then have "run_state (upsert_project p) s =
      (Inr (), s\<lparr>st_draws := m, st_projects := upsert project_key (\<lambda>_ new. new) (project_columns ?p x y) (st_projects s)\<rparr>)"
    using assms(2) by (simp add: upsert_project_def project_accepted_def Let_def run_db_then x y)
  then show ?thesis using scan by (intro exI[of _ "project_columns ?p x y"] exI[of _ m]) simp
qed

text \<open>
  C38: A project that is accepted and stored is read back with its defaults filled in and its
  environments in key order, sealed or not; every other project reads as before, and after a delete
  it is gone.
\<close>
theorem project_roundtrip:
  assumes "sound s" and "project_accepted p" and "codec_trusted (st_codec s)" and "storable_project p"
    and "t = effect (upsert_project p) s"
  shows "run_state (get_project (p_id p)) t = (Inr (canonical_project (project_defaults p)), t)
    \<and> (\<forall>i. fst (run_state (get_project i) t) =
        (if i = p_id p then Inr (canonical_project (project_defaults p)) else fst (run_state (get_project i) s)))
    \<and> fst (run_state (get_project (p_id p)) (effect (delete_project (p_id p)) t)) = Inl ErrNotFound"
proof -
  obtain r n where r: "run_state (upsert_project p) s =
      (Inr (), s\<lparr>st_draws := n, st_projects := upsert project_key (\<lambda>_ new. new) r (st_projects s)\<rparr>)"
    "project_key r = p_id p" "scan_project (st_codec s) r = Inr (canonical_project (project_defaults p))"
    using run_upsert_project[OF assms(1-4)] by blast
  let ?rows = "upsert project_key (\<lambda>_ new. new) r (st_projects s)"
  have t: "t = s\<lparr>st_draws := n, st_projects := ?rows\<rparr>" using r(1) assms(5) by (simp add: effect_def)
  have ts: "sound t" and tf: "st_projects t = ?rows" "st_codec t = st_codec s" using assms(1) by (simp_all add: t sound_def)
  have found: "find (\<lambda>x. project_key x = i) ?rows
      = (if i = p_id p then Some r else find (\<lambda>x. project_key x = i) (st_projects s))" for i
    using projects.lookup_upsert[of r "st_projects s"] r(2) by (simp add: projects_lookup[abs_def] fun_eq_iff)
  have others: "fst (run_state (get_project i) t) =
      (if i = p_id p then Inr (canonical_project (project_defaults p)) else fst (run_state (get_project i) s))" for i
    using r(3) by (simp add: run_get_project[OF ts] run_get_project[OF assms(1)] tf found split: option.split)
  have self: "run_state (get_project (p_id p)) t = (Inr (canonical_project (project_defaults p)), t)"
    using r(3) by (simp add: run_get_project[OF ts] tf found)
  have "find (\<lambda>x. project_key x = p_id p) (delete_rows (\<lambda>x. project_key x = p_id p) ?rows) = None"
    using projects.lookup_delete_key[of "p_id p" ?rows] by (simp add: projects_lookup[abs_def] fun_eq_iff)
  moreover have "effect (delete_project (p_id p)) t = t\<lparr>st_projects := delete_rows (\<lambda>x. project_key x = p_id p) ?rows\<rparr>"
    using ts by (simp add: effect_def delete_project_def t)
  moreover have "sound (effect (delete_project (p_id p)) t)" using ts calculation(2) by (simp add: sound_def)
  ultimately have "fst (run_state (get_project (p_id p)) (effect (delete_project (p_id p)) t)) = Inl ErrNotFound"
    by (simp add: run_get_project)
  then show ?thesis using self others by simp
qed

text \<open>A refused project leaves the database alone.\<close>

lemma project_refused:
  "\<not> project_accepted p \<Longrightarrow> \<exists>e. run_state (upsert_project p) s = (Inl (Refused e), s)"
  by (auto simp: upsert_project_def project_accepted_def Let_def db_fail_def split: option.split)

definition stored_project :: project where
  "stored_project = zero_project\<lparr>p_id := ''web'', p_name := ''Web'', p_env := [(''B'', ''2''), (''A'', ''x y'')]\<rparr>"

theorem project_roundtrip_witness:
  "fst (run_state (get_project ''web'') (effect (upsert_project stored_project) (empty_store (Some mirror_codec) [])))
     = Inr (stored_project\<lparr>p_branch := ''main'', p_health_path := ''/'', p_group := ''Default'',
         p_environment := ''production'', p_env := [(''A'', ''x y''), (''B'', ''2'')]\<rparr>)"
proof -
  define s where "s = empty_store (Some mirror_codec) []"
  have a: "sound s" by (simp add: s_def sound_def empty_store_def)
  have b: "project_accepted stored_project" by code_simp
  have c: "codec_trusted (st_codec s)"
    by (simp add: s_def empty_store_def codec_trusted_def codec_ok_def mirror_codec_def)
  have d: "storable_project stored_project" by code_simp
  have e: "canonical_project (project_defaults stored_project) = stored_project\<lparr>p_branch := ''main'', p_health_path := ''/'',
      p_group := ''Default'', p_environment := ''production'', p_env := [(''A'', ''x y''), (''B'', ''2'')]\<rparr>" by code_simp
  have "p_id stored_project = ''web''" by code_simp
  then show ?thesis using project_roundtrip[OF a b c d refl] e by (simp add: s_def)
qed

text \<open>
  The hypothesis on the encoding is needed: an environment value that is not UTF-8 passes validation,
  and comes back with U+FFFD in place of the byte.
\<close>

lemma env_byte_lost:
  "validate_env_values ''env'' [(''K'', [CHR 0xFF])] = None
   \<and> decode_json_map (marshal_text_map [(''K'', [CHR 0xFF])]) = Some [(''K'', [CHR 0xEF, CHR 0xBF, CHR 0xBD])]"
  by code_simp

section \<open>Servers\<close>

lemma server_defaults_keep [simp]:
  "sv_id (server_defaults srv) = sv_id srv" "sv_services (server_defaults srv) = sv_services srv"
  by (simp_all add: server_defaults_def Let_def)

lemma scan_server_columns:
  assumes "list_all valid_utf8 (sv_services srv)"
  shows "scan_server (server_columns srv) = Inr srv"
proof (cases "sv_services srv = []")
  case True
  then show ?thesis by (cases srv) (simp add: scan_server_def server_columns_def marshal_texts_def)
next
  case False
  then show ?thesis
    using assms by (simp add: scan_server_def server_columns_def marshal_texts_null marshal_texts_roundtrip)
qed

lemma run_get_server:
  "sound s \<Longrightarrow> run_state (get_server i) s =
     (case find (\<lambda>r. server_key r = i) (st_servers s) of None \<Rightarrow> (Inl ErrNotFound, s) | Some r \<Rightarrow> (scan_server r, s))"
  by (simp add: get_server_def or_not_found_def run_db_then split: option.split)

lemma servers_lookup: "servers.lookup rows i = find (\<lambda>r. server_key r = i) rows"
  by (simp add: servers.lookup_def option.map_ident)

lemma server_roundtrip:
  assumes "sound s" and "validate_resource_id ''server id'' (sv_id srv) = None" and "list_all valid_utf8 (sv_services srv)"
    and "t = effect (upsert_server srv) s"
  shows "fst (run_state (get_server i) t) =
    (if i = sv_id srv then Inr (server_defaults srv) else fst (run_state (get_server i) s))"
proof -
  let ?r = "server_columns (server_defaults srv)"
  let ?rows = "upsert server_key (\<lambda>_ new. new) ?r (st_servers s)"
  have t: "t = s\<lparr>st_servers := ?rows\<rparr>" using assms by (simp add: effect_def upsert_server_def)
  have ts: "sound t" "st_servers t = ?rows" using assms(1) by (simp_all add: t sound_def)
  have k: "server_key ?r = sv_id srv" by (simp add: server_key_def server_columns_def)
  have "find (\<lambda>x. server_key x = i) ?rows = (if i = sv_id srv then Some ?r else find (\<lambda>x. server_key x = i) (st_servers s))"
    using servers.lookup_upsert[of ?r "st_servers s"] k by (simp add: servers_lookup[abs_def] fun_eq_iff)
  then show ?thesis
    using scan_server_columns[of "server_defaults srv"] assms(3)
    by (simp add: run_get_server[OF ts(1)] run_get_server[OF assms(1)] ts(2) split: option.split)
qed

end
