(* ===== verification/Credentials.thy ===== *)
theory Credentials
  imports Inventory
begin

text \<open>
  The encrypted credential store and the master key: \<open>internal/auth/credentials.go\<close> and the random
  tokens of \<open>internal/auth/apitokens.go\<close>. The cipher (\<open>crypto/cipher\<close> AES-256-GCM) and the source of
  random bytes are parameters; what is relied on of them is stated in \<open>aead_ok\<close>.
\<close>

section \<open>encoding/base64: without padding\<close>

definition raw_encode :: "string \<Rightarrow> string" where
  "raw_encode s = filter (\<lambda>c. c \<noteq> CHR ''='') (base64_encode s)"

definition raw_decode :: "string \<Rightarrow> string option" where
  "raw_decode s =
     (let t = filter (\<lambda>c. c \<noteq> CHR 0x0A \<and> c \<noteq> CHR 0x0D) s in
      if CHR ''='' \<in> set t then None
      else b64_groups (t @ replicate ((4 - length t mod 4) mod 4) (CHR ''='')))"

definition url_char :: "char \<Rightarrow> char" where
  "url_char c = (if c = CHR ''+'' then CHR ''-'' else if c = CHR ''/'' then CHR ''_'' else c)"

definition raw_url_encode :: "string \<Rightarrow> string" where
  "raw_url_encode s = map url_char (raw_encode s)"

lemma b64_not_pad: "b64_char n \<noteq> CHR ''=''"
  by (cases "n < 64") (simp_all add: b64_char_not_pad, simp add: b64_char_def)

lemma two_pads: "replicate 2 c = [c, c]"
  by (simp add: numeral_2_eq_2)

lemma raw_pad: "raw_encode s @ replicate ((4 - length (raw_encode s) mod 4) mod 4) (CHR ''='') = base64_encode s"
proof (induction s rule: base64_encode.induct)
  case (4 a b c r)
  define n where "n = (byte a * 256 + byte b) * 256 + byte c"
  let ?w = "[b64_char (n div 262144), b64_char (n div 4096 mod 64), b64_char (n div 64 mod 64), b64_char (n mod 64)]"
  have w: "length ?w = 4" "base64_encode (a # b # c # r) = ?w @ base64_encode r" "filter (\<lambda>c. c \<noteq> CHR ''='') ?w = ?w"
    by (simp, simp only: base64_encode.simps Let_def n_def append.simps, simp add: b64_not_pad)
  have e: "raw_encode (a # b # c # r) = ?w @ raw_encode r" by (simp only: raw_encode_def w(2,3) filter_append)
  have "length (raw_encode (a # b # c # r)) mod 4 = length (raw_encode r) mod 4"
    by (simp only: e length_append w(1) mod_add_self1)
  moreover have "raw_encode r @ replicate ((4 - length (raw_encode r) mod 4) mod 4) (CHR ''='') = base64_encode r"
    by (rule "4.IH") simp
  ultimately show ?case by (simp only: e w(2) append_assoc)
qed (simp_all add: raw_encode_def Let_def b64_not_pad two_pads)

lemma raw_roundtrip [simp]: "raw_decode (raw_encode s) = Some s"
proof -
  have "filter (\<lambda>c. c \<noteq> CHR 0x0A \<and> c \<noteq> CHR 0x0D) (raw_encode s) = raw_encode s"
    by (rule filter_True) (use base64_no_newline[of s] in \<open>simp add: raw_encode_def list_all_iff\<close>)
  moreover have "CHR ''='' \<notin> set (raw_encode s)" by (simp add: raw_encode_def)
  ultimately show ?thesis by (simp add: raw_decode_def Let_def raw_pad b64_groups_encode)
qed

section \<open>The credential store\<close>

record credential_store =
  ca_nonce_size :: nat
  ca_draw :: "nat \<Rightarrow> string res"
  ca_seal :: "string \<Rightarrow> string \<Rightarrow> string \<Rightarrow> string"
  ca_open :: "string \<Rightarrow> string \<Rightarrow> string \<Rightarrow> string res"

definition master_key_size :: nat where "master_key_size = 32"

text \<open>\<open>ca_seal nonce value name\<close> and \<open>ca_open nonce ciphertext name\<close>; \<open>ca_draw n\<close> is the n-th nonce drawn.\<close>

definition seal :: "credential_store \<Rightarrow> nat \<Rightarrow> string \<Rightarrow> string \<Rightarrow> (string \<times> string) res" where
  "seal ca n name value =
     (case ca_draw ca n of
        Inl e \<Rightarrow> Inl (''generate nonce: '' @ e)
      | Inr nonce \<Rightarrow> Inr (nonce, ca_seal ca nonce value name))"

definition encrypt :: "credential_store \<Rightarrow> nat \<Rightarrow> string \<Rightarrow> string \<Rightarrow> string res" where
  "encrypt ca n name value =
     (case seal ca n name value of
        Inl e \<Rightarrow> Inl e
      | Inr (nonce, ciphertext) \<Rightarrow> Inr (raw_encode (nonce @ ciphertext)))"

definition decrypt :: "credential_store \<Rightarrow> string \<Rightarrow> string \<Rightarrow> string res" where
  "decrypt ca name value =
     (case raw_decode value of
        None \<Rightarrow> Inl (''decode encrypted '' @ name @ '': illegal base64 data'')
      | Some payload \<Rightarrow>
          (if length payload < ca_nonce_size ca then Inl (''encrypted '' @ name @ '' is truncated'')
           else (case ca_open ca (take (ca_nonce_size ca) payload) (drop (ca_nonce_size ca) payload) name of
               Inl e \<Rightarrow> Inl (''decrypt '' @ name @ '': '' @ e)
             | Inr plaintext \<Rightarrow> Inr plaintext)))"

text \<open>The codec the entry point injects into the data layer.\<close>

definition codec_of :: "credential_store \<Rightarrow> secret_codec" where
  "codec_of ca = \<lparr>sc_encrypt = encrypt ca, sc_decrypt = decrypt ca\<rparr>"

definition put_secret :: "credential_store \<Rightarrow> string \<Rightarrow> string \<Rightarrow> unit dbm" where
  "put_secret ca name secret = do {
     r \<leftarrow> State (\<lambda>s. (seal ca (st_draws s) name secret, s\<lparr>st_draws := Suc (st_draws s)\<rparr>));
     case r of
       Inl e \<Rightarrow> db_fail (Failed [] e)
     | Inr (nonce, ciphertext) \<Rightarrow> put_credential name nonce ciphertext }"

definition get_secret :: "credential_store \<Rightarrow> string \<Rightarrow> string dbm" where
  "get_secret ca name = db_then (credential_blob name) (\<lambda>(nonce, ciphertext).
     case ca_open ca nonce ciphertext name of
       Inl e \<Rightarrow> db_fail (Failed (''decrypt credential '' @ quote name) e)
     | Inr plaintext \<Rightarrow> db_ok plaintext)"

definition delete_secret :: "string \<Rightarrow> unit dbm" where
  "delete_secret name = delete_credential name"

section \<open>What is relied on of the cipher\<close>

text \<open>
  Nonces have the cipher's length, and what was sealed opens under the same nonce and name
  (\<open>aead_ok\<close>); under another name it does not open (\<open>aead_bound\<close>).
\<close>

definition aead_ok :: "credential_store \<Rightarrow> bool" where
  "aead_ok ca \<longleftrightarrow> (\<forall>n. \<exists>nonce. ca_draw ca n = Inr nonce \<and> length nonce = ca_nonce_size ca)
     \<and> (\<forall>nonce v name. length nonce = ca_nonce_size ca \<longrightarrow> ca_open ca nonce (ca_seal ca nonce v name) name = Inr v)"

definition aead_bound :: "credential_store \<Rightarrow> bool" where
  "aead_bound ca \<longleftrightarrow> (\<forall>nonce v name name' w.
     ca_open ca nonce (ca_seal ca nonce v name) name' = Inr w \<longrightarrow> name' = name)"

lemma aead_seal:
  assumes "aead_ok ca"
  obtains nonce where "seal ca n name v = Inr (nonce, ca_seal ca nonce v name)" "length nonce = ca_nonce_size ca"
    "ca_open ca nonce (ca_seal ca nonce v name) name = Inr v"
proof -
  obtain nonce where "ca_draw ca n = Inr nonce" "length nonce = ca_nonce_size ca"
    using assms unfolding aead_ok_def by blast
  then show ?thesis using that[of nonce] assms by (simp add: aead_ok_def seal_def)
qed

lemma decrypt_encrypt:
  assumes "aead_ok ca"
  shows "\<exists>x. encrypt ca n name v = Inr x \<and> decrypt ca name x = Inr v"
proof -
  obtain nonce where "seal ca n name v = Inr (nonce, ca_seal ca nonce v name)" "length nonce = ca_nonce_size ca"
    "ca_open ca nonce (ca_seal ca nonce v name) name = Inr v"
    by (rule aead_seal[OF assms])
  then show ?thesis by (simp add: encrypt_def decrypt_def)
qed

text \<open>The injected codec keeps the promise the data layer relies on.\<close>

lemma codec_of_ok:
  assumes "aead_ok ca"
  shows "codec_ok (codec_of ca)"
  unfolding codec_ok_def
proof (intro allI)
  fix n name v
  obtain x where "encrypt ca n name v = Inr x" "decrypt ca name x = Inr v"
    using decrypt_encrypt[OF assms] by blast
  then show "case sc_encrypt (codec_of ca) n name v of Inl _ \<Rightarrow> False | Inr x \<Rightarrow> sc_decrypt (codec_of ca) name x = Inr v"
    by (simp add: codec_of_def)
qed

lemma moved_secret_refused:
  assumes "aead_ok ca" and "aead_bound ca" and "name' \<noteq> name" and "encrypt ca n name v = Inr x"
  shows "\<exists>e. decrypt ca name' x = Inl e"
proof -
  obtain nonce where s: "seal ca n name v = Inr (nonce, ca_seal ca nonce v name)" "length nonce = ca_nonce_size ca"
    by (rule aead_seal[OF assms(1)])
  then have x: "x = raw_encode (nonce @ ca_seal ca nonce v name)" using assms(4) by (simp add: encrypt_def)
  have "ca_open ca nonce (ca_seal ca nonce v name) name' \<noteq> Inr w" for w
    using assms(2,3) unfolding aead_bound_def by blast
  then obtain e where "ca_open ca nonce (ca_seal ca nonce v name) name' = Inl e"
    by (cases "ca_open ca nonce (ca_seal ca nonce v name) name'") auto
  then show ?thesis using s(2) by (simp add: x decrypt_def)
qed

section \<open>Round trip of a credential\<close>

lemma run_get_secret:
  "sound s \<Longrightarrow> run_state (get_secret ca name) s =
     (case find (\<lambda>c. cr_name c = name) (st_credentials s) of
        None \<Rightarrow> (Inl ErrNotFound, s)
      | Some c \<Rightarrow> (case ca_open ca (cr_nonce c) (cr_ciphertext c) name of
            Inl e \<Rightarrow> (Inl (Failed (''decrypt credential '' @ quote name) e), s)
          | Inr v \<Rightarrow> (Inr v, s)))"
  by (simp add: get_secret_def credential_blob_def or_not_found_def run_db_then split: option.split sum.split)

lemma run_get_lookup:
  "sound s \<Longrightarrow> run_state (get_secret ca name) s =
     (case credentials.lookup (st_credentials s) name of
        None \<Rightarrow> (Inl ErrNotFound, s)
      | Some (nonce, ciphertext) \<Rightarrow> (case ca_open ca nonce ciphertext name of
            Inl e \<Rightarrow> (Inl (Failed (''decrypt credential '' @ quote name) e), s)
          | Inr v \<Rightarrow> (Inr v, s)))"
  by (simp add: run_get_secret credentials.lookup_def split: option.split)

text \<open>
  C36: A stored secret is read back under its name as long as it is neither replaced nor deleted;
  storing or deleting one changes no other. The database only ever holds the sealed form.
\<close>
theorem credential_roundtrip:
  assumes "aead_ok ca" and "sound s"
    and "t = effect (put_secret ca name secret) s" and "u = effect (delete_secret name) t"
  shows "fst (run_state (get_secret ca other) t) =
      (if other = name then Inr secret else fst (run_state (get_secret ca other) s))
    \<and> fst (run_state (get_secret ca other) u) =
      (if other = name then Inl ErrNotFound else fst (run_state (get_secret ca other) s))
    \<and> (\<exists>nonce. credentials.lookup (st_credentials t) name = Some (nonce, ca_seal ca nonce secret name))"
proof -
  obtain nonce where n: "seal ca (st_draws s) name secret = Inr (nonce, ca_seal ca nonce secret name)"
    "ca_open ca nonce (ca_seal ca nonce secret name) name = Inr secret"
    by (rule aead_seal[OF assms(1)])
  let ?c = "\<lparr>cr_name = name, cr_nonce = nonce, cr_ciphertext = ca_seal ca nonce secret name\<rparr>"
  have sd: "sound (s\<lparr>st_draws := d\<rparr>)" for d using assms(2) by (simp add: sound_def)
  have t: "t = s\<lparr>st_draws := Suc (st_draws s), st_credentials := upsert cr_name merge_credential ?c (st_credentials s)\<rparr>"
    using sd by (simp add: assms(3) effect_def put_secret_def run_bind n(1) put_credential_def)
  have ts: "sound t" using sd by (simp add: t sound_def)
  have u: "u = t\<lparr>st_credentials := delete_rows (\<lambda>c. cr_name c = name) (st_credentials t)\<rparr>"
    using ts by (simp add: assms(4) effect_def delete_secret_def delete_credential_def)
  have us: "sound u" using ts by (simp add: u sound_def)
  have lt: "credentials.lookup (st_credentials t) =
      (credentials.lookup (st_credentials s))(name \<mapsto> (nonce, ca_seal ca nonce secret name))"
    using credentials.lookup_upsert[of ?c "st_credentials s"] by (simp add: t)
  have lu: "credentials.lookup (st_credentials u) = (credentials.lookup (st_credentials s))(name := None)"
    using credentials.lookup_delete_key[of name "st_credentials t"] by (simp add: u lt)
  have "fst (run_state (get_secret ca other) t) =
      (if other = name then Inr secret else fst (run_state (get_secret ca other) s))"
    by (simp add: run_get_lookup[OF ts] run_get_lookup[OF assms(2)] lt n(2) split: option.split sum.split)
  moreover have "fst (run_state (get_secret ca other) u) =
      (if other = name then Inl ErrNotFound else fst (run_state (get_secret ca other) s))"
    by (simp add: run_get_lookup[OF us] run_get_lookup[OF assms(2)] lu split: option.split sum.split)
  ultimately show ?thesis by (auto simp: lt)
qed

text \<open>A cipher that keeps its promises: it writes the name before the reversed value.\<close>

definition mirror_cipher :: credential_store where
  "mirror_cipher = \<lparr>ca_nonce_size = 2, ca_draw = (\<lambda>n. Inr ''nn''),
     ca_seal = (\<lambda>nonce v name. hex_encode name @ CHR '':'' # rev v),
     ca_open = (\<lambda>nonce x name. let p = hex_encode name @ '':'' in
       if prefix p x then Inr (rev (drop (length p) x)) else Inl ''message authentication failed'')\<rparr>"

lemma mirror_cipher_ok: "aead_ok mirror_cipher"
  by (simp add: aead_ok_def mirror_cipher_def Let_def)

theorem credential_roundtrip_witness:
  "fst (run_state (get_secret mirror_cipher ''k'') (effect (put_secret mirror_cipher ''k'' ''s3cret'') (empty_store None [])))
     = Inr ''s3cret''"
proof -
  have "sound (empty_store None [])" by (simp add: sound_def empty_store_def)
  from credential_roundtrip[OF mirror_cipher_ok this refl refl, where other = "''k''" and name = "''k''" and secret = "''s3cret''"]
  show ?thesis by simp
qed

section \<open>The master key\<close>

text \<open>
  \<open>LoadMasterKey\<close>: the answers of the operating system are arguments, in the order the code asks for
  them; what the function writes or removes is returned beside its result. A missing file is told
  apart from every other error. \<open>kf_lstat\<close> is \<open>File_data []\<close> when the file is there; its kind and
  permissions are the fields beside it.
\<close>

datatype file_read = No_file | Read_error string | File_data string

datatype file_create = Created | Already_there | Create_error string

record key_file =
  kf_lstat :: file_read
  kf_symlink :: bool
  kf_regular :: bool
  kf_perm :: nat
  kf_chmod :: "string option"
  kf_content :: file_read

record key_files =
  kf_mkdir :: "string option"
  kf_stat :: "(bool \<times> nat) res"
  kf_chmod_dir :: "string option"
  kf_first :: key_file
  kf_random :: "string res"
  kf_create :: file_create
  kf_second :: key_file
  kf_write :: "string option"
  kf_sync :: "string option"
  kf_close :: "string option"

datatype key_effect = Key_written string | Key_removed

definition prepare_master_key_dir :: "key_files \<Rightarrow> string \<Rightarrow> string option" where
  "prepare_master_key_dir kf dir =
     (case kf_mkdir kf of
        Some e \<Rightarrow> Some (''create key dir: '' @ e)
      | None \<Rightarrow>
          (case kf_stat kf of
             Inl e \<Rightarrow> Some (''stat key dir: '' @ e)
           | Inr (is_dir, perm) \<Rightarrow>
               (if \<not> is_dir then Some (''key parent '' @ dir @ '' is not a directory'')
                else if perm mod 64 \<noteq> 0 then map_option (\<lambda>e. ''secure key dir: '' @ e) (kf_chmod_dir kf)
                else None)))"

definition read_master_key_file :: "string \<Rightarrow> key_file \<Rightarrow> file_read" where
  "read_master_key_file path f =
     (case kf_lstat f of
        File_data _ \<Rightarrow>
          (if kf_symlink f \<or> \<not> kf_regular f then Read_error (''master key '' @ path @ '' is not a regular file'')
           else if kf_perm f mod 64 \<noteq> 0 \<and> kf_chmod f \<noteq> None
           then Read_error (''secure master key '' @ path @ '': '' @ the (kf_chmod f))
           else kf_content f)
      | other \<Rightarrow> other)"

definition decode_key :: "string \<Rightarrow> string \<Rightarrow> string res" where
  "decode_key encoded source =
     (case base64_decode encoded of
        None \<Rightarrow> Inl (source @ '': invalid base64: illegal base64 data'')
      | Some k \<Rightarrow>
          (if length k \<noteq> master_key_size
           then Inl (source @ '': decoded to '' @ itoa (int (length k)) @ '' bytes, want '' @ itoa (int master_key_size))
           else Inr k))"

definition load_master_key :: "key_files \<Rightarrow> (string \<Rightarrow> string) \<Rightarrow> string \<Rightarrow> string \<Rightarrow> string res \<times> key_effect list" where
  "load_master_key kf dir_of explicit path =
     (if explicit \<noteq> [] then
        (case (if trim_space path \<noteq> [] then prepare_master_key_dir kf (dir_of path) else None) of
           Some e \<Rightarrow> (Inl e, [])
         | None \<Rightarrow> (decode_key explicit ''master key'', []))
      else if trim_space path = [] then (Inl ''master key path is required'', [])
      else
        (case prepare_master_key_dir kf (dir_of path) of
           Some e \<Rightarrow> (Inl e, [])
         | None \<Rightarrow>
             (case read_master_key_file path (kf_first kf) of
                File_data d \<Rightarrow> (decode_key (trim_space d) path, [])
              | Read_error e \<Rightarrow> (Inl (''read master key '' @ path @ '': '' @ e), [])
              | No_file \<Rightarrow>
                  (case kf_random kf of
                     Inl e \<Rightarrow> (Inl (''generate master key: '' @ e), [])
                   | Inr key \<Rightarrow>
                       (case kf_create kf of
                          Already_there \<Rightarrow>
                            (case read_master_key_file path (kf_second kf) of
                               File_data d \<Rightarrow> (decode_key (trim_space d) path, [])
                             | Read_error e \<Rightarrow> (Inl (''read concurrently created master key '' @ path @ '': '' @ e), [])
                             | No_file \<Rightarrow> (Inl (''read concurrently created master key '' @ path @ '': file does not exist''), []))
                        | Create_error e \<Rightarrow> (Inl (''create master key '' @ path @ '': '' @ e), [])
                        | Created \<Rightarrow>
                            (case kf_write kf of
                               Some e \<Rightarrow> (Inl (''write master key '' @ path @ '': '' @ e), [Key_removed])
                             | None \<Rightarrow>
                                 (case kf_sync kf of
                                    Some e \<Rightarrow> (Inl (''sync master key '' @ path @ '': '' @ e), [Key_written (base64_encode key), Key_removed])
                                  | None \<Rightarrow>
                                      (case kf_close kf of
                                         Some e \<Rightarrow> (Inl (''close master key '' @ path @ '': '' @ e), [Key_written (base64_encode key), Key_removed])
                                       | None \<Rightarrow> (Inr key, [Key_written (base64_encode key)])))))))))"

text \<open>
  Random bytes come in the number asked for. A file is written only when none was there before and
  this process created it, and what a later start reads back is the key that was returned.
\<close>

lemma decode_key_size: "decode_key e s = Inr k \<Longrightarrow> length k = master_key_size"
  by (auto simp: decode_key_def split: option.splits if_splits)

lemma decode_key_encode: "length k = master_key_size \<Longrightarrow> decode_key (base64_encode k) s = Inr k"
  by (simp add: decode_key_def base64_roundtrip)

lemma load_written:
  assumes "load_master_key kf dir explicit path = (Inr k, fx)" and "fx \<noteq> []"
  shows "read_master_key_file path (kf_first kf) = No_file \<and> kf_create kf = Created \<and> kf_random kf = Inr k \<and> fx = [Key_written (base64_encode k)]"
  using assms
  by (auto simp: load_master_key_def split: if_splits option.splits file_read.splits sum.splits file_create.splits)

lemma b64_char_plain: "plain_char (b64_char n)"
  by (auto simp: b64_char_def plain_char_def of_char_of)

lemma base64_plain: "list_all plain_char (base64_encode s)"
proof -
  have "plain_char (CHR ''='')" by (simp add: plain_char_def)
  then show ?thesis by (induction s rule: base64_encode.induct) (simp_all add: b64_char_plain Let_def)
qed

lemma trim_base64 [simp]: "trim_space (base64_encode s) = base64_encode s"
proof (rule trim_space_plain)
  show "base64_encode s = [] \<or> plain_char (hd (base64_encode s)) \<and> plain_char (last (base64_encode s))"
    using base64_plain[of s] by (cases "base64_encode s = []") (auto simp: list_all_iff)
qed


definition fresh_machine :: key_files where
  "fresh_machine = (let f = \<lparr>kf_lstat = No_file, kf_symlink = False, kf_regular = True, kf_perm = 384, kf_chmod = None,
       kf_content = File_data []\<rparr> in
     \<lparr>kf_mkdir = None, kf_stat = Inr (True, 448), kf_chmod_dir = None, kf_first = f,
      kf_random = Inr (replicate 32 (CHR ''k'')), kf_create = Created, kf_second = f, kf_write = None, kf_sync = None, kf_close = None\<rparr>)"


section \<open>Random tokens\<close>

text \<open>\<open>HashToken\<close> (auth.go); the hash function itself is a parameter.\<close>

definition hash_token :: "(string \<Rightarrow> string) \<Rightarrow> string \<Rightarrow> string" where
  "hash_token sha256 token = hex_encode (sha256 token)"

definition new_api_token :: "(string \<Rightarrow> string) \<Rightarrow> string res \<Rightarrow> (string \<times> string) res" where
  "new_api_token sha256 random =
     (case random of
        Inl e \<Rightarrow> Inl (''generate api token: '' @ e)
      | Inr raw \<Rightarrow> (let plaintext = ''cc_'' @ raw_url_encode raw in Inr (plaintext, hash_token sha256 plaintext)))"

definition new_webhook_secret :: "string res \<Rightarrow> string res" where
  "new_webhook_secret random =
     (case random of Inl e \<Rightarrow> Inl (''generate webhook secret: '' @ e) | Inr raw \<Rightarrow> Inr (''whsec_'' @ raw_url_encode raw))"

definition new_setup_token :: "string res \<Rightarrow> string res" where
  "new_setup_token random =
     (case random of Inl e \<Rightarrow> Inl (''generate setup token: '' @ e) | Inr raw \<Rightarrow> Inr (''setup_'' @ raw_url_encode raw))"

end
