(* ===== verification/Http.thy ===== *)
theory Http
  imports Credentials Deployer
begin

text \<open>
  Requests and responses of \<open>internal/server\<close>, the state the handlers share, and the two gates in
  front of them: \<open>requireSameOrigin\<close> (server.go) and the sidebar every page carries (nav.go).

  Of \<open>net/http\<close> a request has what the handlers read: header names are in canonical form, a repeated
  form field or query parameter keeps its values in order, \<open>rq_form_bad\<close> is the error of
  \<open>ParseForm\<close>, and the body is what reading it up to the handler's limit gives. Times are in seconds.
\<close>

section \<open>Requests\<close>

record request =
  rq_method :: string
  rq_path :: string
  rq_host :: string
  rq_remote :: string
  rq_headers :: "(string \<times> string) list"
  rq_cookies :: "(string \<times> string) list"
  rq_query :: "(string \<times> string) list"
  rq_form :: "(string \<times> string) list"
  rq_form_bad :: bool
  rq_body :: string
  rq_tls :: bool

definition first_value :: "(string \<times> string) list \<Rightarrow> string \<Rightarrow> string" where
  "first_value kvs k = (case map_of kvs k of None \<Rightarrow> [] | Some v \<Rightarrow> v)"

definition header :: "request \<Rightarrow> string \<Rightarrow> string" where "header r k = first_value (rq_headers r) k"
definition cookie :: "request \<Rightarrow> string \<Rightarrow> string option" where "cookie r k = map_of (rq_cookies r) k"
definition query_value :: "request \<Rightarrow> string \<Rightarrow> string" where "query_value r k = first_value (rq_query r) k"
definition form_value :: "request \<Rightarrow> string \<Rightarrow> string" where "form_value r k = first_value (rq_form r) k"
definition form_text :: "request \<Rightarrow> string \<Rightarrow> string" where "form_text r k = trim_space (form_value r k)"
definition has_field :: "request \<Rightarrow> string \<Rightarrow> bool" where "has_field r k \<longleftrightarrow> k \<in> fst ` set (rq_form r)"

section \<open>net/url: query escaping\<close>

definition query_safe :: "char \<Rightarrow> bool" where
  "query_safe c \<longleftrightarrow> (let n = (of_char c :: nat) in 48 \<le> n \<and> n \<le> 57 \<or> 65 \<le> n \<and> n \<le> 90 \<or> 97 \<le> n \<and> n \<le> 122)
     \<or> c \<in> set ''-_.~''"

definition upper_hex :: "nat \<Rightarrow> char" where
  "upper_hex n = (if n < 10 then char_of (48 + n) else char_of (55 + n))"

definition query_escape :: "string \<Rightarrow> string" where
  "query_escape s = concat (map (\<lambda>c. if query_safe c then [c] else if c = CHR '' '' then ''+''
     else [CHR ''%'', upper_hex (byte c div 16), upper_hex (byte c mod 16)]) s)"

text \<open>\<open>urlQuery\<close> (admin.go): a space is written as \<open>%20\<close>.\<close>

definition url_query :: "string \<Rightarrow> string" where
  "url_query s = replace_char (CHR ''+'') ''%20'' (query_escape s)"

section \<open>Pages, payloads and responses\<close>

record nav_resource =
  nr_id :: string
  nr_name :: string

record nav_project =
  np_name :: string
  np_resources :: "nav_resource list"

record resource_card =
  cd_project :: project
  cd_server_type :: string
  cd_last_status :: string
  cd_has_deploy :: bool

record env_group =
  eg_name :: string
  eg_resources :: "resource_card list"

record project_group =
  pg_name :: string
  pg_environments :: "env_group list"
  pg_count :: nat

record resource_page =
  rp_project :: project
  rp_server_type :: string
  rp_tab :: string
  rp_deployments :: "deployment list"
  rp_can_rollback :: bool
  rp_servers :: "server list"
  rp_edit_env :: string
  rp_edit_build_env :: string
  rp_github :: bool

record deployment_row =
  dr_deployment :: deployment
  dr_project_name :: string
  dr_can_rollback :: bool

record paging =
  pn_page :: int
  pn_prev :: int
  pn_next :: int
  pn_total_pages :: int
  pn_total :: int

record dashboard_deploy =
  dd_id :: int
  dd_project_id :: string
  dd_project_name :: string
  dd_status :: deploy_status
  dd_trigger :: string
  dd_started_at :: int

record dashboard =
  db_status :: string
  db_servers :: nat
  db_projects :: nat
  db_failed :: nat
  db_recent :: "dashboard_deploy list"

datatype page =
    Login_page string
  | Register_page string bool
  | Dashboard_page dashboard
  | Servers_page "server list" "server option" string string
  | Projects_page "project_group list" string string
  | Wizard_page "project option" "server list" string string string string
  | Resource_page resource_page string string
  | Credentials_page "string list" string string
  | Variables_page "shared_variable list" string string
  | Tokens_page "api_token list" string string string
  | Deployment_page "deployment_row list" "(string \<times> int) list" string string paging string string
  | Setup_page bool "(string \<times> bool \<times> string) list" bool string string
  | Audit_page "remote_command list" "server list" string string string string paging

datatype payload =
    P_error string
  | P_ignored string
  | P_accepted int
  | P_started int
  | P_in_progress int deploy_status
  | P_deleted
  | P_server server
  | P_servers "server list"
  | P_project project
  | P_projects "project list"
  | P_deployment deployment
  | P_deployments "deployment list"
  | P_commands "remote_command list"
  | P_health bool

text \<open>\<open>Shell\<close> is a page inside the authenticated layout, with the sidebar.\<close>

datatype content =
    Bare page
  | Shell "nav_project list" page
  | Plain string
  | Payload payload
  | Events string
  | Location string

record set_cookie =
  sc_value :: string
  sc_max_age :: int
  sc_secure :: bool

record response =
  rs_status :: int
  rs_content :: content
  rs_cookies :: "set_cookie list"
  rs_retry_after :: string

definition respond :: "int \<Rightarrow> content \<Rightarrow> response" where
  "respond status c = \<lparr>rs_status = status, rs_content = c, rs_cookies = [], rs_retry_after = []\<rparr>"

definition http_error :: "int \<Rightarrow> string \<Rightarrow> response" where "http_error status msg = respond status (Plain msg)"
definition redirect :: "string \<Rightarrow> response" where "redirect loc = respond 303 (Location loc)"
definition write_json :: "int \<Rightarrow> payload \<Rightarrow> response" where "write_json status p = respond status (Payload p)"
definition api_error :: "int \<Rightarrow> string \<Rightarrow> response" where "api_error status msg = write_json status (P_error msg)"

section \<open>The state the handlers share\<close>

record login_attempt =
  la_count :: int
  la_first :: int
  la_locked :: "int option"

type_synonym logins = "(string \<times> login_attempt) list"

record site =
  si_system :: system
  si_logins :: logins

text \<open>The dependencies of the server (\<open>Deps\<close>), with the functions of other packages it calls.\<close>

record server_env =
  se_deployer :: deployer
  se_secrets :: credential_store
  se_parse_url :: url_parser
  se_hash_password :: "string \<Rightarrow> string res"
  se_compare_hash :: "string \<Rightarrow> string \<Rightarrow> bool"
  se_sha256 :: "string \<Rightarrow> string"
  se_hmac :: "string \<Rightarrow> string \<Rightarrow> string"
  se_cookie_secure :: bool
  se_ttl :: int
  se_setup_token :: string
  se_has_proxy :: bool
  se_github :: bool

type_synonym 'a handler = "(site, 'a) state"

definition db :: "'a dbm \<Rightarrow> 'a sres handler" where
  "db m = State (\<lambda>si. (let (r, sy) = on_world (si_system si) m in (r, si\<lparr>si_system := sy\<rparr>)))"

definition site_store :: "site \<Rightarrow> store" where "site_store si = w_store (sy_world (si_system si))"

definition put_store :: "store \<Rightarrow> site \<Rightarrow> site" where
  "put_store s si = si\<lparr>si_system := (si_system si)\<lparr>sy_world := (sy_world (si_system si))\<lparr>w_store := s\<rparr>\<rparr>\<rparr>"

lemma site_store_simps [simp]:
  "site_store (put_store s si) = s" "put_store s (put_store t si) = put_store s si" "put_store (site_store si) si = si"
  "si_logins (put_store s si) = si_logins si" "site_store (si\<lparr>si_logins := L\<rparr>) = site_store si"
  "site_store (si\<lparr>si_system := sy\<rparr>) = w_store (sy_world sy)"
  by (simp_all add: site_store_def put_store_def)

lemma run_db: "run_state (db m) si = (case run_state m (site_store si) of (r, s) \<Rightarrow> (r, put_store s si))"
  by (simp add: db_def on_world_def on_store_def site_store_def put_store_def split_def Let_def)

definition on_system :: "(system \<Rightarrow> 'a \<times> system) \<Rightarrow> 'a handler" where
  "on_system f = State (\<lambda>si. (let (r, sy) = f (si_system si) in (r, si\<lparr>si_system := sy\<rparr>)))"

definition answer :: "response \<Rightarrow> response handler" where "answer x = State_Monad.return x"

section \<open>The sidebar\<close>

text \<open>\<open>navTree\<close>: resources by group, both in order of their names; a failing query gives an empty tree.\<close>

definition group_name :: "project \<Rightarrow> string" where
  "group_name p = (if p_group p = [] then ''Default'' else p_group p)"

definition nav_of :: "project list \<Rightarrow> nav_project list" where
  "nav_of ps = map (\<lambda>g. \<lparr>np_name = g, np_resources =
       sort_key nr_name (map (\<lambda>p. \<lparr>nr_id = p_id p, nr_name = p_name p\<rparr>) (filter (\<lambda>p. group_name p = g) ps))\<rparr>)
     (sort (remdups (map group_name ps)))"

definition nav_tree :: "nav_project list handler" where
  "nav_tree = do {
     r \<leftarrow> db list_projects;
     State_Monad.return (case r of Inl _ \<Rightarrow> [] | Inr ps \<Rightarrow> nav_of ps) }"

text \<open>\<open>page\<close> and \<open>render_page\<close> for a page in the authenticated layout.\<close>

definition render_page :: "int \<Rightarrow> page \<Rightarrow> response handler" where
  "render_page status p = do { nav \<leftarrow> nav_tree; answer (respond status (Shell nav p)) }"

definition render_bare :: "int \<Rightarrow> page \<Rightarrow> response handler" where
  "render_bare status p = answer (respond status (Bare p))"

section \<open>The same-origin gate\<close>

definition same_host :: "string \<Rightarrow> string \<Rightarrow> bool" where
  "same_host a b \<longleftrightarrow> a \<noteq> [] \<and> b \<noteq> [] \<and> equal_fold a b"

definition origin_allowed :: "server_env \<Rightarrow> string \<Rightarrow> request \<Rightarrow> bool" where
  "origin_allowed env origin_host r =
     (let fh = header r ''X-Forwarded-Host'';
          base = trim_space (ac_public_url (dp_cfg (se_deployer env)))
      in same_host origin_host (rq_host r)
         \<or> fh \<noteq> [] \<and> same_host origin_host (trim_space (takeWhile (\<lambda>c. c \<noteq> CHR '','') fh))
         \<or> base \<noteq> [] \<and> (case se_parse_url env base of Some u \<Rightarrow> same_host origin_host (u_host u) | None \<Rightarrow> False))"

definition safe_method :: "string \<Rightarrow> bool" where
  "safe_method m \<longleftrightarrow> m \<in> {''GET'', ''HEAD'', ''OPTIONS'', ''TRACE''}"

definition session_cookie :: string where "session_cookie = ''cc_session''"

definition require_same_origin :: "server_env \<Rightarrow> request \<Rightarrow> response handler \<Rightarrow> response handler" where
  "require_same_origin env r nxt =
     (if safe_method (rq_method r) \<or> prefix ''/api/v1/'' (rq_path r) \<or> prefix ''/webhooks/'' (rq_path r) then nxt
      else
        (let o1 = trim_space (header r ''Origin'');
             origin = (if o1 = [] then trim_space (header r ''Referer'') else o1)
         in if equal_fold origin ''null'' then nxt
            else if origin = [] then
              (if cookie r session_cookie \<noteq> None then answer (http_error 403 ''same-origin request metadata required'') else nxt)
            else
              (let rejected = answer (http_error 403 (''cross-origin request rejected (origin '' @ quote origin @ '', host ''
                     @ quote (rq_host r) @ '')''))
               in case se_parse_url env origin of
                    None \<Rightarrow> rejected
                  | Some u \<Rightarrow> if u_host u = [] \<or> \<not> origin_allowed env (u_host u) r then rejected else nxt)))"

section \<open>Handlers that only read\<close>

text \<open>
  A handler \<^emph>\<open>leaves the data alone\<close> when it changes neither the tables of the database nor the
  deployer; failures of statements may still be used up by its queries.
\<close>

definition same_site :: "site \<Rightarrow> site \<Rightarrow> bool" where
  "same_site a b \<longleftrightarrow> (\<exists>fs. b = put_store ((site_store a)\<lparr>st_faults := fs\<rparr>) a)"

definition reads :: "'a handler \<Rightarrow> bool" where
  "reads h \<longleftrightarrow> (\<forall>si. same_site si (snd (run_state h si)))"

definition queries :: "'a dbm \<Rightarrow> bool" where
  "queries m \<longleftrightarrow> (\<forall>s. \<exists>fs. snd (run_state m s) = s\<lparr>st_faults := fs\<rparr>)"

lemma faults_own: "s\<lparr>st_faults := st_faults s\<rparr> = s" for s :: store
  by simp

lemma same_site_refl [simp]: "same_site a a"
  unfolding same_site_def by (rule exI[of _ "st_faults (site_store a)"]) (simp only: faults_own site_store_simps)

lemma same_site_trans: "same_site a b \<Longrightarrow> same_site b c \<Longrightarrow> same_site a c"
  by (auto simp: same_site_def)

lemma queries_stmt: "queries (query_stmt what f)"
proof -
  have "\<exists>fs. snd (run_state (query_stmt what f) s) = s\<lparr>st_faults := fs\<rparr>" for s
    by (cases "st_faults s") (auto simp: query_stmt_def stmt_def Let_def split: option.split
        intro: exI[of _ "st_faults s"] exI[of _ "tl (st_faults s)"])
  then show ?thesis by (simp add: queries_def)
qed

lemma queries_same: "(\<And>s. snd (run_state m s) = s) \<Longrightarrow> queries m"
  unfolding queries_def by (metis faults_own)

lemma queries_pure: "queries (db_ok x)" "queries (db_fail e)" "queries (db_lift q)"
  by (rule queries_same; simp)+

lemma queries_then: "queries m \<Longrightarrow> (\<And>x. queries (k x)) \<Longrightarrow> queries (db_then m k)"
  unfolding queries_def
proof (intro allI)
  fix s
  assume m: "\<forall>s. \<exists>fs. snd (run_state m s) = s\<lparr>st_faults := fs\<rparr>" and k: "\<And>x. \<forall>s. \<exists>fs. snd (run_state (k x) s) = s\<lparr>st_faults := fs\<rparr>"
  obtain r t fs where r: "run_state m s = (r, t)" "t = s\<lparr>st_faults := fs\<rparr>" using m by (metis prod.collapse)
  show "\<exists>fs. snd (run_state (db_then m k) s) = s\<lparr>st_faults := fs\<rparr>"
  proof (cases r)
    case (Inl e)
    then show ?thesis using r by (auto simp: run_db_then)
  next
    case (Inr x)
    then show ?thesis using r k[of x] by (auto simp: run_db_then dest!: spec[of _ t])
  qed
qed

lemma queries_not_found: "queries m \<Longrightarrow> queries (or_not_found m)"
  unfolding or_not_found_def by (rule queries_then) (auto intro: queries_pure split: option.split)

lemmas queries_intros = queries_stmt queries_pure queries_then queries_not_found

lemma reads_db: "queries m \<Longrightarrow> reads (db m)"
  by (auto simp: reads_def queries_def same_site_def run_db split: prod.split) (metis snd_conv)

lemma reads_return: "reads (State_Monad.return x)"
  by (simp add: reads_def)

lemma reads_bind: "reads m \<Longrightarrow> (\<And>x. reads (k x)) \<Longrightarrow> reads (State_Monad.bind m k)"
  unfolding reads_def by (auto simp: run_bind split: prod.split) (metis prod.sel(2) same_site_trans)

lemma reads_answer: "reads (answer x)"
  by (simp add: answer_def reads_return)

lemma queries_list_projects: "queries list_projects" and queries_list_servers: "queries list_servers"
  and queries_get_project: "queries (get_project i)" and queries_get_server: "queries (get_server i)"
  unfolding list_projects_def list_servers_def get_project_def get_server_def
  by (auto intro!: queries_intros split: prod.split)

lemma reads_nav: "reads nav_tree"
  unfolding nav_tree_def by (intro reads_bind reads_db queries_list_projects reads_return)

lemma reads_render: "reads (render_page status p)" "reads (render_bare status p)"
  unfolding render_page_def render_bare_def by (intro reads_bind reads_nav reads_answer | rule reads_answer)+

lemmas reads_intros = reads_bind reads_db reads_return reads_answer reads_render

end
