(* ===== verification/Forms.thy ===== *)
theory Forms
  imports Http
begin

text \<open>
  What the dashboard and the REST API read from their requests: form fields (\<open>internal/server/admin.go\<close>),
  JSON bodies (\<open>decodeJSON\<close>, api.go) and the environment editor, whose values are write-only: a stored
  value is shown as a marker, and the marker that comes back stands for the stored value.
\<close>

section \<open>Form fields\<close>

fun split_by :: "(char \<Rightarrow> bool) \<Rightarrow> string \<Rightarrow> string list" where
  "split_by P [] = [[]]"
| "split_by P (c # s) =
     (if P c then [] # split_by P s
      else (case split_by P s of [] \<Rightarrow> [[c]] | w # ws \<Rightarrow> (c # w) # ws))"

text \<open>\<open>strings.FieldsFunc\<close>.\<close>

definition fields_func :: "(char \<Rightarrow> bool) \<Rightarrow> string \<Rightarrow> string list" where
  "fields_func P s = filter (\<lambda>w. w \<noteq> []) (split_by P s)"

definition parse_list :: "string \<Rightarrow> string list" where
  "parse_list raw = filter (\<lambda>w. w \<noteq> []) (map trim_space (fields_func (\<lambda>c. c = CHR '','' \<or> c = CHR 0x0A \<or> c = CHR '' '') raw))"

definition form_int :: "request \<Rightarrow> string \<Rightarrow> string + int" where
  "form_int r k =
     (let v = form_text r k in
      if v = [] then Inr 0 else (case atoi v of None \<Rightarrow> Inl (k @ '' must be a number'') | Some n \<Rightarrow> Inr n))"

fun collect_mappings :: "string list \<Rightarrow> string + string list" where
  "collect_mappings [] = Inr []"
| "collect_mappings (f # fs) =
     (let t = trim_space f in
      if t = [] then collect_mappings fs
      else (case parse_port_mapping t of
          Inl e \<Rightarrow> Inl e
        | Inr _ \<Rightarrow> (case collect_mappings fs of Inl e \<Rightarrow> Inl e | Inr ts \<Rightarrow> Inr (t # ts))))"

definition parse_port_mappings :: "string \<Rightarrow> string + string list" where
  "parse_port_mappings raw = collect_mappings (fields_func (\<lambda>c. c = CHR '','' \<or> c = CHR 0x0A) raw)"

definition normalize_runtime :: "string \<Rightarrow> string" where
  "normalize_runtime raw = (let t = trim_space raw in if t \<in> {''python'', ''node'', ''go'', ''dotnet''} then t else [])"

section \<open>The environment editor\<close>

definition env_line :: "string \<Rightarrow> (string \<times> string) option" where
  "env_line line0 =
     (let line = trim_space line0 in
      if line = [] \<or> prefix ''#'' line then None
      else (case cut_char (CHR ''='') line of
          (_, None) \<Rightarrow> None
        | (k, Some v) \<Rightarrow> if trim_space k = [] then None else Some (trim_space k, trim_space v)))"

definition parse_env :: "string \<Rightarrow> go_map" where
  "parse_env raw = foldl (\<lambda>m l. case env_line l of None \<Rightarrow> m | Some (k, v) \<Rightarrow> AList.update k v m) [] (split_char (CHR 0x0A) raw)"

definition redacted_env_value :: string where "redacted_env_value = ''[redacted]''"

definition format_env :: "go_map \<Rightarrow> string" where
  "format_env env = trim_right_set nl (concat (map (\<lambda>k. k @ ''='' @ redacted_env_value @ nl) (sorted_keys env)))"

definition preserve_redacted_env :: "go_map \<Rightarrow> go_map \<Rightarrow> go_map" where
  "preserve_redacted_env submitted existing = concat (map (\<lambda>(k, v).
     if v = redacted_env_value then (case map_of existing k of Some old \<Rightarrow> [(k, old)] | None \<Rightarrow> [])
     else [(k, v)]) submitted)"

definition redacted_env :: "go_map \<Rightarrow> go_map" where
  "redacted_env env = map (\<lambda>(k, _). (k, redacted_env_value)) env"

definition redact_project :: "project \<Rightarrow> project" where
  "redact_project p = p\<lparr>p_repo_url := redact_audit_text (p_repo_url p), p_env := redacted_env (p_env p),
     p_build_env := redacted_env (p_build_env p)\<rparr>"

section \<open>JSON bodies\<close>

text \<open>
  \<open>json.Decoder\<close> into a struct with \<open>DisallowUnknownFields\<close>: each member sets the field of its name
  (an exact match, or else one up to case); \<open>null\<close> leaves a number, string or flag alone and clears a
  list or map; a map is merged into the one already there. The error texts are not modelled.
\<close>

datatype 'a json_field =
    Text_field "string \<Rightarrow> 'a \<Rightarrow> 'a"
  | Int_field "int \<Rightarrow> 'a \<Rightarrow> 'a"
  | Bool_field "bool \<Rightarrow> 'a \<Rightarrow> 'a"
  | Texts_field "string list \<Rightarrow> 'a \<Rightarrow> 'a"
  | Map_field "'a \<Rightarrow> go_map" "go_map \<Rightarrow> 'a \<Rightarrow> 'a"

fun set_field :: "'a json_field \<Rightarrow> json \<Rightarrow> 'a \<Rightarrow> 'a option" where
  "set_field (Text_field f) (JStr s) x = Some (f s x)"
| "set_field (Text_field f) JNull x = Some x"
| "set_field (Int_field f) (JNum n) x = (case atoi n of None \<Rightarrow> None | Some i \<Rightarrow> Some (f i x))"
| "set_field (Int_field f) JNull x = Some x"
| "set_field (Bool_field f) (JBool b) x = Some (f b x)"
| "set_field (Bool_field f) JNull x = Some x"
| "set_field (Texts_field f) (JArr vs) x = (case json_texts vs of None \<Rightarrow> None | Some ss \<Rightarrow> Some (f ss x))"
| "set_field (Texts_field f) JNull x = Some (f [] x)"
| "set_field (Map_field g f) (JObj ms) x = (case json_text_map ms (g x) of None \<Rightarrow> None | Some m \<Rightarrow> Some (f m x))"
| "set_field (Map_field g f) JNull x = Some (f [] x)"
| "set_field _ _ x = None"

definition find_field :: "(string \<times> 'a json_field) list \<Rightarrow> string \<Rightarrow> 'a json_field option" where
  "find_field fs k = (case map_of fs k of Some f \<Rightarrow> Some f | None \<Rightarrow> map_option snd (find (\<lambda>(n, _). equal_fold k n) fs))"

fun set_members :: "(string \<times> 'a json_field) list \<Rightarrow> (string \<times> json) list \<Rightarrow> 'a \<Rightarrow> 'a option" where
  "set_members fs [] x = Some x"
| "set_members fs ((k, v) # ms) x =
     (case find_field fs k of None \<Rightarrow> None
      | Some f \<Rightarrow> (case set_field f v x of None \<Rightarrow> None | Some y \<Rightarrow> set_members fs ms y))"

definition max_api_body :: int where "max_api_body = 64 * 1024"

definition decode_json :: "(string \<times> 'a json_field) list \<Rightarrow> request \<Rightarrow> 'a \<Rightarrow> 'a option" where
  "decode_json fs r x =
     (if int (length (rq_body r)) > max_api_body then None
      else (case unmarshal_members (rq_body r) of None \<Rightarrow> None | Some ms \<Rightarrow> set_members fs ms x))"

text \<open>The JSON names of the two entities (\<open>internal/config/entities.go\<close>).\<close>

definition server_fields :: "(string \<times> server json_field) list" where
  "server_fields = [
     (''id'', Text_field (\<lambda>v x. x\<lparr>sv_id := v\<rparr>)), (''name'', Text_field (\<lambda>v x. x\<lparr>sv_name := v\<rparr>)),
     (''type'', Text_field (\<lambda>v x. x\<lparr>sv_type := v\<rparr>)), (''host'', Text_field (\<lambda>v x. x\<lparr>sv_host := v\<rparr>)),
     (''winrm_endpoint'', Text_field (\<lambda>v x. x\<lparr>sv_winrm_endpoint := v\<rparr>)),
     (''winrm_user'', Text_field (\<lambda>v x. x\<lparr>sv_winrm_user := v\<rparr>)),
     (''winrm_transport'', Text_field (\<lambda>v x. x\<lparr>sv_winrm_transport := v\<rparr>)),
     (''winrm_insecure'', Bool_field (\<lambda>v x. x\<lparr>sv_winrm_insecure := v\<rparr>)),
     (''credential_ref'', Text_field (\<lambda>v x. x\<lparr>sv_credential_ref := v\<rparr>)),
     (''nssm_path'', Text_field (\<lambda>v x. x\<lparr>sv_nssm_path := v\<rparr>)), (''caddy_path'', Text_field (\<lambda>v x. x\<lparr>sv_caddy_path := v\<rparr>)),
     (''ssh_host'', Text_field (\<lambda>v x. x\<lparr>sv_ssh_host := v\<rparr>)), (''ssh_port'', Int_field (\<lambda>v x. x\<lparr>sv_ssh_port := v\<rparr>)),
     (''ssh_user'', Text_field (\<lambda>v x. x\<lparr>sv_ssh_user := v\<rparr>)), (''ssh_key_ref'', Text_field (\<lambda>v x. x\<lparr>sv_ssh_key_ref := v\<rparr>)),
     (''public_ip'', Text_field (\<lambda>v x. x\<lparr>sv_public_ip := v\<rparr>)), (''local'', Bool_field (\<lambda>v x. x\<lparr>sv_local := v\<rparr>)),
     (''services'', Texts_field (\<lambda>v x. x\<lparr>sv_services := v\<rparr>)), (''disk_path'', Text_field (\<lambda>v x. x\<lparr>sv_disk_path := v\<rparr>))]"

definition project_fields :: "(string \<times> project json_field) list" where
  "project_fields = [
     (''id'', Text_field (\<lambda>v x. x\<lparr>p_id := v\<rparr>)), (''name'', Text_field (\<lambda>v x. x\<lparr>p_name := v\<rparr>)),
     (''server_id'', Text_field (\<lambda>v x. x\<lparr>p_server_id := v\<rparr>)), (''strategy'', Text_field (\<lambda>v x. x\<lparr>p_strategy := v\<rparr>)),
     (''source'', Text_field (\<lambda>v x. x\<lparr>p_source := v\<rparr>)), (''repo_url'', Text_field (\<lambda>v x. x\<lparr>p_repo_url := v\<rparr>)),
     (''dockerfile_path'', Text_field (\<lambda>v x. x\<lparr>p_dockerfile_path := v\<rparr>)),
     (''compose_path'', Text_field (\<lambda>v x. x\<lparr>p_compose_path := v\<rparr>)), (''image'', Text_field (\<lambda>v x. x\<lparr>p_image := v\<rparr>)),
     (''ports_exposes'', Int_field (\<lambda>v x. x\<lparr>p_ports_exposes := v\<rparr>)),
     (''ports_mappings'', Texts_field (\<lambda>v x. x\<lparr>p_ports_mappings := v\<rparr>)),
     (''iis_site'', Text_field (\<lambda>v x. x\<lparr>p_iis_site := v\<rparr>)),
     (''iis_physical_path'', Text_field (\<lambda>v x. x\<lparr>p_iis_physical_path := v\<rparr>)),
     (''iis_app_pool'', Text_field (\<lambda>v x. x\<lparr>p_iis_app_pool := v\<rparr>)), (''iis_service'', Text_field (\<lambda>v x. x\<lparr>p_iis_service := v\<rparr>)),
     (''iis_build_command'', Text_field (\<lambda>v x. x\<lparr>p_iis_build_command := v\<rparr>)),
     (''iis_source_subdir'', Text_field (\<lambda>v x. x\<lparr>p_iis_source_subdir := v\<rparr>)),
     (''iis_blue_green'', Bool_field (\<lambda>v x. x\<lparr>p_iis_blue_green := v\<rparr>)),
     (''service_name'', Text_field (\<lambda>v x. x\<lparr>p_service_name := v\<rparr>)), (''service_exe'', Text_field (\<lambda>v x. x\<lparr>p_service_exe := v\<rparr>)),
     (''service_args'', Text_field (\<lambda>v x. x\<lparr>p_service_args := v\<rparr>)),
     (''service_work_dir'', Text_field (\<lambda>v x. x\<lparr>p_service_work_dir := v\<rparr>)),
     (''service_build_command'', Text_field (\<lambda>v x. x\<lparr>p_service_build_command := v\<rparr>)),
     (''service_source_subdir'', Text_field (\<lambda>v x. x\<lparr>p_service_source_subdir := v\<rparr>)),
     (''service_log_dir'', Text_field (\<lambda>v x. x\<lparr>p_service_log_dir := v\<rparr>)),
     (''service_account'', Text_field (\<lambda>v x. x\<lparr>p_service_account := v\<rparr>)), (''runtime'', Text_field (\<lambda>v x. x\<lparr>p_runtime := v\<rparr>)),
     (''caddy_mode'', Text_field (\<lambda>v x. x\<lparr>p_caddy_mode := v\<rparr>)), (''branch'', Text_field (\<lambda>v x. x\<lparr>p_branch := v\<rparr>)),
     (''domain'', Text_field (\<lambda>v x. x\<lparr>p_domain := v\<rparr>)), (''port'', Int_field (\<lambda>v x. x\<lparr>p_port := v\<rparr>)),
     (''health_path'', Text_field (\<lambda>v x. x\<lparr>p_health_path := v\<rparr>)),
     (''webhook_secret_ref'', Text_field (\<lambda>v x. x\<lparr>p_webhook_secret_ref := v\<rparr>)),
     (''github_repo'', Text_field (\<lambda>v x. x\<lparr>p_github_repo := v\<rparr>)),
     (''git_credential_ref'', Text_field (\<lambda>v x. x\<lparr>p_git_credential_ref := v\<rparr>)),
     (''env'', Map_field p_env (\<lambda>v x. x\<lparr>p_env := v\<rparr>)), (''build_env'', Map_field p_build_env (\<lambda>v x. x\<lparr>p_build_env := v\<rparr>)),
     (''health_interval_seconds'', Int_field (\<lambda>v x. x\<lparr>p_health_interval := v\<rparr>)),
     (''health_timeout_seconds'', Int_field (\<lambda>v x. x\<lparr>p_health_timeout := v\<rparr>)),
     (''health_retries'', Int_field (\<lambda>v x. x\<lparr>p_health_retries := v\<rparr>)),
     (''health_start_period_seconds'', Int_field (\<lambda>v x. x\<lparr>p_health_start_period := v\<rparr>)),
     (''project_group'', Text_field (\<lambda>v x. x\<lparr>p_group := v\<rparr>)), (''environment'', Text_field (\<lambda>v x. x\<lparr>p_environment := v\<rparr>)),
     (''disable_health_check'', Bool_field (\<lambda>v x. x\<lparr>p_disable_health_check := v\<rparr>))]"

section \<open>Editing an environment without seeing it\<close>

lemma key_chars:
  assumes "env_key_pattern k"
  shows "k \<noteq> []" and "list_all plain_char k" and "hd k \<noteq> CHR ''#''"
  using assms by (auto simp: env_key_pattern_def char_classes list_all_iff plain_char_def split: list.splits)

lemma trim_plain: "list_all plain_char s \<Longrightarrow> trim_space s = s"
  by (rule trim_space_plain) (cases "s = []"; simp add: list_all_iff)

lemma marker_plain: "list_all plain_char redacted_env_value"
  by (simp add: redacted_env_value_def plain_char_def)

lemma env_line_marker:
  assumes "env_key_pattern k"
  shows "env_line (k @ ''='' @ redacted_env_value) = Some (k, redacted_env_value)"
proof -
  let ?l = "k @ ''='' @ redacted_env_value"
  have p: "list_all plain_char ?l" using key_chars(2)[OF assms] marker_plain by (simp add: plain_char_def)
  have "cut_char (CHR ''='') ?l = (k, Some redacted_env_value)"
    using cut_char_append[of "CHR ''=''" k redacted_env_value] env_key_no_equals[OF assms] by simp
  moreover have "\<not> prefix ''#'' ?l" "?l \<noteq> []"
    using key_chars(1,3)[OF assms] by (cases k; simp)+
  ultimately show ?thesis
    unfolding env_line_def Let_def trim_plain[OF p]
    using key_chars(1)[OF assms] by (simp add: trim_plain[OF key_chars(2)[OF assms]] trim_plain[OF marker_plain])
qed

lemma split_joined:
  "ls \<noteq> [] \<Longrightarrow> list_all (\<lambda>l. CHR 0x0A \<notin> set l) ls \<Longrightarrow> split_char (CHR 0x0A) (join nl ls) = ls"
proof (induction ls)
  case (Cons l ls)
  then show ?case
    by (cases "ls = []") (simp_all add: split_char_none join_Cons nl_def split_char_append)
qed simp

lemma concat_lines: "ls \<noteq> [] \<Longrightarrow> concat (map (\<lambda>l. l @ nl) ls) = join nl ls @ nl"
proof (induction ls)
  case (Cons l ls)
  then show ?case by (cases "ls = []") (simp_all add: join_Cons)
qed simp

lemma trim_newline: "s \<noteq> [] \<Longrightarrow> last s \<noteq> CHR 0x0A \<Longrightarrow> trim_right_set nl (s @ nl) = s"
  by (cases s rule: rev_cases) (simp_all add: trim_right_set_def nl_def)

lemma last_join: "ls \<noteq> [] \<Longrightarrow> last ls \<noteq> [] \<Longrightarrow> join nl ls \<noteq> [] \<and> last (join nl ls) = last (last ls)"
  by (induction ls) (auto simp: join_Cons split: if_splits)

lemma foldl_markers:
  "distinct (map fst m @ ks) \<Longrightarrow> list_all env_key_pattern ks \<Longrightarrow>
     foldl (\<lambda>m l. case env_line l of None \<Rightarrow> m | Some (k, v) \<Rightarrow> AList.update k v m) m (map (\<lambda>k. k @ ''='' @ redacted_env_value) ks)
       = m @ map (\<lambda>k. (k, redacted_env_value)) ks"
proof (induction ks arbitrary: m)
  case (Cons k ks)
  have "AList.update k redacted_env_value m = m @ [(k, redacted_env_value)]"
    using Cons.prems by (induction m) auto
  then show ?case using Cons env_line_marker[of k] by simp
qed simp

lemma parse_format:
  assumes "distinct_keys env" and "list_all (\<lambda>(k, _). env_key_pattern k) env"
  shows "parse_env (format_env env) = map (\<lambda>k. (k, redacted_env_value)) (sorted_keys env)"
proof (cases "sorted_keys env = []")
  case True
  then show ?thesis by (simp add: parse_env_def format_env_def trim_right_set_def env_line_def Let_def trim_plain)
next
  case False
  let ?ls = "map (\<lambda>k. k @ ''='' @ redacted_env_value) (sorted_keys env)"
  have ks: "list_all env_key_pattern (sorted_keys env)"
    using assms(2) by (auto simp: list_all_iff sorted_keys_def)
  have "last ?ls \<noteq> []" "last (last ?ls) \<noteq> CHR 0x0A"
    using False by (simp_all add: last_map redacted_env_value_def)
  with last_join[of ?ls] False have "trim_right_set nl (join nl ?ls @ nl) = join nl ?ls"
    by (intro trim_newline) auto
  then have "format_env env = join nl ?ls"
    using concat_lines[of ?ls] False by (simp add: format_env_def comp_def)
  moreover have "list_all (\<lambda>l. CHR 0x0A \<notin> set l) ?ls"
    using ks env_key_no_equals by (auto simp: list_all_iff redacted_env_value_def)
  moreover have "distinct (sorted_keys env)" using assms(1) by (simp add: sorted_keys_def distinct_keys_def)
  ultimately show ?thesis
    using foldl_markers[of "[]" "sorted_keys env"] ks False split_joined[of ?ls] by (simp add: parse_env_def)
qed

lemma map_of_concat:
  "distinct ks \<Longrightarrow> map_of (concat (map (\<lambda>k. case m k of Some v \<Rightarrow> [(k, v)] | None \<Rightarrow> []) ks)) k = (if k \<in> set ks then m k else None)"
proof (induction ks)
  case (Cons x ks)
  then show ?case by (cases "m x") auto
qed simp

text \<open>
  C39: The environment editor never shows a value, since what it shows depends on the names alone, and
  saving the form as it was shown keeps every value.
\<close>
theorem env_form_roundtrip:
  assumes "distinct_keys env" and "list_all (\<lambda>(k, _). validate_env_key k = None) env"
  shows "map_of (preserve_redacted_env (parse_env (format_env env)) env) = map_of env
    \<and> (\<forall>other. map fst other = map fst env \<longrightarrow> format_env other = format_env env)"
proof -
  have "list_all (\<lambda>(k, _). env_key_pattern k) env"
    using assms(2) by (auto simp: list_all_iff validate_env_key_def split: if_splits)
  note p = parse_format[OF assms(1) this]
  have "preserve_redacted_env (parse_env (format_env env)) env
      = concat (map (\<lambda>k. case map_of env k of Some v \<Rightarrow> [(k, v)] | None \<Rightarrow> []) (sorted_keys env))"
    by (simp add: p preserve_redacted_env_def comp_def)
  moreover have "distinct (sorted_keys env)" "set (sorted_keys env) = fst ` set env"
    using assms(1) by (simp_all add: sorted_keys_def distinct_keys_def)
  ultimately have "map_of (preserve_redacted_env (parse_env (format_env env)) env) k = map_of env k" for k
    by (simp add: map_of_concat) (metis map_of_eq_None_iff)
  moreover have "format_env other = format_env env" if "map fst other = map fst env" for other
    using that by (simp add: format_env_def sorted_keys_def)
  ultimately show ?thesis by blast
qed

theorem env_form_roundtrip_witness:
  "map_of (preserve_redacted_env (parse_env (format_env [(''TOKEN'', ''s3cret''), (''MODE'', ''prod'')])) [(''TOKEN'', ''s3cret''), (''MODE'', ''prod'')])
     ''TOKEN'' = Some ''s3cret''"
proof -
  let ?e = "[(''TOKEN'', ''s3cret''), (''MODE'', ''prod'')] :: go_map"
  have d: "distinct_keys ?e" by (simp add: distinct_keys_def)
  have v: "list_all (\<lambda>(k, _). validate_env_key k = None) ?e" by code_simp
  have "map_of (preserve_redacted_env (parse_env (format_env ?e)) ?e) = map_of ?e"
    by (rule conjunct1[OF env_form_roundtrip[OF d v]])
  then show ?thesis by (simp only:) simp
qed

end
