(* ===== verification/Auth.thy ===== *)
theory Auth
  imports Http
begin

text \<open>
  Signing in (\<open>internal/auth/auth.go\<close>) and the handlers of the first pages (\<open>internal/server/handlers.go\<close>):
  the back-off of password guesses, the one-time registration, sessions, the \<open>RequireAuth\<close> gate and the
  bearer-token gate of the REST API (api.go). bcrypt and SHA-256 are parameters of the environment; random
  bytes and the clock are arguments of the handlers. Passwords and cookies never reach a log.
\<close>

section \<open>Back-off of password guesses\<close>

definition login_window :: int where "login_window = 15 * 60"
definition login_lock :: int where "login_lock = 5 * 60"

definition login_retry_after :: "int \<Rightarrow> string \<Rightarrow> logins \<Rightarrow> int \<times> logins" where
  "login_retry_after now key L =
     (case map_of L key of
        None \<Rightarrow> (0, L)
      | Some a \<Rightarrow>
          (case la_locked a of
             Some until \<Rightarrow>
               (if now < until then (until - now, L)
                else if now - la_first a > login_window then (0, AList.delete key L) else (0, L))
           | None \<Rightarrow> if now - la_first a > login_window then (0, AList.delete key L) else (0, L)))"

definition record_login_failure :: "int \<Rightarrow> string \<Rightarrow> logins \<Rightarrow> logins" where
  "record_login_failure now key L =
     (let fresh = \<lparr>la_count = 0, la_first = now, la_locked = None\<rparr>;
          a = (case map_of L key of None \<Rightarrow> fresh | Some a \<Rightarrow> if now - la_first a > login_window then fresh else a);
          b = a\<lparr>la_count := la_count a + 1\<rparr>;
          c = (if la_count b \<ge> 5 then b\<lparr>la_locked := Some (now + login_lock)\<rparr> else b)
      in AList.update key c L)"

definition clear_login_failures :: "string \<Rightarrow> logins \<Rightarrow> logins" where
  "clear_login_failures key L = AList.delete key L"

text \<open>One guess that is made while the account of failures is consulted: is the password looked at?\<close>

definition guess :: "int \<Rightarrow> bool \<Rightarrow> string \<Rightarrow> logins \<Rightarrow> bool \<times> logins" where
  "guess now right key L =
     (let (retry, L1) = login_retry_after now key L in
      if retry > 0 then (False, L1)
      else (True, if right then clear_login_failures key L1 else record_login_failure now key L1))"

section \<open>Accounts\<close>

datatype auth_error = Err_invalid_credentials | Err_registration_closed | Auth_failed string

definition has_users :: "bool dbm" where
  "has_users = db_then count_users (\<lambda>n. db_ok (n > 0))"

definition register :: "server_env \<Rightarrow> string \<Rightarrow> string \<Rightarrow> (auth_error + user) handler" where
  "register env username password =
     (case se_hash_password env password of
        Inl e \<Rightarrow> State_Monad.return (Inl (Auth_failed (''hash password: '' @ e)))
      | Inr hash \<Rightarrow> do {
          r \<leftarrow> db (create_first_user username hash);
          State_Monad.return (case r of
              Inl ErrAlreadyInitialized \<Rightarrow> Inl Err_registration_closed
            | Inl e \<Rightarrow> Inl (Auth_failed (error_text e))
            | Inr u \<Rightarrow> Inr u) })"

text \<open>The comparison with a dummy hash for an unknown name equalises timing and has no other effect.\<close>

definition authenticate :: "server_env \<Rightarrow> string \<Rightarrow> string \<Rightarrow> (auth_error + user) handler" where
  "authenticate env username password = do {
     r \<leftarrow> db (user_by_username username);
     State_Monad.return (case r of
         Inl ErrNotFound \<Rightarrow> Inl Err_invalid_credentials
       | Inl e \<Rightarrow> Inl (Auth_failed (''authenticate: '' @ error_text e))
       | Inr u \<Rightarrow> if se_compare_hash env (u_password_hash u) password then Inr u else Inl Err_invalid_credentials) }"

section \<open>Sessions\<close>

definition start_session :: "server_env \<Rightarrow> int \<Rightarrow> string res \<Rightarrow> int \<Rightarrow> (string + set_cookie) handler" where
  "start_session env now random uid =
     (case random of
        Inl e \<Rightarrow> State_Monad.return (Inl (''generate session token: '' @ e))
      | Inr raw \<Rightarrow> (let token = raw_url_encode raw in do {
          r \<leftarrow> db (create_session now (hash_token (se_sha256 env) token) uid (now + se_ttl env));
          State_Monad.return (case r of
              Inl e \<Rightarrow> Inl (error_text e)
            | Inr _ \<Rightarrow> Inr \<lparr>sc_value = token, sc_max_age = se_ttl env, sc_secure = se_cookie_secure env\<rparr>) }))"

definition end_session :: "server_env \<Rightarrow> request \<Rightarrow> (string + set_cookie) handler" where
  "end_session env r =
     (let cleared = \<lparr>sc_value = [], sc_max_age = - 1, sc_secure = se_cookie_secure env\<rparr> in
      case cookie r session_cookie of
        None \<Rightarrow> State_Monad.return (Inr cleared)
      | Some c \<Rightarrow> do {
          x \<leftarrow> db (delete_session (hash_token (se_sha256 env) c));
          State_Monad.return (case x of Inl e \<Rightarrow> Inl (error_text e) | Inr _ \<Rightarrow> Inr cleared) })"

definition validate_session :: "server_env \<Rightarrow> int \<Rightarrow> string \<Rightarrow> string option handler" where
  "validate_session env now token = do {
     r \<leftarrow> db (username_by_session (hash_token (se_sha256 env) token) now);
     State_Monad.return (case r of Inl _ \<Rightarrow> None | Inr name \<Rightarrow> Some name) }"

text \<open>\<open>RequireAuth\<close>: the protected handler receives the user's name.\<close>

definition require_auth :: "server_env \<Rightarrow> int \<Rightarrow> request \<Rightarrow> (string \<Rightarrow> response handler) \<Rightarrow> response handler" where
  "require_auth env now r nxt =
     (let refuse = answer (if prefix ''/api/'' (rq_path r) then http_error 401 ([CHR ''{''] @ quote ''error'' @ '':'' @ quote ''unauthorized'' @ [CHR ''}''])
                           else redirect ''/login'')
      in case cookie r session_cookie of
           None \<Rightarrow> refuse
         | Some c \<Rightarrow> do {
             name \<leftarrow> validate_session env now c;
             case name of Some u \<Rightarrow> nxt u | None \<Rightarrow> refuse })"

text \<open>\<open>apiAuth\<close>: the time of last use is written by a goroutine of its own, here before the handler.\<close>

definition api_auth :: "server_env \<Rightarrow> int \<Rightarrow> request \<Rightarrow> response handler \<Rightarrow> response handler" where
  "api_auth env now r nxt =
     (let auth = header r ''Authorization'' in
      if \<not> prefix ''Bearer '' auth then answer (api_error 401 ''missing bearer token'')
      else (let token = trim_space (trim_prefix ''Bearer '' auth) in
        if token = [] then answer (api_error 401 ''empty bearer token'')
        else do {
          found \<leftarrow> db (api_token_by_hash (hash_token (se_sha256 env) token));
          case found of
            Inl _ \<Rightarrow> answer (api_error 401 ''invalid token'')
          | Inr t \<Rightarrow>
              if rq_method r \<noteq> ''GET'' \<and> tk_scope t \<noteq> ''write'' then answer (api_error 403 ''token is read-only'')
              else do { _ \<leftarrow> db (touch_api_token (tk_id t) now); nxt } }))"

section \<open>The handlers\<close>

definition on_logins :: "(logins \<Rightarrow> 'a \<times> logins) \<Rightarrow> 'a handler" where
  "on_logins f = State (\<lambda>si. (let (x, L) = f (si_logins si) in (x, si\<lparr>si_logins := L\<rparr>)))"

definition handle_login_form :: "response handler" where
  "handle_login_form = do {
     r \<leftarrow> db has_users;
     case r of
       Inl _ \<Rightarrow> answer (http_error 500 ''error'')
     | Inr False \<Rightarrow> answer (redirect ''/register'')
     | Inr True \<Rightarrow> render_bare 200 (Login_page []) }"

definition login_key :: "request \<Rightarrow> string \<Rightarrow> string" where
  "login_key r username = rq_remote r @ ''|'' @ to_lower (trim_space username)"

definition handle_login :: "server_env \<Rightarrow> int \<Rightarrow> string res \<Rightarrow> request \<Rightarrow> response handler" where
  "handle_login env now random r = do {
     users \<leftarrow> db has_users;
     if users = Inr False then answer (redirect ''/register'')
     else if rq_form_bad r then render_bare 400 (Login_page ''Malformed form submission.'')
     else (let username = form_value r ''username''; password = form_value r ''password''; key = login_key r username in do {
       retry \<leftarrow> on_logins (login_retry_after now key);
       if retry > 0 then answer ((respond 429 (Bare (Login_page ''Too many failed sign-in attempts. Try again later.'')))
             \<lparr>rs_retry_after := itoa (retry + 1)\<rparr>)
       else do {
         x \<leftarrow> authenticate env username password;
         case x of
           Inl Err_invalid_credentials \<Rightarrow> do {
             _ \<leftarrow> on_logins (\<lambda>L. ((), record_login_failure now key L));
             render_bare 401 (Login_page ''Invalid username or password.'') }
         | Inl _ \<Rightarrow> render_bare 500 (Login_page ''Sign-in failed. Try again.'')
         | Inr u \<Rightarrow> do {
             _ \<leftarrow> on_logins (\<lambda>L. ((), clear_login_failures key L));
             sess \<leftarrow> start_session env now random (u_id u);
             case sess of
               Inl _ \<Rightarrow> render_bare 500 (Login_page ''Sign-in failed. Try again.'')
             | Inr c \<Rightarrow> answer ((redirect ''/dashboard'')\<lparr>rs_cookies := [c]\<rparr>) } } }) }"

definition valid_setup_token :: "string \<Rightarrow> string \<Rightarrow> bool" where
  "valid_setup_token expected supplied \<longleftrightarrow> expected \<noteq> [] \<and> length expected = length supplied \<and> expected = supplied"

definition handle_register_form :: "server_env \<Rightarrow> response handler" where
  "handle_register_form env = do {
     r \<leftarrow> db has_users;
     case r of
       Inl _ \<Rightarrow> answer (http_error 500 ''error'')
     | Inr True \<Rightarrow> answer (redirect ''/login'')
     | Inr False \<Rightarrow> render_bare 200 (Register_page [] (se_setup_token env \<noteq> [])) }"

definition register_refusal :: "server_env \<Rightarrow> request \<Rightarrow> (int \<times> string) option" where
  "register_refusal env r =
     (if se_setup_token env \<noteq> [] \<and> rq_form_bad r then Some (400, ''Malformed form submission.'')
      else if se_setup_token env \<noteq> [] \<and> \<not> valid_setup_token (se_setup_token env) (form_value r ''setup_token'')
      then Some (403, ''A valid setup token is required.'')
      else if rq_form_bad r then Some (400, ''Malformed form submission.'')
      else if form_text r ''username'' = [] then Some (400, ''Username is required.'')
      else if length (form_value r ''password'') < 8 then Some (400, ''Password must be at least 8 characters.'')
      else if form_value r ''password'' \<noteq> form_value r ''confirm'' then Some (400, ''Passwords do not match.'')
      else None)"

definition handle_register :: "server_env \<Rightarrow> int \<Rightarrow> string res \<Rightarrow> request \<Rightarrow> response handler" where
  "handle_register env now random r = (let need = se_setup_token env \<noteq> [] in do {
     users \<leftarrow> db has_users;
     case users of
       Inl _ \<Rightarrow> render_bare 500 (Register_page ''Setup failed. Try again.'' need)
     | Inr True \<Rightarrow> answer (redirect ''/login'')
     | Inr False \<Rightarrow>
         (case register_refusal env r of
            Some (status, msg) \<Rightarrow> render_bare status (Register_page msg need)
          | None \<Rightarrow> do {
              x \<leftarrow> register env (form_text r ''username'') (form_value r ''password'');
              case x of
                Inl Err_registration_closed \<Rightarrow> answer (redirect ''/login'')
              | Inl _ \<Rightarrow> render_bare 500 (Register_page ''Setup failed. Try again.'' need)
              | Inr u \<Rightarrow> do {
                  sess \<leftarrow> start_session env now random (u_id u);
                  case sess of
                    Inl _ \<Rightarrow> answer (redirect ''/login'')
                  | Inr c \<Rightarrow> answer ((redirect ''/dashboard'')\<lparr>rs_cookies := [c]\<rparr>) } }) })"

definition handle_logout :: "server_env \<Rightarrow> request \<Rightarrow> response handler" where
  "handle_logout env r = do {
     x \<leftarrow> end_session env r;
     answer ((redirect ''/login'')\<lparr>rs_cookies := (case x of Inl _ \<Rightarrow> [] | Inr c \<Rightarrow> [c])\<rparr>) }"

section \<open>How many guesses the back-off lets through\<close>

fun wrong_guesses :: "int list \<Rightarrow> string \<Rightarrow> logins \<Rightarrow> bool list \<times> logins" where
  "wrong_guesses [] key L = ([], L)"
| "wrong_guesses (t # ts) key L =
     (let (seen, L1) = guess t False key L; (rest, L2) = wrong_guesses ts key L1 in (seen # rest, L2))"

definition count_seen :: "bool list \<Rightarrow> nat" where "count_seen bs = length (filter id bs)"

text \<open>After \<open>c\<close> failures since \<open>start\<close>: from the fifth on each failure locked the key for five minutes.\<close>

definition failures_ok :: "int \<Rightarrow> int \<Rightarrow> login_attempt option \<Rightarrow> bool" where
  "failures_ok start c entry =
     (case entry of
        None \<Rightarrow> c = 0
      | Some a \<Rightarrow> la_count a = c \<and> 1 \<le> c \<and> c \<le> 8 \<and> start \<le> la_first a
          \<and> (case la_locked a of None \<Rightarrow> c < 5 | Some l \<Rightarrow> 5 \<le> c \<and> start + login_lock * (c - 4) \<le> l))"

lemma wrong_guess_step:
  assumes "failures_ok start c (map_of L key)" and "start \<le> t" and "t \<le> start + login_window"
    and "guess t False key L = (seen, L')"
  shows "failures_ok start (if seen then c + 1 else c) (map_of L' key)"
proof (cases "map_of L key")
  case None
  then show ?thesis using assms
    by (auto simp: guess_def login_retry_after_def record_login_failure_def failures_ok_def Let_def update_conv')
next
  case (Some a)
  then have a: "la_count a = c" "1 \<le> c" "c \<le> 8" "start \<le> la_first a"
    using assms(1) by (auto simp: failures_ok_def)
  have w: "\<not> t - la_first a > login_window" using a(4) assms(3) by simp
  show ?thesis
  proof (cases "la_locked a")
    case None
    then have "c < 5" using assms(1) Some by (simp add: failures_ok_def)
    then show ?thesis using assms(2,4) Some None a w
      by (auto simp: guess_def login_retry_after_def record_login_failure_def failures_ok_def Let_def update_conv'
        login_lock_def)
  next
    case l: (Some u)
    then have c: "5 \<le> c" "start + login_lock * (c - 4) \<le> u" using assms(1) Some by (simp_all add: failures_ok_def)
    show ?thesis
    proof (cases "t < u")
      case True
      then show ?thesis using assms(1,4) Some l by (auto simp: guess_def login_retry_after_def)
    next
      case False
      then have "login_lock * (c - 4) \<le> login_window" using c(2) assms(3) by simp
      then have "c \<le> 7" by (simp add: login_lock_def login_window_def)
      moreover have "start + 300 * c \<le> 1200 + t" using c(2) False by (simp add: login_lock_def)
      ultimately show ?thesis using assms(4) Some l a w c(1) False
        by (auto simp: guess_def login_retry_after_def record_login_failure_def failures_ok_def Let_def update_conv'
          login_lock_def)
    qed
  qed
qed

lemma wrong_guesses_ok:
  assumes "failures_ok start c (map_of L key)" and "\<And>t. t \<in> set ts \<Longrightarrow> start \<le> t \<and> t \<le> start + login_window"
  shows "failures_ok start (c + int (count_seen (fst (wrong_guesses ts key L)))) (map_of (snd (wrong_guesses ts key L)) key)"
  using assms
proof (induction ts arbitrary: c L)
  case Nil
  then show ?case by (simp add: count_seen_def)
next
  case (Cons t ts)
  obtain seen L1 where g: "guess t False key L = (seen, L1)" by fastforce
  have "failures_ok start (if seen then c + 1 else c) (map_of L1 key)"
    by (rule wrong_guess_step[OF Cons.prems(1) _ _ g]) (use Cons.prems(2)[of t] in simp_all)
  from Cons.IH[OF this] Cons.prems(2) show ?case
    by (simp add: g split_def Let_def count_seen_def algebra_simps split: if_splits)
qed

lemma wrong_guesses_append:
  "wrong_guesses (ts @ us) key L = (let (a, L1) = wrong_guesses ts key L; (b, L2) = wrong_guesses us key L1 in (a @ b, L2))"
  by (induction ts arbitrary: L) (simp_all add: split_def Let_def)

lemma seen_guess_locks:
  assumes "guess t False key L = (True, L')"
  shows "\<exists>a. map_of L' key = Some a \<and> (5 \<le> la_count a \<longrightarrow> la_locked a = Some (t + login_lock))"
  using assms by (auto simp: guess_def split_def Let_def record_login_failure_def update_conv' split: if_splits)



text \<open>
  The account is consulted before the password is checked and written after it, so requests that run
  side by side all pass: none of any number of first guesses is stopped.
\<close>

lemma parallel_guesses_pass:
  "map_of L key = None \<Longrightarrow> list_all (\<lambda>t. fst (login_retry_after t key L) = 0) ts"
  by (simp add: login_retry_after_def list_all_iff)

text \<open>And the key has the client's port in it, which changes with every connection.\<close>

lemma login_key_per_connection:
  "rq_remote r \<noteq> rq_remote r' \<Longrightarrow> length (rq_remote r) = length (rq_remote r') \<Longrightarrow> login_key r u \<noteq> login_key r' u"
  by (simp add: login_key_def)

section \<open>Signing in\<close>

lemma run_answer [simp]: "run_state (answer x) si = (x, si)"
  by (simp add: answer_def)

lemma run_render_bare [simp]: "run_state (render_bare status p) si = (respond status (Bare p), si)"
  by (simp add: render_bare_def)

lemma run_on_logins: "run_state (on_logins f) si = (case f (si_logins si) of (x, L) \<Rightarrow> (x, si\<lparr>si_logins := L\<rparr>))"
  by (simp add: on_logins_def split_def Let_def)

lemma run_has_users: "sound s \<Longrightarrow> run_state has_users s = (Inr (st_users s \<noteq> []), s)"
  by (simp add: has_users_def count_users_def run_db_then)

lemma run_user: "sound s \<Longrightarrow> run_state (user_by_username n) s =
    (case find (\<lambda>u. u_name u = n) (st_users s) of None \<Rightarrow> (Inl ErrNotFound, s) | Some u \<Rightarrow> (Inr u, s))"
  by (simp add: user_by_username_def or_not_found_def run_db_then split: option.split)

lemma run_authenticate:
  "sound (site_store si) \<Longrightarrow> run_state (authenticate env n pw) si =
     ((case find (\<lambda>u. u_name u = n) (st_users (site_store si)) of
         Some u \<Rightarrow> if se_compare_hash env (u_password_hash u) pw then Inr u else Inl Err_invalid_credentials
       | None \<Rightarrow> Inl Err_invalid_credentials), si)"
  by (simp add: authenticate_def run_bind run_db run_user split: option.split)

definition session_row :: "server_env \<Rightarrow> int \<Rightarrow> string \<Rightarrow> user \<Rightarrow> session" where
  "session_row env now raw u = \<lparr>se_id = hash_token (se_sha256 env) (raw_url_encode raw), se_user_id = u_id u,
     se_created_at = now, se_expires_at = now + se_ttl env\<rparr>"

definition session_token_fresh :: "server_env \<Rightarrow> string \<Rightarrow> store \<Rightarrow> bool" where
  "session_token_fresh env raw s \<longleftrightarrow>
     \<not> list_ex (\<lambda>r. se_id r = hash_token (se_sha256 env) (raw_url_encode raw)) (st_sessions s)"

lemma run_start_session:
  assumes "sound (site_store si)" and "u \<in> set (st_users (site_store si))" and "session_token_fresh env raw (site_store si)"
  shows "run_state (start_session env now (Inr raw) (u_id u)) si =
    (Inr \<lparr>sc_value = raw_url_encode raw, sc_max_age = se_ttl env, sc_secure = se_cookie_secure env\<rparr>,
     put_store ((site_store si)\<lparr>st_sessions := st_sessions (site_store si) @ [session_row env now raw u]\<rparr>) si)"
proof -
  have "list_ex (\<lambda>x. u_id x = u_id u) (st_users (site_store si))" using assms(2) by (auto simp: list_ex_iff)
  then show ?thesis using assms(1,3)
    by (simp add: start_session_def run_bind run_db create_session_def run_stmt_sound session_token_fresh_def session_row_def Let_def)
qed

text \<open>The new session gives its user access until it expires, and to nobody afterwards.\<close>

lemma session_grants:
  assumes "store_ok s" and "u \<in> set (st_users s)" and "session_token_fresh env raw s"
  shows "session_username (s\<lparr>st_sessions := st_sessions s @ [session_row env now raw u]\<rparr>)
      (hash_token (se_sha256 env) (raw_url_encode raw)) later = (if later < now + se_ttl env then Some (u_name u) else None)"
proof -
  have "find (\<lambda>r. se_id r = hash_token (se_sha256 env) (raw_url_encode raw) \<and> later < se_expires_at r)
      (st_sessions s @ [session_row env now raw u]) = (if later < now + se_ttl env then Some (session_row env now raw u) else None)"
  proof -
    have "find (\<lambda>r. se_id r = hash_token (se_sha256 env) (raw_url_encode raw) \<and> later < se_expires_at r) (st_sessions s) = None"
      using assms(3) by (auto simp: session_token_fresh_def list_ex_iff find_None_iff)
    then show ?thesis by (simp add: find_append session_row_def)
  qed
  then show ?thesis using find_user[OF assms(1,2)] by (simp add: session_username_def session_row_def)
qed

lemma run_require_auth:
  assumes "sound (site_store si)" and "cookie r session_cookie = Some token"
  shows "run_state (require_auth env now r nxt) si =
    (case session_username (site_store si) (hash_token (se_sha256 env) token) now of
       Some u \<Rightarrow> run_state (nxt u) si
     | None \<Rightarrow> (if prefix ''/api/'' (rq_path r) then http_error 401 ([CHR ''{''] @ quote ''error'' @ '':'' @ quote ''unauthorized'' @ [CHR ''}''])
                else redirect ''/login'', si))"
  using assms by (simp add: require_auth_def validate_session_def run_bind run_db username_by_session_def
      or_not_found_def run_db_then Let_def split: option.split)

text \<open>
  C35: Signing in, on a database that answers. While the back-off holds, nothing is looked up. A wrong
  name or password changes nothing but the account of failures. The right pair clears that account and
  hands out a cookie that opens every protected page as that user, until its lifetime is over.
\<close>
theorem login_outcome:
  assumes "sound (site_store si)" and "store_ok (site_store si)" and "st_users (site_store si) \<noteq> []"
    and "\<not> rq_form_bad r" and "session_token_fresh env raw (site_store si)"
    and "login_retry_after now (login_key r (form_value r ''username'')) (si_logins si) = (retry, L)"
    and "run_state (handle_login env now (Inr raw) r) si = (resp, si')"
  shows "if retry > 0 then rs_status resp = 429 \<and> si' = si\<lparr>si_logins := L\<rparr>
    else (case find (\<lambda>u. u_name u = form_value r ''username'' \<and> se_compare_hash env (u_password_hash u) (form_value r ''password''))
        (st_users (site_store si)) of
      None \<Rightarrow> rs_status resp = 401 \<and> rs_cookies resp = []
        \<and> si' = si\<lparr>si_logins := record_login_failure now (login_key r (form_value r ''username'')) L\<rparr>
    | Some u \<Rightarrow> rs_content resp = Location ''/dashboard'' \<and> map_of (si_logins si') (login_key r (form_value r ''username'')) = None
        \<and> (\<exists>c. rs_cookies resp = [c] \<and> (\<forall>r' later nxt. cookie r' session_cookie = Some (sc_value c) \<longrightarrow>
             (if later < now + se_ttl env then run_state (require_auth env later r' nxt) si' = run_state (nxt (u_name u)) si'
              else snd (run_state (require_auth env later r' nxt) si') = si'))))"
proof (cases "retry > 0")
  case True
  then show ?thesis using assms(7)
    by (auto simp: handle_login_def run_bind run_db run_has_users[OF assms(1)] assms(3,4) Let_def run_on_logins assms(6) respond_def)
next
  case False
  let ?n = "form_value r ''username''" and ?pw = "form_value r ''password''"
  let ?s = "site_store si"
  define si1 where "si1 = si\<lparr>si_logins := L\<rparr>"
  have s1: "site_store si1 = ?s" "si_logins si1 = L" by (simp_all add: si1_def)
  have start: "run_state (handle_login env now (Inr raw) r) si = run_state (do {
         x \<leftarrow> authenticate env ?n ?pw;
         case x of
           Inl Err_invalid_credentials \<Rightarrow> do {
             _ \<leftarrow> on_logins (\<lambda>L. ((), record_login_failure now (login_key r ?n) L));
             render_bare 401 (Login_page ''Invalid username or password.'') }
         | Inl _ \<Rightarrow> render_bare 500 (Login_page ''Sign-in failed. Try again.'')
         | Inr u \<Rightarrow> do {
             _ \<leftarrow> on_logins (\<lambda>L. ((), clear_login_failures (login_key r ?n) L));
             sess \<leftarrow> start_session env now (Inr raw) (u_id u);
             case sess of
               Inl _ \<Rightarrow> render_bare 500 (Login_page ''Sign-in failed. Try again.'')
             | Inr c \<Rightarrow> answer ((redirect ''/dashboard'')\<lparr>rs_cookies := [c]\<rparr>) } }) si1"
    using False by (simp add: handle_login_def run_bind run_db run_has_users[OF assms(1)] assms(3,4) Let_def run_on_logins assms(6) si1_def)
  have so: "sound (site_store si1)" using assms(1) s1 by simp
  have d: "find (\<lambda>u. u_name u = ?n \<and> se_compare_hash env (u_password_hash u) ?pw) (st_users ?s) =
    (case find (\<lambda>u. u_name u = ?n) (st_users ?s) of None \<Rightarrow> None
     | Some u \<Rightarrow> if se_compare_hash env (u_password_hash u) ?pw then Some u else None)"
    using find_conj[of u_name "st_users ?s" ?n] assms(2) by (simp add: store_ok_unfold)
  show ?thesis
  proof (cases "find (\<lambda>u. u_name u = ?n \<and> se_compare_hash env (u_password_hash u) ?pw) (st_users ?s)")
    case None
    then have "run_state (authenticate env ?n ?pw) si1 = (Inl Err_invalid_credentials, si1)"
      using d by (auto simp: run_authenticate[OF so] s1 split: option.splits if_splits)
    then show ?thesis using assms(7) False None start
      by (auto simp: run_bind run_on_logins s1 respond_def si1_def)
  next
    case (Some u)
    then have f: "find (\<lambda>u. u_name u = ?n) (st_users ?s) = Some u" "se_compare_hash env (u_password_hash u) ?pw"
      using d by (simp_all split: option.splits if_splits)
    then have a: "run_state (authenticate env ?n ?pw) si1 = (Inr u, si1)" by (simp add: run_authenticate[OF so] s1)
    have u: "u \<in> set (st_users ?s)" using f(1) by (auto simp: find_Some_iff)
    define si2 where "si2 = si1\<lparr>si_logins := clear_login_failures (login_key r ?n) L\<rparr>"
    have s2: "site_store si2 = ?s" by (simp add: si2_def s1)
    have run: "run_state (start_session env now (Inr raw) (u_id u)) si2 =
      (Inr \<lparr>sc_value = raw_url_encode raw, sc_max_age = se_ttl env, sc_secure = se_cookie_secure env\<rparr>,
       put_store (?s\<lparr>st_sessions := st_sessions ?s @ [session_row env now raw u]\<rparr>) si2)"
      using run_start_session[of si2 u env raw now] assms(1,5) u by (simp add: s2)
    have r: "resp = (redirect ''/dashboard'')\<lparr>rs_cookies := [\<lparr>sc_value = raw_url_encode raw, sc_max_age = se_ttl env,
        sc_secure = se_cookie_secure env\<rparr>]\<rparr>"
      and s': "si' = put_store (?s\<lparr>st_sessions := st_sessions ?s @ [session_row env now raw u]\<rparr>) si2"
      using assms(7) start by (simp_all add: run_bind a run_on_logins s1 si2_def[symmetric] run)
    have so': "sound (site_store si')" using assms(1) by (simp add: s' sound_def)
    have l: "map_of (si_logins si') (login_key r ?n) = None"
      by (simp add: s' si2_def clear_login_failures_def delete_conv')
    have "if later < now + se_ttl env then run_state (require_auth env later r' nxt) si' = run_state (nxt (u_name u)) si'
          else snd (run_state (require_auth env later r' nxt) si') = si'"
      if "cookie r' session_cookie = Some (raw_url_encode raw)" for r' later nxt
      using session_grants[OF assms(2) u assms(5), of now later]
      by (simp add: run_require_auth[OF so' that]) (simp add: s')
    then show ?thesis using False Some l by (simp add: r redirect_def respond_def)
  qed
qed

definition sample_env :: server_env where
  "sample_env = \<lparr>se_deployer = \<lparr>dp_cfg = \<lparr>ac_deploy = \<lparr>dc_work_dir = ''/opt/winify'', dc_iis_work_dir = [], dc_iis_backup_dir = [],
        dc_target_root = [], dc_allow_external = False, dc_nssm_source = [], dc_nssm_sha256 = [], dc_health_timeout = 30,
        dc_health_interval = 2, dc_retention_days = 0, dc_timeout_minutes = 30\<rparr>, ac_install_dir = [],
        ac_proxy_enabled = False, ac_proxy_public_ip = [], ac_public_url = []\<rparr>,
      dp_secrets = (\<lambda>_. Inl ''none''), dp_local = (\<lambda>_ _. ([], None)), dp_dial_winrm = (\<lambda>_ _. Inl ''none''), dp_dial_ssh = (\<lambda>_ _. Inl ''none''),
      dp_read_file = (\<lambda>_. Inl ''none''), dp_sha256 = id, dp_registrar = (\<lambda>_ _. None), dp_lookup_host = (\<lambda>_. Inl ''none''),
      dp_notifies = False, dp_parse_url = (\<lambda>_. None)\<rparr>,
    se_secrets = mirror_cipher, se_parse_url = (\<lambda>_. None), se_hash_password = (\<lambda>p. Inr (rev p)),
    se_compare_hash = (\<lambda>h p. h = rev p), se_sha256 = id, se_hmac = (\<lambda>k m. k @ m), se_cookie_secure = True, se_ttl = 3600,
    se_setup_token = [], se_has_proxy = False, se_github = False\<rparr>"

definition site_of :: "store \<Rightarrow> site" where
  "site_of s = \<lparr>si_system = \<lparr>sy_world = \<lparr>w_store = s, w_trace = [], w_proxy = [], w_notes = []\<rparr>, sy_in_flight = [], sy_workers = []\<rparr>,
     si_logins = []\<rparr>"

definition blank_request :: request where
  "blank_request = \<lparr>rq_method = ''GET'', rq_path = ''/'', rq_host = ''localhost'', rq_remote = ''127.0.0.1:5000'', rq_headers = [],
     rq_cookies = [], rq_query = [], rq_form = [], rq_form_bad = False, rq_body = [], rq_tls = False\<rparr>"

definition admin_store :: store where
  "admin_store = (empty_store None [])\<lparr>st_users := [\<lparr>u_id = 1, u_name = ''admin'', u_password_hash = ''terces''\<rparr>], st_user_seq := 1\<rparr>"

lemma admin_store_ok: "sound admin_store" "store_ok admin_store"
  by (simp_all add: admin_store_def sound_def empty_store_def store_ok_unfold rows_ok_def keys_distinct_def)

theorem login_outcome_witness:
  "rs_content (fst (run_state (handle_login sample_env 100 (Inr ''raw'')
     (blank_request\<lparr>rq_form := [(''username'', ''admin''), (''password'', ''secret'')]\<rparr>)) (site_of admin_store))) = Location ''/dashboard''"
proof -
  let ?r = "blank_request\<lparr>rq_form := [(''username'', ''admin''), (''password'', ''secret'')]\<rparr>"
  let ?si = "site_of admin_store"
  have st: "site_store ?si = admin_store" by (simp add: site_of_def site_store_def)
  have a: "sound (site_store ?si)" "store_ok (site_store ?si)" by (simp_all add: st admin_store_ok)
  have b: "st_users (site_store ?si) \<noteq> []" unfolding st by (simp add: admin_store_def)
  have c: "\<not> rq_form_bad ?r" by (simp add: blank_request_def)
  have d: "session_token_fresh sample_env ''raw'' (site_store ?si)"
    unfolding st by (simp add: admin_store_def session_token_fresh_def empty_store_def)
  have e: "login_retry_after 100 (login_key ?r (form_value ?r ''username'')) (si_logins ?si) = (0, [])"
    by (simp add: site_of_def login_retry_after_def)
  obtain resp si' where f: "run_state (handle_login sample_env 100 (Inr ''raw'') ?r) ?si = (resp, si')" by fastforce
  have g: "find (\<lambda>u. u_name u = form_value ?r ''username'' \<and> se_compare_hash sample_env (u_password_hash u) (form_value ?r ''password''))
      (st_users (site_store ?si)) = Some \<lparr>u_id = 1, u_name = ''admin'', u_password_hash = ''terces''\<rparr>"
    unfolding st by (simp add: admin_store_def sample_env_def form_value_def first_value_def)
  from login_outcome[OF a b c d e f] show ?thesis unfolding g by (simp add: f)
qed

end
