(* ===== verification/Pages.thy ===== *)
theory Pages
  imports Forms Auth
begin

text \<open>
  The pages that only read (\<open>internal/server/handlers.go\<close>, admin.go): the dashboard, the deployment
  history and its paging, the audit log, the inventory and the page of one resource.

  \<open>sort.Slice\<close> is not a stable sort; where keys are equal the model keeps the order of the query.
\<close>

section \<open>Loops over queries\<close>

fun map_handler :: "('a \<Rightarrow> 'b handler) \<Rightarrow> 'a list \<Rightarrow> 'b list handler" where
  "map_handler f [] = State_Monad.return []"
| "map_handler f (x # xs) = do { y \<leftarrow> f x; ys \<leftarrow> map_handler f xs; State_Monad.return (y # ys) }"

definition or_else :: "'a \<Rightarrow> 'a sres \<Rightarrow> 'a" where
  "or_else d r = (case r of Inl _ \<Rightarrow> d | Inr x \<Rightarrow> x)"

lemma reads_map: "(\<And>x. reads (f x)) \<Longrightarrow> reads (map_handler f xs)"
  by (induction xs) (auto intro: reads_bind reads_return)

section \<open>Rollback and its button\<close>

text \<open>Whether the pages offer a rollback, from the newest attempt and the two newest successes.\<close>

definition can_rollback :: "deployment list \<Rightarrow> deployment list \<Rightarrow> bool" where
  "can_rollback latest successes \<longleftrightarrow>
     length successes \<ge> 2 \<or> length successes \<ge> 1 \<and> (case latest of d # _ \<Rightarrow> d_status d \<noteq> DeploySuccess | [] \<Rightarrow> False)"

section \<open>Servers\<close>

definition render_servers :: "request \<Rightarrow> int \<Rightarrow> server option \<Rightarrow> string \<Rightarrow> response handler" where
  "render_servers r status edit err = do {
     servers \<leftarrow> db list_servers;
     case servers of
       Inl _ \<Rightarrow> answer (http_error 500 ''failed to load servers'')
     | Inr ss \<Rightarrow> render_page status (Servers_page ss edit err (query_value r ''notice'')) }"

definition server_from_query :: "request \<Rightarrow> server option handler" where
  "server_from_query r =
     (let i = query_value r ''edit'' in
      if i = [] then State_Monad.return None
      else do { srv \<leftarrow> db (get_server i); State_Monad.return (case srv of Inl _ \<Rightarrow> None | Inr x \<Rightarrow> Some x) })"

definition handle_servers_page :: "request \<Rightarrow> response handler" where
  "handle_servers_page r = do {
     edit \<leftarrow> server_from_query r;
     render_servers r 200 edit (query_value r ''error'') }"

section \<open>Projects\<close>

definition env_of :: "project \<Rightarrow> string" where
  "env_of p = (if p_environment p = [] then ''production'' else p_environment p)"

definition server_type_of :: "server list \<Rightarrow> string \<Rightarrow> string" where
  "server_type_of ss i = (case find (\<lambda>srv. sv_id srv = i) (rev ss) of None \<Rightarrow> [] | Some srv \<Rightarrow> sv_type srv)"

definition resource_card_of :: "server list \<Rightarrow> project \<Rightarrow> resource_card handler" where
  "resource_card_of ss p = do {
     ds \<leftarrow> db (list_deployments (p_id p) 1);
     State_Monad.return (case ds of
         Inr (d # _) \<Rightarrow> \<lparr>cd_project = p, cd_server_type = server_type_of ss (p_server_id p), cd_last_status = status_text (d_status d), cd_has_deploy = True\<rparr>
       | _ \<Rightarrow> \<lparr>cd_project = p, cd_server_type = server_type_of ss (p_server_id p), cd_last_status = [], cd_has_deploy = False\<rparr>) }"

definition project_groups :: "resource_card list \<Rightarrow> project_group list" where
  "project_groups cards = map (\<lambda>g.
     let mine = filter (\<lambda>c. group_name (cd_project c) = g) cards in
     \<lparr>pg_name = g,
      pg_environments = map (\<lambda>e. \<lparr>eg_name = e, eg_resources = sort_key (\<lambda>c. p_name (cd_project c))
          (filter (\<lambda>c. env_of (cd_project c) = e) mine)\<rparr>) (sort (remdups (map (\<lambda>c. env_of (cd_project c)) mine))),
      pg_count = length mine\<rparr>) (sort (remdups (map (\<lambda>c. group_name (cd_project c)) cards)))"

definition render_projects :: "request \<Rightarrow> int \<Rightarrow> string \<Rightarrow> response handler" where
  "render_projects r status err = do {
     projects \<leftarrow> db list_projects;
     case projects of
       Inl _ \<Rightarrow> answer (http_error 500 ''failed to load projects'')
     | Inr ps \<Rightarrow> do {
         servers \<leftarrow> db list_servers;
         case servers of
           Inl _ \<Rightarrow> answer (http_error 500 ''failed to load servers'')
         | Inr ss \<Rightarrow> do {
             cards \<leftarrow> map_handler (resource_card_of ss) ps;
             render_page status (Projects_page (project_groups cards) err (query_value r ''notice'')) } } }"

definition handle_projects_page :: "request \<Rightarrow> response handler" where
  "handle_projects_page r = render_projects r 200 (query_value r ''error'')"

definition render_wizard :: "int \<Rightarrow> project option \<Rightarrow> string \<Rightarrow> response handler" where
  "render_wizard status form err = do {
     servers \<leftarrow> db list_servers;
     case servers of
       Inl _ \<Rightarrow> answer (http_error 500 ''failed to load servers'')
     | Inr ss \<Rightarrow> do {
         family \<leftarrow> (case form of
             None \<Rightarrow> State_Monad.return server_type_winsvc
           | Some p \<Rightarrow> do {
               srv \<leftarrow> db (get_server (p_server_id p));
               State_Monad.return (case srv of Inr x \<Rightarrow> if sv_type x \<noteq> [] then sv_type x else server_type_winsvc | Inl _ \<Rightarrow> server_type_winsvc) });
         render_page status (Wizard_page form ss family
           (case form of Some p \<Rightarrow> format_env (p_env p) | None \<Rightarrow> [])
           (case form of Some p \<Rightarrow> format_env (p_build_env p) | None \<Rightarrow> []) err) } }"

definition handle_project_new :: "request \<Rightarrow> response handler" where
  "handle_project_new r = render_wizard 200 None (query_value r ''error'')"

definition handle_resource_page :: "server_env \<Rightarrow> string \<Rightarrow> request \<Rightarrow> response handler" where
  "handle_resource_page env i r = do {
     found \<leftarrow> db (get_project i);
     case found of
       Inl e \<Rightarrow> answer (if e = ErrNotFound then http_error 404 ''unknown resource'' else http_error 500 ''error'')
     | Inr p \<Rightarrow> do {
         srv \<leftarrow> db (get_server (p_server_id p));
         deploys \<leftarrow> db (list_deployments i 20);
         successes \<leftarrow> db (successful_deployments i 2);
         servers \<leftarrow> db list_servers;
         (let tab = query_value r ''tab'' in
          render_page 200 (Resource_page
            \<lparr>rp_project = p, rp_server_type = (case srv of Inr x \<Rightarrow> sv_type x | Inl _ \<Rightarrow> []),
             rp_tab = (if tab \<in> {''overview'', ''deployments'', ''environment'', ''settings''} then tab else ''overview''),
             rp_deployments = or_else [] deploys, rp_can_rollback = can_rollback (or_else [] deploys) (or_else [] successes),
             rp_servers = or_else [] servers, rp_edit_env = format_env (p_env p), rp_edit_build_env = format_env (p_build_env p),
             rp_github = se_github env\<rparr> (query_value r ''error'') (query_value r ''notice''))) } }"

section \<open>Paging\<close>

text \<open>Go's \<open>int\<close> has 64 bits: the offset of a page number near the limit wraps around.\<close>

definition wrap64 :: "int \<Rightarrow> int" where
  "wrap64 n = (n + 2 ^ 63) mod 2 ^ 64 - 2 ^ 63"

definition query_page :: "request \<Rightarrow> int" where
  "query_page r = (case atoi (query_value r ''page'') of Some v \<Rightarrow> if v > 0 then v else 1 | None \<Rightarrow> 1)"

definition page_offset :: "int \<Rightarrow> int \<Rightarrow> int" where
  "page_offset per pg = wrap64 ((pg - 1) * per)"

definition paging_of :: "int \<Rightarrow> int \<Rightarrow> int \<Rightarrow> paging" where
  "paging_of per pg n =
     (let pages = (if n > 0 then (n + per - 1) div per else 0)
      in \<lparr>pn_page = pg, pn_prev = (if pg > 1 then pg - 1 else 0), pn_next = (if pg < pages then pg + 1 else 0),
          pn_total_pages = pages, pn_total = n\<rparr>)"

section \<open>The deployment history\<close>

definition deployment_page_size :: int where "deployment_page_size = 25"

definition rollback_state :: "project \<Rightarrow> (string \<times> bool \<times> int) handler" where
  "rollback_state p = do {
     recent \<leftarrow> db (list_deployments (p_id p) 1);
     successes \<leftarrow> db (successful_deployments (p_id p) 2);
     State_Monad.return (p_id p, can_rollback (or_else [] recent) (or_else [] successes),
       (case or_else [] recent of d # _ \<Rightarrow> d_id d | [] \<Rightarrow> 0)) }"

definition deployment_row_of :: "project list \<Rightarrow> (string \<times> bool \<times> int) list \<Rightarrow> deployment \<Rightarrow> deployment_row" where
  "deployment_row_of ps states d = \<lparr>dr_deployment = d,
     dr_project_name = (case find (\<lambda>p. p_id p = d_project_id d) (rev ps) of Some p \<Rightarrow> p_name p | None \<Rightarrow> []),
     dr_can_rollback = (case map_of (rev states) (d_project_id d) of Some (ok, latest) \<Rightarrow> ok \<and> latest = d_id d | None \<Rightarrow> False)\<rparr>"

definition status_filter :: "request \<Rightarrow> string" where
  "status_filter r = (let st = trim_space (query_value r ''status'') in
     if st \<in> {''success'', ''failed'', ''running'', ''queued''} then st else [])"

definition handle_deployment :: "request \<Rightarrow> response handler" where
  "handle_deployment r =
     (let status = status_filter r; query = trim_space (query_value r ''q''); pg = query_page r in do {
        listed \<leftarrow> db (list_deployments_page status query deployment_page_size (page_offset deployment_page_size pg));
        case listed of
          Inl _ \<Rightarrow> answer (http_error 500 ''failed to load deployments'')
        | Inr (deploys, n) \<Rightarrow> do {
            counted \<leftarrow> db deployment_status_counts;
            (let counts = or_else [] counted; all_counts = AList.update ''all'' (sum_list (map snd counts)) counts in do {
              projects \<leftarrow> db list_projects;
              case projects of
                Inl _ \<Rightarrow> answer (http_error 500 ''failed to load projects'')
              | Inr ps \<Rightarrow> do {
                  states \<leftarrow> map_handler rollback_state ps;
                  render_page 200 (Deployment_page (map (deployment_row_of ps states) deploys) all_counts status query
                    (paging_of deployment_page_size pg n) (query_value r ''error'') (query_value r ''notice'')) } }) } })"

section \<open>The audit log\<close>

definition audit_page_size :: int where "audit_page_size = 50"

definition audit_since :: "int \<Rightarrow> string \<Rightarrow> string \<times> int option" where
  "audit_since now s =
     (if s = ''all'' then (s, None)
      else if s = ''1h'' then (s, Some (now - 3600))
      else if s = ''7d'' then (s, Some (now - 7 * 24 * 3600))
      else if s = ''30d'' then (s, Some (now - 30 * 24 * 3600))
      else (''24h'', Some (now - 24 * 3600)))"

definition handle_audit_page :: "int \<Rightarrow> request \<Rightarrow> response handler" where
  "handle_audit_page now r =
     (let server = trim_space (query_value r ''server''); act0 = trim_space (query_value r ''action'');
          act = (if act0 \<in> {''deploy'', ''rollback'', ''monitor'', ''bootstrap'', ''onboard''} then act0 else []);
          query = trim_space (query_value r ''q''); (since_text, since) = audit_since now (query_value r ''since'');
          pg = query_page r in do {
        listed \<leftarrow> db (list_remote_commands_filtered \<lparr>cf_server_id = server, cf_action = act, cf_query = query, cf_since = since,
          cf_limit = audit_page_size, cf_offset = page_offset audit_page_size pg\<rparr>);
        case listed of
          Inl _ \<Rightarrow> answer (http_error 500 ''failed to load audit log'')
        | Inr (rows, n) \<Rightarrow> do {
            servers \<leftarrow> db list_servers;
            render_page 200 (Audit_page rows (or_else [] servers) server act query since_text
              (paging_of audit_page_size pg n)) } })"

section \<open>The dashboard\<close>

definition dashboard_recent :: nat where "dashboard_recent = 6"

definition dashboard_rows :: "project \<Rightarrow> (dashboard_deploy list \<times> bool) handler" where
  "dashboard_rows p = do {
     ds \<leftarrow> db (list_deployments (p_id p) (int dashboard_recent));
     State_Monad.return (case ds of
         Inl _ \<Rightarrow> ([], False)
       | Inr deploys \<Rightarrow>
           (map (\<lambda>d. \<lparr>dd_id = d_id d, dd_project_id = p_id p, dd_project_name = p_name p, dd_status = d_status d,
               dd_trigger = d_trigger d, dd_started_at = d_started_at d\<rparr>) deploys,
            case deploys of d # _ \<Rightarrow> d_status d = DeployFailed | [] \<Rightarrow> False)) }"

definition handle_dashboard :: "response handler" where
  "handle_dashboard = do {
     ping \<leftarrow> db (query_stmt ''ping'' (\<lambda>_. ()));
     servers \<leftarrow> db list_servers;
     projects \<leftarrow> db list_projects;
     rows \<leftarrow> map_handler dashboard_rows (or_else [] projects);
     render_page 200 (Dashboard_page
       \<lparr>db_status = (case ping of Inl _ \<Rightarrow> ''unavailable'' | Inr _ \<Rightarrow> ''ok''),
        db_servers = length (or_else [] servers), db_projects = length (or_else [] projects),
        db_failed = length (filter snd rows),
        db_recent = take dashboard_recent (sort_key (\<lambda>d. - dd_started_at d) (concat (map fst rows)))\<rparr>) }"

section \<open>Credentials, variables and tokens\<close>

definition render_credentials :: "request \<Rightarrow> int \<Rightarrow> string \<Rightarrow> response handler" where
  "render_credentials r status err = do {
     names \<leftarrow> db credential_names;
     case names of
       Inl _ \<Rightarrow> answer (http_error 500 ''failed to load credentials'')
     | Inr ns \<Rightarrow> render_page status (Credentials_page ns err (query_value r ''notice'')) }"

definition render_variables :: "request \<Rightarrow> int \<Rightarrow> string \<Rightarrow> response handler" where
  "render_variables r status err = do {
     vars \<leftarrow> db list_shared_variables;
     case vars of
       Inl _ \<Rightarrow> answer (http_error 500 ''failed to load variables'')
     | Inr vs \<Rightarrow> render_page status (Variables_page (map (\<lambda>v. v\<lparr>sh_value := redacted_env_value\<rparr>) vs) err (query_value r ''notice'')) }"

definition render_tokens :: "int \<Rightarrow> string option \<Rightarrow> string \<Rightarrow> string \<Rightarrow> response handler" where
  "render_tokens status fresh err notice = do {
     tokens \<leftarrow> db list_api_tokens;
     case tokens of
       Inl _ \<Rightarrow> answer (http_error 500 ''failed to load tokens'')
     | Inr ts \<Rightarrow> render_page status (Tokens_page ts (case fresh of Some t \<Rightarrow> t | None \<Rightarrow> []) err notice) }"

section \<open>Health\<close>

definition handle_healthz :: "response handler" where
  "handle_healthz = do {
     ping \<leftarrow> db (query_stmt ''ping'' (\<lambda>_. ()));
     answer (case ping of Inl _ \<Rightarrow> write_json 503 (P_health False) | Inr _ \<Rightarrow> write_json 200 (P_health True)) }"

section \<open>None of them changes anything\<close>

lemma queries_lists: "queries (list_deployments i n)" "queries (successful_deployments i n)" "queries deployment_status_counts"
  "queries (list_deployments_page st q n off)" "queries (list_remote_commands_filtered f)" "queries credential_names"
  "queries list_shared_variables" "queries list_api_tokens" "queries (query_stmt w g)" "queries (list_remote_commands n)"
  "queries (get_deployment j)"
  unfolding list_deployments_def successful_deployments_def deployment_status_counts_def list_deployments_page_def
    list_remote_commands_filtered_def credential_names_def list_shared_variables_def list_api_tokens_def Let_def
    list_remote_commands_def get_deployment_def
  by (auto intro!: queries_intros split: prod.split)

lemmas read_queries = queries_lists queries_list_projects queries_list_servers queries_get_project queries_get_server

lemma reads_cards: "reads (resource_card_of ss p)" "reads (rollback_state p)" "reads (dashboard_rows p)" "reads (server_from_query r)"
  unfolding resource_card_of_def rollback_state_def dashboard_rows_def server_from_query_def Let_def
  by (auto intro!: reads_intros read_queries)

lemma reads_lists: "reads (render_servers r status edit err)" "reads (render_wizard status form err)" "reads (render_credentials r status err)"
  "reads (render_variables r status err)" "reads (render_tokens status fresh err notice)"
  unfolding render_servers_def render_wizard_def render_credentials_def render_variables_def render_tokens_def
  by (auto intro!: reads_intros read_queries split: sum.split option.split)

lemma reads_pages: "reads (handle_servers_page r)" "reads (handle_projects_page r)" "reads (handle_project_new r)"
  "reads (handle_resource_page env i r)" "reads (handle_deployment r)" "reads (handle_audit_page now r)" "reads handle_dashboard"
  "reads handle_healthz"
  unfolding handle_servers_page_def handle_projects_page_def handle_project_new_def handle_resource_page_def handle_deployment_def
    handle_audit_page_def handle_dashboard_def handle_healthz_def render_projects_def Let_def
  by (auto intro!: reads_intros read_queries reads_map reads_cards reads_lists split: sum.split prod.split)

section \<open>The button tells the truth\<close>

lemma newest_head:
  "0 < n \<Longrightarrow> (case newest ident n P rows of d # _ \<Rightarrow> Q d | [] \<Rightarrow> b) = (case newest ident 1 P rows of d # _ \<Rightarrow> Q d | [] \<Rightarrow> b)"
  by (cases "order_desc ident (filter P rows)") (auto simp: newest_def limit_offset_def take_Cons' split: list.split)

lemma pick_offered:
  assumes "successes \<noteq> [] \<Longrightarrow> latest \<noteq> []"
  shows "can_rollback latest successes \<longleftrightarrow> (\<exists>d. pick_rollback latest successes = Inr d)"
proof (cases successes)
  case Nil
  then show ?thesis by (simp add: can_rollback_def pick_rollback_def)
next
  case (Cons s0 rest)
  then obtain d ds where "latest = d # ds" using assms by (cases latest) auto
  then show ?thesis using Cons by (cases rest) (auto simp: can_rollback_def pick_rollback_def Let_def)
qed

lemma success_is_attempt:
  fixes rows :: "deployment list"
  assumes "newest d_id m (\<lambda>d. d_project_id d = i \<and> d_status d = DeploySuccess) rows \<noteq> []"
  shows "newest d_id 1 (\<lambda>d. d_project_id d = i) rows \<noteq> []"
proof -
  let ?s = "newest d_id m (\<lambda>d. d_project_id d = i \<and> d_status d = DeploySuccess) rows"
  have "set ?s \<subseteq> set (filter (\<lambda>d. d_project_id d = i) rows)"
    using deployments.newest_members[of m "\<lambda>d. d_project_id d = i \<and> d_status d = DeploySuccess" rows] by auto
  then have "set (order_desc d_id (filter (\<lambda>d. d_project_id d = i) rows)) \<noteq> {}"
    using assms unfolding order_desc_def set_rev set_sort by (cases ?s) auto
  then show ?thesis by (auto simp: newest_def limit_offset_def)
qed



section \<open>Every attempt is on one page\<close>

lemma concat_chunks: "concat (map (\<lambda>k. take n (drop (k * n) xs)) [0..<m]) = take (m * n) xs"
  by (induction m) (simp_all add: take_add[symmetric] add.commute)

lemma page_slice:
  assumes "0 < per" and "per \<le> 1000" and "0 \<le> k" and "k < 2 ^ 52 + 1000"
  shows "limit_offset per (page_offset per (k + 1)) xs = take (nat per) (drop (nat k * nat per) xs)"
proof -
  have "k * per \<le> (2 ^ 52 + 1000) * 1000" using assms by (intro mult_mono) auto
  then have "k * per + 2 ^ 63 < 2 ^ 64" by simp
  moreover have "0 \<le> k * per" using assms by simp
  ultimately have "page_offset per (k + 1) = k * per" by (simp add: page_offset_def wrap64_def)
  then show ?thesis using assms by (simp add: limit_offset_def nat_mult_distrib)
qed

lemma pages_concat:
  assumes "0 < per" and "per \<le> 1000" and "int (length xs) < 2 ^ 52"
  shows "concat (map (\<lambda>pg. limit_offset per (page_offset per pg) xs)
      [1..pn_total_pages (paging_of per 1 (int (length xs)))]) = xs"
proof -
  let ?n = "int (length xs)"
  let ?p = "pn_total_pages (paging_of per 1 ?n)"
  have p: "?p = (?n + per - 1) div per"
    using assms(1) by (cases "xs = []") (simp_all add: paging_of_def Let_def)
  define r where "r = (?n + per - 1) mod per"
  have d: "?p * per + r = ?n + per - 1" unfolding p r_def by (rule div_mult_mod_eq)
  have r: "0 \<le> r" "r \<le> per - 1" using assms(1) pos_mod_bound[of per "?n + per - 1"] by (simp_all add: r_def)
  have p0: "0 \<le> ?p" unfolding p using assms(1) by (intro pos_imp_zdiv_nonneg_iff[THEN iffD2]) auto
  have "?n \<le> ?p * per" using d r by linarith
  then have n: "length xs \<le> nat ?p * nat per" using p0 assms(1) by (simp add: nat_mult_distrib[symmetric] le_nat_iff)
  have "?p \<le> ?p * per" using p0 assms(1) by (simp add: mult_le_cancel_left1)
  then have lim: "?p \<le> ?n + per - 1" using d r by linarith
  have pages: "[1..?p] = map (\<lambda>k. int k + 1) [0..<nat ?p]"
    by (rule nth_equalityI) (use p0 in auto)
  have "map (\<lambda>pg. limit_offset per (page_offset per pg) xs) [1..?p]
      = map (\<lambda>k. take (nat per) (drop (k * nat per) xs)) [0..<nat ?p]"
    unfolding pages map_map comp_def
  proof (rule map_cong[OF refl])
    fix k assume "k \<in> set [0..<nat ?p]"
    then have "int k < 2 ^ 52 + 1000" using lim assms(2,3) by simp
    then show "limit_offset per (page_offset per (int k + 1)) xs = take (nat per) (drop (k * nat per) xs)"
      using page_slice[OF assms(1,2), of "int k" xs] by simp
  qed
  then show ?thesis using n by (simp add: concat_chunks)
qed

lemma run_page:
  "sound s \<Longrightarrow> run_state (list_deployments_page status q deployment_page_size off) s =
    (Inr (limit_offset deployment_page_size off (order_desc d_id (filter (deployment_matches status q s) (st_deployments s))),
      int (length (filter (deployment_matches status q s) (st_deployments s)))), s)"
  by (simp add: list_deployments_page_def run_db_then deployment_page_size_def)

definition shown_on :: "string \<Rightarrow> string \<Rightarrow> store \<Rightarrow> int \<Rightarrow> deployment list" where
  "shown_on status q s pg = fst (or_else ([], 0) (fst (run_state
     (list_deployments_page status q deployment_page_size (page_offset deployment_page_size pg)) s)))"

text \<open>
  Reading the pages of the deployment history from the first to the last gives every matching
  attempt exactly once, newest first.
\<close>
theorem history_paged:
  assumes "sound s" and "int (length (st_deployments s)) < 2 ^ 52"
    and "run_state (list_deployments_page status q deployment_page_size 0) s = (Inr (rows, n), s)"
  shows "concat (map (shown_on status q s) [1..pn_total_pages (paging_of deployment_page_size 1 n)])
    = order_desc d_id (filter (deployment_matches status q s) (st_deployments s))"
proof -
  let ?xs = "order_desc d_id (filter (deployment_matches status q s) (st_deployments s))"
  have l: "length ?xs = length (filter (deployment_matches status q s) (st_deployments s))" by (simp add: order_desc_def)
  have n: "n = int (length ?xs)" using assms(3) by (simp add: run_page[OF assms(1)] l)
  have "length ?xs \<le> length (st_deployments s)" unfolding l by (rule length_filter_le)
  then have "int (length ?xs) < 2 ^ 52" using assms(2) by linarith
  moreover have "shown_on status q s = (\<lambda>pg. limit_offset deployment_page_size (page_offset deployment_page_size pg) ?xs)"
    by (rule ext) (simp add: shown_on_def run_page[OF assms(1)] or_else_def)
  ultimately show ?thesis
    using pages_concat[of deployment_page_size ?xs] by (simp add: n deployment_page_size_def)
qed

theorem history_paged_witness:
  "concat (map (shown_on [] [] ((empty_store None [])\<lparr>st_deployments := [no_deployment\<lparr>d_id := 1\<rparr>, no_deployment\<lparr>d_id := 2\<rparr>]\<rparr>)) [1..1])
     = [no_deployment\<lparr>d_id := 2\<rparr>, no_deployment\<lparr>d_id := 1\<rparr>]"
proof -
  let ?s = "(empty_store None [])\<lparr>st_deployments := [no_deployment\<lparr>d_id := 1\<rparr>, no_deployment\<lparr>d_id := 2\<rparr>]\<rparr>"
  have a: "sound ?s" "int (length (st_deployments ?s)) < 2 ^ 52" by (simp_all add: sound_def empty_store_def)
  have f: "filter (deployment_matches [] [] ?s) (st_deployments ?s) = [no_deployment\<lparr>d_id := 1\<rparr>, no_deployment\<lparr>d_id := 2\<rparr>]"
    by (simp add: deployment_matches_def)
  obtain rows where r: "run_state (list_deployments_page [] [] deployment_page_size 0) ?s = (Inr (rows, 2), ?s)"
    unfolding run_page[OF a(1)] f by simp
  have p: "pn_total_pages (paging_of deployment_page_size 1 2) = 1" by (simp add: paging_of_def deployment_page_size_def)
  have "order_desc d_id (filter (deployment_matches [] [] ?s) (st_deployments ?s)) = [no_deployment\<lparr>d_id := 2\<rparr>, no_deployment\<lparr>d_id := 1\<rparr>]"
    unfolding f by (simp add: order_desc_def)
  then show ?thesis using history_paged[OF a r] unfolding p by (simp only:)
qed

end
