(* ===== verification/Webhook.thy ===== *)
theory Webhook
  imports Auth
begin

text \<open>
  The webhook receiver: verification and payloads (\<open>internal/deployment/webhook.go\<close>) and the handler
  (\<open>internal/server/webhook.go\<close>), from the request to the deployment it starts. HMAC-SHA256 and SHA-256
  are parameters.
\<close>

section \<open>Verification\<close>

definition verify_github_signature :: "(string \<Rightarrow> string \<Rightarrow> string) \<Rightarrow> string \<Rightarrow> string \<Rightarrow> string \<Rightarrow> bool" where
  "verify_github_signature hmac secret body signature \<longleftrightarrow>
     secret \<noteq> [] \<and> prefix ''sha256='' signature
     \<and> (case hex_decode (trim_prefix ''sha256='' signature) of None \<Rightarrow> False | Some got \<Rightarrow> got = hmac secret body)"

definition verify_gitlab_token :: "string \<Rightarrow> string \<Rightarrow> bool" where
  "verify_gitlab_token secret token \<longleftrightarrow> secret \<noteq> [] \<and> token = secret"

section \<open>Payloads\<close>

record push_event =
  ps_ref :: string
  ps_commit :: string

definition parse_github_push :: "string \<Rightarrow> push_event option" where
  "parse_github_push body =
     (case unmarshal_members body of
        None \<Rightarrow> None
      | Some ms \<Rightarrow>
          (case (struct_text ''ref'' ms [], struct_text ''after'' ms []) of
             (Some ref, Some commit) \<Rightarrow> Some \<lparr>ps_ref = ref, ps_commit = commit\<rparr>
           | _ \<Rightarrow> None))"

definition parse_gitlab_push :: "string \<Rightarrow> push_event option" where
  "parse_gitlab_push body =
     (case unmarshal_members body of
        None \<Rightarrow> None
      | Some ms \<Rightarrow>
          (case (struct_text ''ref'' ms [], struct_text ''after'' ms [], struct_text ''checkout_sha'' ms []) of
             (Some ref, Some after_sha, Some checkout) \<Rightarrow>
               Some \<lparr>ps_ref = ref, ps_commit = (if checkout = [] then after_sha else checkout)\<rparr>
           | _ \<Rightarrow> None))"

definition branch_of :: "string \<Rightarrow> string" where "branch_of ref = trim_prefix ''refs/heads/'' ref"

section \<open>The handler\<close>

definition max_webhook_body :: int where "max_webhook_body = 1024 * 1024"

definition webhook_delivery_id :: "(string \<Rightarrow> string) \<Rightarrow> string \<Rightarrow> string" where
  "webhook_delivery_id sha256 body = ''body:'' @ hex_encode (sha256 body)"

definition webhook_secret :: "server_env \<Rightarrow> project \<Rightarrow> (string + string) handler" where
  "webhook_secret env p =
     (if p_webhook_secret_ref p = [] then State_Monad.return (Inl ''no webhook_secret_ref configured'')
      else (let name = trim_prefix ''vault:'' (p_webhook_secret_ref p) in
        if name = [] then State_Monad.return (Inl ''empty webhook secret ref'')
        else do {
          r \<leftarrow> db (get_secret (se_secrets env) name);
          State_Monad.return (case r of Inl e \<Rightarrow> Inl (error_text e) | Inr v \<Rightarrow> Inr v) }))"

text \<open>What is verified, by provider, and what is read from a payload that was.\<close>

definition signature_ok :: "server_env \<Rightarrow> string \<Rightarrow> string \<Rightarrow> request \<Rightarrow> bool" where
  "signature_ok env provider secret r \<longleftrightarrow>
     (if provider = ''github'' then verify_github_signature (se_hmac env) secret (rq_body r) (header r ''X-Hub-Signature-256'')
      else provider = ''gitlab'' \<and> verify_gitlab_token secret (header r ''X-Gitlab-Token''))"

definition webhook_event :: "server_env \<Rightarrow> string \<Rightarrow> string \<Rightarrow> request \<Rightarrow> response + push_event" where
  "webhook_event env provider secret r =
     (if int (length (rq_body r)) > max_webhook_body then Inl (http_error 413 ''request body too large'')
      else if provider = ''github'' then
        (if header r ''X-GitHub-Event'' \<noteq> ''push'' then Inl (write_json 202 (P_ignored ''not a push event''))
         else if \<not> signature_ok env provider secret r then Inl (http_error 401 ''invalid signature'')
         else (case parse_github_push (rq_body r) of None \<Rightarrow> Inl (http_error 400 ''invalid payload'') | Some ev \<Rightarrow> Inr ev))
      else if provider = ''gitlab'' then
        (if header r ''X-Gitlab-Event'' \<noteq> ''Push Hook'' then Inl (write_json 202 (P_ignored ''not a push event''))
         else if \<not> signature_ok env provider secret r then Inl (http_error 401 ''invalid signature'')
         else (case parse_gitlab_push (rq_body r) of None \<Rightarrow> Inl (http_error 400 ''invalid payload'') | Some ev \<Rightarrow> Inr ev))
      else Inl (http_error 400 ''unsupported provider''))"

text \<open>The delivery is recorded before the deployment is asked for, and released when it does not start.\<close>

definition webhook_deploy :: "server_env \<Rightarrow> int \<Rightarrow> string \<Rightarrow> string \<Rightarrow> string \<Rightarrow> project \<Rightarrow> server \<Rightarrow> push_event \<Rightarrow> response handler" where
  "webhook_deploy env now provider pid delivery p srv ev = do {
     accepted \<leftarrow> db (record_webhook_delivery now provider pid delivery (ps_commit ev));
     case accepted of
       Inl _ \<Rightarrow> answer (http_error 500 ''failed to record delivery'')
     | Inr False \<Rightarrow> answer (write_json 202 (P_ignored ''duplicate delivery''))
     | Inr True \<Rightarrow> do {
         started \<leftarrow> on_system (trigger now p srv ''webhook'' (ps_commit ev) (ps_ref ev));
         case started of
           Inl e \<Rightarrow> do {
             _ \<leftarrow> db (delete_webhook_delivery provider pid delivery);
             answer (if e = ErrDeployInProgress then http_error 409 ''a deployment is already in progress''
                     else http_error 500 ''failed to start deployment'') }
         | Inr i \<Rightarrow> answer (write_json 202 (P_accepted i)) } }"

definition handle_webhook :: "server_env \<Rightarrow> int \<Rightarrow> string \<Rightarrow> string \<Rightarrow> request \<Rightarrow> response handler" where
  "handle_webhook env now provider pid r = do {
     found \<leftarrow> db (get_project pid);
     case found of
       Inl e \<Rightarrow> answer (if e = ErrNotFound then http_error 404 ''unknown project'' else http_error 500 ''error'')
     | Inr p \<Rightarrow> do {
         secret \<leftarrow> webhook_secret env p;
         case secret of
           Inl _ \<Rightarrow> answer (http_error 404 ''project not configured for webhooks'')
         | Inr sec \<Rightarrow>
             (case webhook_event env provider sec r of
                Inl resp \<Rightarrow> answer resp
              | Inr ev \<Rightarrow>
                  if p_branch p \<noteq> [] \<and> branch_of (ps_ref ev) \<noteq> p_branch p
                  then answer (write_json 202 (P_ignored ''branch mismatch''))
                  else do {
                    target \<leftarrow> db (get_server (p_server_id p));
                    case target of
                      Inl _ \<Rightarrow> answer (http_error 500 ''project target not configured'')
                    | Inr srv \<Rightarrow> webhook_deploy env now provider pid (webhook_delivery_id (se_sha256 env) (rq_body r)) p srv ev }) } }"

section \<open>From the request to the deployment\<close>

lemma reads_run: "reads m \<Longrightarrow> run_state m si = (x, t) \<Longrightarrow> same_site si t"
  unfolding reads_def by (metis snd_conv)

lemma run_db_fst: "run_state (db m) si = (x, t) \<Longrightarrow> fst (run_state m (site_store si)) = x"
  by (auto simp: run_db split: prod.splits)

lemma same_site_store: "same_site a b \<Longrightarrow> \<exists>fs. site_store b = (site_store a)\<lparr>st_faults := fs\<rparr>"
  by (auto simp: same_site_def)

lemma queries_secret: "queries (get_secret ca name)"
  unfolding get_secret_def credential_blob_def
  by (intro queries_then queries_not_found queries_stmt) (auto intro: queries_pure split: sum.split)

lemma reads_webhook_secret: "reads (webhook_secret env p)"
  unfolding webhook_secret_def Let_def by (auto intro!: reads_bind reads_db reads_return queries_secret)

text \<open>The secret of the project, as the credential store of the database gives it.\<close>

definition webhook_secret_of :: "server_env \<Rightarrow> store \<Rightarrow> string \<Rightarrow> string \<Rightarrow> bool" where
  "webhook_secret_of env s pid secret \<longleftrightarrow> (\<exists>p fs fs'. fst (run_state (get_project pid) (s\<lparr>st_faults := fs\<rparr>)) = Inr p
     \<and> p_webhook_secret_ref p \<noteq> []
     \<and> fst (run_state (get_secret (se_secrets env) (trim_prefix ''vault:'' (p_webhook_secret_ref p))) (s\<lparr>st_faults := fs'\<rparr>)) = Inr secret)"

lemma event_signed: "webhook_event env provider secret r = Inr ev \<Longrightarrow> signature_ok env provider secret r"
  by (auto simp: webhook_event_def split: if_splits option.splits)

definition accepted_as :: "response \<Rightarrow> int option" where
  "accepted_as resp = (case rs_content resp of Payload (P_accepted i) \<Rightarrow> Some i | _ \<Rightarrow> None)"

lemma accepted_as_simps [simp]:
  "accepted_as (http_error n m) = None" "accepted_as (write_json n (P_ignored m)) = None"
  "accepted_as (write_json n (P_accepted i)) = Some i"
  by (simp_all add: accepted_as_def http_error_def write_json_def respond_def)

lemma event_refused: "webhook_event env provider secret r = Inl resp \<Longrightarrow> accepted_as resp = None"
  by (auto simp: webhook_event_def split: if_splits option.splits)

text \<open>A request either ends without leaving a trace, or was signed and reaches \<open>webhook_deploy\<close>.\<close>

lemma webhook_cases:
  obtains (refused) resp t where "run_state (handle_webhook env now provider pid r) si = (resp, t)" "same_site si t" "accepted_as resp = None"
  | (verified) p srv ev secret t where "same_site si t"
      "run_state (handle_webhook env now provider pid r) si
         = run_state (webhook_deploy env now provider pid (webhook_delivery_id (se_sha256 env) (rq_body r)) p srv ev) t"
      "webhook_secret_of env (site_store si) pid secret" "signature_ok env provider secret r"
proof -
  obtain found a where f: "run_state (db (get_project pid)) si = (found, a)" by fastforce
  have sa: "same_site si a" by (rule reads_run[OF reads_db[OF queries_get_project] f])
  show thesis
  proof (cases found)
    case (Inl e)
    have "run_state (handle_webhook env now provider pid r) si =
        (if e = ErrNotFound then http_error 404 ''unknown project'' else http_error 500 ''error'', a)"
      by (simp add: handle_webhook_def run_bind f Inl)
    from refused[OF this sa] show thesis by simp
  next
    case p: (Inr p)
    obtain sec b where s: "run_state (webhook_secret env p) a = (sec, b)" by fastforce
    have sb: "same_site si b" using same_site_trans[OF sa reads_run[OF reads_webhook_secret s]] .
    show thesis
    proof (cases sec)
      case (Inl e)
      then have "run_state (handle_webhook env now provider pid r) si = (http_error 404 ''project not configured for webhooks'', b)"
        by (simp add: handle_webhook_def run_bind f p s)
      from refused[OF this sb] show thesis by simp
    next
      case sec: (Inr secret)
      have ref: "p_webhook_secret_ref p \<noteq> []" using s sec by (auto simp: webhook_secret_def)
      have "fst (run_state (get_secret (se_secrets env) (trim_prefix ''vault:'' (p_webhook_secret_ref p))) (site_store a)) = Inr secret"
        using s sec by (auto simp: webhook_secret_def Let_def run_bind run_db split: if_splits sum.splits prod.splits)
      moreover have "fst (run_state (get_project pid) (site_store si)) = Inr p" using run_db_fst[OF f] p by simp
      ultimately have w: "webhook_secret_of env (site_store si) pid secret"
        using ref same_site_store[OF sa] unfolding webhook_secret_of_def by (metis faults_own)
      show thesis
      proof (cases "webhook_event env provider secret r")
        case (Inl resp)
        then have "run_state (handle_webhook env now provider pid r) si = (resp, b)"
          by (simp add: handle_webhook_def run_bind f p s sec)
        from refused[OF this sb event_refused[OF Inl]] show thesis .
      next
        case ev: (Inr ev)
        show thesis
        proof (cases "p_branch p \<noteq> [] \<and> branch_of (ps_ref ev) \<noteq> p_branch p")
          case True
          then have "run_state (handle_webhook env now provider pid r) si = (write_json 202 (P_ignored ''branch mismatch''), b)"
            by (simp add: handle_webhook_def run_bind f p s sec ev)
          from refused[OF this sb] show thesis by simp
        next
          case br: False
          obtain target c where t: "run_state (db (get_server (p_server_id p))) b = (target, c)" by fastforce
          have sc: "same_site si c" using same_site_trans[OF sb reads_run[OF reads_db[OF queries_get_server] t]] .
          show thesis
          proof (cases target)
            case (Inl e)
            then have "run_state (handle_webhook env now provider pid r) si = (http_error 500 ''project target not configured'', c)"
              using br by (auto simp: handle_webhook_def run_bind f p s sec ev t)
            from refused[OF this sc] show thesis by simp
          next
            case (Inr srv)
            then have "run_state (handle_webhook env now provider pid r) si
                = run_state (webhook_deploy env now provider pid (webhook_delivery_id (se_sha256 env) (rq_body r)) p srv ev) c"
              using br by (auto simp: handle_webhook_def run_bind f p s sec ev t)
            from verified[OF sc this w event_signed[OF ev]] show thesis .
          qed
        qed
      qed
    qed
  qed
qed

text \<open>
  C32: A webhook request changes the database or starts a deployment only when it carries a signature
  (GitHub) or token (GitLab) made with the secret of exactly the project it names; a project without a
  secret accepts none.
\<close>
theorem webhook_authenticated:
  assumes "run_state (handle_webhook env now provider pid r) si = (resp, si')"
    and "\<not> same_site si si' \<or> accepted_as resp \<noteq> None"
  shows "\<exists>secret. webhook_secret_of env (site_store si) pid secret \<and> secret \<noteq> [] \<and> signature_ok env provider secret r"
proof (rule webhook_cases[of env now provider pid r si])
  fix resp0 t
  assume "run_state (handle_webhook env now provider pid r) si = (resp0, t)" "same_site si t" "accepted_as resp0 = None"
  then show ?thesis using assms by simp
next
  fix p srv ev secret t
  assume "webhook_secret_of env (site_store si) pid secret" "signature_ok env provider secret r"
  moreover from this(2) have "secret \<noteq> []"
    by (auto simp: signature_ok_def verify_github_signature_def verify_gitlab_token_def split: if_splits)
  ultimately show ?thesis by blast
qed

section \<open>A payload starts one deployment\<close>

lemma system_put_store: "w_store (sy_world (si_system (put_store s t))) = s"
  by (simp add: put_store_def)

text \<open>A deployment request keeps every invariant of the database that a new deployment keeps.\<close>

context store_invariant
begin

lemma on_world_keeps: "keeps m \<Longrightarrow> I (w_store (sy_world sy)) \<Longrightarrow> I (w_store (sy_world (snd (on_world sy m))))"
  by (auto simp: keeps_def on_world_def on_store_def split_def Let_def)

lemma enqueue_keeps:
  assumes "\<And>d. keeps (create_deployment d)" and "I (w_store (sy_world sy))"
  shows "I (w_store (sy_world (snd (enqueue now job sy))))"
  unfolding enqueue_def using on_world_keeps[OF assms]
  by (auto simp: release_def split: prod.split sum.split) (metis snd_conv)+

lemma trigger_keeps:
  assumes "\<And>d. keeps (create_deployment d)" and "I (w_store (sy_world sy))"
  shows "I (w_store (sy_world (snd (trigger now p srv trig commit ref sy))))"
proof (cases "p_id p \<in> set (sy_in_flight sy)")
  case True
  then show ?thesis using assms by (simp add: trigger_def)
next
  case False
  let ?sy = "sy\<lparr>sy_in_flight := sy_in_flight sy @ [p_id p]\<rparr>"
  obtain found sy1 where w: "on_world ?sy (successful_deployments (p_id p) 1) = (found, sy1)" by fastforce
  have "keeps (successful_deployments (p_id p) 1)"
    unfolding successful_deployments_def by (rule keeps_query)
  from on_world_keeps[OF this, of ?sy] have "I (w_store (sy_world sy1))" using assms(2) by (simp add: w)
  then show ?thesis using False by (simp add: trigger_def w Let_def enqueue_keeps[OF assms(1)])
qed

end

lemma held_creates: "held.keeps k n (create_deployment d)"
  by (auto simp: create_deployment_def delivery_held_def intro!: held.keeps_stmt)

lemma deploy_accepted:
  assumes "run_state (webhook_deploy env now provider pid delivery p srv ev) t = (resp, t')" and "accepted_as resp = Some i"
  shows "delivery_held (provider, pid, delivery) now (site_store t')"
proof -
  obtain acc u where r: "run_state (record_webhook_delivery now provider pid delivery (ps_commit ev)) (site_store t) = (acc, u)" by fastforce
  have acc: "acc = Inr True" and d: "run_state (do {
         started \<leftarrow> on_system (trigger now p srv ''webhook'' (ps_commit ev) (ps_ref ev));
         case started of
           Inl e \<Rightarrow> do {
             _ \<leftarrow> db (delete_webhook_delivery provider pid delivery);
             answer (if e = ErrDeployInProgress then http_error 409 ''a deployment is already in progress''
                     else http_error 500 ''failed to start deployment'') }
         | Inr i \<Rightarrow> answer (write_json 202 (P_accepted i)) }) (put_store u t) = (resp, t')"
    using assms by (auto simp: webhook_deploy_def run_bind run_db r split: sum.splits bool.splits)
  have h: "delivery_held (provider, pid, delivery) now u" using accepted_held r acc by simp
  obtain st sy where tr: "trigger now p srv ''webhook'' (ps_commit ev) (ps_ref ev) (si_system (put_store u t)) = (st, sy)" by fastforce
  have "delivery_held (provider, pid, delivery) now (w_store (sy_world sy))"
    using held.trigger_keeps[OF held_creates, of "(provider, pid, delivery)" now "si_system (put_store u t)" now p srv "''webhook''"
      "ps_commit ev" "ps_ref ev"] h by (simp add: tr system_put_store)
  then show ?thesis using d assms(2)
    by (auto simp: run_bind on_system_def tr site_store_def split: sum.splits if_splits prod.splits)
qed

lemma deploy_duplicate:
  assumes "fst (run_state (record_webhook_delivery now provider pid delivery (ps_commit ev)) (site_store t)) \<noteq> Inr True"
    and "run_state (webhook_deploy env now provider pid delivery p srv ev) t = (resp, t')"
  shows "accepted_as resp = None \<and> sy_workers (si_system t') = sy_workers (si_system t) \<and> sy_in_flight (si_system t') = sy_in_flight (si_system t)"
  using assms by (auto simp: webhook_deploy_def run_bind run_db put_store_def split: sum.splits bool.splits prod.splits)

lemma deploy_ok:
  assumes "store_ok (site_store t)"
  shows "store_ok (site_store (snd (run_state (webhook_deploy env now provider pid delivery p srv ev) t)))"
proof -
  obtain acc u where r: "run_state (record_webhook_delivery now provider pid delivery (ps_commit ev)) (site_store t) = (acc, u)" by fastforce
  have u: "store_ok u"
    using keep_record_delivery[of now provider pid delivery "ps_commit ev"] assms r by (auto simp: ok.keeps_def dest!: spec[of _ "site_store t"])
  obtain st sy where tr: "trigger now p srv ''webhook'' (ps_commit ev) (ps_ref ev) (si_system (put_store u t)) = (st, sy)" by fastforce
  have sy: "store_ok (w_store (sy_world sy))"
    using ok.trigger_keeps[OF keep_create_deployment, of "si_system (put_store u t)" now p srv "''webhook''"
      "ps_commit ev" "ps_ref ev"] u by (simp add: tr system_put_store)
  then have "store_ok (snd (run_state (delete_webhook_delivery provider pid delivery) (w_store (sy_world sy))))"
    using keep_delete_delivery by (simp add: ok.keeps_def)
  moreover obtain x v where "run_state (delete_webhook_delivery provider pid delivery) (w_store (sy_world sy)) = (x, v)" by fastforce
  ultimately show ?thesis using u sy
    by (auto simp: webhook_deploy_def run_bind run_db r on_system_def tr split: sum.split bool.split)
qed

lemma webhook_ok:
  assumes "store_ok (site_store si)"
  shows "store_ok (site_store (snd (run_state (handle_webhook env now provider pid r) si)))"
proof -
  have f: "store_ok (site_store t)" if "same_site si t" for t
    using same_site_store[OF that] assms by auto
  show ?thesis by (rule webhook_cases[of env now provider pid r si]) (use f deploy_ok in auto)
qed

lemma same_site_system:
  "same_site a b \<Longrightarrow> sy_workers (si_system b) = sy_workers (si_system a) \<and> sy_in_flight (si_system b) = sy_in_flight (si_system a)"
  by (auto simp: same_site_def put_store_def)

lemma held_faults: "delivery_held k n (s\<lparr>st_faults := fs\<rparr>) = delivery_held k n s"
  by (simp add: delivery_held_def)


section \<open>A project with a webhook\<close>

definition hook_store :: store where
  "hook_store = effect (upsert_project (zero_project\<lparr>p_id := ''web'', p_server_id := ''s1'', p_webhook_secret_ref := ''vault:hook''\<rparr>))
     (effect (upsert_server (zero_server\<lparr>sv_id := ''s1'', sv_type := ''docker''\<rparr>))
        (effect (put_secret mirror_cipher ''hook'' ''k3y'') (empty_store None [])))"

definition hook_body :: string where
  "hook_body = print_json (JObj [(''ref'', JStr ''refs/heads/main''), (''after'', JStr ''abc123'')])"

definition hook_request :: request where
  "hook_request = blank_request\<lparr>rq_method := ''POST'', rq_body := hook_body,
     rq_headers := [(''X-GitHub-Event'', ''push''), (''X-Hub-Signature-256'', ''sha256='' @ hex_encode (''k3y'' @ hook_body))]\<rparr>"

lemma hook_accepted:
  "accepted_as (fst (run_state (handle_webhook sample_env 1000 ''github'' ''web'' hook_request) (site_of hook_store))) = Some 1"
  by code_simp

lemma keep_put_secret: "ok.keeps (put_secret ca name v)"
proof -
  have "store_ok t \<Longrightarrow> store_ok (snd (run_state (put_credential name a b) t))" for a b t
    using keep_put_credential(1)[of name a b] by (simp add: ok.keeps_def)
  then show ?thesis by (auto simp: ok.keeps_def put_secret_def run_bind split: sum.split)
qed

lemma hook_store_ok: "store_ok hook_store"
proof -
  have e: "ok.keeps m \<Longrightarrow> store_ok s \<Longrightarrow> store_ok (effect m s)" for m :: "unit dbm" and s
    by (simp add: ok.keeps_def effect_def)
  show ?thesis unfolding hook_store_def by (intro e keep_inventory keep_put_secret empty_store_ok)
qed

theorem webhook_authenticated_witness:
  "\<exists>secret. webhook_secret_of sample_env hook_store ''web'' secret \<and> secret \<noteq> [] \<and> signature_ok sample_env ''github'' secret hook_request"
proof -
  obtain resp t where r: "run_state (handle_webhook sample_env 1000 ''github'' ''web'' hook_request) (site_of hook_store) = (resp, t)"
    by fastforce
  have "accepted_as resp \<noteq> None" using hook_accepted by (simp add: r)
  then show ?thesis using webhook_authenticated[OF r] by (simp add: site_of_def site_store_def)
qed


end
