(* ===== verification/Admin.thy ===== *)
theory Admin
  imports Pages Webhook
begin

text \<open>
  The handlers that change the inventory and start deployments: the forms of the dashboard
  (\<open>internal/server/admin.go\<close>, variables.go, handlers.go, deploy_stream.go) and the REST API
  (\<open>internal/server/api.go\<close>). Failures that the code only logs leave no trace in the model.
\<close>

section \<open>The deployer behind its interface\<close>

definition request_error_text :: "request_error \<Rightarrow> string" where
  "request_error_text e = (case e of
       ErrDeployInProgress \<Rightarrow> ''a deployment is already in progress for this project''
     | Request_failed x \<Rightarrow> error_text x
     | No_rollback m \<Rightarrow> m)"

definition deregister :: "server_env \<Rightarrow> string \<Rightarrow> string option handler" where
  "deregister env domain = on_system (run_world (call_proxy (se_deployer env) (Deregister domain)))"

section \<open>Servers\<close>

definition server_form :: "request \<Rightarrow> server" where
  "server_form r = \<lparr>sv_id = form_text r ''id'', sv_name = form_text r ''name'', sv_type = form_text r ''type'',
     sv_host = form_text r ''host'', sv_winrm_endpoint = form_text r ''winrm_endpoint'', sv_winrm_user = form_text r ''winrm_user'',
     sv_winrm_transport = form_text r ''winrm_transport'', sv_winrm_insecure = (form_value r ''winrm_insecure'' \<noteq> []),
     sv_credential_ref = form_text r ''credential_ref'', sv_nssm_path = form_text r ''nssm_path'',
     sv_caddy_path = form_text r ''caddy_path'', sv_ssh_host = form_text r ''ssh_host'', sv_ssh_port = 0,
     sv_ssh_user = form_text r ''ssh_user'', sv_ssh_key_ref = form_text r ''ssh_key_ref'', sv_public_ip = form_text r ''public_ip'',
     sv_local = (form_value r ''local'' \<noteq> []), sv_services = parse_list (form_value r ''services''),
     sv_disk_path = form_text r ''disk_path''\<rparr>"

definition handle_server_save :: "server_env \<Rightarrow> request \<Rightarrow> response handler" where
  "handle_server_save env r =
     (if rq_form_bad r then render_servers r 400 None ''Malformed form submission.''
      else (let srv0 = server_form r; port = form_text r ''ssh_port'' in
        case (if port = [] then Some 0 else atoi port) of
          None \<Rightarrow> render_servers r 400 (Some srv0) ''ssh_port must be a number.''
        | Some n \<Rightarrow>
            (let srv1 = srv0\<lparr>sv_ssh_port := n\<rparr>;
                 srv = (if sv_winrm_transport srv1 = [] then srv1\<lparr>sv_winrm_transport := ''ntlm''\<rparr> else srv1)
             in case validate_server (se_parse_url env) srv of
                  Some e \<Rightarrow> render_servers r 400 (Some srv) e
                | None \<Rightarrow> do {
                    saved \<leftarrow> db (upsert_server srv);
                    case saved of
                      Inl _ \<Rightarrow> render_servers r 500 (Some srv) ''Failed to save server.''
                    | Inr _ \<Rightarrow> answer (redirect ''/servers?notice=Server+saved'') })))"

definition handle_server_delete :: "request \<Rightarrow> response handler" where
  "handle_server_delete r =
     (let i = form_value r ''id'' in
      if i = [] then answer (redirect ''/servers?error=Missing+server+id'')
      else do {
        used \<leftarrow> db (count_projects_by_server i);
        case used of
          Inl _ \<Rightarrow> answer (http_error 500 ''error'')
        | Inr n \<Rightarrow>
            if n > 0 then answer (redirect (''/servers?error='' @ url_query (''Server has '' @ itoa n @ '' project(s); remove them first'')))
            else do {
              gone \<leftarrow> db (delete_server i);
              answer (case gone of Inl _ \<Rightarrow> http_error 500 ''error'' | Inr _ \<Rightarrow> redirect ''/servers?notice=Server+deleted'') } })"

section \<open>Projects\<close>

text \<open>The numbers of the form, in the order they are read; the first that is none is reported.\<close>

definition form_numbers :: "request \<Rightarrow> string + (int \<times> string list \<times> int \<times> int \<times> int \<times> int)" where
  "form_numbers r =
     (case form_int r ''ports_exposes'' of Inl e \<Rightarrow> Inl e
      | Inr exposes0 \<Rightarrow>
          (let exposes = (if exposes0 = 0 then (case form_int r ''port'' of Inl _ \<Rightarrow> 0 | Inr n \<Rightarrow> n) else exposes0) in
           case parse_port_mappings (form_value r ''ports_mappings'') of Inl e \<Rightarrow> Inl e
           | Inr mappings \<Rightarrow>
               (case form_int r ''health_interval_seconds'' of Inl e \<Rightarrow> Inl e
                | Inr a \<Rightarrow>
                    (case form_int r ''health_timeout_seconds'' of Inl e \<Rightarrow> Inl e
                     | Inr b \<Rightarrow>
                         (case form_int r ''health_retries'' of Inl e \<Rightarrow> Inl e
                          | Inr c \<Rightarrow>
                              (case form_int r ''health_start_period_seconds'' of Inl e \<Rightarrow> Inl e
                               | Inr d \<Rightarrow> Inr (exposes, mappings, a, b, c, d)))))))"

definition project_form :: "request \<Rightarrow> int \<times> string list \<times> int \<times> int \<times> int \<times> int \<Rightarrow> project" where
  "project_form r = (\<lambda>(exposes, mappings, interval, timeout, retries, start). zero_project\<lparr>
     p_id := form_text r ''id'', p_name := form_text r ''name'', p_server_id := form_text r ''server_id'',
     p_source := form_text r ''source'', p_repo_url := form_text r ''repo_url'', p_dockerfile_path := form_text r ''dockerfile_path'',
     p_compose_path := form_text r ''compose_path'', p_image := form_text r ''image'', p_ports_exposes := exposes,
     p_ports_mappings := mappings, p_iis_site := form_text r ''iis_site'', p_iis_physical_path := form_text r ''iis_physical_path'',
     p_iis_app_pool := form_text r ''iis_app_pool'', p_iis_service := form_text r ''iis_service'',
     p_iis_build_command := form_text r ''iis_build_command'', p_iis_blue_green := (form_value r ''iis_blue_green'' \<noteq> []),
     p_iis_source_subdir := form_text r ''iis_source_subdir'', p_service_name := form_text r ''service_name'',
     p_service_exe := form_text r ''service_exe'', p_service_args := form_text r ''service_args'',
     p_service_work_dir := form_text r ''service_work_dir'', p_service_build_command := form_text r ''service_build_command'',
     p_service_source_subdir := form_text r ''service_source_subdir'', p_service_log_dir := form_text r ''service_log_dir'',
     p_service_account := form_text r ''service_account'', p_runtime := normalize_runtime (form_value r ''runtime''),
     p_caddy_mode := form_text r ''caddy_mode'', p_branch := form_text r ''branch'', p_domain := form_text r ''domain'',
     p_health_path := form_text r ''health_path'', p_webhook_secret_ref := form_text r ''webhook_secret_ref'',
     p_github_repo := form_text r ''github_repo'', p_git_credential_ref := form_text r ''git_credential_ref'',
     p_env := parse_env (form_value r ''env''), p_build_env := parse_env (form_value r ''build_env''),
     p_health_interval := interval, p_health_timeout := timeout, p_health_retries := retries, p_health_start_period := start,
     p_group := form_text r ''project_group'', p_environment := form_text r ''environment'',
     p_disable_health_check := (form_value r ''disable_health_check'' \<noteq> [])\<rparr>)"

text \<open>What an update keeps of the stored project, and what the bound server decides.\<close>

definition keep_omitted :: "request \<Rightarrow> project option \<Rightarrow> project \<Rightarrow> project" where
  "keep_omitted r existing p0 =
     (let p1 = (case existing of
            None \<Rightarrow> p0
          | Some old \<Rightarrow>
              (let q = p0\<lparr>p_env := preserve_redacted_env (p_env p0) (p_env old), p_build_env := preserve_redacted_env (p_build_env p0) (p_build_env old)\<rparr>;
                   q1 = (if has_field r ''iis_site'' then q else q\<lparr>p_iis_site := p_iis_site old\<rparr>)
               in if has_field r ''runtime'' then q1 else q1\<lparr>p_runtime := p_runtime old\<rparr>));
          p2 = p1\<lparr>p_env := preserve_redacted_env (p_env p1) [], p_build_env := preserve_redacted_env (p_build_env p1) []\<rparr>;
          p3 = (if p_branch p2 = [] then p2\<lparr>p_branch := ''main''\<rparr> else p2);
          p4 = (if p_health_path p3 = [] then p3\<lparr>p_health_path := ''/''\<rparr> else p3)
      in p4\<lparr>p_port := effective_host_port p4\<rparr>)"

definition bind_to_server :: "server \<Rightarrow> project \<Rightarrow> project" where
  "bind_to_server srv p =
     (let p1 = p\<lparr>p_strategy := sv_type srv\<rparr>;
          p2 = (if is_windows (sv_type srv) then p1\<lparr>p_source := []\<rparr> else p1)
      in if sv_type srv = server_type_iis
         then (let p3 = (if p_iis_site p2 = [] then p2\<lparr>p_iis_site := p_id p2\<rparr> else p2)
               in if p_iis_app_pool p3 = [] then p3\<lparr>p_iis_app_pool := p_id p3\<rparr> else p3)
         else p2)"

definition project_target_paths :: "deploy_config \<Rightarrow> project \<Rightarrow> server \<Rightarrow> string option" where
  "project_target_paths cfg p srv =
     (if dc_allow_external cfg \<or> \<not> is_windows (sv_type srv) then None
      else if sv_type srv = server_type_iis then
        map_option (\<lambda>e. ''iis_physical_path: '' @ e) (validate_target_path (dc_target_root cfg) (p_iis_physical_path p))
      else if p_service_work_dir p \<noteq> [] then
        map_option (\<lambda>e. ''service_work_dir: '' @ e) (validate_target_path (dc_target_root cfg) (p_service_work_dir p))
      else None)"

text \<open>A domain that is given up is remembered, so that its route is removed after the next deployment.\<close>

definition retire_old_domain :: "int \<Rightarrow> string \<Rightarrow> string \<Rightarrow> string \<Rightarrow> unit handler" where
  "retire_old_domain now pid old new =
     (if old \<noteq> [] \<and> old \<noteq> new then do { _ \<leftarrow> db (retire_proxy_domain now pid old); State_Monad.return () }
      else State_Monad.return ())"

definition project_check :: "server_env \<Rightarrow> project \<Rightarrow> server \<Rightarrow> string option" where
  "project_check env p srv =
     (case validate_project (se_parse_url env) p srv of
        Some e \<Rightarrow> Some e
      | None \<Rightarrow> project_target_paths (ac_deploy (dp_cfg (se_deployer env))) p srv)"

definition handle_project_save :: "server_env \<Rightarrow> int \<Rightarrow> request \<Rightarrow> response handler" where
  "handle_project_save env now r =
     (if rq_form_bad r then render_wizard 400 None ''Malformed form submission.''
      else (case form_numbers r of
          Inl e \<Rightarrow> render_wizard 400 None e
        | Inr nums \<Rightarrow> (let p0 = project_form r nums in do {
            found \<leftarrow> db (get_project (p_id p0));
            (let existing = (case found of Inl _ \<Rightarrow> None | Inr old \<Rightarrow> Some old);
                 old_domain = (case existing of None \<Rightarrow> [] | Some old \<Rightarrow> p_domain old);
                 p1 = keep_omitted r existing p0 in do {
              target \<leftarrow> db (get_server (p_server_id p1));
              case target of
                Inl _ \<Rightarrow> render_wizard 400 (Some p1) ''Select a valid server.''
              | Inr srv \<Rightarrow> (let p = bind_to_server srv p1 in
                  case project_check env p srv of
                    Some e \<Rightarrow> render_wizard 400 (Some p) e
                  | None \<Rightarrow> do {
                      saved \<leftarrow> db (upsert_project p);
                      case saved of
                        Inl _ \<Rightarrow> render_wizard 500 (Some p) ''Failed to save project.''
                      | Inr _ \<Rightarrow> do {
                          _ \<leftarrow> retire_old_domain now (p_id p) old_domain (p_domain p);
                          answer (redirect (''/projects/'' @ p_id p @ ''?notice='' @ url_query ''Saved'')) } }) }) })))"

definition handle_project_env_save :: "request \<Rightarrow> response handler" where
  "handle_project_env_save r = (let i = form_text r ''id'' in do {
     found \<leftarrow> db (get_project i);
     case found of
       Inl _ \<Rightarrow> answer (redirect (''/projects?error='' @ url_query ''Unknown resource''))
     | Inr old \<Rightarrow>
         (let p1 = old\<lparr>p_env := preserve_redacted_env (parse_env (form_value r ''env'')) (p_env old)\<rparr>;
              p = (if has_field r ''build_env''
                   then p1\<lparr>p_build_env := preserve_redacted_env (parse_env (form_value r ''build_env'')) (p_build_env old)\<rparr> else p1)
          in do {
            saved \<leftarrow> db (upsert_project p);
            answer (redirect (''/projects/'' @ i @ ''?tab=environment&'' @
              (case saved of Inl _ \<Rightarrow> ''error='' @ url_query ''Failed to save environment'' | Inr _ \<Rightarrow> ''notice='' @ url_query ''Environment saved''))) }) })"

text \<open>The public route goes first; without that the project stays.\<close>

definition forget_project :: "string \<Rightarrow> response \<Rightarrow> response \<Rightarrow> response handler" where
  "forget_project i failed fin = do {
     gone \<leftarrow> db (delete_project i);
     case gone of
       Inl _ \<Rightarrow> answer failed
     | Inr _ \<Rightarrow> do { _ \<leftarrow> db (delete_retired_proxy_domains i); answer fin } }"

definition remove_project :: "server_env \<Rightarrow> string \<Rightarrow> response \<Rightarrow> response \<Rightarrow> response \<Rightarrow> response \<Rightarrow> response handler" where
  "remove_project env i lookup_failed route_failed failed fin = do {
     found \<leftarrow> db (get_project i);
     case found of
       Inl e \<Rightarrow> if e \<noteq> ErrNotFound then answer lookup_failed else forget_project i failed fin
     | Inr p \<Rightarrow>
         if p_domain p \<noteq> [] \<and> se_has_proxy env then do {
           err \<leftarrow> deregister env (p_domain p);
           if err \<noteq> None then answer route_failed else forget_project i failed fin }
         else forget_project i failed fin }"

definition handle_project_delete :: "server_env \<Rightarrow> request \<Rightarrow> response handler" where
  "handle_project_delete env r =
     (let i = form_value r ''id'' in
      if i = [] then answer (redirect ''/projects?error=Missing+project+id'')
      else remove_project env i (http_error 500 ''error'')
        (redirect (''/projects?error='' @ url_query ''Could not remove the public route; project was not deleted''))
        (http_error 500 ''error'') (redirect ''/projects?notice=Project+deleted''))"

section \<open>Deployments\<close>

definition default_ref :: "project \<Rightarrow> string" where
  "default_ref p = ''refs/heads/'' @ (if p_branch p = [] then ''main'' else p_branch p)"

definition handle_manual_deploy :: "int \<Rightarrow> string \<Rightarrow> response handler" where
  "handle_manual_deploy now pid = do {
     found \<leftarrow> db (get_project pid);
     case found of
       Inl _ \<Rightarrow> answer (redirect (''/projects?error='' @ url_query (''Unknown project '' @ pid)))
     | Inr p \<Rightarrow> do {
         target \<leftarrow> db (get_server (p_server_id p));
         case target of
           Inl _ \<Rightarrow> answer (redirect (''/projects?error='' @ url_query ''Project has no valid server''))
         | Inr srv \<Rightarrow> do {
             started \<leftarrow> on_system (trigger now p srv ''manual'' [] (default_ref p));
             answer (case started of
                 Inl e \<Rightarrow> redirect (''/projects?error='' @ url_query (request_error_text e))
               | Inr _ \<Rightarrow> redirect (''/deployment?notice='' @ url_query (''Deploy started for '' @ pid))) } } }"

definition handle_deploy_start :: "int \<Rightarrow> string \<Rightarrow> response handler" where
  "handle_deploy_start now pid = do {
     found \<leftarrow> db (get_project pid);
     case found of
       Inl _ \<Rightarrow> answer (api_error 404 ''unknown project'')
     | Inr p \<Rightarrow> do {
         target \<leftarrow> db (get_server (p_server_id p));
         case target of
           Inl _ \<Rightarrow> answer (api_error 400 ''project has no valid server'')
         | Inr srv \<Rightarrow> do {
             started \<leftarrow> on_system (trigger now p srv ''manual'' [] (default_ref p));
             case started of
               Inl ErrDeployInProgress \<Rightarrow> do {
                 recent \<leftarrow> db (list_deployments (p_id p) 1);
                 answer (case recent of
                     Inr (d # _) \<Rightarrow> if d_status d = DeployQueued \<or> d_status d = DeployRunning
                       then write_json 409 (P_in_progress (d_id d) (d_status d))
                       else api_error 409 ''a deployment is already in progress''
                   | _ \<Rightarrow> api_error 409 ''a deployment is already in progress'') }
             | Inl _ \<Rightarrow> answer (api_error 500 ''failed to start deployment'')
             | Inr i \<Rightarrow> answer (write_json 202 (P_started i)) } } }"

definition handle_rollback :: "int \<Rightarrow> string \<Rightarrow> response handler" where
  "handle_rollback now pid = do {
     found \<leftarrow> db (get_project pid);
     case found of
       Inl e \<Rightarrow> answer (if e = ErrNotFound then http_error 404 ''unknown project'' else http_error 500 ''error'')
     | Inr p \<Rightarrow> do {
         target \<leftarrow> db (get_server (p_server_id p));
         case target of
           Inl _ \<Rightarrow> answer (http_error 500 ''error'')
         | Inr srv \<Rightarrow> do {
             started \<leftarrow> on_system (rollback now p srv);
             answer (case started of
                 Inl e \<Rightarrow> redirect (''/deployment?error='' @ url_query
                   (if e = ErrDeployInProgress then ''A deployment is already in progress for '' @ pid @ ''.'' else ''Rollback failed.''))
               | Inr _ \<Rightarrow> redirect (''/deployment?notice='' @ url_query (''Rollback started for '' @ pid))) } } }"

section \<open>Credentials, variables and tokens\<close>

definition handle_credential_save :: "server_env \<Rightarrow> request \<Rightarrow> response handler" where
  "handle_credential_save env r =
     (if rq_form_bad r then render_credentials r 400 ''Malformed form submission.''
      else (let name = form_text r ''name''; secret = form_value r ''secret'' in
        if name = [] then render_credentials r 400 ''Name is required.''
        else if trim_space secret = [] then render_credentials r 400 ''Secret value is required.''
        else do {
          saved \<leftarrow> db (put_secret (se_secrets env) name secret);
          case saved of
            Inl _ \<Rightarrow> render_credentials r 500 ''Failed to store credential.''
          | Inr _ \<Rightarrow> answer (redirect (''/credentials?notice='' @ url_query (''Credential '' @ name @ '' stored''))) }))"

definition handle_credential_delete :: "request \<Rightarrow> response handler" where
  "handle_credential_delete r =
     (let name = form_text r ''name'' in
      if name = [] then answer (redirect ''/credentials?error=Missing+name'')
      else do {
        gone \<leftarrow> db (delete_secret name);
        answer (case gone of Inl _ \<Rightarrow> http_error 500 ''error''
          | Inr _ \<Rightarrow> redirect (''/credentials?notice='' @ url_query (''Credential '' @ name @ '' deleted''))) })"

definition variable_form :: "request \<Rightarrow> shared_variable" where
  "variable_form r = \<lparr>sh_scope = form_text r ''scope'', sh_scope_id = form_text r ''scope_id'', sh_key = form_text r ''key'',
     sh_value = form_value r ''value''\<rparr>"

definition variable_refusal :: "shared_variable \<Rightarrow> string option" where
  "variable_refusal v =
     (if sh_scope v \<noteq> ''project'' \<and> sh_scope v \<noteq> ''environment'' then Some ''Scope must be project or environment.''
      else if sh_scope_id v = [] then Some ''Scope ID is required (project group, or group/environment).''
      else if sh_key v = [] then Some ''Key is required.''
      else if validate_env_key (sh_key v) \<noteq> None then Some ''Key must be a valid environment variable name.''
      else None)"

definition handle_variable_save :: "request \<Rightarrow> response handler" where
  "handle_variable_save r =
     (if rq_form_bad r then render_variables r 400 ''Malformed form submission.''
      else (let v = variable_form r in
        case variable_refusal v of
          Some e \<Rightarrow> render_variables r 400 e
        | None \<Rightarrow> do {
            saved \<leftarrow> db (upsert_shared_variable v);
            case saved of
              Inl _ \<Rightarrow> render_variables r 500 ''Failed to save variable.''
            | Inr _ \<Rightarrow> answer (redirect (''/variables?notice='' @ url_query ''Variable saved'')) }))"

definition handle_variable_delete :: "request \<Rightarrow> response handler" where
  "handle_variable_delete r = do {
     gone \<leftarrow> db (delete_shared_variable (form_text r ''scope'') (form_text r ''scope_id'') (form_text r ''key''));
     answer (case gone of Inl _ \<Rightarrow> http_error 500 ''error'' | Inr _ \<Rightarrow> redirect (''/variables?notice='' @ url_query ''Variable deleted'')) }"

definition handle_token_create :: "server_env \<Rightarrow> int \<Rightarrow> string res \<Rightarrow> request \<Rightarrow> response handler" where
  "handle_token_create env now random r =
     (if rq_form_bad r then render_tokens 400 None ''Malformed form submission.'' []
      else (let name = form_text r ''name''; scope0 = form_text r ''scope''; scope = (if scope0 = [] then ''write'' else scope0) in
        if scope \<noteq> ''read'' \<and> scope \<noteq> ''write'' then render_tokens 400 None ''Scope must be read or write.'' []
        else if name = [] then render_tokens 400 None ''Name is required.'' []
        else (case new_api_token (se_sha256 env) random of
            Inl _ \<Rightarrow> render_tokens 500 None ''Failed to create token.'' []
          | Inr (plaintext, hash) \<Rightarrow> do {
              saved \<leftarrow> db (create_api_token now name hash scope);
              case saved of
                Inl _ \<Rightarrow> render_tokens 500 None ''Failed to create token.'' []
              | Inr _ \<Rightarrow> render_tokens 200 (Some plaintext) [] ''Token created. Copy it now; it will not be shown again.'' })))"

definition handle_token_delete :: "request \<Rightarrow> response handler" where
  "handle_token_delete r =
     (case atoi (form_value r ''id'') of
        None \<Rightarrow> answer (redirect ''/tokens?error=Invalid+token+id'')
      | Some i \<Rightarrow> do {
          gone \<leftarrow> db (delete_api_token i);
          answer (case gone of Inl _ \<Rightarrow> http_error 500 ''error'' | Inr _ \<Rightarrow> redirect ''/tokens?notice=Token+revoked'') })"

end
