(* ===== verification/Api.thy ===== *)
theory Api
  imports Admin
begin

text \<open>
  The REST API (\<open>internal/server/api.go\<close>) and the JSON endpoints of the dashboard
  (\<open>internal/server/handlers.go\<close>). A list is written as it is, whether the code calls it \<open>null\<close> or empty.
\<close>

section \<open>Query numbers\<close>

definition query_int :: "request \<Rightarrow> string \<Rightarrow> int \<Rightarrow> int \<Rightarrow> int \<Rightarrow> int" where
  "query_int r k dflt lo hi =
     (let v = query_value r k in
      if v = [] then dflt
      else (case atoi v of None \<Rightarrow> dflt | Some n \<Rightarrow> if n < lo \<or> n > hi then dflt else n))"

section \<open>Servers\<close>

definition api_list_servers :: "response handler" where
  "api_list_servers = do {
     r \<leftarrow> db list_servers;
     answer (case r of Inl _ \<Rightarrow> api_error 500 ''failed to load servers'' | Inr ss \<Rightarrow> write_json 200 (P_servers ss)) }"

definition api_get_server :: "string \<Rightarrow> response handler" where
  "api_get_server i = do {
     r \<leftarrow> db (get_server i);
     answer (case r of
         Inl e \<Rightarrow> if e = ErrNotFound then api_error 404 ''unknown server'' else api_error 500 ''error''
       | Inr srv \<Rightarrow> write_json 200 (P_server srv)) }"

definition api_save_server :: "server_env \<Rightarrow> request \<Rightarrow> response handler" where
  "api_save_server env r =
     (case decode_json server_fields r zero_server of
        None \<Rightarrow> answer (api_error 400 ''invalid JSON body'')
      | Some srv0 \<Rightarrow>
          (let srv = (if sv_winrm_transport srv0 = [] then srv0\<lparr>sv_winrm_transport := ''ntlm''\<rparr> else srv0) in
           case validate_server (se_parse_url env) srv of
             Some e \<Rightarrow> answer (api_error 400 e)
           | None \<Rightarrow> do {
               saved \<leftarrow> db (upsert_server srv);
               answer (case saved of Inl _ \<Rightarrow> api_error 500 ''failed to save server'' | Inr _ \<Rightarrow> write_json 200 (P_server srv)) }))"

definition api_delete_server :: "string \<Rightarrow> response handler" where
  "api_delete_server i = do {
     used \<leftarrow> db (count_projects_by_server i);
     case used of
       Inl _ \<Rightarrow> answer (api_error 500 ''error'')
     | Inr n \<Rightarrow>
         if n > 0 then answer (api_error 409 ''server has dependent projects'')
         else do {
           gone \<leftarrow> db (delete_server i);
           answer (case gone of Inl _ \<Rightarrow> api_error 500 ''failed to delete server'' | Inr _ \<Rightarrow> write_json 200 P_deleted) } }"

section \<open>Projects\<close>

definition api_list_projects :: "response handler" where
  "api_list_projects = do {
     r \<leftarrow> db list_projects;
     answer (case r of Inl _ \<Rightarrow> api_error 500 ''failed to load projects''
       | Inr ps \<Rightarrow> write_json 200 (P_projects (map redact_project ps))) }"

definition api_get_project :: "string \<Rightarrow> response handler" where
  "api_get_project i = do {
     r \<leftarrow> db (get_project i);
     answer (case r of
         Inl e \<Rightarrow> if e = ErrNotFound then api_error 404 ''unknown project'' else api_error 500 ''error''
       | Inr p \<Rightarrow> write_json 200 (P_project (redact_project p))) }"

text \<open>What the bound server and the stored project decide of a submitted one.\<close>

definition api_defaults :: "project \<Rightarrow> project" where
  "api_defaults p0 =
     (let p1 = (if p_branch p0 = [] then p0\<lparr>p_branch := ''main''\<rparr> else p0)
      in if p_health_path p1 = [] then p1\<lparr>p_health_path := ''/''\<rparr> else p1)"

definition api_bind :: "server \<Rightarrow> project option \<Rightarrow> project \<Rightarrow> project" where
  "api_bind srv existing p0 =
     (let p1 = p0\<lparr>p_strategy := sv_type srv\<rparr>;
          p2 = (if is_windows (sv_type srv) then p1\<lparr>p_source := []\<rparr> else p1);
          p3 = p2\<lparr>p_port := effective_host_port p2\<rparr>;
          old_env = (case existing of Some old \<Rightarrow> p_env old | None \<Rightarrow> []);
          old_build = (case existing of Some old \<Rightarrow> p_build_env old | None \<Rightarrow> [])
      in p3\<lparr>p_env := preserve_redacted_env (p_env p3) old_env, p_build_env := preserve_redacted_env (p_build_env p3) old_build\<rparr>)"

definition api_save_project :: "server_env \<Rightarrow> int \<Rightarrow> request \<Rightarrow> response handler" where
  "api_save_project env now r =
     (case decode_json project_fields r zero_project of
        None \<Rightarrow> answer (api_error 400 ''invalid JSON body'')
      | Some submitted \<Rightarrow> (let p0 = api_defaults submitted in do {
          target \<leftarrow> db (get_server (p_server_id p0));
          case target of
            Inl _ \<Rightarrow> answer (api_error 400 ''server_id does not match a server'')
          | Inr srv \<Rightarrow> do {
              found \<leftarrow> db (get_project (p_id p0));
              (let existing = (case found of Inl _ \<Rightarrow> None | Inr old \<Rightarrow> Some old);
                   old_domain = (case existing of None \<Rightarrow> [] | Some old \<Rightarrow> p_domain old);
                   p = api_bind srv existing p0
               in case project_check env p srv of
                    Some e \<Rightarrow> answer (api_error 400 e)
                  | None \<Rightarrow> do {
                      saved \<leftarrow> db (upsert_project p);
                      case saved of
                        Inl _ \<Rightarrow> answer (api_error 500 ''failed to save project'')
                      | Inr _ \<Rightarrow> do {
                          _ \<leftarrow> retire_old_domain now (p_id p) old_domain (p_domain p);
                          answer (write_json 200 (P_project (redact_project p))) } }) } }))"

definition api_delete_project :: "server_env \<Rightarrow> string \<Rightarrow> response handler" where
  "api_delete_project env i = remove_project env i (api_error 500 ''failed to load project'')
     (api_error 502 ''failed to remove public route'') (api_error 500 ''failed to delete project'') (write_json 200 P_deleted)"

section \<open>Deployments\<close>

definition api_project_deployments :: "string \<Rightarrow> request \<Rightarrow> response handler" where
  "api_project_deployments i r = do {
     ds \<leftarrow> db (list_deployments i (query_int r ''limit'' 50 1 500));
     answer (case ds of Inl _ \<Rightarrow> api_error 500 ''error'' | Inr xs \<Rightarrow> write_json 200 (P_deployments xs)) }"

record deploy_request =
  dq_commit :: string
  dq_ref :: string

definition deploy_request_fields :: "(string \<times> deploy_request json_field) list" where
  "deploy_request_fields =
     [(''commit'', Text_field (\<lambda>v x. x\<lparr>dq_commit := v\<rparr>)), (''ref'', Text_field (\<lambda>v x. x\<lparr>dq_ref := v\<rparr>))]"

text \<open>The body is optional: one that is blank, up to the limit, ends before a value begins.\<close>

definition read_deploy_request :: "request \<Rightarrow> deploy_request option" where
  "read_deploy_request r =
     (let blank = \<lparr>dq_commit = [], dq_ref = []\<rparr> in
      if skip_ws (rq_body r) = [] \<and> int (length (rq_body r)) \<le> max_api_body then Some blank
      else decode_json deploy_request_fields r blank)"

text \<open>The project and its target, or the answer that one is missing.\<close>

definition api_target :: "string \<Rightarrow> (response + project \<times> server) handler" where
  "api_target i = do {
     found \<leftarrow> db (get_project i);
     case found of
       Inl e \<Rightarrow> State_Monad.return (Inl (if e = ErrNotFound then api_error 404 ''unknown project'' else api_error 500 ''error''))
     | Inr p \<Rightarrow> do {
         target \<leftarrow> db (get_server (p_server_id p));
         State_Monad.return (case target of
             Inl _ \<Rightarrow> Inl (api_error 400 ''project has no valid server'')
           | Inr srv \<Rightarrow> Inr (p, srv)) } }"

definition api_deploy :: "int \<Rightarrow> string \<Rightarrow> request \<Rightarrow> response handler" where
  "api_deploy now i r = do {
     found \<leftarrow> api_target i;
     case found of
       Inl x \<Rightarrow> answer x
     | Inr (p, srv) \<Rightarrow>
         (case read_deploy_request r of
            None \<Rightarrow> answer (api_error 400 ''invalid JSON body'')
          | Some q \<Rightarrow> do {
              started \<leftarrow> on_system (trigger now p srv ''api'' (dq_commit q) (if dq_ref q = [] then default_ref p else dq_ref q));
              answer (case started of
                  Inl e \<Rightarrow> if e = ErrDeployInProgress then api_error 409 ''a deployment is already in progress''
                           else api_error 500 ''failed to start deployment''
                | Inr n \<Rightarrow> write_json 202 (P_accepted n)) }) }"

definition api_rollback :: "int \<Rightarrow> string \<Rightarrow> response handler" where
  "api_rollback now i = do {
     found \<leftarrow> api_target i;
     case found of
       Inl x \<Rightarrow> answer x
     | Inr (p, srv) \<Rightarrow> do {
         started \<leftarrow> on_system (rollback now p srv);
         answer (case started of
             Inl e \<Rightarrow> if e = ErrDeployInProgress then api_error 409 ''a deployment is already in progress''
                      else api_error 400 (request_error_text e)
           | Inr n \<Rightarrow> write_json 202 (P_accepted n)) } }"

section \<open>The JSON endpoints of the dashboard\<close>

definition handle_api_deployments :: "string \<Rightarrow> response handler" where
  "handle_api_deployments pid = do {
     ds \<leftarrow> db (list_deployments pid 50);
     answer (case ds of Inl _ \<Rightarrow> http_error 500 ''error'' | Inr xs \<Rightarrow> write_json 200 (P_deployments xs)) }"

definition handle_api_deployment :: "string \<Rightarrow> response handler" where
  "handle_api_deployment i =
     (case atoi i of
        None \<Rightarrow> answer (http_error 400 ''invalid id'')
      | Some n \<Rightarrow> do {
          d \<leftarrow> db (get_deployment n);
          answer (case d of
              Inl e \<Rightarrow> if e = ErrNotFound then http_error 404 ''not found'' else http_error 500 ''error''
            | Inr x \<Rightarrow> write_json 200 (P_deployment x)) })"

definition handle_api_audit :: "request \<Rightarrow> response handler" where
  "handle_api_audit r = do {
     cs \<leftarrow> db (list_remote_commands (query_int r ''limit'' 100 1 1000));
     answer (case cs of Inl _ \<Rightarrow> http_error 500 ''error'' | Inr xs \<Rightarrow> write_json 200 (P_commands xs)) }"

section \<open>Which of them only read\<close>

lemma queries_counts: "queries count_servers" "queries count_projects" "queries (count_projects_by_server i)"
  "queries count_users" "queries (username_by_session h now)" "queries (api_token_by_hash h)" "queries (user_by_username u)"
  unfolding count_servers_def count_projects_def count_projects_by_server_def count_users_def username_by_session_def
    api_token_by_hash_def user_by_username_def
  by (auto intro!: queries_intros split: option.split)

lemma reads_target: "reads (api_target i)"
  unfolding api_target_def by (auto intro!: reads_intros read_queries split: sum.split)

lemma reads_api: "reads api_list_servers" "reads (api_get_server i)" "reads api_list_projects" "reads (api_get_project i)"
  "reads (api_project_deployments i r)" "reads (handle_api_deployments i)" "reads (handle_api_deployment i)" "reads (handle_api_audit r)"
  unfolding api_list_servers_def api_get_server_def api_list_projects_def api_get_project_def api_project_deployments_def
    handle_api_deployments_def handle_api_deployment_def handle_api_audit_def
  by (auto intro!: reads_intros read_queries split: sum.split option.split)

end
