(* ===== verification/Bootstrap.thy ===== *)
theory Bootstrap
  imports StoreSecrets
begin

text \<open>
  Provisioning in steps (\<open>internal/bootstrap/bootstrap.go\<close>, state.go): each step is checked, applied when
  it is not yet satisfied, and its progress is recorded under its name. A step is what the machine
  does: a check and an action on a machine state \<open>'m\<close>; the individual steps are not modelled.
\<close>

section \<open>The engine\<close>

record 'm boot_step =
  bs_name :: string
  bs_check :: "'m \<Rightarrow> (string + bool) \<times> 'm"
  bs_apply :: "'m \<Rightarrow> string option \<times> 'm"

record 'm bootstrap =
  bo_steps :: "'m boot_step list"
  bo_meta :: bool
  bo_runner :: bool
  bo_dry_run :: bool
  bo_namespace :: string

datatype status_kind = Status_done | Status_applied | Status_pending | Status_error

record boot_result =
  br_name :: string
  br_status :: status_kind
  br_error :: string

definition meta_key :: "string \<Rightarrow> string \<Rightarrow> string" where
  "meta_key ns step = (if ns = [] then ''bootstrap.'' @ step else ''bootstrap.'' @ ns @ ''.'' @ step)"

definition record_step :: "'m bootstrap \<Rightarrow> string \<Rightarrow> string \<Rightarrow> store \<Rightarrow> store" where
  "record_step b step val s = (if bo_meta b then effect (set_meta (meta_key (bo_namespace b) step) val) s else s)"

definition boot_result_of :: "'m boot_step \<Rightarrow> status_kind \<Rightarrow> string \<Rightarrow> boot_result" where
  "boot_result_of st k e = \<lparr>br_name = bs_name st, br_status = k, br_error = e\<rparr>"

fun run_steps :: "'m bootstrap \<Rightarrow> 'm boot_step list \<Rightarrow> 'm \<times> store \<Rightarrow> (boot_result list \<times> string option) \<times> 'm \<times> store" where
  "run_steps b [] w = (([], None), w)"
| "run_steps b (st # sts) (m, s) =
     (case bs_check st m of
        (Inl e, m1) \<Rightarrow>
          (let safe = redact_audit_text e in
           (([boot_result_of st Status_error safe], Some (bs_name st @ '': check: '' @ safe)),
            m1, record_step b (bs_name st) (''error: '' @ safe) s))
      | (Inr True, m1) \<Rightarrow>
          (let ((rs, err), w) = run_steps b sts (m1, record_step b (bs_name st) ''done'' s)
           in ((boot_result_of st Status_done [] # rs, err), w))
      | (Inr False, m1) \<Rightarrow>
          (if bo_dry_run b then
             (let ((rs, err), w) = run_steps b sts (m1, s) in ((boot_result_of st Status_pending [] # rs, err), w))
           else (case bs_apply st m1 of
               (Some e, m2) \<Rightarrow>
                 (let safe = redact_audit_text e in
                  (([boot_result_of st Status_error safe], Some (bs_name st @ '': '' @ safe)),
                   m2, record_step b (bs_name st) (''error: '' @ safe) s))
             | (None, m2) \<Rightarrow>
                 (let ((rs, err), w) = run_steps b sts (m2, record_step b (bs_name st) ''done'' s)
                  in ((boot_result_of st Status_applied [] # rs, err), w)))))"

definition bootstrap_run :: "'m bootstrap \<Rightarrow> 'm \<times> store \<Rightarrow> (boot_result list \<times> string option) \<times> 'm \<times> store" where
  "bootstrap_run b w = run_steps b (bo_steps b) w"

section \<open>Recorded progress\<close>

record step_status =
  ss_name :: string
  ss_done :: bool
  ss_error :: string

definition progress_of :: "string \<Rightarrow> string \<Rightarrow> step_status" where
  "progress_of name v = \<lparr>ss_name = name, ss_done = (v = ''done''),
     ss_error = (if v \<noteq> ''done'' \<and> prefix ''error:'' v then trim_space (trim_prefix ''error:'' v) else [])\<rparr>"

fun step_statuses :: "'m bootstrap \<Rightarrow> 'm boot_step list \<Rightarrow> step_status list dbm" where
  "step_statuses b [] = db_ok []"
| "step_statuses b (st # sts) =
     db_then (if bo_meta b then get_meta (meta_key (bo_namespace b) (bs_name st)) else db_ok []) (\<lambda>v.
     db_then (step_statuses b sts) (\<lambda>rest. db_ok (progress_of (bs_name st) v # rest)))"

definition bootstrap_status :: "'m bootstrap \<Rightarrow> step_status list dbm" where
  "bootstrap_status b = step_statuses b (bo_steps b)"

fun still_done :: "step_status list \<Rightarrow> 'm boot_step list \<Rightarrow> 'm \<Rightarrow> (string + bool) \<times> 'm" where
  "still_done (p # ps) (st # sts) m =
     (if \<not> ss_done p then (Inr False, m)
      else (case bs_check st m of
          (Inl e, m1) \<Rightarrow> (Inl e, m1)
        | (Inr False, m1) \<Rightarrow> (Inr False, m1)
        | (Inr True, m1) \<Rightarrow> still_done ps sts m1))"
| "still_done _ _ m = (Inr True, m)"

definition bootstrap_complete :: "'m bootstrap \<Rightarrow> 'm \<times> store \<Rightarrow> (string + bool) \<times> 'm \<times> store" where
  "bootstrap_complete b = (\<lambda>(m, s).
     if \<not> bo_runner b then (Inl ''bootstrap runner is nil'', m, s)
     else (case run_state (bootstrap_status b) s of
         (Inl e, s1) \<Rightarrow> (Inl (error_text e), m, s1)
       | (Inr ps, s1) \<Rightarrow> (let (r, m1) = still_done ps (bo_steps b) m in (r, m1, s1))))"

section \<open>Progress on record\<close>

definition recorded :: "'m bootstrap \<Rightarrow> store \<Rightarrow> string \<Rightarrow> string" where
  "recorded b s step = (case find (\<lambda>r. fst r = meta_key (bo_namespace b) step) (st_meta s) of None \<Rightarrow> [] | Some r \<Rightarrow> snd r)"

lemma meta_key_inj: "meta_key ns a = meta_key ns b \<longleftrightarrow> a = b"
  by (simp add: meta_key_def)

lemma find_upsert_meta:
  "find (\<lambda>r. fst r = j) (upsert fst merge_meta (k, v) rows) = (if j = k then Some (k, v) else find (\<lambda>r. fst r = j) rows)"
proof (cases "list_ex (\<lambda>x. fst x = k) rows")
  case True
  have "find (\<lambda>r. fst r = j) (map (\<lambda>x. if fst x = k then merge_meta x (k, v) else x) rows) = find (\<lambda>r. fst r = j) rows"
    if "j \<noteq> k" using that by (induction rows) (auto simp: merge_meta_def)
  moreover have "find (\<lambda>r. fst r = k) (map (\<lambda>x. if fst x = k then merge_meta x (k, v) else x) rows) = Some (k, v)"
    using True by (induction rows) (auto simp: merge_meta_def)
  ultimately show ?thesis using True by (simp add: upsert_def)
next
  case False
  then have "find (\<lambda>r. fst r = k) rows = None" by (auto simp: find_None_iff list_ex_iff)
  then show ?thesis using False by (auto simp: upsert_def find_append split: option.split)
qed

lemma record_step_facts:
  assumes "bo_meta b" and "sound s"
  shows "sound (record_step b step v s)"
    and "recorded b (record_step b step v s) n = (if n = step then v else recorded b s n)"
  using assms by (auto simp: record_step_def effect_def set_meta_def recorded_def find_upsert_meta meta_key_inj sound_def)

lemma run_statuses:
  assumes "bo_meta b" and "sound s"
  shows "run_state (step_statuses b sts) s = (Inr (map (\<lambda>st. progress_of (bs_name st) (recorded b s (bs_name st))) sts), s)"
  by (induction sts) (simp_all add: assms get_meta_def run_db_then recorded_def)

section \<open>Running it again changes nothing\<close>

text \<open>What the engine relies on: a check only looks, an action that succeeds satisfies its check, and
  it does not undo what an earlier step has done.\<close>

definition keeps_step :: "'m boot_step \<Rightarrow> 'm boot_step \<Rightarrow> bool" where
  "keeps_step a st \<longleftrightarrow> (\<forall>m m'. fst (bs_check a m) = Inr True \<longrightarrow> bs_apply st m = (None, m') \<longrightarrow> fst (bs_check a m') = Inr True)"

definition step_laws :: "'m boot_step list \<Rightarrow> bool" where
  "step_laws sts \<longleftrightarrow> distinct (map bs_name sts) \<and> sorted_wrt keeps_step sts
     \<and> list_all (\<lambda>st. (\<forall>m. snd (bs_check st m) = m)
         \<and> (\<forall>m m'. bs_apply st m = (None, m') \<longrightarrow> fst (bs_check st m') = Inr True)) sts"

lemma step_laws_Cons:
  "step_laws (st # sts) \<Longrightarrow> step_laws sts \<and> bs_name st \<notin> bs_name ` set sts \<and> list_all (keeps_step st) sts
     \<and> snd (bs_check st m) = m \<and> (bs_apply st m = (None, m') \<longrightarrow> fst (bs_check st m') = Inr True)"
  by (auto simp: step_laws_def list_all_iff)

lemma run_steps_converge:
  assumes "bo_meta b" and "\<not> bo_dry_run b" and "sound s" and "step_laws sts"
    and "run_steps b sts (m, s) = ((rs, None), m', s')"
  shows "sound s' \<and> list_all (\<lambda>st. fst (bs_check st m') = Inr True \<and> recorded b s' (bs_name st) = ''done'') sts
    \<and> (\<forall>n. n \<notin> bs_name ` set sts \<longrightarrow> recorded b s' n = recorded b s n)
    \<and> (\<forall>a. list_all (keeps_step a) sts \<longrightarrow> fst (bs_check a m) = Inr True \<longrightarrow> fst (bs_check a m') = Inr True)"
  using assms
proof (induction sts arbitrary: m s rs)
  case (Cons st sts)
  note laws = step_laws_Cons[OF Cons.prems(4)]
  note rec = record_step_facts[OF Cons.prems(1,3)]
  let ?s = "record_step b (bs_name st) ''done'' s"
  obtain c where c: "bs_check st m = (c, m)" using laws[of m] by (cases "bs_check st m") auto
  obtain m1 rs1 where r: "run_steps b sts (m1, ?s) = ((rs1, None), m', s')" "fst (bs_check st m1) = Inr True"
      "\<And>a. keeps_step a st \<Longrightarrow> fst (bs_check a m) = Inr True \<Longrightarrow> fst (bs_check a m1) = Inr True"
  proof (cases "c = Inr True")
    case True
    then obtain rs1 where "run_steps b sts (m, ?s) = ((rs1, None), m', s')"
      using Cons.prems(5) c by (auto split: prod.splits)
    then show thesis using that c True by simp
  next
    case False
    then have "c = Inr False" using Cons.prems(5) c by (cases c) (auto simp: Let_def)
    then obtain m1 rs1 where a: "bs_apply st m = (None, m1)" "run_steps b sts (m1, ?s) = ((rs1, None), m', s')"
      using Cons.prems(2,5) c by (auto simp: Let_def split: prod.splits option.splits)
    show thesis by (rule that[OF a(2)]) (use laws[of m m1] a(1) in \<open>auto simp: keeps_step_def\<close>)
  qed
  have ih: "sound s'" "list_all (\<lambda>st. fst (bs_check st m') = Inr True \<and> recorded b s' (bs_name st) = ''done'') sts"
    "\<And>n. n \<notin> bs_name ` set sts \<Longrightarrow> recorded b s' n = recorded b ?s n"
    "\<And>a. list_all (keeps_step a) sts \<Longrightarrow> fst (bs_check a m1) = Inr True \<Longrightarrow> fst (bs_check a m') = Inr True"
    using Cons.IH[OF Cons.prems(1,2) rec(1) _ r(1)] laws by blast+
  have "recorded b s' (bs_name st) = ''done''" using ih(3)[of "bs_name st"] laws by (simp add: rec(2))
  moreover have "fst (bs_check st m') = Inr True" using ih(4)[of st] laws r(2) by blast
  ultimately show ?case using ih r(3) by (simp add: rec(2))
qed simp

lemma run_steps_done:
  assumes "list_all (\<lambda>st. bs_check st m = (Inr True, m)) sts"
  shows "\<exists>s'. run_steps b sts (m, s) = ((map (\<lambda>st. boot_result_of st Status_done []) sts, None), m, s')"
  using assms
proof (induction sts arbitrary: s)
  case (Cons st sts)
  then obtain s' where "run_steps b sts (m, record_step b (bs_name st) ''done'' s)
      = ((map (\<lambda>st. boot_result_of st Status_done []) sts, None), m, s')" by fastforce
  then show ?case using Cons.prems by simp
qed simp

lemma still_done_all:
  assumes "list_all (\<lambda>st. bs_check st m = (Inr True, m)) sts"
  shows "still_done (map (\<lambda>st. progress_of (bs_name st) ''done'') sts) sts m = (Inr True, m)"
  using assms by (induction sts) (simp_all add: progress_of_def)


definition dir_step :: "string \<Rightarrow> string list boot_step" where
  "dir_step n = \<lparr>bs_name = n, bs_check = (\<lambda>m. (Inr (n \<in> set m), m)), bs_apply = (\<lambda>m. (None, n # m))\<rparr>"


section \<open>A failure ends the run\<close>

definition ends_in_error :: "boot_result list \<Rightarrow> bool" where
  "ends_in_error rs \<longleftrightarrow> rs \<noteq> [] \<and> br_status (last rs) = Status_error \<and> list_all (\<lambda>r. br_status r \<noteq> Status_error) (butlast rs)"

lemma ends_in_error_simps:
  "ends_in_error [boot_result_of st Status_error e]"
  "k \<noteq> Status_error \<Longrightarrow> ends_in_error (boot_result_of st k [] # rs) \<longleftrightarrow> ends_in_error rs"
  by (auto simp: ends_in_error_def boot_result_of_def)

lemma run_steps_fails: "run_steps b sts (m, s) = ((rs, Some e), w') \<Longrightarrow> ends_in_error rs"
proof (induction sts arbitrary: m s rs)
  case (Cons st sts)
  then show ?case
    by (auto simp: Let_def ends_in_error_simps split: prod.splits sum.splits bool.splits option.splits if_splits)
qed simp

end
