(* ===== verification/Setup.thy ===== *)
theory Setup
  imports Api Bootstrap
begin

text \<open>
  The set-up page, the onboarding of Windows servers and the GitHub link (\<open>internal/server/setup.go\<close>,
  onboard.go, github.go). What the handlers are given as functions (\<open>Deps\<close>) stays a function here:
  the onboarder, the GitHub connector, the elevation check. Of the operating system they use the host
  name, the default root and the joining of paths.
\<close>

section \<open>What the handlers are given\<close>

record url_full = url +
  u_port :: string
  u_path :: string

record onboard_params =
  op_endpoint :: string
  op_user :: string
  op_password :: string
  op_id :: string
  op_name :: string
  op_insecure :: bool
  op_provision_caddy :: bool

record side_env =
  sd_onboard :: "(onboard_params \<Rightarrow> ((string \<times> boot_result list) \<times> string option) handler) option"
  sd_onboarding :: bool
  sd_connect :: "(project \<Rightarrow> string \<Rightarrow> string \<Rightarrow> string option handler) option"
  sd_status :: "step_status list dbm option"
  sd_elevated :: "string + bool"
  sd_can_run :: bool
  sd_elevate :: "string option option"
  sd_parse_url :: "string \<Rightarrow> url_full option"
  sd_url_string :: "url_full \<Rightarrow> string"
  sd_hostname :: "string option"
  sd_default_root :: string
  sd_join :: "string list \<Rightarrow> string"

section \<open>Paths of an installation\<close>

record boot_paths =
  bp_root :: string
  bp_tools :: string
  bp_nssm :: string
  bp_caddy :: string
  bp_connector :: string
  bp_work :: string
  bp_apps :: string
  bp_backups :: string
  bp_logs :: string
  bp_data :: string

definition default_paths :: "(string list \<Rightarrow> string) \<Rightarrow> string \<Rightarrow> boot_paths" where
  "default_paths path_of root = \<lparr>bp_root = root, bp_tools = path_of [root, ''tools''], bp_nssm = path_of [root, ''tools'', ''nssm.exe''],
     bp_caddy = path_of [root, ''tools'', ''caddy.exe''], bp_connector = path_of [root, ''tools'', ''cloudflared.exe''],
     bp_work = path_of [root, ''work''], bp_apps = path_of [root, ''apps''], bp_backups = path_of [root, ''backups''],
     bp_logs = path_of [root, ''logs''], bp_data = path_of [root, ''data'']\<rparr>"

section \<open>The set-up page\<close>

definition setup_failed :: "string \<Rightarrow> response" where "setup_failed msg = redirect (''/setup?error='' @ url_query msg)"
definition setup_noticed :: "string \<Rightarrow> response" where "setup_noticed msg = redirect (''/setup?notice='' @ url_query msg)"

definition handle_setup_page :: "side_env \<Rightarrow> request \<Rightarrow> response handler" where
  "handle_setup_page sd r = do {
     local \<leftarrow> db (get_server ''local'');
     (let has_local = (case local of Inr _ \<Rightarrow> True | Inl _ \<Rightarrow> False) in
      case sd_status sd of
        None \<Rightarrow> render_page 200 (Setup_page False [] has_local (query_value r ''error'') (query_value r ''notice''))
      | Some status \<Rightarrow> do {
          found \<leftarrow> db status;
          case found of
            Inl _ \<Rightarrow> render_page 500 (Setup_page False [] has_local ''Failed to read setup status.'' (query_value r ''notice''))
          | Inr sts \<Rightarrow> render_page 200 (Setup_page True (map (\<lambda>s. (ss_name s, ss_done s, ss_error s)) sts) has_local
              (query_value r ''error'') (query_value r ''notice'')) }) }"

text \<open>The bootstrap itself is started in the background and reports through its recorded progress.\<close>

definition handle_setup_run :: "side_env \<Rightarrow> response handler" where
  "handle_setup_run sd = answer
     (if sd_status sd = None then setup_failed ''Bootstrap is not enabled''
      else (case sd_elevated sd of
          Inl e \<Rightarrow> setup_failed (''Cannot check elevation: '' @ e)
        | Inr True \<Rightarrow>
            (if sd_can_run sd then setup_noticed ''Bootstrap started; refresh to see progress''
             else setup_failed ''Bootstrap runner is unavailable'')
        | Inr False \<Rightarrow>
            (case sd_elevate sd of
               None \<Rightarrow> setup_failed ''Run `winify bootstrap` from an elevated shell''
             | Some (Some e) \<Rightarrow> setup_failed (''Elevation failed: '' @ e)
             | Some None \<Rightarrow> setup_noticed ''Approve the UAC prompt to run bootstrap'')))"

definition local_server :: "server_env \<Rightarrow> side_env \<Rightarrow> request \<Rightarrow> server" where
  "local_server env sd r =
     (let configured = ac_install_dir (dp_cfg (se_deployer env));
          paths = default_paths (sd_join sd) (if configured = [] then sd_default_root sd else configured);
          name = (case sd_hostname sd of Some h \<Rightarrow> if h \<noteq> [] then h else ''This machine'' | None \<Rightarrow> ''This machine'')
      in zero_server\<lparr>sv_id := ''local'', sv_name := name, sv_type := server_type_winsvc, sv_local := True, sv_nssm_path := bp_nssm paths,
           sv_caddy_path := bp_caddy paths, sv_host := ''127.0.0.1'', sv_public_ip := form_text r ''public_ip''\<rparr>)"

definition handle_setup_local_target :: "server_env \<Rightarrow> side_env \<Rightarrow> request \<Rightarrow> response handler" where
  "handle_setup_local_target env sd r = do {
     saved \<leftarrow> db (upsert_server (local_server env sd r));
     answer (case saved of Inl _ \<Rightarrow> setup_failed ''Failed to create the local target.'' | Inr _ \<Rightarrow> setup_noticed ''Local target created.'') }"

section \<open>Onboarding a Windows server\<close>

definition join_host_port :: "string \<Rightarrow> string \<Rightarrow> string" where
  "join_host_port h p = (if CHR '':'' \<in> set h then ''['' @ h @ '']:'' @ p else h @ '':'' @ p)"

definition normalize_winrm_endpoint :: "side_env \<Rightarrow> string \<Rightarrow> bool \<Rightarrow> string + string" where
  "normalize_winrm_endpoint sd raw0 insecure =
     (let raw1 = trim_space raw0 in
      if raw1 = [] then Inl ''winrm endpoint is required''
      else
        (let raw = (if sublist ''://'' raw1 then raw1 else ''https://'' @ raw1);
             bad = Inl (''invalid winrm endpoint '' @ quote raw)
         in case sd_parse_url sd raw of
              None \<Rightarrow> bad
            | Some u \<Rightarrow>
                if u_hostname u = [] then bad
                else if u_scheme u \<noteq> ''http'' \<and> u_scheme u \<noteq> ''https'' then Inl ''winrm endpoint must use http or https''
                else if u_scheme u = ''http'' \<and> \<not> insecure then Inl ''http winrm endpoint requires the insecure opt-in''
                else
                  (let u1 = (if u_port u = [] then u\<lparr>u_host := join_host_port (u_hostname u) (if u_scheme u = ''http'' then ''5985'' else ''5986'')\<rparr>
                             else u);
                       u2 = (if u_path u1 = [] \<or> u_path u1 = ''/'' then u1\<lparr>u_path := ''/wsman''\<rparr> else u1)
                   in Inr (sd_url_string sd u2))))"

definition onboard_form :: "request \<Rightarrow> onboard_params" where
  "onboard_form r = \<lparr>op_endpoint = form_text r ''endpoint'', op_user = form_text r ''user'', op_password = form_value r ''password'',
     op_id = form_text r ''id'', op_name = form_text r ''name'', op_insecure = (form_value r ''insecure'' \<noteq> []),
     op_provision_caddy = (form_value r ''provision_caddy'' \<noteq> [])\<rparr>"

definition failed_step :: "boot_result list \<Rightarrow> string" where
  "failed_step rs = (case rev (filter (\<lambda>x. br_error x \<noteq> []) rs) of [] \<Rightarrow> [] | x # _ \<Rightarrow> br_name x)"

definition handle_server_onboard :: "side_env \<Rightarrow> request \<Rightarrow> response handler" where
  "handle_server_onboard sd r =
     (case sd_onboard sd of
        None \<Rightarrow> render_servers r 501 None ''Windows onboarding is not configured.''
      | Some onboard \<Rightarrow>
          if rq_form_bad r then render_servers r 400 None ''Malformed form submission.''
          else (let ps = onboard_form r in
            if op_user ps = [] \<or> op_password ps = [] then render_servers r 400 None ''WinRM user and password are required.''
            else (case normalize_winrm_endpoint sd (op_endpoint ps) (op_insecure ps) of
                Inl e \<Rightarrow> render_servers r 400 None e
              | Inr endpoint \<Rightarrow>
                  (case (if op_id ps \<noteq> [] then validate_resource_id ''id'' (op_id ps) else None) of
                     Some e \<Rightarrow> render_servers r 400 None e
                   | None \<Rightarrow>
                       if sd_onboarding sd then render_servers r 409 None ''Another onboarding run is already in progress.''
                       else do {
                         ((server_id, results), err) \<leftarrow> onboard (ps\<lparr>op_endpoint := endpoint\<rparr>);
                         case err of
                           Some e \<Rightarrow> render_servers r 502 None
                             (if failed_step results \<noteq> [] then ''Onboarding failed at step '' @ failed_step results @ '': '' @ e
                              else ''Onboarding failed.'')
                         | None \<Rightarrow> answer (redirect (''/servers?notice='' @ url_query (''Onboarded '' @ server_id))) }))))"

section \<open>Linking a GitHub repository\<close>

definition handle_github_connect :: "server_env \<Rightarrow> side_env \<Rightarrow> string \<Rightarrow> request \<Rightarrow> response handler" where
  "handle_github_connect env sd pid r =
     (let back = (\<lambda>k msg. redirect (''/projects/'' @ pid @ ''?tab=overview&'' @ k @ ''='' @ url_query msg)) in
      case sd_connect sd of
        None \<Rightarrow> answer (back ''error'' ''GitHub App integration is not configured'')
      | Some connect \<Rightarrow>
          if rq_form_bad r then answer (back ''error'' ''Malformed form submission'')
          else (let owner_repo = form_text r ''repo'' in
            if \<not> owner_repo_pattern owner_repo then answer (back ''error'' ''Repository must be owner/repo'')
            else do {
              found \<leftarrow> db (get_project pid);
              case found of
                Inl e \<Rightarrow> answer (if e = ErrNotFound then http_error 404 ''unknown project'' else http_error 500 ''error'')
              | Inr p \<Rightarrow>
                  (let public = trim_right_set ''/'' (trim_space (ac_public_url (dp_cfg (se_deployer env))));
                       base = (if public = [] then (if rq_tls r then ''https'' else ''http'') @ ''://'' @ rq_host r else public) in do {
                     err \<leftarrow> connect p owner_repo base;
                     answer (case err of
                         Some e \<Rightarrow> back ''error'' (''GitHub webhook setup failed: '' @ e)
                       | None \<Rightarrow> back ''notice'' (''GitHub webhook connected for '' @ owner_repo)) }) }))"

lemma reads_setup:
  "(\<And>status. sd_status sd = Some status \<Longrightarrow> queries status) \<Longrightarrow> reads (handle_setup_page sd r)" "reads (handle_setup_run sd)"
  unfolding handle_setup_page_def handle_setup_run_def Let_def
  by (auto intro!: reads_intros read_queries split: option.split sum.split)

lemma queries_bootstrap_status: "queries (bootstrap_status b)"
proof -
  have "queries (step_statuses b sts)" for sts
    by (induction sts) (auto intro!: queries_intros simp: get_meta_def split: option.split)
  then show ?thesis by (simp add: bootstrap_status_def)
qed

end
