(* ===== verification/LogStream.thy ===== *)
theory LogStream
  imports Api
begin

text \<open>
  The live log of a deployment (\<open>internal/server/deploy_stream.go\<close>): server-sent events written while the
  database is polled. A poll is the answer of \<open>GetDeployment\<close>; a list of them that ends is a client
  that goes away.
\<close>

section \<open>Events on the wire\<close>

type_synonym sse = "string \<times> go_map"

definition write_sse :: "sse \<Rightarrow> string" where
  "write_sse ev = ''event: '' @ fst ev @ nl @ ''data: '' @ marshal_text_map (snd ev) @ nl @ nl"

definition log_event :: "string \<Rightarrow> sse" where "log_event chunk = (''log'', [(''chunk'', chunk)])"
definition status_event :: "deploy_status \<Rightarrow> sse" where "status_event st = (''status'', [(''status'', status_text st)])"
definition final_event :: "string \<Rightarrow> string \<Rightarrow> sse" where
  "final_event st err = (''status'', [(''error'', err), (''status'', st)])"

fun stream_events :: "nat \<Rightarrow> deployment sres list \<Rightarrow> sse list" where
  "stream_events sent [] = []"
| "stream_events sent (Inl e # ps) = [final_event ''unknown'' ''deployment not found'']"
| "stream_events sent (Inr d # ps) =
     (let new = length (d_log d) > sent in
      (if new then [log_event (drop sent (d_log d))] else [])
      @ (if d_status d = DeploySuccess \<or> d_status d = DeployFailed then [final_event (status_text (d_status d)) (d_error d)]
         else status_event (d_status d) # stream_events (if new then length (d_log d) else sent) ps))"

text \<open>The handler: the request's id, and the states of the database at its polls.\<close>

definition handle_deployment_stream :: "string \<Rightarrow> store list \<Rightarrow> response + string" where
  "handle_deployment_stream i polled =
     (case atoi i of
        None \<Rightarrow> Inl (api_error 400 ''invalid deployment id'')
      | Some n \<Rightarrow> Inr (concat (map write_sse (stream_events 0 (map (\<lambda>s. fst (run_state (get_deployment n) s)) polled)))))"

section \<open>The reading end\<close>

text \<open>What a browser's \<open>EventSource\<close> makes of such lines, and the page of the JSON data.\<close>

fun sse_lines :: "string \<Rightarrow> string \<Rightarrow> string list \<Rightarrow> (string \<times> string) list" where
  "sse_lines ev data [] = []"
| "sse_lines ev data (l # ls) =
     (if l = [] then (if data = [] then sse_lines [] [] ls else (ev, data) # sse_lines [] [] ls)
      else if prefix ''event: '' l then sse_lines (drop 7 l) data ls
      else if prefix ''data: '' l then sse_lines ev (drop 6 l) ls
      else sse_lines ev data ls)"

definition sse_read :: "string \<Rightarrow> (string \<times> go_map option) list" where
  "sse_read s = map (\<lambda>(ev, data). (ev, unmarshal_text_map data)) (sse_lines [] [] (split_char (CHR 0x0A) s))"

definition shown_log :: "(string \<times> go_map option) list \<Rightarrow> string" where
  "shown_log evs = concat (map (\<lambda>(ev, m). if ev = ''log'' then mget (case m of Some x \<Rightarrow> x | None \<Rightarrow> []) ''chunk'' else []) evs)"

section \<open>JSON on one line\<close>

lemma hex_not_newline: "n < 16 \<Longrightarrow> hex_digit n \<noteq> CHR 0x0A"
  by (auto simp: hex_digit_def digit_char_def dest: arg_cong[where f = "of_char :: char \<Rightarrow> nat"])

lemma esc_no_newline: "byte c < 128 \<Longrightarrow> CHR 0x0A \<notin> set (esc_char c)"
proof -
  assume "byte c < 128"
  then have "hex_digit (byte c div 16) \<noteq> CHR 0x0A" "hex_digit (byte c mod 16) \<noteq> CHR 0x0A"
    by (auto intro!: hex_not_newline)
  then have "CHR 0x0A \<notin> set (ctrl_escape c)" by (auto simp: ctrl_escape_def bsl_def)
  then show ?thesis by (auto simp: esc_char_def bsl_def dquo_def)
qed

lemma utf8_tail_high:
  assumes "\<not> byte c < 128" and "x \<in> set (take (utf8_len (c # s)) (c # s))"
  shows "\<not> byte x < 128"
  using assms by (auto simp: utf8_len.simps utf8_need_def Let_def list_all_iff cont_def take_Cons' split: if_splits)

lemma byte_newline: "byte (CHR 0x0A) = 10"
  by (simp add: byte_def)

lemma enc_no_newline: "CHR 0x0A \<notin> set (enc_string s)"
proof (induction s rule: enc_string.induct)
  case (2 c s)
  have "CHR 0x0A \<notin> set (take (utf8_len (c # s)) (c # s))" if "\<not> byte c < 128"
    using utf8_tail_high[OF that, of "CHR 0x0A" s] by (auto simp: byte_newline)
  then show ?case using 2 by (auto simp: esc_no_newline Let_def bsl_def simp del: take_Suc_Cons)
qed simp

lemma join_avoid: "x \<notin> set sep \<Longrightarrow> list_all (\<lambda>w. x \<notin> set w) ws \<Longrightarrow> x \<notin> set (join sep ws)"
proof (induction ws)
  case (Cons w ws)
  then show ?case by (cases "ws = []") (simp_all add: join_Cons)
qed simp

lemma marshal_one_line:
  assumes "m \<noteq> []"
  shows "CHR 0x0A \<notin> set (marshal_text_map m)" and "marshal_text_map m \<noteq> []"
proof -
  have j: "list_all (\<lambda>w. CHR 0x0A \<notin> set w) (map (\<lambda>(k, v). json_string k @ '':'' @ print_json v) (map (\<lambda>(k, v). (k, JStr v)) ms))"
    for ms :: go_map
    by (auto simp: list_all_iff json_string_def dquo_def enc_no_newline)
  show "CHR 0x0A \<notin> set (marshal_text_map m)"
    using assms join_avoid[OF _ j[of "canonical_map m"], of "'',''"] by (simp add: marshal_text_map_def)
  show "marshal_text_map m \<noteq> []" using assms by (simp add: marshal_text_map_def)
qed

section \<open>What is written is what is read\<close>

definition event_ok :: "sse \<Rightarrow> bool" where
  "event_ok ev \<longleftrightarrow> CHR 0x0A \<notin> set (fst ev) \<and> snd ev \<noteq> [] \<and> utf8_map (snd ev) \<and> distinct_keys (snd ev)"

lemma split_line: "CHR 0x0A \<notin> set l \<Longrightarrow> split_char (CHR 0x0A) (l @ nl @ r) = l # split_char (CHR 0x0A) r"
  by (simp add: nl_def split_char_append)

lemma sse_lines_events:
  "list_all event_ok evs \<Longrightarrow>
    sse_lines [] [] (split_char (CHR 0x0A) (concat (map write_sse evs))) = map (\<lambda>ev. (fst ev, marshal_text_map (snd ev))) evs"
proof (induction evs)
  case (Cons ev evs)
  then have ok: "CHR 0x0A \<notin> set (''event: '' @ fst ev)" "CHR 0x0A \<notin> set (''data: '' @ marshal_text_map (snd ev))"
    "marshal_text_map (snd ev) \<noteq> []"
    using marshal_one_line[of "snd ev"] by (simp_all add: event_ok_def)
  have "split_char (CHR 0x0A) (concat (map write_sse (ev # evs)))
      = (''event: '' @ fst ev) # (''data: '' @ marshal_text_map (snd ev)) # [] # split_char (CHR 0x0A) (concat (map write_sse evs))"
    using split_line[OF ok(1)] split_line[OF ok(2)] split_line[of "[]"] by (simp add: write_sse_def)
  then show ?case using Cons ok(3) by simp
qed simp

lemma sse_roundtrip:
  assumes "list_all event_ok evs"
  shows "sse_read (concat (map write_sse evs)) = map (\<lambda>ev. (fst ev, Some (canonical_map (snd ev)))) evs"
  using assms by (auto simp: sse_read_def sse_lines_events list_all_iff event_ok_def marshal_map_roundtrip)

section \<open>The log of a deployment, seen while it runs\<close>

lemma valid_utf8_drop: "valid_utf8 (a @ b) \<Longrightarrow> valid_utf8 a \<Longrightarrow> valid_utf8 b"
proof (induction "length a" arbitrary: a rule: less_induct)
  case less
  show ?case
  proof (cases "a = []")
    case False
    let ?n = "utf8_len a"
    have n: "?n \<noteq> 0" "valid_utf8 (drop ?n a)" using less.prems(2) False by (auto simp: valid_utf8.simps[of a] split: if_splits)
    have l: "?n \<le> length a" by (rule utf8_len_le)
    have "take ?n a @ drop ?n a @ b = a @ b" by (simp flip: append_assoc)
    then have "utf8_len (a @ b) = ?n" using utf8_len_take[OF n(1), of "drop ?n a @ b"] by (simp only:)
    then have "valid_utf8 (drop ?n a @ b)"
      using less.prems(1) False n(1) l by (simp add: valid_utf8.simps[of "a @ b"] split: if_splits)
    then show ?thesis using less.hyps[of "drop ?n a"] n l False by simp
  qed (use less in simp)
qed

definition finished :: "deployment \<Rightarrow> bool" where
  "finished d \<longleftrightarrow> d_status d = DeploySuccess \<or> d_status d = DeployFailed"

definition chunk_of :: "sse \<Rightarrow> string" where
  "chunk_of ev = (if fst ev = ''log'' then mget (snd ev) ''chunk'' else [])"

lemma ascii_utf8:
  shows "valid_utf8 ''chunk''" and "valid_utf8 ''status''" and "valid_utf8 ''error''" and "valid_utf8 (status_text st)"
proof -
  show "valid_utf8 ''chunk''" "valid_utf8 ''status''" "valid_utf8 ''error''" by code_simp+
  have "list_all (\<lambda>st. valid_utf8 (status_text st)) [DeployQueued, DeployRunning, DeploySuccess, DeployFailed]" by code_simp
  then show "valid_utf8 (status_text st)" by (cases st) simp_all
qed

lemma events_ok:
  "valid_utf8 c \<Longrightarrow> event_ok (log_event c)" "event_ok (status_event st)" "valid_utf8 e \<Longrightarrow> event_ok (final_event (status_text st) e)"
  by (auto simp: event_ok_def log_event_def status_event_def final_event_def utf8_map_def distinct_keys_def ascii_utf8)

lemma chunk_simps: "chunk_of (log_event c) = c" "chunk_of (status_event st) = []" "chunk_of (final_event s e) = []"
  by (simp_all add: chunk_of_def log_event_def status_event_def final_event_def mget_def)

lemma stream_chain:
  assumes "ds \<noteq> []" and "list_all (\<lambda>d. \<not> finished d) (butlast ds)" and "finished (last ds)"
    and "sorted_wrt prefix (p # map d_log ds)" and "list_all valid_utf8 (p # d_error (last ds) # map d_log ds)"
  shows "\<exists>evs. stream_events (length p) (map Inr ds @ rest)
        = evs @ [final_event (status_text (d_status (last ds))) (d_error (last ds))]
      \<and> concat (map chunk_of evs) = drop (length p) (d_log (last ds)) \<and> list_all event_ok evs"
  using assms
proof (induction ds arbitrary: p)
  case (Cons d ds)
  obtain c where c: "d_log d = p @ c" using Cons.prems(4) by (auto simp: prefix_def)
  have v: "valid_utf8 c" using Cons.prems(5) valid_utf8_drop[of p c] by (simp add: c)
  let ?log = "if c = [] then [] else [log_event c]"
  have ok: "list_all event_ok ?log" "concat (map chunk_of ?log) = c" using v by (auto simp: events_ok chunk_simps)
  show ?case
  proof (cases "ds = []")
    case True
    then have "stream_events (length p) (map Inr (d # ds) @ rest) = ?log @ [final_event (status_text (d_status d)) (d_error d)]"
      using Cons.prems(3) by (auto simp: c finished_def)
    then show ?thesis using True ok c by auto
  next
    case False
    have "sorted_wrt prefix (d_log d # map d_log ds)" using Cons.prems(4) by simp
    moreover have "list_all (\<lambda>d. \<not> finished d) (butlast ds)" "finished (last ds)"
      "list_all valid_utf8 (d_log d # d_error (last ds) # map d_log ds)"
      using Cons.prems False by simp_all
    ultimately obtain evs where e: "stream_events (length (d_log d)) (map Inr ds @ rest)
          = evs @ [final_event (status_text (d_status (last ds))) (d_error (last ds))]"
        "concat (map chunk_of evs) = drop (length (d_log d)) (d_log (last ds))" "list_all event_ok evs"
      using Cons.IH False by blast
    have "\<not> finished d" using Cons.prems(2) False by simp
    then have s: "stream_events (length p) (map Inr (d # ds) @ rest)
        = (?log @ status_event (d_status d) # evs) @ [final_event (status_text (d_status (last ds))) (d_error (last ds))]"
      using e(1) by (auto simp: c finished_def)
    have "prefix (d_log d) (d_log (last ds))" using Cons.prems(4) last_in_set[OF False] by (simp add: list_all_iff)
    then have "c @ drop (length (d_log d)) (d_log (last ds)) = drop (length p) (d_log (last ds))" by (auto simp: c prefix_def)
    then show ?thesis
      using s e(2,3) ok False
      by (intro exI[of _ "?log @ status_event (d_status d) # evs"]) (simp add: events_ok chunk_simps)
  qed
qed simp

lemma mget_canonical: "mget (canonical_map m) k = mget m k"
proof (cases "k \<in> fst ` set m")
  case True
  then show ?thesis by (simp add: mget_def canonical_map_def map_of_map_restrict restrict_map_def set_sorted_keys)
next
  case False
  then have "map_of m k = None" by (simp add: map_of_eq_None_iff)
  then show ?thesis using False
    by (simp add: mget_def canonical_map_def map_of_map_restrict restrict_map_def set_sorted_keys)
qed

lemma shown_log_events: "shown_log (map (\<lambda>ev. (fst ev, Some (canonical_map (snd ev)))) evs) = concat (map chunk_of evs)"
  by (induction evs) (simp_all add: shown_log_def chunk_of_def mget_canonical)



section \<open>When the log stops growing\<close>

text \<open>Below the limit a chunk that is written extends the log.\<close>

lemma append_extends:
  assumes "sound s" and "find (\<lambda>d. d_id d = i) (st_deployments s) = Some d"
    and "length (d_log d) + length c \<le> max_deployment_log_bytes"
  shows "map_option d_log (find (\<lambda>d. d_id d = i) (st_deployments (effect (append_deployment_log i c) s))) = Some (d_log d @ c)"
  using assms by (simp add: effect_append_log on_deployment_def find_update_rows cap_stored_text_def)

text \<open>At the limit the log moves on without getting longer, and the reader is sent nothing more of it.\<close>

lemma stream_stalls:
  "length (d_log d) = sent \<Longrightarrow> \<not> finished d \<Longrightarrow>
     stream_events sent (Inr d # ps) = status_event (d_status d) # stream_events sent ps"
  by (simp add: finished_def)

lemma full_log_stays_full:
  assumes "length l = max_deployment_log_bytes"
  shows "length (cap_stored_text (l @ c) max_deployment_log_bytes) = max_deployment_log_bytes"
  using assms by (auto simp: cap_stored_text_def simp del: drop_append)

end
