(* ===== verification/Router.thy ===== *)
theory Router
  imports Setup LogStream
begin

text \<open>
  The routes of the control center (\<open>Handler\<close> of \<open>internal/server/server.go\<close>, \<open>apiRoutes\<close> of api.go) and the
  gates in front of them. The router is a parameter: which of the registered patterns it finds for a
  request, the parameters it reads from the path, what it answers when it finds none, and which
  requests it passes to the routes mounted under \<open>/api/v1\<close>. Handlers that are not modelled are given by
  their Go names.
\<close>

section \<open>The remaining pages\<close>

definition handle_credentials_page :: "request \<Rightarrow> response handler" where
  "handle_credentials_page r = render_credentials r 200 (query_value r ''error'')"

definition handle_variables_page :: "request \<Rightarrow> response handler" where
  "handle_variables_page r = render_variables r 200 (query_value r ''error'')"

definition handle_tokens_page :: "request \<Rightarrow> response handler" where
  "handle_tokens_page r = render_tokens 200 None (query_value r ''error'') (query_value r ''notice'')"

section \<open>The table of routes\<close>

record turn =
  tn_now :: int
  tn_random :: "string res"
  tn_polled :: "store list"

record dispatcher =
  di_find :: "(string \<times> string) list \<Rightarrow> request \<Rightarrow> nat option"
  di_param :: "request \<Rightarrow> string \<Rightarrow> string"
  di_api :: "request \<Rightarrow> bool"
  di_missing :: "request \<Rightarrow> response"
  di_asset :: "request \<Rightarrow> response"

type_synonym route = "string \<times> string \<times> response handler"

definition public_routes :: "server_env \<Rightarrow> dispatcher \<Rightarrow> turn \<Rightarrow> request \<Rightarrow> route list" where
  "public_routes env di tn r = [
     (''GET'', ''/healthz'', handle_healthz),
     (''GET'', ''/login'', handle_login_form),
     (''POST'', ''/login'', handle_login env (tn_now tn) (tn_random tn) r),
     (''GET'', ''/register'', handle_register_form env),
     (''POST'', ''/register'', handle_register env (tn_now tn) (tn_random tn) r),
     (''*'', ''/assets/*'', answer (di_asset di r)),
     (''POST'', ''/webhooks/github/{projectID}'', handle_webhook env (tn_now tn) ''github'' (di_param di r ''projectID'') r),
     (''POST'', ''/webhooks/gitlab/{projectID}'', handle_webhook env (tn_now tn) ''gitlab'' (di_param di r ''projectID'') r)]"

definition stream_response :: "string \<Rightarrow> store list \<Rightarrow> response" where
  "stream_response i polled = (case handle_deployment_stream i polled of Inl x \<Rightarrow> x | Inr out \<Rightarrow> respond 200 (Events out))"

definition session_routes :: "server_env \<Rightarrow> side_env \<Rightarrow> dispatcher \<Rightarrow> (string \<Rightarrow> response handler) \<Rightarrow> turn \<Rightarrow> request \<Rightarrow> route list" where
  "session_routes env sd di other tn r = (let now = tn_now tn; pid = di_param di r ''projectID''; i = di_param di r ''id'' in [
     (''GET'', ''/'', answer (redirect ''/dashboard'')),
     (''GET'', ''/dashboard'', handle_dashboard),
     (''GET'', ''/deployment'', handle_deployment r),
     (''POST'', ''/deployment/rollback/{projectID}'', handle_rollback now pid),
     (''GET'', ''/monitoring'', other ''handleMonitoring''),
     (''GET'', ''/assistant'', other ''handleAssistant''),
     (''POST'', ''/assistant/ask'', other ''handleAssistantAsk''),
     (''GET'', ''/servers'', handle_servers_page r),
     (''POST'', ''/servers'', handle_server_save env r),
     (''POST'', ''/servers/onboard'', handle_server_onboard sd r),
     (''POST'', ''/servers/delete'', handle_server_delete r),
     (''GET'', ''/projects'', handle_projects_page r),
     (''GET'', ''/projects/new'', handle_project_new r),
     (''POST'', ''/projects/detect'', other ''handleProjectDetect''),
     (''GET'', ''/projects/{projectID}'', handle_resource_page env pid r),
     (''POST'', ''/projects'', handle_project_save env now r),
     (''POST'', ''/projects/delete'', handle_project_delete env r),
     (''POST'', ''/projects/env'', handle_project_env_save r),
     (''POST'', ''/projects/deploy/{projectID}'', handle_manual_deploy now pid),
     (''POST'', ''/projects/{projectID}/webhook/github'', handle_github_connect env sd pid r),
     (''POST'', ''/deployments/start/{projectID}'', handle_deploy_start now pid),
     (''GET'', ''/deployments/{id}/stream'', answer (stream_response i (tn_polled tn))),
     (''GET'', ''/credentials'', handle_credentials_page r),
     (''POST'', ''/credentials'', handle_credential_save env r),
     (''POST'', ''/credentials/delete'', handle_credential_delete r),
     (''GET'', ''/variables'', handle_variables_page r),
     (''POST'', ''/variables'', handle_variable_save r),
     (''POST'', ''/variables/delete'', handle_variable_delete r),
     (''GET'', ''/audit'', handle_audit_page now r),
     (''GET'', ''/setup'', handle_setup_page sd r),
     (''POST'', ''/setup/run'', handle_setup_run sd),
     (''POST'', ''/setup/local-target'', handle_setup_local_target env sd r),
     (''GET'', ''/tokens'', handle_tokens_page r),
     (''POST'', ''/tokens'', handle_token_create env now (tn_random tn) r),
     (''POST'', ''/tokens/delete'', handle_token_delete r),
     (''POST'', ''/logout'', handle_logout env r),
     (''GET'', ''/api/projects/{projectID}/deployments'', handle_api_deployments pid),
     (''GET'', ''/api/deployments/{id}'', handle_api_deployment i),
     (''GET'', ''/api/metrics'', other ''handleAPIMetrics''),
     (''GET'', ''/api/servers/{id}/metrics'', other ''handleAPIServerMetrics''),
     (''GET'', ''/api/audit'', handle_api_audit r)])"

definition api_routes :: "server_env \<Rightarrow> dispatcher \<Rightarrow> (string \<Rightarrow> response handler) \<Rightarrow> turn \<Rightarrow> request \<Rightarrow> route list" where
  "api_routes env di other tn r = (let now = tn_now tn; i = di_param di r ''id'' in [
     (''GET'', ''/servers'', api_list_servers),
     (''GET'', ''/servers/{id}'', api_get_server i),
     (''POST'', ''/servers'', api_save_server env r),
     (''DELETE'', ''/servers/{id}'', api_delete_server i),
     (''GET'', ''/projects'', api_list_projects),
     (''GET'', ''/projects/{id}'', api_get_project i),
     (''POST'', ''/projects'', api_save_project env now r),
     (''DELETE'', ''/projects/{id}'', api_delete_project env i),
     (''GET'', ''/projects/{id}/deployments'', api_project_deployments i r),
     (''POST'', ''/projects/{id}/deploy'', api_deploy now i r),
     (''POST'', ''/projects/{id}/rollback'', api_rollback now i),
     (''GET'', ''/deployments/{id}'', handle_api_deployment i),
     (''GET'', ''/metrics'', other ''handleAPIMetrics''),
     (''GET'', ''/servers/{id}/metrics'', other ''handleAPIServerMetrics''),
     (''GET'', ''/audit'', handle_api_audit r)])"

definition dispatch :: "dispatcher \<Rightarrow> route list \<Rightarrow> request \<Rightarrow> response handler" where
  "dispatch di routes r =
     (case di_find di (map (\<lambda>(m, p, _). (m, p)) routes) r of
        None \<Rightarrow> answer (di_missing di r)
      | Some k \<Rightarrow> if k < length routes then snd (snd (routes ! k)) else answer (di_missing di r))"

definition serve :: "server_env \<Rightarrow> side_env \<Rightarrow> dispatcher \<Rightarrow> (string \<Rightarrow> response handler) \<Rightarrow> turn \<Rightarrow> request \<Rightarrow> response handler" where
  "serve env sd di other tn r = require_same_origin env r
     (if di_api di r then api_auth env (tn_now tn) r (dispatch di (api_routes env di other tn r) r)
      else dispatch di (public_routes env di tn r
        @ map (\<lambda>(m, p, h). (m, p, require_auth env (tn_now tn) r (\<lambda>_. h))) (session_routes env sd di other tn r)) r)"

section \<open>What a request may rest on\<close>

definition has_session :: "server_env \<Rightarrow> int \<Rightarrow> request \<Rightarrow> store \<Rightarrow> bool" where
  "has_session env now r s \<longleftrightarrow> (\<exists>c u. cookie r session_cookie = Some c
     \<and> session_username s (hash_token (se_sha256 env) c) now = Some u)"

definition bearer_of :: "request \<Rightarrow> string" where
  "bearer_of r = trim_space (trim_prefix ''Bearer '' (header r ''Authorization''))"

definition has_token :: "server_env \<Rightarrow> request \<Rightarrow> store \<Rightarrow> bool" where
  "has_token env r s \<longleftrightarrow> prefix ''Bearer '' (header r ''Authorization'') \<and> bearer_of r \<noteq> []
     \<and> (\<exists>t\<in>set (st_tokens s). tk_hash t = hash_token (se_sha256 env) (bearer_of r) \<and> (rq_method r = ''GET'' \<or> tk_scope t = ''write''))"

definition has_signature :: "server_env \<Rightarrow> request \<Rightarrow> store \<Rightarrow> bool" where
  "has_signature env r s \<longleftrightarrow> (\<exists>provider pid secret. webhook_secret_of env s pid secret \<and> signature_ok env provider secret r)"

definition has_password :: "server_env \<Rightarrow> request \<Rightarrow> store \<Rightarrow> bool" where
  "has_password env r s \<longleftrightarrow> (\<exists>u\<in>set (st_users s). u_name u = form_value r ''username''
     \<and> se_compare_hash env (u_password_hash u) (form_value r ''password''))"

definition authorised :: "server_env \<Rightarrow> int \<Rightarrow> request \<Rightarrow> store \<Rightarrow> bool" where
  "authorised env now r s \<longleftrightarrow> has_session env now r s \<or> has_token env r s \<or> has_signature env r s \<or> has_password env r s
     \<or> st_users s = []"

text \<open>Everything but the account of failed sign-ins is as it was.\<close>

definition same_data :: "site \<Rightarrow> site \<Rightarrow> bool" where
  "same_data a b \<longleftrightarrow> (\<exists>fs L. b = (put_store ((site_store a)\<lparr>st_faults := fs\<rparr>) a)\<lparr>si_logins := L\<rparr>)"

lemma same_data_site: "same_site a b \<Longrightarrow> same_data a b"
proof -
  assume "same_site a b"
  then obtain fs where "b = put_store ((site_store a)\<lparr>st_faults := fs\<rparr>) a" by (auto simp: same_site_def)
  then have "b = (put_store ((site_store a)\<lparr>st_faults := fs\<rparr>) a)\<lparr>si_logins := si_logins a\<rparr>" by (simp add: put_store_def)
  then show ?thesis unfolding same_data_def by blast
qed

lemma same_data_simps:
  "site_store (a\<lparr>si_logins := L\<rparr>) = site_store a" "put_store s (a\<lparr>si_logins := L\<rparr>) = (put_store s a)\<lparr>si_logins := L\<rparr>"
  by (simp_all add: site_store_def put_store_def)

lemma same_data_trans: "same_data a b \<Longrightarrow> same_data b c \<Longrightarrow> same_data a c"
  unfolding same_data_def by (clarsimp simp: same_data_simps) blast

lemma same_data_logins: "same_data a b \<Longrightarrow> same_data a (b\<lparr>si_logins := L\<rparr>)"
  unfolding same_data_def by clarsimp blast

lemma same_data_reads: "reads m \<Longrightarrow> run_state m a = (x, b) \<Longrightarrow> same_data a b"
  by (rule same_data_site, rule reads_run)

lemma same_data_fault_free: "same_data a b \<Longrightarrow> \<exists>fs. site_store b = (site_store a)\<lparr>st_faults := fs\<rparr>"
  by (auto simp: same_data_def same_data_simps)

text \<open>What a query found is in the tables.\<close>

lemma queried:
  assumes "run_state (query_stmt what f) s = (Inr x, s')"
  shows "\<exists>fs. f (s\<lparr>st_faults := fs\<rparr>) = x"
proof -
  have "x = f s \<or> x = f (s\<lparr>st_faults := tl (st_faults s)\<rparr>)"
    using assms by (cases "st_faults s") (auto simp: query_stmt_def stmt_def Let_def split: option.splits)
  then show ?thesis by (metis faults_own)
qed

lemma found_row:
  assumes "run_state (or_not_found (query_stmt what f)) s = (Inr x, s')"
  shows "\<exists>fs. f (s\<lparr>st_faults := fs\<rparr>) = Some x"
proof -
  obtain y t where y: "run_state (query_stmt what f) s = (y, t)" by fastforce
  have e: "run_state (or_not_found (query_stmt what f)) s = (case y of Inl e \<Rightarrow> (Inl e, t)
      | Inr row \<Rightarrow> run_state (case row of None \<Rightarrow> db_fail ErrNotFound | Some x \<Rightarrow> db_ok x) t)"
    by (simp add: or_not_found_def run_db_then y)
  have "y = Inr (Some x)"
  proof (cases y)
    case (Inr row)
    then show ?thesis using e assms by (cases row) simp_all
  qed (use e assms in simp)
  then show ?thesis using queried[of what f s "Some x" t] y by simp
qed

lemma no_users: "run_state (db has_users) si = (Inr False, si') \<Longrightarrow> st_users (site_store si) = []"
proof -
  assume r: "run_state (db has_users) si = (Inr False, si')"
  obtain y t where y: "run_state count_users (site_store si) = (y, t)" by fastforce
  have n: "\<exists>n. y = Inr n \<and> \<not> n > 0" using r y by (cases y) (auto simp: run_db has_users_def run_db_then)
  then obtain n where "y = Inr n" "\<not> n > 0" by blast
  moreover from this obtain fs where "int (length (st_users ((site_store si)\<lparr>st_faults := fs\<rparr>))) = n"
    using y queried[of "''count users''" "\<lambda>s. int (length (st_users s))" "site_store si" n t] by (auto simp: count_users_def)
  ultimately show ?thesis by (cases "st_users (site_store si)") auto
qed

section \<open>The gates\<close>

lemma queries_has_users: "queries has_users"
  unfolding has_users_def count_users_def by (intro queries_intros)

lemma found_user:
  assumes "run_state (authenticate env n pw) a = (Inr u, b)"
  shows "u \<in> set (st_users (site_store a)) \<and> u_name u = n \<and> se_compare_hash env (u_password_hash u) pw"
proof -
  obtain x c where r: "run_state (user_by_username n) (site_store a) = (x, c)" by fastforce
  then have x: "x = Inr u" "se_compare_hash env (u_password_hash u) pw"
    using assms by (auto simp: authenticate_def run_bind run_db split: sum.splits store_error.splits if_splits)
  then have "find (\<lambda>u. u_name u = n) (st_users (site_store a)) = Some u"
    using r found_row[of "''get user''" "\<lambda>s. find (\<lambda>u. u_name u = n) (st_users s)"] by (auto simp: user_by_username_def)
  then show ?thesis using x(2) by (auto simp: find_Some_iff)
qed

lemma reads_authenticate: "reads (authenticate env n pw)"
  unfolding authenticate_def by (intro reads_intros) (auto simp: queries_counts)

lemma login_guarded: "same_data si (snd (run_state (handle_login env now random r) si)) \<or> has_password env r (site_store si)"
proof -
  obtain users a where u: "run_state (db has_users) si = (users, a)" by fastforce
  have sa: "same_data si a" by (rule same_data_reads[OF reads_db[OF queries_has_users] u])
  let ?n = "form_value r ''username''" and ?pw = "form_value r ''password''"
  obtain retry L where l: "login_retry_after now (login_key r ?n) (si_logins a) = (retry, L)" by fastforce
  let ?b = "a\<lparr>si_logins := L\<rparr>"
  obtain x c where x: "run_state (authenticate env ?n ?pw) ?b = (x, c)" by fastforce
  have sb: "same_data si ?b" by (rule same_data_logins[OF sa])
  have sc: "same_data si c" using same_data_trans[OF sb same_data_reads[OF reads_authenticate x]] .
  show ?thesis
  proof (cases "\<exists>v. x = Inr v")
    case True
    then obtain v where "x = Inr v" by blast
    then have "v \<in> set (st_users (site_store si)) \<and> u_name v = ?n \<and> se_compare_hash env (u_password_hash v) ?pw"
      using found_user[of env ?n ?pw ?b v c] x same_data_fault_free[OF sa] by (auto simp: same_data_simps)
    then show ?thesis by (auto simp: has_password_def)
  next
    case False
    then obtain e where "x = Inl e" by (cases x) auto
    then have "same_data si (snd (run_state (handle_login env now random r) si))"
      using sa sb sc by (cases e) (auto simp: handle_login_def run_bind u run_on_logins l x Let_def intro!: same_data_logins)
    then show ?thesis ..
  qed
qed

lemma register_guarded: "same_data si (snd (run_state (handle_register env now random r) si)) \<or> st_users (site_store si) = []"
proof -
  obtain users a where u: "run_state (db has_users) si = (users, a)" by fastforce
  have sa: "same_data si a" by (rule same_data_reads[OF reads_db[OF queries_has_users] u])
  show ?thesis
  proof (cases "users = Inr False")
    case True
    then show ?thesis using no_users u by blast
  next
    case False
    then have "same_data si (snd (run_state (handle_register env now random r) si))"
      using sa by (cases users) (auto simp: handle_register_def run_bind u Let_def)
    then show ?thesis ..
  qed
qed

lemma webhook_guarded: "same_data si (snd (run_state (handle_webhook env now provider pid r) si)) \<or> has_signature env r (site_store si)"
  by (rule webhook_cases[of env now provider pid r si]) (auto simp: has_signature_def intro: same_data_site)

lemma session_guarded: "same_data si (snd (run_state (require_auth env now r nxt) si)) \<or> has_session env now r (site_store si)"
proof (cases "cookie r session_cookie")
  case (Some c)
  let ?h = "hash_token (se_sha256 env) c"
  obtain x a where x: "run_state (validate_session env now c) si = (x, a)" by fastforce
  have "reads (validate_session env now c)" unfolding validate_session_def by (intro reads_intros) (auto simp: queries_counts)
  then have sa: "same_data si a" using x by (rule same_data_reads)
  show ?thesis
  proof (cases x)
    case None
    then show ?thesis using sa by (auto simp: require_auth_def Some run_bind x Let_def)
  next
    case u: (Some u)
    obtain y s' where y: "run_state (username_by_session ?h now) (site_store si) = (y, s')" by fastforce
    then have "y = Inr u" using x u by (auto simp: validate_session_def run_bind run_db split: sum.splits)
    then obtain fs where "session_username ((site_store si)\<lparr>st_faults := fs\<rparr>) ?h now = Some u"
      using y found_row by (fastforce simp: username_by_session_def)
    then have "session_username (site_store si) ?h now = Some u" by (simp add: session_username_def cong: option.case_cong)
    then show ?thesis using Some by (auto simp: has_session_def)
  qed
qed (simp add: require_auth_def same_data_site)

lemma token_guarded: "same_data si (snd (run_state (api_auth env now r nxt) si)) \<or> has_token env r (site_store si)"
proof (cases "prefix ''Bearer '' (header r ''Authorization'') \<and> bearer_of r \<noteq> []")
  case True
  let ?h = "hash_token (se_sha256 env) (bearer_of r)"
  have e: "trim_space (trim_prefix ''Bearer '' (header r ''Authorization'')) = bearer_of r" by (simp add: bearer_of_def)
  obtain x a where x: "run_state (db (api_token_by_hash ?h)) si = (x, a)" by fastforce
  have sa: "same_data si a" by (rule same_data_reads[OF reads_db x]) (simp add: queries_counts)
  show ?thesis
  proof (cases x)
    case (Inl e)
    then show ?thesis using sa True by (auto simp: api_auth_def run_bind x e Let_def)
  next
    case (Inr t)
    obtain s' where "run_state (api_token_by_hash ?h) (site_store si) = (Inr t, s')"
      using x Inr by (auto simp: run_db split: prod.splits)
    then have "find (\<lambda>t. tk_hash t = ?h) (st_tokens (site_store si)) = Some t"
      using found_row by (fastforce simp: api_token_by_hash_def)
    then have t: "t \<in> set (st_tokens (site_store si))" "tk_hash t = ?h" by (auto simp: find_Some_iff)
    show ?thesis
    proof (cases "rq_method r \<noteq> ''GET'' \<and> tk_scope t \<noteq> ''write''")
      case refused: True
      then show ?thesis using sa True Inr by (auto simp: api_auth_def run_bind x e Let_def)
    next
      case False
      then show ?thesis using True t by (auto simp: has_token_def)
    qed
  qed
qed (auto simp: api_auth_def bearer_of_def Let_def same_data_site)

section \<open>No request without credentials changes anything\<close>

lemma dispatch_cases:
  obtains (none) "run_state (dispatch di routes r) si = (di_missing di r, si)"
  | (some) m p h where "(m, p, h) \<in> set routes" "dispatch di routes r = h"
proof (cases "di_find di (map (\<lambda>(m, p, _). (m, p)) routes) r")
  case None
  then show ?thesis by (intro none) (simp add: dispatch_def)
next
  case (Some k)
  obtain m p h where e: "routes ! k = (m, p, h)" by (cases "routes ! k") auto
  show ?thesis
  proof (cases "k < length routes")
    case True
    then have "(m, p, h) \<in> set routes" "dispatch di routes r = h" using e Some nth_mem[OF True] by (simp_all add: dispatch_def)
    then show ?thesis by (rule some)
  next
    case False
    then show ?thesis using Some by (intro none) (simp add: dispatch_def)
  qed
qed

lemma reads_forms: "reads handle_login_form" "reads (handle_register_form env)"
  unfolding handle_login_form_def handle_register_form_def
  by (auto intro!: reads_intros queries_has_users split: sum.split bool.split)

lemma reads_same_data: "reads h \<Longrightarrow> same_data si (snd (run_state h si))"
  by (auto simp: reads_def intro: same_data_site)

lemma public_guarded:
  "(m, p, h) \<in> set (public_routes env di tn r) \<Longrightarrow>
     same_data si (snd (run_state h si)) \<or> authorised env (tn_now tn) r (site_store si)"
  using login_guarded[of si env "tn_now tn" "tn_random tn" r] register_guarded[of si env "tn_now tn" "tn_random tn" r]
    webhook_guarded[of si env "tn_now tn" _ _ r]
  by (auto simp: public_routes_def authorised_def reads_pages reads_forms reads_answer intro: reads_same_data)

text \<open>
  C25: A request changes the database or the deployer only when it rests on something: a live session, an API
  token (with write scope unless it is a GET), a webhook signature made with a project's secret, the
  right password of the account it signs in to, or the absence of any account. This holds for every
  route, whatever the router finds, and for the handlers that are not modelled.
\<close>
theorem requests_guarded:
  assumes "\<not> same_data si (snd (run_state (serve env sd di other tn r) si))"
  shows "authorised env (tn_now tn) r (site_store si)"
proof (rule ccontr)
  assume no: "\<not> authorised env (tn_now tn) r (site_store si)"
  let ?ok = "\<lambda>h. same_data si (snd (run_state h si))"
  have a: "?ok (answer x)" for x by (rule reads_same_data[OF reads_answer])
  have api: "?ok (api_auth env (tn_now tn) r nxt)" for nxt
    using token_guarded[of si env "tn_now tn" r nxt] no by (auto simp: authorised_def)
  have page: "?ok (require_auth env (tn_now tn) r nxt)" for nxt
    using session_guarded[of si env "tn_now tn" r nxt] no by (auto simp: authorised_def)
  have "?ok (dispatch di (public_routes env di tn r
      @ map (\<lambda>(m, p, h). (m, p, require_auth env (tn_now tn) r (\<lambda>_. h))) (session_routes env sd di other tn r)) r)"
    (is "?ok (dispatch di ?routes r)")
  proof (rule dispatch_cases[of di ?routes r si])
    assume "run_state (dispatch di ?routes r) si = (di_missing di r, si)"
    then show ?thesis by (simp add: same_data_site)
  next
    fix m p h assume "(m, p, h) \<in> set ?routes" "dispatch di ?routes r = h"
    then show ?thesis using public_guarded[of m p h env di tn r si] page no by auto
  qed
  then have "?ok (serve env sd di other tn r)"
    using a api by (simp add: serve_def require_same_origin_def Let_def split: option.split)
  then show False using assms by simp
qed

definition sample_side :: side_env where
  "sample_side = \<lparr>sd_onboard = None, sd_onboarding = False, sd_connect = None, sd_status = None, sd_elevated = Inr False, sd_can_run = False,
     sd_elevate = None, sd_parse_url = (\<lambda>_. None), sd_url_string = (\<lambda>_. []), sd_hostname = None, sd_default_root = ''/var/lib/winify'',
     sd_join = concat\<rparr>"

definition exact_match :: "(string \<times> string) list \<Rightarrow> request \<Rightarrow> nat option" where
  "exact_match pats r = map_option fst (find (\<lambda>(k, m, p). m = rq_method r \<and> p = trim_prefix ''/api/v1'' (rq_path r)) (enumerate 0 pats))"

definition sample_dispatcher :: dispatcher where
  "sample_dispatcher = \<lparr>di_find = exact_match, di_param = (\<lambda>_ _. []), di_api = (\<lambda>r. prefix ''/api/v1'' (rq_path r)),
     di_missing = (\<lambda>_. http_error 404 ''404 page not found''), di_asset = (\<lambda>_. http_error 404 ''404 page not found'')\<rparr>"

definition first_run :: request where
  "first_run = blank_request\<lparr>rq_method := ''POST'', rq_path := ''/register'',
     rq_form := [(''username'', ''admin''), (''password'', ''secret-1''), (''confirm'', ''secret-1'')]\<rparr>"

lemma first_run_registers:
  "st_users (site_store (snd (run_state (handle_register sample_env 0 (Inr ''raw'') first_run) (site_of (empty_store None []))))) \<noteq> []"
  by code_simp

theorem requests_guarded_witness:
  "authorised sample_env 0 first_run (site_store (site_of (empty_store None [])))"
proof -
  let ?tn = "\<lparr>tn_now = 0, tn_random = Inr ''raw'', tn_polled = []\<rparr>" and ?si = "site_of (empty_store None [])"
  let ?other = "\<lambda>_. answer (http_error 404 [])"
  have r: "rq_method first_run = ''POST''" "rq_path first_run = ''/register''" "header first_run k = []" "cookie first_run k = None" for k
    by (simp_all add: first_run_def blank_request_def header_def cookie_def first_value_def)
  have d: "dispatch sample_dispatcher (public_routes sample_env sample_dispatcher ?tn first_run @ xs) first_run
      = handle_register sample_env 0 (Inr ''raw'') first_run" for xs
    by (simp add: dispatch_def sample_dispatcher_def exact_match_def public_routes_def r trim_prefix_def)
  have s: "run_state (serve sample_env sample_side sample_dispatcher ?other ?tn first_run) ?si
      = run_state (handle_register sample_env 0 (Inr ''raw'') first_run) ?si"
  proof -
    have "trim_space [] = []" "\<not> equal_fold [] ''null''" "\<not> safe_method ''POST''" "\<not> prefix ''/api/v1/'' ''/register''"
      "\<not> prefix ''/webhooks/'' ''/register''" "\<not> di_api sample_dispatcher first_run"
      by code_simp+
    then show ?thesis by (simp add: serve_def require_same_origin_def r Let_def d)
  qed
  have "\<not> same_data ?si (snd (run_state (serve sample_env sample_side sample_dispatcher ?other ?tn first_run) ?si))"
    unfolding s
  proof
    assume "same_data ?si (snd (run_state (handle_register sample_env 0 (Inr ''raw'') first_run) ?si))"
    then have "st_users (site_store (snd (run_state (handle_register sample_env 0 (Inr ''raw'') first_run) ?si))) = []"
      using same_data_fault_free by (fastforce simp: site_of_def site_store_def empty_store_def)
    then show False using first_run_registers by simp
  qed
  from requests_guarded[OF this] show ?thesis by simp
qed

section \<open>A read-only token reads\<close>

text \<open>What is relied on: the router gives a handler registered for the method of the request.\<close>

definition dispatcher_ok :: "dispatcher \<Rightarrow> bool" where
  "dispatcher_ok di \<longleftrightarrow> (\<forall>pats r k. di_find di pats r = Some k \<longrightarrow> k < length pats \<and> fst (pats ! k) \<in> {rq_method r, ''*''})"

definition unused :: "api_token list \<Rightarrow> api_token list" where
  "unused ts = map (\<lambda>t. t\<lparr>tk_last_used_at := 0\<rparr>) ts"

lemma api_get_reads:
  "(''GET'', p, h) \<in> set (api_routes env di other tn r) \<Longrightarrow> reads (other ''handleAPIMetrics'') \<Longrightarrow> reads (other ''handleAPIServerMetrics'')
     \<Longrightarrow> reads h"
  by (auto simp: api_routes_def Let_def reads_api)

lemma touched:
  assumes "run_state (db (touch_api_token i now)) a = (x, b)"
  shows "\<exists>ts fs. b = put_store ((site_store a)\<lparr>st_tokens := ts, st_faults := fs\<rparr>) a \<and> unused ts = unused (st_tokens (site_store a))"
proof -
  let ?s = "site_store a"
  have u: "unused (update_rows (\<lambda>t. tk_id t = i) (\<lambda>t. t\<lparr>tk_last_used_at := now\<rparr>) ts) = unused ts" for ts
    by (auto simp: unused_def update_rows_def)
  have k: "?s\<lparr>st_faults := fs\<rparr> = ?s\<lparr>st_tokens := st_tokens ?s, st_faults := fs\<rparr>" for fs by simp
  obtain y t where y: "run_state (touch_api_token i now) ?s = (y, t)" by fastforce
  have "\<exists>ts fs. t = ?s\<lparr>st_tokens := ts, st_faults := fs\<rparr> \<and> unused ts = unused (st_tokens ?s)"
  proof (cases "\<exists>e. y = Inl e")
    case True
    then have "t = ?s\<lparr>st_faults := tl (st_faults ?s)\<rparr>"
      using y by (auto simp: touch_api_token_def exec_stmt_def stmt_def Let_def split: list.splits option.splits)
    then show ?thesis using k by blast
  next
    case False
    then have "t = ?s\<lparr>st_tokens := update_rows (\<lambda>t. tk_id t = i) (\<lambda>t. t\<lparr>tk_last_used_at := now\<rparr>) (st_tokens ?s),
        st_faults := tl (st_faults ?s)\<rparr>"
      using y by (auto simp: touch_api_token_def exec_stmt_def stmt_def Let_def split: list.splits option.splits)
    then show ?thesis using u by blast
  qed
  then show ?thesis using assms y by (auto simp: run_db)
qed

lemma get_dispatch_reads:
  assumes "dispatcher_ok di" and "rq_method r = ''GET''" and "reads (other ''handleAPIMetrics'')" and "reads (other ''handleAPIServerMetrics'')"
  shows "reads (dispatch di (api_routes env di other tn r) r)"
proof -
  let ?rs = "api_routes env di other tn r"
  show ?thesis
  proof (cases "di_find di (map (\<lambda>(m, p, _). (m, p)) ?rs) r")
    case (Some k)
    then have k: "k < length ?rs" and m: "fst (?rs ! k) \<in> {''GET'', ''*''}"
      using assms(1,2) by (fastforce simp: dispatcher_ok_def case_prod_beta)+
    obtain meth p h where e: "?rs ! k = (meth, p, h)" by (cases "?rs ! k") auto
    then have i: "(meth, p, h) \<in> set ?rs" using nth_mem[OF k] by simp
    then have "meth \<noteq> ''*''" by (auto simp: api_routes_def Let_def)
    then have "meth = ''GET''" using m e by simp
    then have "reads h" using api_get_reads i assms(3,4) by blast
    then show ?thesis using Some k e by (simp add: dispatch_def)
  qed (simp add: dispatch_def reads_answer)
qed

text \<open>The gate in front of the API stops a token without write scope, or passes a GET on.\<close>

lemma read_token_gate:
  assumes "find (\<lambda>t. tk_hash t = hash_token (se_sha256 env) (bearer_of r)) (st_tokens (site_store si)) = Some t" and "tk_scope t \<noteq> ''write''"
  obtains (quiet) "same_data si (snd (run_state (api_auth env now r nxt) si))"
  | (passed) a b x where "rq_method r = ''GET''" "same_site si a" "run_state (db (touch_api_token (tk_id t) now)) a = (x, b)"
      "run_state (api_auth env now r nxt) si = run_state nxt b"
proof -
  let ?h = "hash_token (se_sha256 env) (bearer_of r)"
  have e: "trim_space (trim_prefix ''Bearer '' (header r ''Authorization'')) = bearer_of r" by (simp add: bearer_of_def)
  obtain y a where y: "run_state (db (api_token_by_hash ?h)) si = (y, a)" by fastforce
  have sa: "same_site si a" by (rule reads_run[OF reads_db y]) (simp add: queries_counts)
  have y_cases: "(\<exists>er. y = Inl er) \<or> y = Inr t"
  proof (cases y)
    case (Inr t')
    then obtain s' where "run_state (api_token_by_hash ?h) (site_store si) = (Inr t', s')" using y by (auto simp: run_db split: prod.splits)
    then have "find (\<lambda>t. tk_hash t = ?h) (st_tokens (site_store si)) = Some t'" using found_row by (fastforce simp: api_token_by_hash_def)
    then show ?thesis using Inr assms(1) by simp
  qed simp
  obtain b x where b: "run_state (db (touch_api_token (tk_id t) now)) a = (x, b)" by fastforce
  show thesis
  proof (cases "prefix ''Bearer '' (header r ''Authorization'') \<and> bearer_of r \<noteq> [] \<and> y = Inr t \<and> rq_method r = ''GET''")
    case ok: True
    then have "run_state (api_auth env now r nxt) si = run_state nxt b" by (simp add: api_auth_def run_bind y e b Let_def)
    then show thesis using passed sa b ok by blast
  next
    case False
    then have "same_data si (snd (run_state (api_auth env now r nxt) si))" using assms(2) y_cases same_data_site[OF sa]
      by (auto simp: api_auth_def run_bind y e Let_def same_data_site)
    then show thesis by (rule quiet)
  qed
qed

text \<open>
  C26: A token without write scope changes nothing through the REST API but the time it was last used,
  whatever method, path and body its request has.
\<close>
theorem read_token_reads:
  assumes "dispatcher_ok di" and "reads (other ''handleAPIMetrics'')" and "reads (other ''handleAPIServerMetrics'')"
    and "di_api di r" and "find (\<lambda>t. tk_hash t = hash_token (se_sha256 env) (bearer_of r)) (st_tokens (site_store si)) = Some t"
    and "tk_scope t \<noteq> ''write''" and "run_state (serve env sd di other tn r) si = (resp, si')"
  shows "\<exists>ts. same_data (put_store ((site_store si)\<lparr>st_tokens := ts\<rparr>) si) si' \<and> unused ts = unused (st_tokens (site_store si))"
proof -
  let ?nxt = "dispatch di (api_routes env di other tn r) r"
  have unchanged: ?thesis if "same_data si si'"
    using that by (intro exI[of _ "st_tokens (site_store si)"]) simp
  show ?thesis
  proof (cases "run_state (serve env sd di other tn r) si = run_state (api_auth env (tn_now tn) r ?nxt) si")
    case False
    then have "same_data si si'" using assms(4,7)
      by (auto simp: serve_def require_same_origin_def Let_def same_data_site split: option.splits if_splits)
    then show ?thesis by (rule unchanged)
  next
    case run: True
    show ?thesis
    proof (rule read_token_gate[OF assms(5,6), of "tn_now tn" ?nxt])
      assume "same_data si (snd (run_state (api_auth env (tn_now tn) r ?nxt) si))"
      moreover have "run_state (api_auth env (tn_now tn) r ?nxt) si = (resp, si')" using run assms(7) by simp
      ultimately show ?thesis using unchanged by simp
    next
      fix a b x
      assume p: "rq_method r = ''GET''" "same_site si a" "run_state (db (touch_api_token (tk_id t) (tn_now tn))) a = (x, b)"
        "run_state (api_auth env (tn_now tn) r ?nxt) si = run_state ?nxt b"
      obtain ts fs where b: "b = put_store ((site_store a)\<lparr>st_tokens := ts, st_faults := fs\<rparr>) a" "unused ts = unused (st_tokens (site_store a))"
        using touched[OF p(3)] by blast
      have "run_state ?nxt b = (resp, si')" using run p(4) assms(7) by simp
      then have "same_data b si'"
        by (rule same_data_reads[OF get_dispatch_reads[OF assms(1) p(1) assms(2,3)]])
      moreover obtain fs' where a: "a = put_store ((site_store si)\<lparr>st_faults := fs'\<rparr>) si" using p(2) by (auto simp: same_site_def)
      moreover have "same_data (put_store ((site_store si)\<lparr>st_tokens := ts\<rparr>) si) b"
        by (rule same_data_site) (auto simp: same_site_def b(1) a)
      ultimately show ?thesis using same_data_trans b(2) by (intro exI[of _ ts]) (auto simp: a)
    qed
  qed
qed

definition reader_store :: store where
  "reader_store = (empty_store None [])\<lparr>st_tokens := [\<lparr>tk_id = 1, tk_name = ''ci'', tk_hash = hash_token id ''abc'', tk_scope = ''read'',
     tk_created_at = 0, tk_last_used_at = 0\<rparr>]\<rparr>"

theorem read_token_reads_witness:
  "\<exists>ts. same_data (put_store (reader_store\<lparr>st_tokens := ts\<rparr>) (site_of reader_store))
      (snd (run_state (serve sample_env sample_side sample_dispatcher (\<lambda>_. answer (http_error 404 [])) \<lparr>tn_now = 9, tn_random = Inl [], tn_polled = []\<rparr>
        (blank_request\<lparr>rq_path := ''/api/v1/servers'', rq_headers := [(''Authorization'', ''Bearer abc'')]\<rparr>)) (site_of reader_store)))
    \<and> unused ts = unused (st_tokens reader_store)"
proof -
  let ?tn = "\<lparr>tn_now = 9, tn_random = Inl [], tn_polled = []\<rparr>" and ?other = "\<lambda>_ :: string. answer (http_error 404 [])"
  let ?r = "blank_request\<lparr>rq_path := ''/api/v1/servers'', rq_headers := [(''Authorization'', ''Bearer abc'')]\<rparr>"
  have st: "site_store (site_of reader_store) = reader_store" by (simp add: site_of_def site_store_def)
  have d: "dispatcher_ok sample_dispatcher"
    unfolding dispatcher_ok_def
  proof (intro allI impI)
    fix pats r k assume "di_find sample_dispatcher pats r = Some k"
    then obtain m p where "find (\<lambda>(k, m, p). m = rq_method r \<and> p = trim_prefix ''/api/v1'' (rq_path r)) (enumerate 0 pats) = Some (k, m, p)"
      by (auto simp: sample_dispatcher_def exact_match_def)
    then have "(k, m, p) \<in> set (enumerate 0 pats)" "m = rq_method r" by (auto simp: find_Some_iff in_set_conv_nth)
    then show "k < length pats \<and> fst (pats ! k) \<in> {rq_method r, ''*''}" by (auto simp: in_set_enumerate_eq)
  qed
  have a: "di_api sample_dispatcher ?r" by code_simp
  have b: "find (\<lambda>t. tk_hash t = hash_token (se_sha256 sample_env) (bearer_of ?r)) (st_tokens (site_store (site_of reader_store)))
      = Some \<lparr>tk_id = 1, tk_name = ''ci'', tk_hash = hash_token id ''abc'', tk_scope = ''read'', tk_created_at = 0, tk_last_used_at = 0\<rparr>"
  proof -
    have "bearer_of ?r = ''abc''" by code_simp
    then show ?thesis unfolding st by (simp add: reader_store_def sample_env_def)
  qed
  obtain resp si' where r: "run_state (serve sample_env sample_side sample_dispatcher ?other ?tn ?r) (site_of reader_store) = (resp, si')"
    by fastforce
  show ?thesis using read_token_reads[OF d reads_answer reads_answer a b _ r] unfolding r st by simp
qed

end
