(* ===== verification/Detect.thy ===== *)
theory Detect
  imports Forms
begin

text \<open>
  Repository detection (\<open>internal/detect\<close>): from the files of a working tree, the language and a plan to
  build and run it. A tree is the list of its paths and what reading each gives (\<open>None\<close> is an error).
  Letter case is compared on ASCII.
\<close>

section \<open>Trees and plans\<close>

record file_tree =
  ft_files :: "string list"
  ft_read :: "string \<Rightarrow> string option"

record evidence =
  ev_path :: string
  ev_reason :: string

record plan =
  pl_language :: string
  pl_framework :: string
  pl_target :: string
  pl_build_runtime :: string
  pl_run_runtime :: string
  pl_runtime_version :: string
  pl_build_command :: string
  pl_exe :: string
  pl_args :: string
  pl_source_subdir :: string
  pl_port :: int
  pl_health_path :: string
  pl_caddy_mode :: string
  pl_confidence :: string
  pl_evidence :: "evidence list"

definition zero_plan :: plan where
  "zero_plan = \<lparr>pl_language = [], pl_framework = [], pl_target = [], pl_build_runtime = [], pl_run_runtime = [],
     pl_runtime_version = [], pl_build_command = [], pl_exe = [], pl_args = [], pl_source_subdir = [], pl_port = 0,
     pl_health_path = [], pl_caddy_mode = [], pl_confidence = [], pl_evidence = []\<rparr>"

definition add_evidence :: "string \<Rightarrow> string \<Rightarrow> plan \<Rightarrow> plan" where
  "add_evidence p why plan = plan\<lparr>pl_evidence := pl_evidence plan @ [\<lparr>ev_path = p, ev_reason = why\<rparr>]\<rparr>"

section \<open>Paths\<close>

definition path_base :: "string \<Rightarrow> string" where
  "path_base p = (if p = [] then ''.'' else
     (let b = after_last_any ''/'' (trim_right_set ''/'' p) in if b = [] then ''/'' else b))"

fun ext_of :: "string \<Rightarrow> string \<Rightarrow> string" where
  "ext_of [] acc = []"
| "ext_of (c # s) acc = (if c = CHR ''/'' then [] else if c = CHR ''.'' then c # acc else ext_of s (c # acc))"

definition path_ext :: "string \<Rightarrow> string" where
  "path_ext p = ext_of (rev p) []"

definition directory_part :: "string \<Rightarrow> string" where
  "directory_part p = (case before_last_any ''/'' p of None \<Rightarrow> [] | Some d \<Rightarrow> d @ ''/'')"

definition module_dir :: "string \<Rightarrow> string" where
  "module_dir p = path_clean (directory_part p)"

section \<open>Looking at a tree\<close>

definition sorted_list :: "file_tree \<Rightarrow> string list" where
  "sorted_list t = sort (ft_files t)"

definition has_file :: "file_tree \<Rightarrow> string \<Rightarrow> bool" where
  "has_file t p = list_ex (\<lambda>f. f = p) (ft_files t)"

definition read_file :: "file_tree \<Rightarrow> string \<Rightarrow> string" where
  "read_file t p = (case ft_read t p of None \<Rightarrow> [] | Some b \<Rightarrow> b)"

definition first_ext :: "file_tree \<Rightarrow> string \<Rightarrow> string" where
  "first_ext t ext = (case find (\<lambda>f. equal_fold (path_ext f) ext) (sorted_list t) of None \<Rightarrow> [] | Some f \<Rightarrow> f)"

definition all_ext :: "file_tree \<Rightarrow> string \<Rightarrow> string list" where
  "all_ext t ext = filter (\<lambda>f. equal_fold (path_ext f) ext) (sorted_list t)"

definition first_base :: "file_tree \<Rightarrow> string \<Rightarrow> string" where
  "first_base t name = (case find (\<lambda>f. equal_fold (path_base f) name) (sorted_list t) of None \<Rightarrow> [] | Some f \<Rightarrow> f)"

text \<open>The first name of a list that some file has, with that file.\<close>

fun first_named :: "file_tree \<Rightarrow> string list \<Rightarrow> (string \<times> string) option" where
  "first_named t [] = None"
| "first_named t (n # ns) = (let p = first_base t n in if p \<noteq> [] then Some (n, p) else first_named t ns)"

section \<open>Go\<close>

fun go_directive_in :: "string list \<Rightarrow> string" where
  "go_directive_in [] = []"
| "go_directive_in (l # ls) =
     (let line = trim_space l in
      if prefix ''go '' line then trim_space (trim_prefix ''go '' line) else go_directive_in ls)"

definition go_directive :: "string \<Rightarrow> string" where
  "go_directive gomod = go_directive_in (split_char (CHR 0x0A) gomod)"

fun main_in :: "string list \<Rightarrow> bool" where
  "main_in [] = False"
| "main_in (l # ls) =
     (let line = trim_space l in
      if line = [] \<or> prefix ''//'' line then main_in ls else line = ''package main'')"

definition is_main_package :: "string \<Rightarrow> bool" where
  "is_main_package src = main_in (split_char (CHR 0x0A) src)"

definition main_packages :: "file_tree \<Rightarrow> string list" where
  "main_packages t = sort (remdups (map module_dir (filter (\<lambda>f. suffix ''.go'' f \<and> \<not> suffix ''_test.go'' f
     \<and> is_main_package (read_file t f)) (sorted_list t))))"

definition go_package_arg :: "string \<Rightarrow> string" where
  "go_package_arg dir = (if dir = ''.'' then ''.'' else ''./'' @ dir)"

definition detect_go :: "file_tree \<Rightarrow> plan option" where
  "detect_go t =
     (if \<not> has_file t ''go.mod'' then None
      else
        (let p0 = add_evidence ''go.mod'' ''Go module'' (zero_plan\<lparr>pl_language := ''go'', pl_target := server_type_winsvc, pl_build_runtime := ''go'',
               pl_build_command := ''go build -o app.exe .'', pl_exe := ''app.exe'', pl_health_path := ''/'', pl_confidence := ''high''\<rparr>);
             p1 = p0\<lparr>pl_runtime_version := go_directive (read_file t ''go.mod'')\<rparr>
         in Some (case main_packages t of
              [] \<Rightarrow> p1\<lparr>pl_confidence := ''medium''\<rparr>
            | [d] \<Rightarrow> (if d = ''.'' then p1
                      else add_evidence d ''main package'' (p1\<lparr>pl_build_command := ''go build -o app.exe '' @ go_package_arg d\<rparr>))
            | _ \<Rightarrow> add_evidence ''cmd/'' ''several main packages; set the build target'' (p1\<lparr>pl_confidence := ''medium''\<rparr>))))"

section \<open>.NET\<close>

text \<open>\<open>firstGroup\<close> of the expression \<open>(?i)<Tag[^>]*>([^<]+)<\<close>: the leftmost match decides.\<close>

definition tag_here :: "string \<Rightarrow> string \<Rightarrow> string option" where
  "tag_here tag s =
     (if equal_fold (take (length tag + 1) s) (CHR ''<'' # tag) then
        (case dropWhile (\<lambda>c. c \<noteq> CHR ''>'') (drop (length tag + 1) s) of
           [] \<Rightarrow> None
         | _ # body \<Rightarrow>
             (let g = takeWhile (\<lambda>c. c \<noteq> CHR ''<'') body in
              if g \<noteq> [] \<and> length g < length body then Some g else None))
      else None)"

fun first_group :: "string \<Rightarrow> string \<Rightarrow> string" where
  "first_group tag [] = []"
| "first_group tag (c # s) = (case tag_here tag (c # s) of Some g \<Rightarrow> trim_space g | None \<Rightarrow> first_group tag s)"

definition detect_dotnet :: "file_tree \<Rightarrow> plan option" where
  "detect_dotnet t =
     (let proj = first_ext t ''.csproj''; sln = first_ext t ''.sln'' in
      if proj = [] \<and> sln = [] then None
      else
        (let p0 = zero_plan\<lparr>pl_language := ''dotnet'', pl_framework := ''.NET'', pl_target := server_type_winsvc, pl_build_runtime := ''dotnet'',
               pl_run_runtime := ''dotnet'', pl_build_command := ''dotnet publish -c Release -o out'', pl_exe := ''dotnet'',
               pl_port := 5000, pl_health_path := ''/'', pl_confidence := ''medium''\<rparr>;
             csproj = read_file t proj; tfm = first_group ''TargetFramework'' csproj; asm = first_group ''AssemblyName'' csproj;
             (name, p1) = (if proj \<noteq> [] then
                 (if asm \<noteq> [] then asm else trim_suffix ''.csproj'' (path_base proj),
                  (add_evidence proj ''.NET project'' p0)\<lparr>pl_runtime_version := tfm\<rparr>)
               else ([], (add_evidence sln ''.NET solution'' p0)\<lparr>pl_confidence := ''low''\<rparr>));
             p2 = (if name \<noteq> [] then p1\<lparr>pl_args := ''out'' @ bsl @ name @ ''.dll''\<rparr> else p1)
         in Some (if has_file t ''web.config''
              then add_evidence ''web.config'' ''IIS-hosted application''
                (p2\<lparr>pl_target := server_type_iis, pl_exe := [], pl_args := [], pl_run_runtime := []\<rparr>)
              else p2)))"

section \<open>Python\<close>

definition python_names :: "string list" where
  "python_names = [''app.py'', ''main.py'', ''server.py'', ''run.py'', ''wsgi.py'', ''asgi.py'']"

definition python_venv :: string where "python_venv = ''python -m venv .venv''"

definition python_pip :: string where
  "python_pip = ''.'' @ bsl @ ''.venv'' @ bsl @ ''Scripts'' @ bsl @ ''python.exe -m pip install ''"

definition python_build_requirements :: string where
  "python_build_requirements = python_venv @ ''; '' @ python_pip @ ''--upgrade pip; '' @ python_pip @ ''-r requirements.txt''"

definition python_build_project :: string where
  "python_build_project = python_venv @ ''; '' @ python_pip @ ''--upgrade pip; '' @ python_pip @ ''.''"

definition has_python_entry :: "file_tree \<Rightarrow> bool" where
  "has_python_entry t \<longleftrightarrow> list_ex (has_file t) python_names
     \<or> list_ex (\<lambda>f. suffix ''.py'' f \<and> CHR ''/'' \<notin> set f) (ft_files t)"

definition python_entry :: "file_tree \<Rightarrow> string" where
  "python_entry t =
     (case first_named t python_names of
        Some (_, p) \<Rightarrow> p
      | None \<Rightarrow> (let p = first_ext t ''.py'' in if p \<noteq> [] then p else ''app.py''))"

fun app_module_in :: "file_tree \<Rightarrow> string list \<Rightarrow> string option" where
  "app_module_in t [] = None"
| "app_module_in t (n # ns) =
     (let p = first_base t n in
      if p = [] then app_module_in t ns
      else if sublist ''FastAPI('' (read_file t p) \<or> sublist ''app ='' (read_file t p) then Some (trim_suffix ''.py'' n)
      else app_module_in t ns)"

definition python_app_module :: "file_tree \<Rightarrow> string" where
  "python_app_module t =
     (case app_module_in t [''app.py'', ''main.py'', ''asgi.py'', ''api.py''] of
        Some m \<Rightarrow> m | None \<Rightarrow> trim_suffix ''.py'' (path_base (python_entry t)))"

definition python_manifests :: "file_tree \<Rightarrow> string list" where
  "python_manifests t = filter (has_file t) [''requirements.txt'', ''pyproject.toml'', ''Pipfile'', ''setup.py'']"

definition python_deps :: "file_tree \<Rightarrow> string" where
  "python_deps t = to_lower (read_file t ''requirements.txt'' @ nl @ read_file t ''pyproject.toml'' @ nl @ read_file t ''Pipfile'')"

definition detect_python :: "file_tree \<Rightarrow> plan option" where
  "detect_python t =
     (let found = python_manifests t in
      if found = [] \<and> first_base t ''manage.py'' = [] \<and> \<not> has_python_entry t then None
      else
        (let p0 = zero_plan\<lparr>pl_language := ''python'', pl_target := server_type_winsvc, pl_build_runtime := ''python'',
               pl_run_runtime := ''python'', pl_exe := ''.venv'' @ bsl @ ''Scripts'' @ bsl @ ''python.exe'', pl_health_path := ''/'',
               pl_confidence := ''high'', pl_evidence := map (\<lambda>m. \<lparr>ev_path = m, ev_reason = ''Python manifest''\<rparr>) found\<rparr>;
             p1 = (if has_file t ''requirements.txt'' then p0\<lparr>pl_build_command := python_build_requirements\<rparr>
                   else if has_file t ''pyproject.toml'' then p0\<lparr>pl_build_command := python_build_project\<rparr>
                   else p0\<lparr>pl_build_command := python_venv, pl_confidence := ''medium''\<rparr>);
             deps = python_deps t
         in Some (if has_file t ''manage.py'' then
                add_evidence ''manage.py'' ''Django entry point''
                  (p1\<lparr>pl_framework := ''Django'', pl_args := ''manage.py runserver 127.0.0.1:8000'', pl_port := 8000\<rparr>)
              else if sublist ''uvicorn'' deps \<or> sublist ''fastapi'' deps then
                p1\<lparr>pl_framework := ''FastAPI'', pl_args := ''-m uvicorn '' @ python_app_module t @ '':app --host 127.0.0.1 --port 8000'', pl_port := 8000\<rparr>
              else if sublist ''flask'' deps then
                p1\<lparr>pl_framework := ''Flask'', pl_args := ''-m flask --app '' @ trim_suffix ''.py'' (python_entry t) @ '' run --host 127.0.0.1 --port 5000'',
                   pl_port := 5000\<rparr>
              else p1\<lparr>pl_framework := ''Python'', pl_args := python_entry t, pl_port := 8000, pl_confidence := ''medium''\<rparr>)))"

section \<open>Node\<close>

record package_json =
  pj_main :: string
  pj_scripts :: go_map
  pj_dependencies :: go_map
  pj_dev_dependencies :: go_map

definition package_fields :: "(string \<times> package_json json_field) list" where
  "package_fields = [
     (''main'', Text_field (\<lambda>v x. x\<lparr>pj_main := v\<rparr>)), (''scripts'', Map_field pj_scripts (\<lambda>v x. x\<lparr>pj_scripts := v\<rparr>)),
     (''dependencies'', Map_field pj_dependencies (\<lambda>v x. x\<lparr>pj_dependencies := v\<rparr>)),
     (''devDependencies'', Map_field pj_dev_dependencies (\<lambda>v x. x\<lparr>pj_dev_dependencies := v\<rparr>))]"

definition parse_package :: "string \<Rightarrow> package_json option" where
  "parse_package raw =
     (case unmarshal_members raw of None \<Rightarrow> None
      | Some ms \<Rightarrow> set_members package_fields (filter (\<lambda>(k, _). find_field package_fields k \<noteq> None) ms)
          \<lparr>pj_main = [], pj_scripts = [], pj_dependencies = [], pj_dev_dependencies = []\<rparr>)"

definition node_entry :: "file_tree \<Rightarrow> string" where
  "node_entry t = (case first_named t [''server.js'', ''index.js'', ''app.js'', ''main.js'', ''index.mjs''] of
     Some (_, p) \<Rightarrow> p | None \<Rightarrow> ''index.js'')"

definition depends_on :: "package_json \<Rightarrow> string \<Rightarrow> bool" where
  "depends_on pkg n \<longleftrightarrow> list_ex (\<lambda>(k, _). to_lower k = n) (pj_dependencies pkg @ pj_dev_dependencies pkg)"

definition detect_node :: "file_tree \<Rightarrow> plan option" where
  "detect_node t =
     (if \<not> has_file t ''package.json'' then None
      else
        (let p0 = add_evidence ''package.json'' ''Node package'' (zero_plan\<lparr>pl_language := ''node'', pl_target := server_type_winsvc,
               pl_build_runtime := ''node'', pl_run_runtime := ''node'', pl_exe := ''node.exe'', pl_port := 3000, pl_health_path := ''/'',
               pl_confidence := ''high''\<rparr>)
         in Some (case parse_package (read_file t ''package.json'') of
              None \<Rightarrow> p0\<lparr>pl_confidence := ''low'', pl_args := node_entry t\<rparr>
            | Some pkg \<Rightarrow>
                (let p1 = p0\<lparr>pl_build_command := ''npm ci'' @ (if map_of (pj_scripts pkg) ''build'' \<noteq> None then ''; npm run build'' else [])\<rparr>
                 in if depends_on pkg ''next'' then
                      p1\<lparr>pl_framework := ''Next.js'', pl_args := ''node_modules'' @ bsl @ ''next'' @ bsl @ ''dist'' @ bsl @ ''bin'' @ bsl @ ''next start -p 3000'',
                         pl_confidence := ''medium''\<rparr>
                    else if depends_on pkg ''vite'' then
                      p1\<lparr>pl_framework := ''Vite'', pl_source_subdir := ''dist'', pl_caddy_mode := caddy_mode_static, pl_exe := [], pl_args := [],
                         pl_run_runtime := [], pl_port := 8080, pl_confidence := ''medium''\<rparr>
                    else p1\<lparr>pl_framework := (if depends_on pkg ''express'' then ''Express'' else ''Node''),
                            pl_args := (if pj_main pkg = [] then node_entry t else pj_main pkg)\<rparr>))))"

section \<open>Static sites, and the order of the detectors\<close>

definition detect_static :: "file_tree \<Rightarrow> plan option" where
  "detect_static t =
     (if \<not> has_file t ''index.html'' then None
      else Some (add_evidence ''index.html'' ''static entry point'' (zero_plan\<lparr>pl_language := ''static'', pl_framework := ''static site'',
        pl_target := server_type_winsvc, pl_caddy_mode := caddy_mode_static, pl_port := 8080, pl_health_path := ''/'',
        pl_confidence := ''medium''\<rparr>)))"

definition detectors :: "(string \<times> (file_tree \<Rightarrow> plan option)) list" where
  "detectors = [(''go'', detect_go), (''dotnet'', detect_dotnet), (''python'', detect_python), (''node'', detect_node),
     (''static'', detect_static)]"

fun first_plan :: "(string \<times> (file_tree \<Rightarrow> plan option)) list \<Rightarrow> file_tree \<Rightarrow> plan option" where
  "first_plan [] t = None"
| "first_plan ((_, d) # ds) t = (case d t of Some p \<Rightarrow> Some p | None \<Rightarrow> first_plan ds t)"

definition detect :: "file_tree \<Rightarrow> plan option" where
  "detect t = first_plan detectors t"

definition detect_as :: "file_tree \<Rightarrow> string \<Rightarrow> plan option" where
  "detect_as t language = (case map_of detectors language of Some d \<Rightarrow> d t | None \<Rightarrow> None)"

section \<open>The order of the listing does not matter\<close>

definition same_tree :: "file_tree \<Rightarrow> file_tree \<Rightarrow> bool" where
  "same_tree a b \<longleftrightarrow> mset (ft_files a) = mset (ft_files b) \<and> ft_read a = ft_read b"

lemma same_tree_looks:
  assumes "same_tree a b"
  shows "sorted_list a = sorted_list b" "has_file a = has_file b" "read_file a = read_file b"
    "list_ex P (ft_files a) = list_ex P (ft_files b)"
proof -
  have m: "mset (ft_files a) = mset (ft_files b)" and r: "ft_read a = ft_read b" using assms by (simp_all add: same_tree_def)
  have s: "set (ft_files a) = set (ft_files b)" using m by (rule mset_eq_setD)
  show "sorted_list a = sorted_list b" using m by (simp add: sorted_list_def properties_for_sort)
  show "has_file a = has_file b" "list_ex P (ft_files a) = list_ex P (ft_files b)"
    using s by (auto simp: has_file_def fun_eq_iff list_ex_iff)
  show "read_file a = read_file b" using r by (simp add: read_file_def fun_eq_iff)
qed

lemma same_tree_finds:
  assumes "same_tree a b"
  shows "first_ext a = first_ext b" "first_base a = first_base b" "first_named a ns = first_named b ns"
    "main_packages a = main_packages b" "python_manifests a = python_manifests b" "has_python_entry a = has_python_entry b"
    "python_entry a = python_entry b" "app_module_in a ns = app_module_in b ns" "python_deps a = python_deps b"
proof -
  note looks = same_tree_looks[OF assms]
  show e: "first_ext a = first_ext b" and fb: "first_base a = first_base b"
    by (simp_all add: first_ext_def first_base_def looks fun_eq_iff)
  show fn: "first_named a ns = first_named b ns" for ns by (induction ns) (simp_all add: fb Let_def)
  show "main_packages a = main_packages b" "python_manifests a = python_manifests b" "has_python_entry a = has_python_entry b"
    "python_deps a = python_deps b"
    by (simp_all add: main_packages_def python_manifests_def has_python_entry_def python_deps_def looks)
  show "python_entry a = python_entry b" unfolding python_entry_def e fn by (rule refl)
  show "app_module_in a ns = app_module_in b ns" for ns by (induction ns) (simp_all add: fb looks Let_def)
qed

lemma same_tree_detectors:
  assumes "same_tree a b" and "(l, d) \<in> set detectors"
  shows "d a = d b"
proof -
  note look = same_tree_looks(1-3)[OF assms(1)] same_tree_finds[OF assms(1)]
  have "detect_go a = detect_go b" "detect_dotnet a = detect_dotnet b" "detect_python a = detect_python b"
    "detect_node a = detect_node b" "detect_static a = detect_static b"
    unfolding detect_go_def detect_dotnet_def detect_python_def detect_node_def detect_static_def node_entry_def
      python_app_module_def look by (rule refl)+
  then show ?thesis using assms(2) by (auto simp: detectors_def)
qed

lemma first_plan_same:
  "same_tree a b \<Longrightarrow> set ds \<subseteq> set detectors \<Longrightarrow> first_plan ds a = first_plan ds b"
proof (induction ds)
  case (Cons x ds)
  obtain l d where x: "x = (l, d)" by (cases x)
  then have "d a = d b" using Cons.prems same_tree_detectors[of a b l d] by auto
  then show ?case using Cons x by (simp split: option.split)
qed simp

text \<open>
  The order in which a target lists the files of a repository does not reach the proposed plan,
  whether the language is detected or chosen.
\<close>
theorem detection_order_irrelevant:
  assumes "same_tree a b"
  shows "detect a = detect b \<and> detect_as a language = detect_as b language"
proof
  show "detect a = detect b" using first_plan_same[OF assms order_refl] by (simp add: detect_def)
  show "detect_as a language = detect_as b language"
    using same_tree_detectors[OF assms map_of_SomeD] by (auto simp: detect_as_def split: option.split)
qed

theorem detection_order_irrelevant_witness:
  "detect \<lparr>ft_files = [''main.go'', ''go.mod''], ft_read = (\<lambda>p. if p = ''main.go'' then Some ''package main'' else Some ''go 1.22'')\<rparr>
     = detect \<lparr>ft_files = [''go.mod'', ''main.go''], ft_read = (\<lambda>p. if p = ''main.go'' then Some ''package main'' else Some ''go 1.22'')\<rparr>"
  by (rule conjunct1[OF detection_order_irrelevant]) (simp add: same_tree_def)

section \<open>What a plan says\<close>

lemma add_evidence_keeps:
  "pl_target (add_evidence f w p) = pl_target p" "pl_language (add_evidence f w p) = pl_language p" "pl_port (add_evidence f w p) = pl_port p"
  "pl_exe (add_evidence f w p) = pl_exe p" "pl_caddy_mode (add_evidence f w p) = pl_caddy_mode p"
  "pl_run_runtime (add_evidence f w p) = pl_run_runtime p"
  by (simp_all add: add_evidence_def)

definition plan_ok :: "string \<Rightarrow> plan \<Rightarrow> bool" where
  "plan_ok l p \<longleftrightarrow> pl_language p = l \<and> 0 \<le> pl_port p \<and> pl_port p \<le> 65535
     \<and> (pl_target p = server_type_iis \<and> pl_exe p = []
        \<or> pl_target p = server_type_winsvc \<and> (if pl_caddy_mode p = caddy_mode_static then pl_exe p = [] \<and> pl_run_runtime p = [] else pl_exe p \<noteq> []))"

lemma zero_plan_fields: "pl_port zero_plan = 0" "pl_exe zero_plan = []" "pl_caddy_mode zero_plan = []" "pl_run_runtime zero_plan = []"
  by (simp_all add: zero_plan_def)

lemmas plan_simps = plan_ok_def add_evidence_keeps zero_plan_fields server_type_winsvc_def server_type_iis_def caddy_mode_static_def

lemma plan_ok_go: "detect_go t = Some p \<Longrightarrow> plan_ok ''go'' p"
  unfolding detect_go_def Let_def
  by (simp split: if_splits list.splits) (hypsubst, simp add: plan_simps)+

lemma plan_ok_static: "detect_static t = Some p \<Longrightarrow> plan_ok ''static'' p"
  unfolding detect_static_def by (simp split: if_splits) (hypsubst, simp add: plan_simps)

lemma plan_ok_node: "detect_node t = Some p \<Longrightarrow> plan_ok ''node'' p"
  unfolding detect_node_def Let_def
  by (simp split: if_splits option.splits) (hypsubst, simp add: plan_simps)+

lemma plan_ok_python: "detect_python t = Some p \<Longrightarrow> plan_ok ''python'' p"
  unfolding detect_python_def Let_def
  by (simp split: if_splits) (hypsubst, simp add: plan_simps)+

lemma plan_ok_dotnet: "detect_dotnet t = Some p \<Longrightarrow> plan_ok ''dotnet'' p"
  unfolding detect_dotnet_def Let_def
  by (simp split: if_splits prod.splits) (hypsubst, simp add: plan_simps)+

lemmas plan_ok_detectors = plan_ok_go plan_ok_dotnet plan_ok_python plan_ok_node plan_ok_static

lemma plan_ok_any: "(l, d) \<in> set detectors \<Longrightarrow> d t = Some p \<Longrightarrow> plan_ok l p"
  using plan_ok_detectors[of t p] by (auto simp: detectors_def)

lemma first_plan_some:
  "first_plan ds t = Some p \<Longrightarrow> \<exists>l d. (l, d) \<in> set ds \<and> d t = Some p"
  by (induction ds t rule: first_plan.induct) (fastforce split: option.splits)+

lemma distinct_detectors: "distinct (map fst detectors)"
  by (simp add: detectors_def)

text \<open>
  A detected plan is one a Windows target can carry out: it names a port that exists and either an IIS
  site without a process of its own, files for the bundled Caddy to serve, or a service with an
  executable; and choosing the detected language by hand gives the same plan.
\<close>
theorem detected_plan_deployable:
  assumes "detect t = Some p"
  shows "plan_ok (pl_language p) p \<and> detect_as t (pl_language p) = Some p"
proof -
  obtain l d where d: "(l, d) \<in> set detectors" "d t = Some p" using first_plan_some[OF assms[unfolded detect_def]] by blast
  then have ok: "plan_ok l p" by (rule plan_ok_any)
  then have "pl_language p = l" by (simp add: plan_ok_def)
  then show ?thesis using ok d map_of_is_SomeI[OF distinct_detectors d(1)] by (simp add: detect_as_def)
qed

theorem detected_plan_deployable_witness:
  "\<exists>p. detect \<lparr>ft_files = [''index.html''], ft_read = (\<lambda>_. None)\<rparr> = Some p \<and> plan_ok (pl_language p) p"
proof -
  obtain p where "detect \<lparr>ft_files = [''index.html''], ft_read = (\<lambda>_. None)\<rparr> = Some p"
    by (simp add: detect_def detectors_def detect_go_def detect_dotnet_def detect_python_def detect_node_def detect_static_def
        has_file_def first_ext_def sorted_list_def path_ext_def python_manifests_def first_base_def path_base_def
        has_python_entry_def python_names_def trim_right_set_def after_last_any_def equal_fold_def to_lower_def Let_def suffix_def)
  with detected_plan_deployable[OF this] show ?thesis by blast
qed

section \<open>Two readings that are off\<close>

text \<open>\<open>firstExt\<close> and \<open>firstBase\<close> promise the shallowest path and give the alphabetically first.\<close>

lemma first_ext_not_shallowest:
  "first_ext \<lparr>ft_files = [''web.csproj'', ''tests/unit/a.csproj''], ft_read = (\<lambda>_. None)\<rparr> ''.csproj'' = ''tests/unit/a.csproj''"
  by code_simp

text \<open>The module of an application in a subdirectory is named without it, so it cannot be imported.\<close>

lemma app_module_loses_directory:
  "python_app_module \<lparr>ft_files = [''backend/main.py''], ft_read = (\<lambda>_. Some ''app = FastAPI()'')\<rparr> = ''main''"
  by code_simp

end
