(* ===== verification/RepoTree.thy ===== *)
theory RepoTree
  imports Detect Pipeline
begin

text \<open>
  The working tree of a repository on a target (\<open>internal/deployment/repo_tree.go\<close>): a shallow clone, one
  listing, and files read on demand. The loop that normalises a listed path is a partial function, so
  that its end is something to prove.
\<close>

section \<open>Paths of the listing\<close>

partial_function (option) strip_dots :: "string \<Rightarrow> string option" where
  "strip_dots p =
     (if prefix ''./'' p then strip_dots (drop 2 p)
      else if prefix ''/'' p then strip_dots (drop 1 p)
      else Some p)"

definition normalize_repo_path :: "string \<Rightarrow> string option" where
  "normalize_repo_path p = strip_dots (replace_char (CHR 0x5C) ''/'' (trim_space p))"

text \<open>The non-empty paths of a listing; \<open>None\<close> would be a line whose loop does not end.\<close>

fun repo_paths :: "string list \<Rightarrow> string list option" where
  "repo_paths [] = Some []"
| "repo_paths (l # ls) =
     (case (normalize_repo_path l, repo_paths ls) of
        (Some p, Some ps) \<Rightarrow> Some (if p \<noteq> [] then p # ps else ps)
      | _ \<Rightarrow> None)"

section \<open>The tree\<close>

record repo_tree =
  rt_root :: string
  rt_files :: "string list"

definition clone_shallow :: "host \<Rightarrow> cmd_ctx \<Rightarrow> string \<Rightarrow> string \<Rightarrow> string \<Rightarrow> git_auth \<Rightarrow> string res rt" where
  "clone_shallow host ctx dir repo_url branch auth =
     exec_or host (git_ctx ctx auth ''git clone --depth 1 (credential redacted)'') (shallow_clone_script dir repo_url branch auth)
       ''git clone --depth 1'' (err_only ''clone repo'')"

definition new_repo_tree :: "host \<Rightarrow> cmd_ctx \<Rightarrow> string \<Rightarrow> repo_tree res option rt" where
  "new_repo_tree host ctx dir =
     (let root = trim_right_set (bsl @ ''/'') dir in do {
        (out, err) \<leftarrow> run_cmd host ctx (list_files_script root);
        State_Monad.return (case err of
            Some e \<Rightarrow> Some (Inl (''list repository files: '' @ e))
          | None \<Rightarrow> map_option (\<lambda>ps. Inr \<lparr>rt_root = root, rt_files = ps\<rparr>) (repo_paths (split_char (CHR 0x0A) out))) })"

definition repo_read :: "host \<Rightarrow> cmd_ctx \<Rightarrow> repo_tree \<Rightarrow> string \<Rightarrow> string res rt" where
  "repo_read host ctx t p =
     (let rel = replace_char (CHR ''/'') bsl p in do {
        (out, err) \<leftarrow> run_cmd host ctx (read_file_script (rt_root t) rel);
        State_Monad.return (case err of
            Some e \<Rightarrow> Inl e
          | None \<Rightarrow>
              (case base64_decode (trim_space (last_line out)) of
                 None \<Rightarrow> Inl (''decode '' @ p @ '': illegal base64 data'')
               | Some d \<Rightarrow> Inr d)) })"

text \<open>The tree the detectors see, as the target answers after the commands of a trace.\<close>

definition tree_at :: "host \<Rightarrow> cmd_ctx \<Rightarrow> repo_tree \<Rightarrow> trace \<Rightarrow> file_tree" where
  "tree_at host ctx t tr = \<lparr>ft_files = rt_files t,
     ft_read = (\<lambda>p. case fst (run_state (repo_read host ctx t p) tr) of Inr d \<Rightarrow> Some d | Inl _ \<Rightarrow> None)\<rparr>"

section \<open>The listing always ends\<close>

lemma strip_dots_returns: "\<exists>q. strip_dots p = Some q \<and> \<not> prefix ''./'' q \<and> \<not> prefix ''/'' q \<and> suffix q p"
proof (induction "length p" arbitrary: p rule: less_induct)
  case less
  show ?case
  proof (cases "prefix ''./'' p \<or> prefix ''/'' p")
    case True
    define n :: nat where "n = (if prefix ''./'' p then 2 else 1)"
    have "p \<noteq> []" using True by auto
    then have "length (drop n p) < length p" by (auto simp: n_def)
    then obtain q where q: "strip_dots (drop n p) = Some q" "\<not> prefix ''./'' q" "\<not> prefix ''/'' q" "suffix q (drop n p)"
      using less by blast
    have "strip_dots p = strip_dots (drop n p)" using True by (subst strip_dots.simps) (auto simp: n_def)
    moreover have "suffix q p" using q(4) suffix_drop suffix_order.order_trans by blast
    ultimately show ?thesis using q by auto
  next
    case False
    then show ?thesis by (subst strip_dots.simps) simp
  qed
qed

lemma replaced_absent: "c \<notin> set w \<Longrightarrow> c \<notin> set (replace_char c w s)"
  by (auto simp: replace_char_def)

lemma normalized:
  obtains q where "normalize_repo_path p = Some q" "\<not> prefix ''./'' q" "\<not> prefix ''/'' q" "CHR 0x5C \<notin> set q"
proof -
  let ?s = "replace_char (CHR 0x5C) ''/'' (trim_space p)"
  obtain q where q: "strip_dots ?s = Some q" "\<not> prefix ''./'' q" "\<not> prefix ''/'' q" "suffix q ?s"
    using strip_dots_returns by blast
  have "CHR 0x5C \<notin> set ?s" by (rule replaced_absent) simp
  then have "CHR 0x5C \<notin> set q" using q(4) set_mono_suffix by blast
  then show thesis using q that by (simp add: normalize_repo_path_def)
qed

definition repo_path_ok :: "string \<Rightarrow> bool" where
  "repo_path_ok p \<longleftrightarrow> p \<noteq> [] \<and> \<not> prefix ''./'' p \<and> \<not> prefix ''/'' p \<and> CHR 0x5C \<notin> set p"

lemma repo_paths_returns: "\<exists>ps. repo_paths ls = Some ps \<and> list_all repo_path_ok ps"
proof (induction ls)
  case (Cons l ls)
  obtain q where "normalize_repo_path l = Some q" "\<not> prefix ''./'' q" "\<not> prefix ''/'' q" "CHR 0x5C \<notin> set q"
    by (rule normalized)
  then show ?case using Cons.IH by (auto simp: repo_path_ok_def)
qed simp

text \<open>
  C31: Listing a repository always ends, whatever the target prints: with the target's error, or with
  paths that are relative to the root and written with slashes.
\<close>
theorem repo_listing_returns:
  "\<exists>r. fst (run_state (new_repo_tree host ctx dir) tr) = Some r
     \<and> (case r of Inl e \<Rightarrow> prefix ''list repository files: '' e | Inr t \<Rightarrow> list_all repo_path_ok (rt_files t))"
proof -
  obtain out err where h: "host tr (list_files_script (trim_right_set (bsl @ ''/'') dir)) = (out, err)" by fastforce
  obtain ps where "repo_paths (split_char (CHR 0x0A) out) = Some ps" "list_all repo_path_ok ps" using repo_paths_returns by blast
  then show ?thesis by (cases err) (simp_all add: new_repo_tree_def run_cmd_def run_bind h Let_def)
qed

text \<open>A file comes back as it is when its base64 text is the last line the target prints.\<close>

lemma repo_read_exact:
  assumes "host tr (read_file_script (rt_root t) (replace_char (CHR ''/'') bsl p)) = (out, None)" and "last_line out = base64_encode d"
  shows "fst (run_state (repo_read host ctx t p) tr) = Inr d" and "ft_read (tree_at host ctx t tr) p = Some d"
proof -
  have "trim_space (base64_encode d) = base64_encode d" by simp
  then show r: "fst (run_state (repo_read host ctx t p) tr) = Inr d"
    by (simp add: repo_read_def run_cmd_def run_bind assms base64_roundtrip Let_def)
  show "ft_read (tree_at host ctx t tr) p = Some d" by (simp add: tree_at_def r)
qed

end
