(* ===== verification/Settings.thy ===== *)
theory Settings
  imports Target
begin

text \<open>
  The application's settings (\<open>internal/config/config.go\<close>): the defaults, the YAML file read over them,
  the environment variables on top, and the checks that every start makes. The YAML library, the file
  system, the platform's path functions and the URL parser are parameters (\<open>load_env\<close>); the
  environment is a function from names to values, with the empty value for a name that is not set.
\<close>

section \<open>The sections of the file\<close>

record server_config =
  vc_addr :: string
  vc_public_url :: string

record database_config =
  bc_path :: string

record auth_config =
  uc_admin_user :: string
  uc_admin_password_hash :: string
  uc_setup_token :: string
  uc_cookie_secure :: bool
  uc_session_ttl_hours :: int

record credentials_config =
  kc_master_key :: string

record files_config =
  fc_servers :: string
  fc_projects :: string

record proxy_config =
  xc_enabled :: bool
  xc_admin_url :: string
  xc_server_name :: string
  xc_public_ip :: string
  xc_acme_skip :: "string list"

record tunnel_config =
  tc_enabled :: bool
  tc_provider :: string
  tc_domain :: string
  tc_account_id :: string
  tc_zone_id :: string
  tc_tunnel_name :: string
  tc_api_token_ref :: string
  tc_origin :: string
  tc_connector_source :: string
  tc_connector_url :: string
  tc_connector_sha256 :: string
  tc_service_name :: string

record full_deploy_config = deploy_config +
  dc_known_hosts_file :: string
  dc_allow_insecure_host_key :: bool

record caddy_boot_config =
  yc_enabled :: bool
  yc_source :: string
  yc_url :: string
  yc_sha256 :: string
  yc_admin :: string

record bootstrap_config =
  oc_enabled :: bool
  oc_install_dir :: string
  oc_service_name :: string
  oc_enable_winrm :: bool
  oc_caddy :: caddy_boot_config

record monitoring_config =
  mc_enabled :: bool
  mc_interval :: int
  mc_timeout :: int
  mc_retention :: int
  mc_history_points :: int

record assistant_config =
  ic_enabled :: bool
  ic_chroma_url :: string
  ic_collection :: string
  ic_ollama_url :: string
  ic_model :: string
  ic_timeout :: int
  ic_top_k :: int

record github_config =
  gc_app_id :: string
  gc_installation_id :: int
  gc_private_key_ref :: string
  gc_api_url :: string

record notify_config =
  nc_webhook_url :: string
  nc_slack_url :: string

record config =
  cf_server :: server_config
  cf_database :: database_config
  cf_auth :: auth_config
  cf_credentials :: credentials_config
  cf_files :: files_config
  cf_proxy :: proxy_config
  cf_tunnel :: tunnel_config
  cf_deploy :: full_deploy_config
  cf_bootstrap :: bootstrap_config
  cf_monitoring :: monitoring_config
  cf_assistant :: assistant_config
  cf_github :: github_config
  cf_notify :: notify_config

text \<open>What the deployment package and the server read of it.\<close>

definition app_config_of :: "config \<Rightarrow> app_config" where
  "app_config_of c = \<lparr>ac_deploy = deploy_config.truncate (cf_deploy c), ac_install_dir = oc_install_dir (cf_bootstrap c),
     ac_proxy_enabled = xc_enabled (cf_proxy c), ac_proxy_public_ip = xc_public_ip (cf_proxy c),
     ac_public_url = vc_public_url (cf_server c)\<rparr>"

definition github_enabled :: "github_config \<Rightarrow> bool" where
  "github_enabled g \<longleftrightarrow> gc_app_id g \<noteq> [] \<and> gc_installation_id g \<noteq> 0 \<and> gc_private_key_ref g \<noteq> []"

definition connector_name :: "tunnel_config \<Rightarrow> string" where
  "connector_name t = (if trim_space (tc_service_name t) = [] then ''winify-tunnel'' else tc_service_name t)"

definition effective_origin :: "string \<Rightarrow> string" where
  "effective_origin origin = (if trim_space origin = [] then ''http://localhost:80'' else origin)"

definition provider_cloudflare :: string where "provider_cloudflare = ''cloudflare''"

section \<open>Default\<close>

definition bsl_path :: "string list \<Rightarrow> string" where
  "bsl_path ps = join [CHR 0x5C] ps"

definition default_server :: server_config where
  "default_server = \<lparr>vc_addr = ''127.0.0.1:8080'', vc_public_url = []\<rparr>"

definition default_auth :: auth_config where
  "default_auth = \<lparr>uc_admin_user = ''admin'', uc_admin_password_hash = [], uc_setup_token = [], uc_cookie_secure = True,
     uc_session_ttl_hours = 12\<rparr>"

definition default_proxy :: proxy_config where
  "default_proxy = \<lparr>xc_enabled = True, xc_admin_url = ''http://127.0.0.1:2019'', xc_server_name = ''srv0'', xc_public_ip = [],
     xc_acme_skip = [''*.sslip.io'']\<rparr>"

definition default_tunnel :: tunnel_config where
  "default_tunnel = \<lparr>tc_enabled = False, tc_provider = provider_cloudflare, tc_domain = [], tc_account_id = [], tc_zone_id = [],
     tc_tunnel_name = ''winify'', tc_api_token_ref = ''vault:cloudflare-api'', tc_origin = ''http://localhost:80'',
     tc_connector_source = [], tc_connector_url = [], tc_connector_sha256 = [], tc_service_name = ''winify-tunnel''\<rparr>"

definition default_deploy :: full_deploy_config where
  "default_deploy = \<lparr>dc_work_dir = ''/opt/control-center'',
     dc_iis_work_dir = bsl_path [''C:'', ''ProgramData'', ''winify'', ''work''],
     dc_iis_backup_dir = bsl_path [''C:'', ''ProgramData'', ''winify'', ''backups''],
     dc_target_root = bsl_path [''C:'', ''ProgramData'', ''winify'', ''apps''], dc_allow_external = False,
     dc_nssm_source = ''tools/nssm.exe'', dc_nssm_sha256 = [], dc_health_timeout = 60, dc_health_interval = 3,
     dc_retention_days = 90, dc_timeout_minutes = 30, dc_known_hosts_file = [], dc_allow_insecure_host_key = False\<rparr>"

definition default_bootstrap :: bootstrap_config where
  "default_bootstrap = \<lparr>oc_enabled = True, oc_install_dir = [], oc_service_name = ''winify'', oc_enable_winrm = False,
     oc_caddy = \<lparr>yc_enabled = True, yc_source = [],
       yc_url = ''https://github.com/caddyserver/caddy/releases/download/v2.11.4/caddy_2.11.4_windows_amd64.zip'',
       yc_sha256 = ''5CB9AB71E5756CE72840B8234177A2F40C8B4AB47A806B8E841E2B784E9DF62B'', yc_admin = ''127.0.0.1:2019''\<rparr>\<rparr>"

definition default_monitoring :: monitoring_config where
  "default_monitoring = \<lparr>mc_enabled = True, mc_interval = 30, mc_timeout = 15, mc_retention = 24, mc_history_points = 200\<rparr>"

definition default_assistant :: assistant_config where
  "default_assistant = \<lparr>ic_enabled = True, ic_chroma_url = ''http://127.0.0.1:8000'', ic_collection = ''control-center-docs'',
     ic_ollama_url = ''http://127.0.0.1:11434'', ic_model = ''gemma3:1b'', ic_timeout = 60, ic_top_k = 3\<rparr>"

definition default_config :: config where
  "default_config = \<lparr>cf_server = default_server, cf_database = \<lparr>bc_path = ''data/control-center.db''\<rparr>, cf_auth = default_auth,
     cf_credentials = \<lparr>kc_master_key = []\<rparr>, cf_files = \<lparr>fc_servers = ''servers.yaml'', fc_projects = ''projects.yaml''\<rparr>,
     cf_proxy = default_proxy, cf_tunnel = default_tunnel, cf_deploy = default_deploy, cf_bootstrap = default_bootstrap,
     cf_monitoring = default_monitoring, cf_assistant = default_assistant,
     cf_github = \<lparr>gc_app_id = [], gc_installation_id = 0, gc_private_key_ref = [], gc_api_url = []\<rparr>,
     cf_notify = \<lparr>nc_webhook_url = [], nc_slack_url = []\<rparr>\<rparr>"

section \<open>Validate\<close>

text \<open>\<open>net.SplitHostPort\<close>: the port comes after the last colon; an address in brackets may hold others.\<close>

definition addr_error :: "string \<Rightarrow> string \<Rightarrow> string" where
  "addr_error addr why = (if addr = [] then why else ''address '' @ addr @ '': '' @ why)"

definition no_brackets :: "string \<Rightarrow> string \<Rightarrow> string \<Rightarrow> string \<times> string \<Rightarrow> (string \<times> string) res" where
  "no_brackets hp from_open from_close hostport =
     (if CHR ''['' \<in> set from_open then Inl (addr_error hp (''unexpected '' @ squo @ ''['' @ squo @ '' in address''))
      else if CHR '']'' \<in> set from_close then Inl (addr_error hp (''unexpected '' @ squo @ '']'' @ squo @ '' in address''))
      else Inr hostport)"

definition split_host_port :: "string \<Rightarrow> (string \<times> string) res" where
  "split_host_port hp =
     (let before = rev (drop 1 (dropWhile (\<lambda>c. c \<noteq> CHR '':'') (rev hp)));
          after = rev (takeWhile (\<lambda>c. c \<noteq> CHR '':'') (rev hp));
          missing = Inl (addr_error hp ''missing port in address'');
          many = Inl (addr_error hp ''too many colons in address'')
      in if CHR '':'' \<notin> set hp then missing
         else if prefix ''['' hp then
           (let inside = takeWhile (\<lambda>c. c \<noteq> CHR '']'') hp; rest = drop (length inside + 1) hp in
            if CHR '']'' \<notin> set hp then Inl (addr_error hp (''missing '' @ squo @ '']'' @ squo @ '' in address''))
            else if rest = [] then missing
            else if length inside + 1 = length before then no_brackets hp (drop 1 hp) rest (drop 1 inside, after)
            else if prefix '':'' rest then many else missing)
         else if CHR '':'' \<in> set before then many
         else no_brackets hp hp hp (before, after))"

record url_rules =
  ur_parse :: url_parser
  ur_loopback_ip :: "string \<Rightarrow> bool"

definition is_loopback_host :: "url_rules \<Rightarrow> string \<Rightarrow> bool" where
  "is_loopback_host ur h \<longleftrightarrow> equal_fold h ''localhost'' \<or> ur_loopback_ip ur h"

definition http_url :: "url_rules \<Rightarrow> string \<Rightarrow> bool" where
  "http_url ur v \<longleftrightarrow> (case ur_parse ur v of None \<Rightarrow> False | Some u \<Rightarrow> u_host u \<noteq> [] \<and> (u_scheme u = ''https'' \<or> u_scheme u = ''http''))"

definition https_url :: "url_rules \<Rightarrow> string \<Rightarrow> bool" where
  "https_url ur v \<longleftrightarrow> (case ur_parse ur v of None \<Rightarrow> False | Some u \<Rightarrow> u_scheme u = ''https'' \<and> u_host u \<noteq> [])"

definition valid_caddy_admin :: "url_rules \<Rightarrow> string \<Rightarrow> bool" where
  "valid_caddy_admin ur admin =
     (let v = trim_space admin; w = (if sublist ''://'' v then v else ''http://'' @ v) in
      v = [] \<or> (case ur_parse ur w of
          None \<Rightarrow> False
        | Some u \<Rightarrow> u_hostname u \<noteq> [] \<and> (u_scheme u = ''https'' \<or> u_scheme u = ''http'' \<and> is_loopback_host ur (u_hostname u))))"

definition validate_caddy_admin :: "url_rules \<Rightarrow> string \<Rightarrow> string option" where
  "validate_caddy_admin ur admin = fail_if (\<not> valid_caddy_admin ur admin) ''caddy admin address must be loopback HTTP or HTTPS''"

definition validate_listener :: "server_config \<Rightarrow> string option" where
  "validate_listener v =
     (case split_host_port (vc_addr v) of
        Inl e \<Rightarrow> Some (''server.addr must be host:port: '' @ e)
      | Inr (_, port) \<Rightarrow>
          (case atoi port of
             Some n \<Rightarrow> fail_if (n < 1 \<or> n > 65535) ''server.addr port must be between 1 and 65535''
           | None \<Rightarrow> Some ''server.addr port must be between 1 and 65535''))"

definition validate_deploy :: "full_deploy_config \<Rightarrow> string option" where
  "validate_deploy d = checks
     [fail_if (dc_work_dir d = []) ''deploy.work_dir is required'',
      fail_if (trim_space (dc_target_root d) = []) ''deploy.target_root is required'',
      fail_if (dc_health_timeout d < 1 \<or> dc_health_interval d < 1) ''deploy health timeout and interval must be positive'',
      fail_if (dc_retention_days d < 1) ''deploy.retention_days must be positive'',
      fail_if (dc_timeout_minutes d < 1) ''deploy.timeout_minutes must be positive'']"

definition validate_monitoring :: "monitoring_config \<Rightarrow> string option" where
  "validate_monitoring m =
     fail_if (mc_enabled m \<and> (mc_interval m < 1 \<or> mc_timeout m < 1 \<or> mc_retention m < 1 \<or> mc_history_points m < 1))
       ''enabled monitoring intervals, retention and history_points must be positive''"

definition validate_proxy :: "url_rules \<Rightarrow> proxy_config \<Rightarrow> string option" where
  "validate_proxy ur x = checks
     [fail_if (trim_space (xc_server_name x) = [] \<or> contains_any (xc_server_name x) (''/'' @ [CHR 0x5C, CHR 0x0D] @ nl @ '' ''))
        ''proxy.server_name must be a simple Caddy server object name'',
      fail_if (xc_enabled x \<and> trim_space (xc_admin_url x) = []) ''proxy.admin_url is required when proxy.enabled is true'',
      (if xc_admin_url x = [] then None
       else if \<not> http_url ur (xc_admin_url x) then Some ''proxy.admin_url must be an http or https URL''
       else (case ur_parse ur (xc_admin_url x) of
           None \<Rightarrow> None
         | Some u \<Rightarrow> fail_if (u_scheme u = ''http'' \<and> \<not> is_loopback_host ur (u_hostname u))
             ''proxy.admin_url must use HTTPS unless it points to loopback''))]"

definition validate_caddy_boot :: "url_rules \<Rightarrow> caddy_boot_config \<Rightarrow> string option" where
  "validate_caddy_boot ur y = checks
     [(if yc_admin y = [] then None else validate_caddy_admin ur (yc_admin y)),
      fail_if (yc_url y \<noteq> [] \<and> \<not> https_url ur (yc_url y)) ''bootstrap.caddy.url must be an HTTPS URL'']"

definition validate_github :: "url_rules \<Rightarrow> github_config \<Rightarrow> string option" where
  "validate_github ur g = checks
     [fail_if ((gc_app_id g \<noteq> [] \<or> gc_installation_id g \<noteq> 0 \<or> gc_private_key_ref g \<noteq> []) \<and> \<not> github_enabled g)
        ''github requires app_id, installation_id and private_key_ref together'',
      fail_if (gc_api_url g \<noteq> [] \<and> \<not> http_url ur (gc_api_url g)) ''github.api_url must be an http or https URL'']"

text \<open>The two URLs are checked in the order of a Go map, which is arbitrary: \<open>slack_first\<close>.\<close>

definition validate_notify :: "url_rules \<Rightarrow> bool \<Rightarrow> notify_config \<Rightarrow> string option" where
  "validate_notify ur slack_first n =
     (let webhook = (''notifications.webhook_url'', nc_webhook_url n); slack = (''notifications.slack_webhook_url'', nc_slack_url n)
      in first_error (\<lambda>(name, v). fail_if (v \<noteq> [] \<and> \<not> http_url ur v) (name @ '' must be an http or https URL''))
           (if slack_first then [slack, webhook] else [webhook, slack]))"

definition validate_tunnel :: "url_rules \<Rightarrow> tunnel_config \<Rightarrow> string option" where
  "validate_tunnel ur t =
     (if \<not> tc_enabled t then None
      else checks
        [fail_if (trim_space (tc_provider t) \<notin> {[], provider_cloudflare})
           (''tunnel.provider '' @ quote (tc_provider t) @ '' is not supported (want '' @ quote provider_cloudflare @ '')''),
         fail_if (trim_space (tc_domain t) = []) ''tunnel.domain is required when tunnel.enabled is true'',
         fail_if (trim_space (tc_account_id t) = []) ''tunnel.account_id is required when tunnel.enabled is true'',
         fail_if (trim_space (tc_api_token_ref t) = []) ''tunnel.api_token_ref is required when tunnel.enabled is true'',
         fail_if (trim_space (tc_origin t) \<noteq> [] \<and> \<not> http_url ur (trim_space (tc_origin t))) ''tunnel.origin must be an http or https URL'',
         fail_if (trim_space (tc_connector_url t) \<noteq> [] \<and> \<not> https_url ur (trim_space (tc_connector_url t)))
           ''tunnel.connector_url must be an HTTPS URL''])"

definition validate_config :: "url_rules \<Rightarrow> bool \<Rightarrow> config \<Rightarrow> string option" where
  "validate_config ur slack_first c = checks
     [validate_listener (cf_server c),
      fail_if (vc_public_url (cf_server c) \<noteq> [] \<and> \<not> http_url ur (vc_public_url (cf_server c))) ''server.public_url must be an http or https URL'',
      fail_if (uc_session_ttl_hours (cf_auth c) < 1) ''auth.session_ttl_hours must be positive'',
      validate_deploy (cf_deploy c),
      validate_monitoring (cf_monitoring c),
      validate_proxy ur (cf_proxy c),
      validate_caddy_boot ur (oc_caddy (cf_bootstrap c)),
      validate_github ur (cf_github c),
      validate_notify ur slack_first (cf_notify c),
      validate_tunnel ur (cf_tunnel c)]"

section \<open>Paths of the file\<close>

text \<open>What the operating system and the YAML library answer when a file is loaded.\<close>

datatype file_read = File_read string | File_missing | File_unreadable string

record load_env =
  le_read :: "string \<Rightarrow> file_read"
  le_yaml :: "string \<Rightarrow> config \<Rightarrow> config res"
  le_regular :: "string \<Rightarrow> bool"
  le_abs :: "string \<Rightarrow> string res"
  le_dir :: "string \<Rightarrow> string"
  le_is_abs :: "string \<Rightarrow> bool"
  le_join :: "string list \<Rightarrow> string"
  le_getenv :: "string \<Rightarrow> string"
  le_urls :: url_rules
  le_slack_first :: bool

definition resolve_path :: "load_env \<Rightarrow> string \<Rightarrow> string \<Rightarrow> string" where
  "resolve_path le base value0 =
     (let v = trim_space value0 in
      if v = [] \<or> v = '':memory:'' \<or> le_is_abs le v \<or> looks_like_windows_abs v \<or> prefix ''/'' v then v
      else le_join le [base, v])"

definition resolve_config_paths :: "load_env \<Rightarrow> string \<Rightarrow> config \<Rightarrow> config" where
  "resolve_config_paths le base c =
     (let r = resolve_path le base; d = cf_deploy c; o' = cf_bootstrap c; y = oc_caddy o' in
      c\<lparr>cf_database := \<lparr>bc_path = r (bc_path (cf_database c))\<rparr>,
        cf_files := \<lparr>fc_servers = r (fc_servers (cf_files c)), fc_projects = r (fc_projects (cf_files c))\<rparr>,
        cf_deploy := d\<lparr>dc_work_dir := r (dc_work_dir d), dc_iis_work_dir := r (dc_iis_work_dir d),
          dc_iis_backup_dir := r (dc_iis_backup_dir d), dc_nssm_source := r (dc_nssm_source d),
          dc_known_hosts_file := r (dc_known_hosts_file d)\<rparr>,
        cf_bootstrap := o'\<lparr>oc_install_dir := r (oc_install_dir o'), oc_caddy := y\<lparr>yc_source := r (yc_source y)\<rparr>\<rparr>\<rparr>)"

section \<open>Environment variables\<close>

text \<open>\<open>strconv.ParseBool\<close> and the errors of \<open>strconv\<close>.\<close>

definition num_error :: "string \<Rightarrow> string \<Rightarrow> string \<Rightarrow> string" where
  "num_error func v why = ''strconv.'' @ func @ '': parsing '' @ quote v @ '': '' @ why"

definition parse_bool :: "string \<Rightarrow> bool res" where
  "parse_bool v =
     (if v \<in> {''1'', ''t'', ''T'', ''TRUE'', ''true'', ''True''} then Inr True
      else if v \<in> {''0'', ''f'', ''F'', ''FALSE'', ''false'', ''False''} then Inr False
      else Inl (num_error ''ParseBool'' v ''invalid syntax''))"

definition parse_number :: "string \<Rightarrow> string \<Rightarrow> int res" where
  "parse_number func v =
     (case atoi v of
        Some n \<Rightarrow> Inr n
      | None \<Rightarrow>
          (let ds = (case v of c # r \<Rightarrow> if c = CHR ''-'' \<or> c = CHR ''+'' then r else v | [] \<Rightarrow> [])
           in Inl (num_error func v (if ds \<noteq> [] \<and> list_all is_digit ds then ''value out of range'' else ''invalid syntax''))))"

text \<open>One \<open>if v := os.Getenv(name); v != ""\<close> of \<open>applyEnv\<close>: a text, a switch or a number.\<close>

datatype override =
    Text string "string \<Rightarrow> config \<Rightarrow> config"
  | Switch string "bool \<Rightarrow> config \<Rightarrow> config"
  | Number string string "int \<Rightarrow> config \<Rightarrow> config"

fun variable :: "override \<Rightarrow> string" where
  "variable (Text name f) = name"
| "variable (Switch name f) = name"
| "variable (Number name func f) = name"

fun take_value :: "override \<Rightarrow> string \<Rightarrow> config \<Rightarrow> config res" where
  "take_value (Text name f) v c = Inr (f v c)"
| "take_value (Switch name f) v c = (case parse_bool v of Inl e \<Rightarrow> Inl (name @ '': '' @ e) | Inr b \<Rightarrow> Inr (f b c))"
| "take_value (Number name func f) v c = (case parse_number func v of Inl e \<Rightarrow> Inl (name @ '': '' @ e) | Inr n \<Rightarrow> Inr (f n c))"

fun apply_overrides :: "(string \<Rightarrow> string) \<Rightarrow> override list \<Rightarrow> config \<Rightarrow> config res" where
  "apply_overrides env [] c = Inr c"
| "apply_overrides env (ov # ovs) c =
     (if env (variable ov) = [] then apply_overrides env ovs c
      else (case take_value ov (env (variable ov)) c of Inl e \<Rightarrow> Inl e | Inr c' \<Rightarrow> apply_overrides env ovs c'))"

definition site_overrides :: "override list" where
  "site_overrides =
     [Text ''CC_ADDR'' (\<lambda>v. cf_server_update (vc_addr_update (\<lambda>_. v))),
      Text ''CC_PUBLIC_URL'' (\<lambda>v. cf_server_update (vc_public_url_update (\<lambda>_. trim_right_set ''/'' v))),
      Text ''CC_DB_PATH'' (\<lambda>v. cf_database_update (bc_path_update (\<lambda>_. v))),
      Text ''CC_ADMIN_USER'' (\<lambda>v. cf_auth_update (uc_admin_user_update (\<lambda>_. v))),
      Text ''CC_SETUP_TOKEN'' (\<lambda>v. cf_auth_update (uc_setup_token_update (\<lambda>_. v))),
      Text ''CC_MASTER_KEY'' (\<lambda>v. cf_credentials_update (kc_master_key_update (\<lambda>_. v))),
      Text ''CC_SERVERS_FILE'' (\<lambda>v. cf_files_update (fc_servers_update (\<lambda>_. v))),
      Text ''CC_PROJECTS_FILE'' (\<lambda>v. cf_files_update (fc_projects_update (\<lambda>_. v))),
      Switch ''CC_COOKIE_SECURE'' (\<lambda>b. cf_auth_update (uc_cookie_secure_update (\<lambda>_. b))),
      Switch ''CC_PROXY_ENABLED'' (\<lambda>b. cf_proxy_update (xc_enabled_update (\<lambda>_. b))),
      Text ''CC_PROXY_ADMIN_URL'' (\<lambda>v. cf_proxy_update (xc_admin_url_update (\<lambda>_. v))),
      Text ''CC_PROXY_PUBLIC_IP'' (\<lambda>v. cf_proxy_update (xc_public_ip_update (\<lambda>_. v))),
      Switch ''CC_TUNNEL_ENABLED'' (\<lambda>b. cf_tunnel_update (tc_enabled_update (\<lambda>_. b))),
      Text ''CC_TUNNEL_DOMAIN'' (\<lambda>v. cf_tunnel_update (tc_domain_update (\<lambda>_. v))),
      Text ''CC_TUNNEL_ACCOUNT_ID'' (\<lambda>v. cf_tunnel_update (tc_account_id_update (\<lambda>_. v))),
      Text ''CC_TUNNEL_API_TOKEN_REF'' (\<lambda>v. cf_tunnel_update (tc_api_token_ref_update (\<lambda>_. v)))]"

definition deploy_overrides :: "override list" where
  "deploy_overrides =
     [Text ''CC_DEPLOY_WORKDIR'' (\<lambda>v. cf_deploy_update (dc_work_dir_update (\<lambda>_. v))),
      Text ''CC_DEPLOY_IIS_WORKDIR'' (\<lambda>v. cf_deploy_update (dc_iis_work_dir_update (\<lambda>_. v))),
      Text ''CC_DEPLOY_IIS_BACKUP_DIR'' (\<lambda>v. cf_deploy_update (dc_iis_backup_dir_update (\<lambda>_. v))),
      Text ''CC_DEPLOY_TARGET_ROOT'' (\<lambda>v. cf_deploy_update (dc_target_root_update (\<lambda>_. v))),
      Switch ''CC_ALLOW_EXTERNAL_TARGET_PATHS'' (\<lambda>b. cf_deploy_update (dc_allow_external_update (\<lambda>_. b))),
      Text ''CC_DEPLOY_NSSM_SOURCE'' (\<lambda>v. cf_deploy_update (dc_nssm_source_update (\<lambda>_. v))),
      Text ''CC_DEPLOY_NSSM_SHA256'' (\<lambda>v. cf_deploy_update (dc_nssm_sha256_update (\<lambda>_. v))),
      Text ''CC_DEPLOY_KNOWN_HOSTS'' (\<lambda>v. cf_deploy_update (dc_known_hosts_file_update (\<lambda>_. v))),
      Switch ''CC_ALLOW_INSECURE_SSH'' (\<lambda>b. cf_deploy_update (dc_allow_insecure_host_key_update (\<lambda>_. b))),
      Number ''CC_DEPLOY_RETENTION_DAYS'' ''Atoi'' (\<lambda>n. cf_deploy_update (dc_retention_days_update (\<lambda>_. n))),
      Number ''CC_DEPLOY_TIMEOUT_MINUTES'' ''Atoi'' (\<lambda>n. cf_deploy_update (dc_timeout_minutes_update (\<lambda>_. n)))]"

definition bootstrap_overrides :: "override list" where
  "bootstrap_overrides =
     [Switch ''CC_BOOTSTRAP_ENABLED'' (\<lambda>b. cf_bootstrap_update (oc_enabled_update (\<lambda>_. b))),
      Text ''CC_BOOTSTRAP_INSTALL_DIR'' (\<lambda>v. cf_bootstrap_update (oc_install_dir_update (\<lambda>_. v))),
      Switch ''CC_BOOTSTRAP_ENABLE_WINRM'' (\<lambda>b. cf_bootstrap_update (oc_enable_winrm_update (\<lambda>_. b))),
      Switch ''CC_BOOTSTRAP_CADDY_ENABLED'' (\<lambda>b. cf_bootstrap_update (oc_caddy_update (yc_enabled_update (\<lambda>_. b)))),
      Text ''CC_BOOTSTRAP_CADDY_SOURCE'' (\<lambda>v. cf_bootstrap_update (oc_caddy_update (yc_source_update (\<lambda>_. v)))),
      Text ''CC_BOOTSTRAP_CADDY_URL'' (\<lambda>v. cf_bootstrap_update (oc_caddy_update (yc_url_update (\<lambda>_. v)))),
      Text ''CC_BOOTSTRAP_CADDY_SHA256'' (\<lambda>v. cf_bootstrap_update (oc_caddy_update (yc_sha256_update (\<lambda>_. v))))]"

definition service_overrides :: "override list" where
  "service_overrides =
     [Switch ''CC_MONITOR_ENABLED'' (\<lambda>b. cf_monitoring_update (mc_enabled_update (\<lambda>_. b))),
      Number ''CC_MONITOR_INTERVAL'' ''Atoi'' (\<lambda>n. cf_monitoring_update (mc_interval_update (\<lambda>_. n))),
      Number ''CC_MONITOR_TIMEOUT'' ''Atoi'' (\<lambda>n. cf_monitoring_update (mc_timeout_update (\<lambda>_. n))),
      Number ''CC_MONITOR_RETENTION_HOURS'' ''Atoi'' (\<lambda>n. cf_monitoring_update (mc_retention_update (\<lambda>_. n))),
      Switch ''CC_ASSISTANT_ENABLED'' (\<lambda>b. cf_assistant_update (ic_enabled_update (\<lambda>_. b))),
      Text ''CC_CHROMA_URL'' (\<lambda>v. cf_assistant_update (ic_chroma_url_update (\<lambda>_. v))),
      Text ''CC_ASSISTANT_COLLECTION'' (\<lambda>v. cf_assistant_update (ic_collection_update (\<lambda>_. v))),
      Text ''CC_OLLAMA_URL'' (\<lambda>v. cf_assistant_update (ic_ollama_url_update (\<lambda>_. v))),
      Text ''CC_ASSISTANT_MODEL'' (\<lambda>v. cf_assistant_update (ic_model_update (\<lambda>_. v))),
      Number ''CC_ASSISTANT_TIMEOUT'' ''Atoi'' (\<lambda>n. cf_assistant_update (ic_timeout_update (\<lambda>_. n))),
      Number ''CC_ASSISTANT_TOP_K'' ''Atoi'' (\<lambda>n. cf_assistant_update (ic_top_k_update (\<lambda>_. n))),
      Text ''CC_GITHUB_APP_ID'' (\<lambda>v. cf_github_update (gc_app_id_update (\<lambda>_. v))),
      Number ''CC_GITHUB_INSTALLATION_ID'' ''ParseInt'' (\<lambda>n. cf_github_update (gc_installation_id_update (\<lambda>_. n))),
      Text ''CC_GITHUB_PRIVATE_KEY_REF'' (\<lambda>v. cf_github_update (gc_private_key_ref_update (\<lambda>_. v))),
      Text ''CC_GITHUB_API_URL'' (\<lambda>v. cf_github_update (gc_api_url_update (\<lambda>_. v))),
      Text ''CC_NOTIFY_WEBHOOK_URL'' (\<lambda>v. cf_notify_update (nc_webhook_url_update (\<lambda>_. v))),
      Text ''CC_NOTIFY_SLACK_WEBHOOK_URL'' (\<lambda>v. cf_notify_update (nc_slack_url_update (\<lambda>_. v)))]"

definition apply_env :: "(string \<Rightarrow> string) \<Rightarrow> config \<Rightarrow> config res" where
  "apply_env env = apply_overrides env (site_overrides @ deploy_overrides @ bootstrap_overrides @ service_overrides)"

section \<open>Load\<close>

definition read_settings :: "load_env \<Rightarrow> string \<Rightarrow> config res" where
  "read_settings le path =
     (case le_read le path of
        File_read data \<Rightarrow> (case le_yaml le data default_config of Inl e \<Rightarrow> Inl (''parse '' @ path @ '': '' @ e) | Inr c \<Rightarrow> Inr c)
      | File_missing \<Rightarrow> Inr default_config
      | File_unreadable e \<Rightarrow> Inl (''read '' @ path @ '': '' @ e))"

definition anchor_settings :: "load_env \<Rightarrow> string \<Rightarrow> config \<Rightarrow> config res" where
  "anchor_settings le path c =
     (if \<not> le_regular le path then Inr c
      else (case le_abs le path of
          Inl e \<Rightarrow> Inl (''resolve config path '' @ path @ '': '' @ e)
        | Inr p \<Rightarrow> Inr (resolve_config_paths le (le_dir le p) c)))"

definition load_config :: "load_env \<Rightarrow> string \<Rightarrow> config res" where
  "load_config le path =
     (case read_settings le path of
        Inl e \<Rightarrow> Inl e
      | Inr c0 \<Rightarrow> (case anchor_settings le path c0 of
          Inl e \<Rightarrow> Inl e
        | Inr c1 \<Rightarrow> (case apply_env (le_getenv le) c1 of
            Inl e \<Rightarrow> Inl e
          | Inr c2 \<Rightarrow> (case validate_config (le_urls le) (le_slack_first le) c2 of Some e \<Rightarrow> Inl e | None \<Rightarrow> Inr c2))))"

section \<open>What a start can rely on\<close>

lemma load_config_steps:
  assumes "load_config le path = Inr c"
  obtains c0 c1 where "read_settings le path = Inr c0" and "anchor_settings le path c0 = Inr c1"
    and "apply_env (le_getenv le) c1 = Inr c" and "validate_config (le_urls le) (le_slack_first le) c = None"
  using assms by (auto simp: load_config_def split: sum.splits option.splits)

lemma listener_ok:
  assumes "validate_listener v = None"
  shows "\<exists>host port n. split_host_port (vc_addr v) = Inr (host, port) \<and> atoi port = Some n \<and> 1 \<le> n \<and> n \<le> 65535"
  using assms by (auto simp: validate_listener_def split: sum.splits option.splits)

lemma admin_url_ok:
  assumes "validate_proxy ur x = None" and "xc_admin_url x \<noteq> []"
  shows "\<exists>u. ur_parse ur (xc_admin_url x) = Some u \<and> u_host u \<noteq> []
    \<and> (u_scheme u = ''https'' \<or> u_scheme u = ''http'' \<and> is_loopback_host ur (u_hostname u))"
  using assms by (auto simp: validate_proxy_def checks_None http_url_def split: if_splits option.splits)

lemma no_admin: "valid_caddy_admin ur []"
  by (simp add: valid_caddy_admin_def trim_space_def trim_left_def trim_right_def)

definition loopback_or_https :: "url_rules \<Rightarrow> string \<Rightarrow> bool" where
  "loopback_or_https ur v \<longleftrightarrow> v = [] \<or> (\<exists>u. ur_parse ur v = Some u \<and> u_host u \<noteq> []
     \<and> (u_scheme u = ''https'' \<or> u_scheme u = ''http'' \<and> is_loopback_host ur (u_hostname u)))"

text \<open>
  C20: Settings that load are within bounds: the listener has a port from 1 to 65535, every period is
  positive, the proxy's admin API is only reached over HTTPS or on loopback and Caddy's own admin API
  is only opened there, and a tunnel or a GitHub App is configured completely or not at all.
\<close>
theorem settings_within_bounds:
  assumes "load_config le path = Inr c"
  shows "(\<exists>host port n. split_host_port (vc_addr (cf_server c)) = Inr (host, port) \<and> atoi port = Some n \<and> 1 \<le> n \<and> n \<le> 65535)
    \<and> list_all (\<lambda>n. 1 \<le> n) ([uc_session_ttl_hours (cf_auth c), dc_health_timeout (cf_deploy c), dc_health_interval (cf_deploy c),
          dc_retention_days (cf_deploy c), dc_timeout_minutes (cf_deploy c)]
        @ (if mc_enabled (cf_monitoring c) then [mc_interval (cf_monitoring c), mc_timeout (cf_monitoring c),
             mc_retention (cf_monitoring c), mc_history_points (cf_monitoring c)] else []))
    \<and> loopback_or_https (le_urls le) (xc_admin_url (cf_proxy c))
    \<and> valid_caddy_admin (le_urls le) (yc_admin (oc_caddy (cf_bootstrap c)))
    \<and> (github_enabled (cf_github c)
        \<or> gc_app_id (cf_github c) = [] \<and> gc_installation_id (cf_github c) = 0 \<and> gc_private_key_ref (cf_github c) = [])
    \<and> (tc_enabled (cf_tunnel c) = False
        \<or> list_all (\<lambda>v. trim_space v \<noteq> []) [tc_domain (cf_tunnel c), tc_account_id (cf_tunnel c), tc_api_token_ref (cf_tunnel c)])"
proof -
  have "validate_config (le_urls le) (le_slack_first le) c = None"
    by (rule load_config_steps[OF assms])
  then have parts: "validate_listener (cf_server c) = None" "\<not> uc_session_ttl_hours (cf_auth c) < 1"
    "validate_deploy (cf_deploy c) = None" "validate_monitoring (cf_monitoring c) = None"
    "validate_proxy (le_urls le) (cf_proxy c) = None" "validate_caddy_boot (le_urls le) (oc_caddy (cf_bootstrap c)) = None"
    "validate_github (le_urls le) (cf_github c) = None" "validate_tunnel (le_urls le) (cf_tunnel c) = None"
    by (simp_all add: validate_config_def checks_None)
  have "loopback_or_https (le_urls le) (xc_admin_url (cf_proxy c))"
    using admin_url_ok[OF parts(5)] by (auto simp: loopback_or_https_def)
  moreover have "valid_caddy_admin (le_urls le) (yc_admin (oc_caddy (cf_bootstrap c)))"
    using parts(6) no_admin by (cases "yc_admin (oc_caddy (cf_bootstrap c)) = []") (simp_all add: validate_caddy_boot_def checks_None validate_caddy_admin_def)
  moreover have "list_all (\<lambda>n. 1 \<le> n) [uc_session_ttl_hours (cf_auth c), dc_health_timeout (cf_deploy c),
      dc_health_interval (cf_deploy c), dc_retention_days (cf_deploy c), dc_timeout_minutes (cf_deploy c)]"
    using parts(2,3) by (simp add: validate_deploy_def checks_None)
  ultimately show ?thesis
    using parts(4,7,8) listener_ok[OF parts(1)]
    by (auto simp: validate_monitoring_def validate_github_def validate_tunnel_def checks_None split: if_splits)
qed

text \<open>The defaults, read by a parser that knows the three default URLs.\<close>

definition sample_urls :: url_rules where
  "sample_urls = \<lparr>ur_parse = (\<lambda>v. map_option (\<lambda>(sc, h). \<lparr>u_scheme = sc, u_host = h @ ''/'', u_hostname = h, u_user = None\<rparr>)
       (map_of [(''http://127.0.0.1:2019'', ''http'', ''127.0.0.1''), (yc_url (oc_caddy default_bootstrap), ''https'', ''github.com'')] v)),
     ur_loopback_ip = (\<lambda>h. h = ''127.0.0.1'')\<rparr>"

definition sample_load :: load_env where
  "sample_load = \<lparr>le_read = (\<lambda>_. File_missing), le_yaml = (\<lambda>_ c. Inr c), le_regular = (\<lambda>_. False), le_abs = Inr, le_dir = (\<lambda>_. ''/''),
     le_is_abs = prefix ''/'', le_join = join ''/'', le_getenv = (\<lambda>n. if n = ''CC_DEPLOY_RETENTION_DAYS'' then ''7'' else []),
     le_urls = sample_urls, le_slack_first = False\<rparr>"

lemma sample_load_ok: "load_config sample_load ''config.yaml'' = Inr (default_config\<lparr>cf_deploy := default_deploy\<lparr>dc_retention_days := 7\<rparr>\<rparr>)"
  by code_simp

theorem settings_within_bounds_witness:
  "1 \<le> dc_retention_days (default_deploy\<lparr>dc_retention_days := 7\<rparr>) \<and> dc_timeout_minutes default_deploy \<ge> 1"
  using settings_within_bounds[OF sample_load_ok] by simp

end
