(* ===== verification/Caddy.thy ===== *)
theory Caddy
  imports Json Deployer "HOL-Library.Code_Target_Nat"
begin

text \<open>
  The reverse proxy behind the deployer (\<open>internal/proxy/caddy.go\<close>): routes are kept in Caddy through its
  admin API, one per host under an identifier made from the host. The admin API is a parameter: a
  function from its state and a request to an answer and the next state. Calls are serialised by a
  mutex, so one runs at a time.
\<close>

section \<open>The client\<close>

datatype admin_body = No_body | Json_body json | Raw_body string

type_synonym 'c admin = "'c \<Rightarrow> string \<Rightarrow> string \<Rightarrow> admin_body \<Rightarrow> (string + int \<times> string) \<times> 'c"

record 'c caddy =
  ca_admin_url :: string
  ca_server :: string
  ca_acme_skip :: "string list"
  ca_admin :: "'c admin"
  ca_sha256 :: "string \<Rightarrow> string"

definition new_caddy :: "string \<Rightarrow> string \<Rightarrow> string list \<Rightarrow> 'c admin \<Rightarrow> (string \<Rightarrow> string) \<Rightarrow> 'c caddy" where
  "new_caddy url server skip admin sha = \<lparr>ca_admin_url = trim_right_set ''/'' url, ca_server = (if server = [] then ''srv0'' else server),
     ca_acme_skip = skip, ca_admin = admin, ca_sha256 = sha\<rparr>"

definition sslip_io_skip :: string where "sslip_io_skip = ''*.sslip.io''"

definition skip_patterns :: "'c caddy \<Rightarrow> string list" where
  "skip_patterns c = (if ca_acme_skip c = [] then [sslip_io_skip] else ca_acme_skip c)"

text \<open>\<open>request\<close>: a raw body that is no JSON does not leave the client.\<close>

definition admin_request :: "'c caddy \<Rightarrow> string \<Rightarrow> string \<Rightarrow> admin_body \<Rightarrow> ('c, string + int \<times> string) state" where
  "admin_request c method path body = State (\<lambda>st.
     case body of
       Raw_body raw \<Rightarrow> if json_parse raw = None then (Inl ''marshal caddy body: invalid JSON'', st) else ca_admin c st method path body
     | _ \<Rightarrow> ca_admin c st method path body)"

definition admin_do :: "'c caddy \<Rightarrow> string \<Rightarrow> string \<Rightarrow> admin_body \<Rightarrow> int list \<Rightarrow> ('c, string option) state" where
  "admin_do c method path body want = do {
     r \<leftarrow> admin_request c method path body;
     State_Monad.return (case r of
         Inl e \<Rightarrow> Some e
       | Inr (status, msg) \<Rightarrow>
           if status \<in> set want then None
           else Some (method @ '' '' @ path @ '': status '' @ itoa status @ '': '' @ trim_space (take 2048 msg))) }"

definition reachable :: "'c caddy \<Rightarrow> ('c, string option) state" where
  "reachable c = do {
     r \<leftarrow> admin_request c ''GET'' ''/config/'' No_body;
     State_Monad.return (case r of
         Inl e \<Rightarrow> Some e
       | Inr (status, _) \<Rightarrow> if status = 200 then None else Some (''caddy admin '' @ ca_admin_url c @ '': status '' @ itoa status)) }"

definition route_id :: "'c caddy \<Rightarrow> string \<Rightarrow> string" where
  "route_id c host = ''cc-route-'' @ take 24 (hex_encode (ca_sha256 c (to_lower (trim_suffix ''.'' (trim_space host)))))"

definition server_path :: "'c caddy \<Rightarrow> string" where "server_path c = ''/config/apps/http/servers/'' @ ca_server c"
definition routes_path :: "'c caddy \<Rightarrow> string" where "routes_path c = server_path c @ ''/routes''"
definition id_path :: "string \<Rightarrow> string" where "id_path i = ''/id/'' @ i"

definition skip_body :: "'c caddy \<Rightarrow> json" where
  "skip_body c = JObj [(''skip'', JArr (map JStr (skip_patterns c)))]"

definition server_body :: "'c caddy \<Rightarrow> json" where
  "server_body c = JObj [(''automatic_https'', skip_body c), (''listen'', JArr [JStr '':80'', JStr '':443'']), (''routes'', JArr [])]"

definition route_body :: "string \<Rightarrow> string \<Rightarrow> string \<Rightarrow> json" where
  "route_body i host upstream = JObj
     [(''@id'', JStr i),
      (''handle'', JArr [JObj [(''handler'', JStr ''reverse_proxy''), (''upstreams'', JArr [JObj [(''dial'', JStr upstream)]])]]),
      (''match'', JArr [JObj [(''host'', JArr [JStr host])]]),
      (''terminal'', JBool True)]"

definition ensure_auto_https_skip :: "'c caddy \<Rightarrow> ('c, string option) state" where
  "ensure_auto_https_skip c = (let path = server_path c @ ''/automatic_https'' in do {
     patched \<leftarrow> admin_do c ''PATCH'' path (Json_body (skip_body c)) [200];
     case patched of
       None \<Rightarrow> State_Monad.return None
     | Some _ \<Rightarrow> do {
         put \<leftarrow> admin_do c ''PUT'' path (Json_body (skip_body c)) [200];
         State_Monad.return (map_option (\<lambda>e. ''caddy set automatic_https skip: '' @ e) put) } })"

definition ensure_server :: "'c caddy \<Rightarrow> ('c, string option) state" where
  "ensure_server c = do {
     r \<leftarrow> admin_request c ''GET'' (server_path c) No_body;
     case r of
       Inl e \<Rightarrow> State_Monad.return (Some e)
     | Inr (status, _) \<Rightarrow>
         if status = 200 then ensure_auto_https_skip c
         else if status = 404 \<or> status = 400 then do {
           created \<leftarrow> admin_do c ''PUT'' (server_path c) (Json_body (server_body c)) [200];
           case created of
             Some e \<Rightarrow> State_Monad.return (Some (''caddy create server: '' @ e))
           | None \<Rightarrow> ensure_auto_https_skip c }
         else State_Monad.return (Some (''caddy get server '' @ quote (ca_server c) @ '': unexpected status '' @ itoa status)) }"

definition route_snapshot :: "'c caddy \<Rightarrow> string \<Rightarrow> ('c, string + string option) state" where
  "route_snapshot c i = do {
     r \<leftarrow> admin_request c ''GET'' (id_path i) No_body;
     State_Monad.return (case r of
         Inl e \<Rightarrow> Inl e
       | Inr (status, body) \<Rightarrow>
           if status = 404 then Inr None
           else if status \<noteq> 200 then Inl (''status '' @ itoa status)
           else Inr (Some (take 1048576 body))) }"

definition restore_failed :: string where "restore_failed = '' (also failed to restore previous route: ''"

text \<open>The old route is taken out, the new one put in, and the old one put back when that fails.\<close>

definition replace_route :: "'c caddy \<Rightarrow> string \<Rightarrow> string \<Rightarrow> string option \<Rightarrow> ('c, string option) state" where
  "replace_route c host upstream old = (let i = route_id c host in do {
     gone \<leftarrow> admin_do c ''DELETE'' (id_path i) No_body [200, 404];
     case gone of
       Some e \<Rightarrow> State_Monad.return (Some (''caddy remove old route '' @ host @ '': '' @ e))
     | None \<Rightarrow> do {
         added \<leftarrow> admin_do c ''POST'' (routes_path c) (Json_body (route_body i host upstream)) [200];
         case added of
           None \<Rightarrow> State_Monad.return None
         | Some e \<Rightarrow> (let failed = ''caddy register '' @ host @ '': '' @ e in
             case old of
               None \<Rightarrow> State_Monad.return (Some failed)
             | Some raw \<Rightarrow> do {
                 restored \<leftarrow> admin_do c ''POST'' (routes_path c) (Raw_body raw) [200];
                 State_Monad.return (Some (case restored of
                     None \<Rightarrow> failed
                   | Some e2 \<Rightarrow> failed @ restore_failed @ e2 @ '')'')) }) } })"

definition caddy_register :: "'c caddy \<Rightarrow> string \<Rightarrow> string \<Rightarrow> ('c, string option) state" where
  "caddy_register c host upstream =
     (if host = [] then State_Monad.return (Some ''caddy: empty host'')
      else if contains_any host ([CHR 0x0D] @ nl @ ''/'') then State_Monad.return (Some ''caddy: invalid host'')
      else if trim_space upstream = [] then State_Monad.return (Some ''caddy: empty upstream'')
      else do {
        ready \<leftarrow> ensure_server c;
        case ready of
          Some e \<Rightarrow> State_Monad.return (Some e)
        | None \<Rightarrow> do {
            old \<leftarrow> route_snapshot c (route_id c host);
            case old of
              Inl e \<Rightarrow> State_Monad.return (Some (''caddy read old route '' @ host @ '': '' @ e))
            | Inr o' \<Rightarrow> replace_route c host upstream o' } })"

definition caddy_deregister :: "'c caddy \<Rightarrow> string \<Rightarrow> ('c, string option) state" where
  "caddy_deregister c host =
     (if host = [] then State_Monad.return None
      else admin_do c ''DELETE'' (id_path (route_id c host)) No_body [200, 404])"

fun caddy_call :: "'c caddy \<Rightarrow> proxy_call \<Rightarrow> ('c, string option) state" where
  "caddy_call c (Register host upstream) = caddy_register c host upstream"
| "caddy_call c (Deregister host) = caddy_deregister c host"

fun caddy_calls :: "'c caddy \<Rightarrow> proxy_call list \<Rightarrow> ('c, string option list) state" where
  "caddy_calls c [] = State_Monad.return []"
| "caddy_calls c (x # xs) = do { e \<leftarrow> caddy_call c x; es \<leftarrow> caddy_calls c xs; State_Monad.return (e # es) }"

section \<open>What Caddy promises\<close>

text \<open>
  \<open>rts\<close> reads the routes by identifier from a state of Caddy, \<open>up\<close> whether the server exists. A request
  that gets no answer, or an answer other than those named, has not changed the routes.
\<close>

definition body_json :: "admin_body \<Rightarrow> json option" where
  "body_json b = (case b of No_body \<Rightarrow> None | Json_body v \<Rightarrow> Some v | Raw_body raw \<Rightarrow> json_parse raw)"

definition json_id :: "json \<Rightarrow> string option" where
  "json_id v = (case v of JObj ms \<Rightarrow> (case map_of ms ''@id'' of Some (JStr i) \<Rightarrow> Some i | _ \<Rightarrow> None) | _ \<Rightarrow> None)"

definition answered :: "string + int \<times> string \<Rightarrow> int \<Rightarrow> bool" where
  "answered r n \<longleftrightarrow> (case r of Inr (k, _) \<Rightarrow> k = n | Inl _ \<Rightarrow> False)"

definition server_laws :: "'c caddy \<Rightarrow> ('c \<Rightarrow> bool) \<Rightarrow> ('c \<Rightarrow> string \<Rightarrow> json option) \<Rightarrow> bool" where
  "server_laws c up rts \<longleftrightarrow> (\<forall>st r st'.
     (ca_admin c st ''GET'' (server_path c) No_body = (r, st') \<longrightarrow>
        rts st' = rts st \<and> up st' = up st \<and> (answered r 404 \<or> answered r 400 \<longrightarrow> \<not> up st))
     \<and> (\<forall>b. ca_admin c st ''PUT'' (server_path c) b = (r, st') \<longrightarrow> \<not> up st \<longrightarrow> rts st' = rts st)
     \<and> (\<forall>b. \<forall>m\<in>{''PATCH'', ''PUT''}. ca_admin c st m (server_path c @ ''/automatic_https'') b = (r, st') \<longrightarrow> rts st' = rts st))"

definition route_laws :: "'c caddy \<Rightarrow> ('c \<Rightarrow> string \<Rightarrow> json option) \<Rightarrow> bool" where
  "route_laws c rts \<longleftrightarrow> (\<forall>st r st' i.
     (ca_admin c st ''DELETE'' (id_path i) No_body = (r, st') \<longrightarrow>
        rts st' = (if answered r 200 then (rts st)(i := None) else rts st) \<and> (answered r 404 \<longrightarrow> rts st i = None))
     \<and> (ca_admin c st ''GET'' (id_path i) No_body = (r, st') \<longrightarrow>
        rts st' = rts st \<and> (answered r 404 \<longrightarrow> rts st i = None)
        \<and> (\<forall>text. r = Inr (200, text) \<longrightarrow> length text \<le> 1048576 \<and> json_parse text = rts st i
             \<and> (\<exists>v. rts st i = Some v \<and> json_id v = Some i)))
     \<and> (\<forall>b v. ca_admin c st ''POST'' (routes_path c) b = (r, st') \<longrightarrow> body_json b = Some v \<longrightarrow> json_id v = Some i \<longrightarrow>
        rts st' = (if answered r 200 then (rts st)(i \<mapsto> v) else rts st)))"

section \<open>A map from hosts to upstreams\<close>

fun spec_call :: "'c caddy \<Rightarrow> proxy_call \<Rightarrow> (string \<Rightarrow> json option) \<Rightarrow> string \<Rightarrow> json option" where
  "spec_call c (Register host upstream) m = m(route_id c host \<mapsto> route_body (route_id c host) host upstream)"
| "spec_call c (Deregister host) m = (if host = [] then m else m(route_id c host := None))"

lemma run_admin_do:
  "run_state (admin_do c method path b want) st = (e, st') \<Longrightarrow> b = No_body \<or> (\<exists>v. b = Json_body v) \<Longrightarrow>
     \<exists>r. ca_admin c st method path b = (r, st') \<and> (e = None \<longleftrightarrow> (\<exists>n\<in>set want. answered r n))"
  by (cases "ca_admin c st method path b")
    (auto simp: admin_do_def admin_request_def run_bind answered_def split: sum.splits prod.splits if_splits)

lemma run_admin_raw:
  assumes "run_state (admin_do c method path (Raw_body raw) want) st = (e, st')"
  shows "e \<noteq> None \<and> st' = st \<or>
    json_parse raw \<noteq> None \<and> (\<exists>r. ca_admin c st method path (Raw_body raw) = (r, st') \<and> (e = None \<longleftrightarrow> (\<exists>n\<in>set want. answered r n)))"
  using assms by (cases "ca_admin c st method path (Raw_body raw)")
    (auto simp: admin_do_def admin_request_def run_bind answered_def split: sum.splits prod.splits if_splits)

lemma skip_keeps_routes:
  assumes "server_laws c up rts" and "run_state (ensure_auto_https_skip c) st = (e, st')"
  shows "rts st' = rts st"
proof -
  let ?path = "server_path c @ ''/automatic_https''" and ?b = "Json_body (skip_body c)"
  have law: "rts st' = rts st" if "ca_admin c st m ?path ?b = (r, st')" "m \<in> {''PATCH'', ''PUT''}" for st r st' m
    using assms(1) that unfolding server_laws_def by blast
  obtain e1 s1 where p: "run_state (admin_do c ''PATCH'' ?path ?b [200]) st = (e1, s1)" by fastforce
  obtain e2 s2 where q: "run_state (admin_do c ''PUT'' ?path ?b [200]) s1 = (e2, s2)" by fastforce
  have "rts s1 = rts st" "rts s2 = rts s1" using run_admin_do[OF p] run_admin_do[OF q] law by blast+
  moreover have "st' = s1 \<or> st' = s2"
    using assms(2) by (auto simp: ensure_auto_https_skip_def run_bind p q Let_def split: option.splits)
  ultimately show ?thesis by auto
qed

lemma server_keeps_routes:
  assumes "server_laws c up rts" and "run_state (ensure_server c) st = (e, st')"
  shows "rts st' = rts st"
proof -
  obtain r s1 where g: "ca_admin c st ''GET'' (server_path c) No_body = (r, s1)" by fastforce
  have s1: "rts s1 = rts st" "answered r 404 \<or> answered r 400 \<Longrightarrow> \<not> up s1"
    using assms(1) g unfolding server_laws_def by blast+
  obtain e2 s2 where p: "run_state (admin_do c ''PUT'' (server_path c) (Json_body (server_body c)) [200]) s1 = (e2, s2)" by fastforce
  obtain r2 where r2: "ca_admin c s1 ''PUT'' (server_path c) (Json_body (server_body c)) = (r2, s2)"
    using run_admin_do[OF p] by blast
  have s2: "rts s2 = rts s1" if "\<not> up s1" using assms(1) r2 that unfolding server_laws_def by blast
  have "st' = s1 \<or> run_state (ensure_auto_https_skip c) s1 = (e, st')
      \<or> (answered r 404 \<or> answered r 400) \<and> (st' = s2 \<or> run_state (ensure_auto_https_skip c) s2 = (e, st'))"
    using assms(2) by (auto simp: ensure_server_def admin_request_def run_bind g p answered_def split: sum.splits prod.splits option.splits if_splits)
  then show ?thesis using s1 s2 skip_keeps_routes[OF assms(1)] by metis
qed

lemma snapshot_reads:
  assumes "route_laws c rts" and "run_state (route_snapshot c i) st = (x, st')"
  shows "rts st' = rts st" and "x = Inr None \<Longrightarrow> rts st i = None"
    and "x = Inr (Some raw) \<Longrightarrow> json_parse raw = rts st i \<and> (\<exists>v. rts st i = Some v \<and> json_id v = Some i)"
proof -
  obtain r s1 where g: "ca_admin c st ''GET'' (id_path i) No_body = (r, s1)" by fastforce
  have law: "rts s1 = rts st" "answered r 404 \<Longrightarrow> rts st i = None"
    "\<And>text. r = Inr (200, text) \<Longrightarrow> length text \<le> 1048576 \<and> json_parse text = rts st i \<and> (\<exists>v. rts st i = Some v \<and> json_id v = Some i)"
    using assms(1) g unfolding route_laws_def by blast+
  have run: "run_state (route_snapshot c i) st = (case r of Inl e \<Rightarrow> Inl e | Inr (status, body) \<Rightarrow>
      if status = 404 then Inr None else if status \<noteq> 200 then Inl (''status '' @ itoa status) else Inr (Some (take 1048576 body)), s1)"
    by (simp add: route_snapshot_def admin_request_def run_bind g)
  then have st': "st' = s1" and x: "x = (case r of Inl e \<Rightarrow> Inl e | Inr (status, body) \<Rightarrow>
      if status = 404 then Inr None else if status \<noteq> 200 then Inl (''status '' @ itoa status) else Inr (Some (take 1048576 body)))"
    using assms(2) by simp_all
  show "rts st' = rts st" using st' law(1) by simp
  show "rts st i = None" if "x = Inr None" using that x law(2) by (auto simp: answered_def split: sum.splits prod.splits if_splits)
  show "json_parse raw = rts st i \<and> (\<exists>v. rts st i = Some v \<and> json_id v = Some i)" if h: "x = Inr (Some raw)"
  proof -
    obtain full where t: "r = Inr (200, full)" "raw = take 1048576 full"
      using h x by (auto split: sum.splits prod.splits if_splits)
    then have "raw = full" using law(3)[OF t(1)] by simp
    then show ?thesis using law(3)[OF t(1)] by blast
  qed
qed

lemma delete_route:
  assumes "route_laws c rts" and "run_state (admin_do c ''DELETE'' (id_path i) No_body [200, 404]) st = (e, st')"
  shows "rts st' = (if e = None then (rts st)(i := None) else rts st)"
proof -
  obtain r where r: "ca_admin c st ''DELETE'' (id_path i) No_body = (r, st')" "e = None \<longleftrightarrow> (\<exists>n\<in>set [200, 404]. answered r n)"
    using run_admin_do[OF assms(2)] by blast
  have law: "rts st' = (if answered r 200 then (rts st)(i := None) else rts st)" "answered r 404 \<Longrightarrow> rts st i = None"
    using assms(1) r(1) unfolding route_laws_def by blast+
  have "(rts st)(i := None) = rts st" if "answered r 404" using law(2)[OF that] by (auto simp: fun_eq_iff)
  then show ?thesis using r(2) law(1) by auto
qed

lemma post_route:
  assumes "route_laws c rts" and "run_state (admin_do c ''POST'' (routes_path c) b [200]) st = (e, st')"
    and "body_json b = Some v" and "json_id v = Some i"
  shows "rts st' = (if e = None then (rts st)(i \<mapsto> v) else rts st)"
proof -
  have law: "rts st' = (if answered r 200 then (rts st)(i \<mapsto> v) else rts st)" if "ca_admin c st ''POST'' (routes_path c) b = (r, st')" for r
    using assms(1,3,4) that unfolding route_laws_def by blast
  show ?thesis
  proof (cases b)
    case (Raw_body raw)
    then show ?thesis using run_admin_raw[of c _ _ raw] assms(2) law by fastforce
  next
    case (Json_body x)
    then show ?thesis using run_admin_do[OF assms(2)] law by fastforce
  qed (use assms(3) in \<open>simp add: body_json_def\<close>)
qed

lemma route_body_id: "json_id (route_body i host upstream) = Some i"
  by (simp add: json_id_def route_body_def)

lemma replace_outcome:
  assumes "route_laws c rts" and "run_state (replace_route c host upstream old) st = (e, st')"
    and "old = None \<Longrightarrow> rts st (route_id c host) = None"
    and "\<And>raw. old = Some raw \<Longrightarrow> json_parse raw = rts st (route_id c host) \<and> (\<exists>v. rts st (route_id c host) = Some v \<and> json_id v = Some (route_id c host))"
  shows "e = None \<Longrightarrow> rts st' = (rts st)(route_id c host \<mapsto> route_body (route_id c host) host upstream)"
    and "e = Some m \<Longrightarrow> rts st' = rts st
      \<or> rts st' = (rts st)(route_id c host := None) \<and> sublist restore_failed m"
proof -
  let ?i = "route_id c host" and ?v = "route_body (route_id c host) host upstream"
  obtain e1 s1 where d: "run_state (admin_do c ''DELETE'' (id_path ?i) No_body [200, 404]) st = (e1, s1)" by fastforce
  obtain e2 s2 where p: "run_state (admin_do c ''POST'' (routes_path c) (Json_body ?v) [200]) s1 = (e2, s2)" by fastforce
  have s1: "rts s1 = (if e1 = None then (rts st)(?i := None) else rts st)" by (rule delete_route[OF assms(1) d])
  have s2: "rts s2 = (if e2 = None then (rts s1)(?i \<mapsto> ?v) else rts s1)"
    by (rule post_route[OF assms(1) p]) (simp_all add: body_json_def route_body_id)
  show "rts st' = (rts st)(?i \<mapsto> ?v)" if "e = None"
  proof -
    have "e1 = None" "e2 = None" "st' = s2"
      using assms(2) that by (auto simp: replace_route_def run_bind d p Let_def split: option.splits prod.splits)
    then show ?thesis using s1 s2 by simp
  qed
  show "rts st' = rts st \<or> rts st' = (rts st)(?i := None) \<and> sublist restore_failed m" if "e = Some m"
  proof (cases "e1 \<noteq> None \<or> old = None")
    case True
    have "(rts st)(?i := None) = rts st" if "old = None" using assms(3)[OF that] by (auto simp: fun_eq_iff)
    moreover have "(e1 \<noteq> None \<and> st' = s1) \<or> (e1 = None \<and> e2 \<noteq> None \<and> st' = s2)"
      using assms(2) \<open>e = Some m\<close> True by (auto simp: replace_route_def run_bind d p Let_def split: option.splits)
    ultimately show ?thesis using True s1 s2 by auto
  next
    case False
    then obtain raw where raw: "old = Some raw" by blast
    obtain v where v: "rts st ?i = Some v" "json_id v = Some ?i" "json_parse raw = Some v" using assms(4)[OF raw] by auto
    obtain e3 s3 where q: "run_state (admin_do c ''POST'' (routes_path c) (Raw_body raw) [200]) s2 = (e3, s3)" by fastforce
    have s3: "rts s3 = (if e3 = None then (rts s2)(?i \<mapsto> v) else rts s2)"
      by (rule post_route[OF assms(1) q _ v(2)]) (simp add: body_json_def v)
    obtain x2 where "e2 = Some x2" "st' = s3"
      and mm: "\<And>x. e3 = Some x \<Longrightarrow> m = (''caddy register '' @ host @ '': '' @ x2) @ restore_failed @ (x @ '')'')"
      using assms(2) \<open>e = Some m\<close> False raw
      by (auto simp: replace_route_def run_bind d p q Let_def split: option.splits)
    moreover have "sublist restore_failed m" if "e3 = Some x" for x using mm[OF that] sublist_appendI by metis
    moreover have "(rts st)(?i := None, ?i \<mapsto> v) = rts st" using v(1) by (auto simp: fun_eq_iff)
    ultimately show ?thesis using False s1 s2 s3 by (cases e3) auto
  qed
qed

lemma call_outcome:
  assumes "server_laws c up rts" and "route_laws c rts" and "run_state (caddy_call c call) st = (e, st')"
  shows "e = None \<Longrightarrow> rts st' = spec_call c call (rts st)"
    and "e = Some m \<Longrightarrow> rts st' = rts st \<or> (\<exists>host upstream. call = Register host upstream
      \<and> rts st' = (rts st)(route_id c host := None) \<and> sublist restore_failed m)"
proof -
  have "(e = None \<longrightarrow> rts st' = spec_call c call (rts st)) \<and> (\<forall>m. e = Some m \<longrightarrow> rts st' = rts st
      \<or> (\<exists>host upstream. call = Register host upstream \<and> rts st' = (rts st)(route_id c host := None) \<and> sublist restore_failed m))"
  proof (cases call)
    case (Deregister host)
    show ?thesis
    proof (cases "host = []")
      case False
      then have "run_state (admin_do c ''DELETE'' (id_path (route_id c host)) No_body [200, 404]) st = (e, st')"
        using assms(3) Deregister by (simp add: caddy_deregister_def)
      from delete_route[OF assms(2) this] show ?thesis using Deregister False by auto
    qed (use assms(3) Deregister in \<open>auto simp: caddy_deregister_def\<close>)
  next
    case (Register host upstream)
    let ?i = "route_id c host"
    obtain e1 s1 where r: "run_state (ensure_server c) st = (e1, s1)" by fastforce
    have s1: "rts s1 = rts st" by (rule server_keeps_routes[OF assms(1) r])
    obtain x s2 where s: "run_state (route_snapshot c ?i) s1 = (x, s2)" by fastforce
    note snap = snapshot_reads[OF assms(2) s]
    consider (early) "e \<noteq> None" "st' \<in> {st, s1, s2}" | (replace) old where "x = Inr old" "run_state (replace_route c host upstream old) s2 = (e, st')"
      using assms(3) Register by (auto simp: caddy_register_def run_bind r s split: option.splits sum.splits if_splits)
    then show ?thesis
    proof cases
      case early
      then show ?thesis using s1 snap(1) by auto
    next
      case replace
      have o: "old = None \<Longrightarrow> rts s2 ?i = None"
        "\<And>raw. old = Some raw \<Longrightarrow> json_parse raw = rts s2 ?i \<and> (\<exists>v. rts s2 ?i = Some v \<and> json_id v = Some ?i)"
        using snap replace(1) by auto
      show ?thesis using replace_outcome[OF assms(2) replace(2) o] s1 snap(1) Register by auto
    qed
  qed
  then show "e = None \<Longrightarrow> rts st' = spec_call c call (rts st)"
    and "e = Some m \<Longrightarrow> rts st' = rts st \<or> (\<exists>host upstream. call = Register host upstream
      \<and> rts st' = (rts st)(route_id c host := None) \<and> sublist restore_failed m)" by blast+
qed

lemma calls_refine:
  assumes "server_laws c up rts" and "route_laws c rts" and "run_state (caddy_calls c calls) st = (es, st')" and "list_all (\<lambda>e. e = None) es"
  shows "rts st' = fold (spec_call c) calls (rts st)"
  using assms(3,4)
proof (induction calls arbitrary: st es)
  case (Cons x xs)
  obtain e s1 where c: "run_state (caddy_call c x) st = (e, s1)" by fastforce
  obtain es1 s2 where cs: "run_state (caddy_calls c xs) s1 = (es1, s2)" by fastforce
  have e: "es = e # es1" "s2 = st'" using Cons.prems(1) by (simp_all add: run_bind c cs)
  have "rts s1 = spec_call c x (rts st)" using call_outcome(1)[OF assms(1,2) c] Cons.prems(2) e by simp
  moreover have "rts st' = fold (spec_call c) xs (rts s1)" using Cons.IH[OF cs[unfolded e(2)]] Cons.prems(2) e by simp
  ultimately show ?case using e by simp
qed simp


section \<open>A server that keeps the promises\<close>

definition sample_admin :: "(bool \<times> (string \<times> json) list) admin" where
  "sample_admin st m p b =
     (let (up, rs) = st; i = drop 4 p in
      if p = ''/config/apps/http/servers/srv0'' then
        (if m = ''GET'' then (Inr (if up then 200 else 404, []), st)
         else if m = ''PUT'' \<and> \<not> up then (Inr (200, []), (True, [])) else (Inr (400, []), st))
      else if p = ''/config/apps/http/servers/srv0/routes'' then
        (case (if up \<and> m = ''POST'' then body_json b else None) of
           None \<Rightarrow> (Inr (400, []), st)
         | Some v \<Rightarrow> (case json_id v of None \<Rightarrow> (Inr (400, []), st) | Some i \<Rightarrow> (Inr (200, []), (True, AList.update i v rs))))
      else if prefix ''/id/'' p then
        (case (if up then map_of rs i else None) of
           None \<Rightarrow> (Inr (404, []), st)
         | Some v \<Rightarrow>
             if m = ''DELETE'' then (Inr (200, []), (True, AList.delete i rs))
             else if json_parse (print_json v) = Some v \<and> length (print_json v) \<le> 1048576 \<and> json_id v = Some i
             then (Inr (200, print_json v), st) else (Inr (500, []), st))
      else (Inr (200, []), st))"

definition sample_routes :: "bool \<times> (string \<times> json) list \<Rightarrow> string \<Rightarrow> json option" where
  "sample_routes st i = (if fst st then map_of (snd st) i else None)"

definition sample_caddy :: "(bool \<times> (string \<times> json) list) caddy" where
  "sample_caddy = new_caddy ''http://localhost:2019'' [] [] sample_admin id"

lemma sample_paths: "server_path sample_caddy = ''/config/apps/http/servers/srv0''"
  "routes_path sample_caddy = ''/config/apps/http/servers/srv0/routes''" "ca_admin sample_caddy = sample_admin"
  by (simp_all add: sample_caddy_def new_caddy_def server_path_def routes_path_def)

lemma sample_server_laws: "server_laws sample_caddy fst sample_routes"
  unfolding server_laws_def sample_paths
  by (auto simp: sample_admin_def sample_routes_def answered_def fun_eq_iff split: if_splits)

lemma sample_route_laws: "route_laws sample_caddy sample_routes"
  unfolding route_laws_def sample_paths
  by (auto simp: sample_admin_def sample_routes_def answered_def id_path_def delete_conv' update_conv' fun_eq_iff
      split: if_splits option.splits)


end
