(* ===== verification/Startup.thy ===== *)
theory Startup
  imports Inventory Credentials Settings Caddy Setup
begin

text \<open>
  Starting the application (\<open>cmd/control-center/main.go\<close>): what \<open>serve\<close> does to the database before it
  listens, what it hands to the other components, and the commands for credentials. \<open>log.Fatalf\<close> ends
  the process: \<open>Inl\<close> with its text. Lines that are only logged are left out. The YAML files, the
  clock, random numbers, password hashing and the platform's paths are parameters.
\<close>

section \<open>Programs that may end the process\<close>

type_synonym 'a start = "(store, 'a res) state"

definition or_fatal :: "string \<Rightarrow> 'a dbm \<Rightarrow> ('a \<Rightarrow> 'b start) \<Rightarrow> 'b start" where
  "or_fatal what m k = do {
     r \<leftarrow> m;
     case r of Inl e \<Rightarrow> State_Monad.return (Inl (what @ '': '' @ error_text e)) | Inr x \<Rightarrow> k x }"

definition fatal :: "string \<Rightarrow> 'a start" where "fatal e = State_Monad.return (Inl e)"
definition go_on :: "'a \<Rightarrow> 'a start" where "go_on x = State_Monad.return (Inr x)"

definition and_then :: "'a start \<Rightarrow> ('a \<Rightarrow> 'b start) \<Rightarrow> 'b start" where
  "and_then m k = do { r \<leftarrow> m; case r of Inl e \<Rightarrow> State_Monad.return (Inl e) | Inr x \<Rightarrow> k x }"

text \<open>An error that is only logged.\<close>

definition attempt :: "'a dbm \<Rightarrow> 'b start \<Rightarrow> 'b start" where
  "attempt m k = do { _ \<leftarrow> m; k }"

record start_env =
  sx_urls :: url_parser
  sx_admin_password :: string
  sx_hash_password :: "string \<Rightarrow> string res"
  sx_load_servers :: "string \<Rightarrow> server list res"
  sx_load_projects :: "string \<Rightarrow> project list res"
  sx_master_key :: "string res"
  sx_open_credentials :: "string \<Rightarrow> credential_store res"
  sx_random :: "string res"

section \<open>Seeding\<close>

definition seed_admin :: "start_env \<Rightarrow> config \<Rightarrow> unit start" where
  "seed_admin sx cfg =
     (let user = uc_admin_user (cf_auth cfg);
          put = (\<lambda>hash. if hash = [] then attempt count_users (go_on ())
                        else or_fatal ''seed admin user'' (upsert_user user hash) go_on)
      in if sx_admin_password sx \<noteq> [] then
           (case sx_hash_password sx (sx_admin_password sx) of
              Inl e \<Rightarrow> fatal (''hash admin password: '' @ e)
            | Inr h \<Rightarrow> put h)
         else put (uc_admin_password_hash (cf_auth cfg)))"

fun insert_servers :: "start_env \<Rightarrow> string \<Rightarrow> server list \<Rightarrow> unit start" where
  "insert_servers sx file [] = go_on ()"
| "insert_servers sx file (srv # srvs) =
     (case validate_server (sx_urls sx) srv of
        Some e \<Rightarrow> fatal (''invalid server '' @ quote (sv_id srv) @ '' in '' @ file @ '': '' @ e)
      | None \<Rightarrow> or_fatal ''seed server'' (upsert_server srv) (\<lambda>_. insert_servers sx file srvs))"

definition seed_servers :: "start_env \<Rightarrow> config \<Rightarrow> unit start" where
  "seed_servers sx cfg = or_fatal ''count servers'' count_servers (\<lambda>n.
     if n \<noteq> 0 then go_on ()
     else (case sx_load_servers sx (fc_servers (cf_files cfg)) of
         Inl e \<Rightarrow> fatal (''servers config: '' @ e)
       | Inr srvs \<Rightarrow> insert_servers sx (fc_servers (cf_files cfg)) srvs))"

text \<open>The checks of a project of the file, against the servers of the database.\<close>

definition seed_refusal :: "start_env \<Rightarrow> config \<Rightarrow> server list \<Rightarrow> project \<Rightarrow> string option" where
  "seed_refusal sx cfg servers p =
     (let root = dc_target_root (cf_deploy cfg);
          path_error = (\<lambda>path. map_option (\<lambda>e. ''invalid project '' @ quote (p_id p) @ '' target path: '' @ e) (validate_target_path root path))
      in case find (\<lambda>srv. sv_id srv = p_server_id p) (rev servers) of
           None \<Rightarrow> Some (''project '' @ p_id p @ '' references unknown server '' @ p_server_id p)
         | Some srv \<Rightarrow>
             (case validate_project (sx_urls sx) p srv of
                Some e \<Rightarrow> Some (''invalid project '' @ quote (p_id p) @ '' in '' @ fc_projects (cf_files cfg) @ '': '' @ e)
              | None \<Rightarrow>
                  if dc_allow_external (cf_deploy cfg) then None
                  else if sv_type srv = server_type_iis then path_error (p_iis_physical_path p)
                  else if sv_type srv = server_type_winsvc then path_error (p_service_work_dir p)
                  else None))"

fun insert_projects :: "start_env \<Rightarrow> config \<Rightarrow> server list \<Rightarrow> project list \<Rightarrow> unit start" where
  "insert_projects sx cfg servers [] = go_on ()"
| "insert_projects sx cfg servers (p # ps) =
     (case seed_refusal sx cfg servers p of
        Some e \<Rightarrow> fatal e
      | None \<Rightarrow> or_fatal ''seed project'' (upsert_project p) (\<lambda>_. insert_projects sx cfg servers ps))"

definition seed_projects :: "start_env \<Rightarrow> config \<Rightarrow> unit start" where
  "seed_projects sx cfg = or_fatal ''count projects'' count_projects (\<lambda>n.
     if n \<noteq> 0 then go_on ()
     else (case sx_load_projects sx (fc_projects (cf_files cfg)) of
         Inl e \<Rightarrow> fatal (''projects config: '' @ e)
       | Inr ps \<Rightarrow> or_fatal ''list servers for project validation'' list_servers (\<lambda>servers. insert_projects sx cfg servers ps)))"

definition seed_inventory :: "start_env \<Rightarrow> config \<Rightarrow> unit start" where
  "seed_inventory sx cfg = and_then (seed_servers sx cfg) (\<lambda>_. seed_projects sx cfg)"

section \<open>The start of the server\<close>

definition set_secret_codec :: "credential_store \<Rightarrow> unit start" where
  "set_secret_codec cs = State (\<lambda>s. (Inr (), s\<lparr>st_codec := Some (codec_of cs)\<rparr>))"

definition open_credentials :: "start_env \<Rightarrow> credential_store start" where
  "open_credentials sx =
     (case sx_master_key sx of
        Inl e \<Rightarrow> fatal (''master key: '' @ e)
      | Inr key \<Rightarrow> (case sx_open_credentials sx key of
          Inl e \<Rightarrow> fatal (''credential store: '' @ e)
        | Inr cs \<Rightarrow> go_on cs))"

text \<open>\<open>serve\<close> up to the inventory; \<open>cutoff\<close> is \<open>now\<close> less the days of retention.\<close>

definition serve_start :: "start_env \<Rightarrow> config \<Rightarrow> int \<Rightarrow> int \<Rightarrow> credential_store start" where
  "serve_start sx cfg now cutoff =
     attempt (delete_expired_sessions now)
    (attempt (fail_interrupted_deployments now)
    (attempt (prune_deployments cutoff)
    (attempt (prune_remote_commands cutoff)
    (and_then (seed_admin sx cfg) (\<lambda>_.
     and_then (open_credentials sx) (\<lambda>cs.
     and_then (set_secret_codec cs) (\<lambda>_.
     and_then (seed_inventory sx cfg) (\<lambda>_. go_on cs))))))))"

definition setup_token :: "start_env \<Rightarrow> config \<Rightarrow> string start" where
  "setup_token sx cfg =
     (let configured = uc_setup_token (cf_auth cfg) in
      if configured \<noteq> [] then go_on configured
      else do {
        n \<leftarrow> count_users;
        if n = Inr 0 then (case new_setup_token (sx_random sx) of
            Inl e \<Rightarrow> fatal (''setup token: '' @ e)
          | Inr t \<Rightarrow> go_on t)
        else go_on [] })"

section \<open>What the other components are given\<close>

definition acme_skip_of :: "config \<Rightarrow> string list" where
  "acme_skip_of cfg =
     (if tc_enabled (cf_tunnel cfg) \<and> tc_domain (cf_tunnel cfg) \<noteq> []
      then xc_acme_skip (cf_proxy cfg) @ [''*.'' @ tc_domain (cf_tunnel cfg)] else xc_acme_skip (cf_proxy cfg))"

definition registrar_of :: "config \<Rightarrow> 'c admin \<Rightarrow> (string \<Rightarrow> string) \<Rightarrow> 'c caddy option" where
  "registrar_of cfg admin sha =
     (if xc_enabled (cf_proxy cfg)
      then Some (new_caddy (xc_admin_url (cf_proxy cfg)) (xc_server_name (cf_proxy cfg)) (acme_skip_of cfg) admin sha)
      else None)"

datatype sink = Webhook_sink string | Slack_sink string | GitHub_sink github_config

text \<open>No sink at all is a \<open>nil\<close> notifier.\<close>

definition build_notifier :: "config \<Rightarrow> sink list option" where
  "build_notifier cfg =
     (let n = cf_notify cfg;
          sinks = (if nc_webhook_url n \<noteq> [] then [Webhook_sink (nc_webhook_url n)] else [])
            @ (if nc_slack_url n \<noteq> [] then [Slack_sink (nc_slack_url n)] else [])
            @ (if github_enabled (cf_github cfg) then [GitHub_sink (cf_github cfg)] else [])
      in if sinks = [] then None else Some sinks)"

text \<open>The tunnel's settings with the API token read from the credential store; an unreadable token is only a warning.\<close>

record tunnel_options =
  to_domain :: string
  to_account_id :: string
  to_zone_id :: string
  to_tunnel_name :: string
  to_api_token :: string
  to_origin :: string
  to_source :: string
  to_url :: string
  to_sha256 :: string
  to_service :: string

definition tunnel_options_of :: "config \<Rightarrow> secrets \<Rightarrow> tunnel_options option" where
  "tunnel_options_of cfg secrets =
     (let t = cf_tunnel cfg; ref = trim_space (tc_api_token_ref t);
          token = (if ref = [] then [] else case resolve_ref secrets ref of Inl _ \<Rightarrow> [] | Inr v \<Rightarrow> v)
      in if \<not> tc_enabled t then None
         else Some \<lparr>to_domain = tc_domain t, to_account_id = tc_account_id t, to_zone_id = tc_zone_id t,
           to_tunnel_name = tc_tunnel_name t, to_api_token = token, to_origin = effective_origin (tc_origin t),
           to_source = tc_connector_source t, to_url = tc_connector_url t, to_sha256 = tc_connector_sha256 t,
           to_service = connector_name t\<rparr>)"

section \<open>Targets made by provisioning\<close>

definition local_target_server :: "string option \<Rightarrow> boot_paths \<Rightarrow> server" where
  "local_target_server hostname paths = \<lparr>sv_id = ''local'',
     sv_name = (case hostname of Some h \<Rightarrow> if h \<noteq> [] then h else ''This machine'' | None \<Rightarrow> ''This machine''),
     sv_type = server_type_winsvc, sv_host = ''127.0.0.1'', sv_winrm_endpoint = [], sv_winrm_user = [], sv_winrm_transport = [],
     sv_winrm_insecure = False, sv_credential_ref = [], sv_nssm_path = bp_nssm paths, sv_caddy_path = bp_caddy paths,
     sv_ssh_host = [], sv_ssh_port = 0, sv_ssh_user = [], sv_ssh_key_ref = [], sv_public_ip = [], sv_local = True,
     sv_services = [], sv_disk_path = []\<rparr>"

definition target_check :: "string \<Rightarrow> bool dbm" where
  "target_check i = do {
     r \<leftarrow> get_server i;
     State_Monad.return (case r of Inr _ \<Rightarrow> Inr True | Inl e \<Rightarrow> if e = ErrNotFound then Inr False else Inl e) }"

text \<open>\<open>detected\<close> is the public address found for this machine.\<close>

definition server_apply :: "string option \<Rightarrow> server \<Rightarrow> unit dbm" where
  "server_apply detected srv =
     upsert_server (case detected of
         Some ip \<Rightarrow> if sv_local srv \<and> sv_public_ip srv = [] then srv\<lparr>sv_public_ip := ip\<rparr> else srv
       | None \<Rightarrow> srv)"

definition target_apply :: "credential_store \<Rightarrow> server \<Rightarrow> string \<Rightarrow> string \<Rightarrow> unit dbm" where
  "target_apply cs srv ref password = do {
     r \<leftarrow> put_secret cs ref password;
     case r of Inl e \<Rightarrow> db_fail (Failed ''store credential'' (error_text e)) | Inr _ \<Rightarrow> upsert_server srv }"

section \<open>The commands\<close>

datatype command = Serve "string list" | Bootstrap_command "string list" | Hash_password "string list" | Cred "string list" | Unknown_command string

definition command_of :: "string list \<Rightarrow> command" where
  "command_of args =
     (case args of
        [] \<Rightarrow> Serve []
      | a # rest \<Rightarrow>
          if prefix ''-'' a then Serve args
          else if a = ''serve'' then Serve rest
          else if a = ''bootstrap'' then Bootstrap_command rest
          else if a = ''hash-password'' then Hash_password rest
          else if a = ''cred'' then Cred rest
          else Unknown_command (''unknown command '' @ quote a @ '' (want: serve, bootstrap, hash-password, cred)''))"

text \<open>\<open>cred\<close> after the flags: what it prints on standard output. \<open>typed\<close> is the value read by \<open>readSecret\<close>.\<close>

definition read_secret :: "string res \<Rightarrow> string res" where
  "read_secret typed = (case typed of Inl e \<Rightarrow> Inl e | Inr v \<Rightarrow> Inr (trim_right_set ([CHR 0x0D] @ nl) v))"

definition cred_add :: "credential_store \<Rightarrow> string res \<Rightarrow> string list \<Rightarrow> string list start" where
  "cred_add cs typed rest =
     (case rest of
        name # _ \<Rightarrow>
          (case read_secret typed of
             Inl e \<Rightarrow> fatal (''read secret: '' @ e)
           | Inr secret \<Rightarrow>
               if secret = [] then fatal ''empty secret, nothing stored''
               else or_fatal ''store credential'' (put_secret cs name secret) (\<lambda>_. go_on []))
      | [] \<Rightarrow> fatal ''usage: control-center cred add <name>'')"

definition cred_get :: "credential_store \<Rightarrow> string list \<Rightarrow> string list start" where
  "cred_get cs rest =
     (case rest of
        name # _ \<Rightarrow> do {
          r \<leftarrow> get_secret cs name;
          case r of
            Inr secret \<Rightarrow> go_on [secret]
          | Inl e \<Rightarrow> if e = ErrNotFound then fatal (''credential '' @ quote name @ '' not found'')
                     else fatal (''read credential: '' @ error_text e) }
      | [] \<Rightarrow> fatal ''usage: control-center cred get <name>'')"

definition run_cred :: "start_env \<Rightarrow> string res \<Rightarrow> string list \<Rightarrow> string list start" where
  "run_cred sx typed args =
     (case args of
        [] \<Rightarrow> fatal ''usage: control-center cred <add|list|get> [name]''
      | action # rest \<Rightarrow> and_then (open_credentials sx) (\<lambda>cs.
          if action = ''add'' then cred_add cs typed rest
          else if action = ''list'' then or_fatal ''list credentials'' credential_names go_on
          else if action = ''get'' then cred_get cs rest
          else fatal (''unknown cred action '' @ quote action @ '' (want: add, list, get)'')))"

definition run_hash_password :: "start_env \<Rightarrow> string res \<Rightarrow> string res" where
  "run_hash_password sx typed =
     (case read_secret typed of
        Inl e \<Rightarrow> Inl (''read password: '' @ e)
      | Inr password \<Rightarrow>
          if password = [] then Inl ''empty password''
          else (case sx_hash_password sx password of Inl e \<Rightarrow> Inl (''hash: '' @ e) | Inr h \<Rightarrow> Inr h))"

definition default_config_path :: "(string \<Rightarrow> string) \<Rightarrow> string" where
  "default_config_path getenv = (if getenv ''CC_CONFIG'' \<noteq> [] then getenv ''CC_CONFIG'' else ''config.yaml'')"

section \<open>What a start leaves behind\<close>

lemma or_fatal_ok:
  assumes "run_state (or_fatal w m k) s = (Inr y, t)"
  obtains x u where "run_state m s = (Inr x, u)" and "run_state (k x) u = (Inr y, t)"
  using assms by (auto simp: or_fatal_def run_bind split: prod.splits sum.splits)

lemma and_then_ok:
  assumes "run_state (and_then m k) s = (Inr y, t)"
  obtains x u where "run_state m s = (Inr x, u)" and "run_state (k x) u = (Inr y, t)"
  using assms by (auto simp: and_then_def run_bind split: prod.splits sum.splits)

lemma run_attempt: "run_state (attempt m k) s = run_state k (effect m s)"
  by (simp add: attempt_def run_bind effect_def split: prod.split)

lemma run_start_simps [simp]:
  "run_state (fatal e) s = (Inl e, s)" "run_state (go_on x) s = (Inr x, s)"
  "run_state (set_secret_codec cs) s = (Inr (), s\<lparr>st_codec := Some (codec_of cs)\<rparr>)"
  by (simp_all add: fatal_def go_on_def set_secret_codec_def)

definition less_inventory :: "store \<Rightarrow> store" where
  "less_inventory s = s\<lparr>st_servers := [], st_projects := [], st_draws := 0\<rparr>"

lemma less_inventory_simps [simp]:
  "less_inventory (s\<lparr>st_servers := a\<rparr>) = less_inventory s" "less_inventory (s\<lparr>st_projects := b\<rparr>) = less_inventory s"
  "less_inventory (s\<lparr>st_draws := n\<rparr>) = less_inventory s"
  by (simp_all add: less_inventory_def)

lemma less_inventory_same:
  assumes "less_inventory t = less_inventory s"
  shows "st_faults t = st_faults s" and "st_sessions t = st_sessions s" and "st_deployments t = st_deployments s"
    and "st_codec t = st_codec s" and "st_users t = st_users s"
  using arg_cong[OF assms, of st_faults] arg_cong[OF assms, of st_sessions] arg_cong[OF assms, of st_deployments]
    arg_cong[OF assms, of st_codec] arg_cong[OF assms, of st_users] by (simp_all add: less_inventory_def)

lemma encode_draws: "\<exists>n. snd (run_state (encode_secret name v) s) = s\<lparr>st_draws := n\<rparr>"
proof -
  have "snd (run_state (encode_secret name v) s) \<in> {s, s\<lparr>st_draws := Suc (st_draws s)\<rparr>}"
    by (auto simp: encode_secret_def split: option.split sum.split)
  then consider "snd (run_state (encode_secret name v) s) = s\<lparr>st_draws := st_draws s\<rparr>"
    | "snd (run_state (encode_secret name v) s) = s\<lparr>st_draws := Suc (st_draws s)\<rparr>" by auto
  then show ?thesis by cases blast+
qed

lemma project_put:
  assumes "sound s" and "run_state (upsert_project p) s = (Inr u, t)"
  shows "\<exists>r n. project_key r = p_id p \<and> t = s\<lparr>st_draws := n, st_projects := upsert project_key (\<lambda>_ new. new) r (st_projects s)\<rparr>"
proof -
  let ?p = "project_defaults p"
  obtain x s1 where x: "run_state (encode_secret (env_name (p_id ?p)) (marshal_text_map (p_env ?p))) s = (Inr x, s1)"
    and b: "run_state (db_then (encode_secret (build_env_name (p_id ?p)) (marshal_text_map (p_build_env ?p))) (\<lambda>benv.
        exec_stmt (''upsert project '' @ quote (p_id ?p)) (\<lambda>s.
          s\<lparr>st_projects := upsert project_key (\<lambda>_ new. new) (project_columns ?p x benv) (st_projects s)\<rparr>))) s1 = (Inr u, t)"
    using assms(2) by (auto simp: upsert_project_def Let_def run_db_then split: option.splits prod.splits sum.splits)
  obtain y s2 where y: "run_state (encode_secret (build_env_name (p_id ?p)) (marshal_text_map (p_build_env ?p))) s1 = (Inr y, s2)"
    and e: "run_state (exec_stmt (''upsert project '' @ quote (p_id ?p)) (\<lambda>s.
          s\<lparr>st_projects := upsert project_key (\<lambda>_ new. new) (project_columns ?p x y) (st_projects s)\<rparr>)) s2 = (Inr u, t)"
    using b by (auto simp: run_db_then split: prod.splits sum.splits)
  obtain n where n: "s1 = s\<lparr>st_draws := n\<rparr>" using encode_draws[of "env_name (p_id ?p)" "marshal_text_map (p_env ?p)" s] unfolding x by fastforce
  obtain m where m: "s2 = s1\<lparr>st_draws := m\<rparr>" using encode_draws[of "build_env_name (p_id ?p)" "marshal_text_map (p_build_env ?p)" s1] unfolding y by fastforce
  have "sound s2" using assms(1) by (simp add: m n sound_def)
  then have "t = s\<lparr>st_draws := m, st_projects := upsert project_key (\<lambda>_ new. new) (project_columns ?p x y) (st_projects s)\<rparr>"
    using e by (simp add: m n)
  moreover have "project_key (project_columns ?p x y) = p_id p" by simp
  ultimately show ?thesis by blast
qed

lemma insert_servers_ok:
  assumes "sound s" and "run_state (insert_servers sx file srvs) s = (Inr u, t)"
  shows "less_inventory t = less_inventory s \<and> st_projects t = st_projects s"
  using assms
proof (induction srvs arbitrary: s)
  case (Cons srv srvs)
  let ?f = "\<lambda>s. s\<lparr>st_servers := upsert server_key (\<lambda>_ new. new) (server_columns (server_defaults srv)) (st_servers s)\<rparr>"
  have "run_state (or_fatal ''seed server'' (upsert_server srv) (\<lambda>_. insert_servers sx file srvs)) s = (Inr u, t)"
    using Cons.prems(2) by (simp split: option.splits)
  then obtain x s1 where r: "run_state (upsert_server srv) s = (Inr x, s1)" "run_state (insert_servers sx file srvs) s1 = (Inr u, t)"
    by (rule or_fatal_ok)
  then have s1: "s1 = ?f s" using Cons.prems(1) by (simp add: upsert_server_def split: option.splits)
  have "sound s1" using Cons.prems(1) by (simp add: s1 sound_def)
  then show ?case using Cons.IH[OF _ r(2)] by (simp add: s1)
qed simp

lemma upsert_keys: "key ` set (upsert key (\<lambda>_ new. new) r rows) = insert (key r) (key ` set rows)"
  by (auto simp: upsert_def list_ex_iff rev_image_eqI)

lemma insert_projects_ok:
  assumes "sound s" and "run_state (insert_projects sx cfg servers ps) s = (Inr u, t)"
  shows "less_inventory t = less_inventory s \<and> st_servers t = st_servers s \<and> list_all (\<lambda>p. seed_refusal sx cfg servers p = None) ps
    \<and> project_key ` set (st_projects t) = p_id ` set ps \<union> project_key ` set (st_projects s)"
  using assms
proof (induction ps arbitrary: s)
  case (Cons p ps)
  have f: "seed_refusal sx cfg servers p = None"
    "run_state (or_fatal ''seed project'' (upsert_project p) (\<lambda>_. insert_projects sx cfg servers ps)) s = (Inr u, t)"
    using Cons.prems(2) by (simp_all split: option.splits)
  then obtain x s1 where r: "run_state (upsert_project p) s = (Inr x, s1)" "run_state (insert_projects sx cfg servers ps) s1 = (Inr u, t)"
    using or_fatal_ok by metis
  obtain row n where s1: "project_key row = p_id p"
      "s1 = s\<lparr>st_draws := n, st_projects := upsert project_key (\<lambda>_ new. new) row (st_projects s)\<rparr>"
    using project_put[OF Cons.prems(1) r(1)] by blast
  have "sound s1" using Cons.prems(1) by (simp add: s1(2) sound_def)
  note ih = Cons.IH[OF this r(2)]
  show ?case using ih f(1) by (simp add: s1 upsert_keys)
qed simp

lemma run_count_servers: "sound s \<Longrightarrow> run_state count_servers s = (Inr (int (length (st_servers s))), s)"
  and run_count_projects: "sound s \<Longrightarrow> run_state count_projects s = (Inr (int (length (st_projects s))), s)"
  by (simp_all add: count_servers_def count_projects_def)

lemma seed_servers_ok:
  assumes "sound s" and "run_state (seed_servers sx cfg) s = (Inr u, t)"
  shows "less_inventory t = less_inventory s \<and> st_projects t = st_projects s \<and> (st_servers s \<noteq> [] \<longrightarrow> st_servers t = st_servers s)"
proof (cases "st_servers s = []")
  case True
  then obtain srvs where "run_state (insert_servers sx (fc_servers (cf_files cfg)) srvs) s = (Inr u, t)"
    using assms by (auto simp: seed_servers_def or_fatal_def run_bind run_count_servers split: sum.splits)
  then show ?thesis using insert_servers_ok[OF assms(1)] True by simp
next
  case False
  then show ?thesis using assms by (simp add: seed_servers_def or_fatal_def run_bind run_count_servers)
qed

lemma run_list_servers: "sound s \<Longrightarrow> run_state list_servers s = (collect scan_server (sort_key server_key (st_servers s)), s)"
  by (simp add: list_servers_def run_db_then)

lemma seed_projects_ok:
  assumes "sound s" and "run_state (seed_projects sx cfg) s = (Inr u, t)"
  shows "less_inventory t = less_inventory s \<and> st_servers t = st_servers s
    \<and> (if st_projects s \<noteq> [] then st_projects t = st_projects s
       else \<exists>ps servers. sx_load_projects sx (fc_projects (cf_files cfg)) = Inr ps \<and> fst (run_state list_servers t) = Inr servers
         \<and> list_all (\<lambda>p. seed_refusal sx cfg servers p = None) ps \<and> project_key ` set (st_projects t) = p_id ` set ps)"
proof (cases "st_projects s = []")
  case True
  then obtain ps servers where f: "sx_load_projects sx (fc_projects (cf_files cfg)) = Inr ps"
    "collect scan_server (sort_key server_key (st_servers s)) = Inr servers"
    "run_state (insert_projects sx cfg servers ps) s = (Inr u, t)"
    using assms by (auto simp: seed_projects_def or_fatal_def run_bind run_count_projects run_list_servers split: sum.splits)
  note ok = insert_projects_ok[OF assms(1) f(3)]
  have "sound t" using assms(1) ok less_inventory_same(1)[of t s] by (simp add: sound_def)
  then have "fst (run_state list_servers t) = Inr servers" using ok f(2) by (simp add: run_list_servers)
  then show ?thesis using ok f(1) True by auto
next
  case False
  then show ?thesis using assms by (simp add: seed_projects_def or_fatal_def run_bind run_count_projects)
qed

text \<open>The database after the four clean-up statements.\<close>

definition cleaned :: "int \<Rightarrow> int \<Rightarrow> store \<Rightarrow> store" where
  "cleaned now cutoff s = effect (prune_remote_commands cutoff) (effect (prune_deployments cutoff)
     (effect (fail_interrupted_deployments now) (effect (delete_expired_sessions now) s)))"

lemma cleaned_ok:
  assumes "sound s"
  shows "sound (cleaned now cutoff s) \<and> st_servers (cleaned now cutoff s) = st_servers s \<and> st_projects (cleaned now cutoff s) = st_projects s
    \<and> list_all (\<lambda>d. \<not> interrupted d) (st_deployments (cleaned now cutoff s))
    \<and> list_all (\<lambda>r. now < se_expires_at r) (st_sessions (cleaned now cutoff s))"
  using assms
  by (auto simp: cleaned_def effect_def delete_expired_sessions_def fail_interrupted_deployments_def prune_deployments_def
      prune_remote_commands_def exec_stmt_def run_stmt_sound sound_def delete_rows_def update_rows_def list_all_iff interrupted_def)

lemma seed_admin_ok:
  assumes "sound s" and "run_state (seed_admin sx cfg) s = (Inr u, t)"
  shows "sound t \<and> st_servers t = st_servers s \<and> st_projects t = st_projects s \<and> st_deployments t = st_deployments s \<and> st_sessions t = st_sessions s"
  using assms
  by (auto simp: seed_admin_def Let_def or_fatal_def run_bind run_attempt effect_def count_users_def upsert_user_def sound_def
      split: if_splits sum.splits)

lemma open_credentials_ok: "run_state (open_credentials sx) s = (Inr cs, t) \<Longrightarrow> t = s"
  by (auto simp: open_credentials_def split: sum.splits)


definition sample_start :: start_env where
  "sample_start = \<lparr>sx_urls = (\<lambda>_. None), sx_admin_password = [], sx_hash_password = (\<lambda>p. Inr (rev p)),
     sx_load_servers = (\<lambda>_. Inr [local_target_server None (default_paths (join ''/'') ''C:'')]), sx_load_projects = (\<lambda>_. Inr []),
     sx_master_key = Inr ''key'', sx_open_credentials = (\<lambda>_. Inr mirror_cipher), sx_random = Inr ''r''\<rparr>"

definition crashed_store :: store where
  "crashed_store = (empty_store None [])\<lparr>st_deployments := [\<lparr>d_id = 1, d_project_id = ''web'', d_target_type = ''iis'', d_commit_sha = [],
     d_ref = [], d_image_tag = [], d_status = DeployRunning, d_trigger = ''manual'', d_log = [], d_error = [], d_started_at = 5,
     d_finished_at = 0\<rparr>]\<rparr>"

lemma sample_start_listens:
  "(case fst (run_state (serve_start sample_start default_config 10 0) crashed_store) of Inl e \<Rightarrow> False | Inr cs \<Rightarrow> True)"
  by code_simp


text \<open>A start that failed on the second server of the file has stored the first, so no later start reads the file again.\<close>

lemma half_seeded:
  assumes "sound s" and "st_servers s = []" and "sx_load_servers sx (fc_servers (cf_files cfg)) = Inr (a # b # srvs)"
    and "validate_server (sx_urls sx) a = None" and "validate_resource_id ''server id'' (sv_id a) = None"
    and "validate_server (sx_urls sx) b = Some e"
  shows "\<exists>msg t. run_state (seed_servers sx cfg) s = (Inl msg, t) \<and> length (st_servers t) = 1
    \<and> (\<forall>sx'. run_state (seed_servers sx' cfg) t = (Inr (), t))"
proof -
  let ?t = "s\<lparr>st_servers := [server_columns (server_defaults a)]\<rparr>"
  have so: "sound ?t" using assms(1) by (simp add: sound_def)
  have "run_state (seed_servers sx cfg) s = (Inl (''invalid server '' @ quote (sv_id b) @ '' in '' @ fc_servers (cf_files cfg) @ '': '' @ e), ?t)"
    using assms by (simp add: seed_servers_def or_fatal_def run_bind run_count_servers upsert_server_def upsert_def)
  moreover have "run_state (seed_servers sx' cfg) ?t = (Inr (), ?t)" for sx'
    by (simp add: seed_servers_def or_fatal_def run_bind run_count_servers[OF so])
  ultimately show ?thesis by auto
qed

end
