(* ===== verification/Spec2Isabelle.thy ===== *)
theory Spec2Isabelle
  imports DeploySpec Router RepoTree Startup
begin

text \<open>
  Winify (module \<open>github.com/Devonlegend/winify\<close>): a control center that deploys projects to Docker hosts, IIS
  sites and Windows services, fronts them with a Caddy proxy, and is driven by a web interface, a REST
  API and webhooks of GitHub and GitLab. This development models its Go code under \<open>src/internal\<close>.

  \<^bold>\<open>How the parts interact.\<close> A request reaches the route table (Router), passes the same-origin gate
  (Http) and the session or token gate (Auth), and is handled by Admin, Pages, Forms, Api, Setup or
  Webhook. Handlers read and write the database (Store) and ask the deployer (Deployer) for a deployment
  or a rollback. The deployer keeps one worker per project; a worker resolves shared variables
  (SharedVars) and credentials (Credentials), runs the pipeline of the target's type (Docker, IIS,
  WinSvc) through a remote runner whose every command is audited (Runner), registers the route with the
  proxy (Caddy) and records status, log and artifact. LogStream shows the log while it grows.

  \<^bold>\<open>Theories and the code they model.\<close>
  \<^item> Prelude, GoFmt, Json: the parts of Go's standard library the code uses (strings, strconv, path,
    base64, hex, encoding/json), with the round trips of their encoders; shared by all theories.
  \<^item> Config, Validate: the entities and every validator of \<open>config/entities.go\<close>; Settings: \<open>config/config.go\<close>,
    the settings with their defaults, environment variables and checks.
  \<^item> Runner: \<open>deployment/audit.go\<close>, \<open>runner.go\<close> and \<open>execCmd\<close>: a pipeline is a state monad over the trace of
    everything it has done; Target: \<open>target.go\<close> with the quoting for both shells and readers of their
    literals; Scripts: the generated scripts and files of all pipelines; Pipeline: the steps they share
    (\<open>gitcred.go\<close>, \<open>runtime.go\<close>, smoke tests); Docker, IIS, WinSvc: \<open>docker.go\<close>, \<open>iis.go\<close>, \<open>winservice.go\<close>.
  \<^item> Tables, Store, StoreInv, StoreSpec, StoreSecrets, Inventory: \<open>models/store.go\<close> as tables of records
    with their constraints, one definition per statement, the invariant of every reachable database, and
    the round trips of secrets, servers and projects. A statement can fail at any moment: the store holds
    the list of failures still to come (\<open>st_faults\<close>).
  \<^item> SharedVars: \<open>deployment/sharedvars.go\<close>. Credentials: \<open>auth/credentials.go\<close>.
  \<^item> Deployer: \<open>deployment/deployer.go\<close> with the notifications and the proxy it calls; DeployerInv,
    Concurrency, DeploySafety, DeployRun, DeploySpec: the system of all workers as a step relation, its
    invariants, its behaviour without failures, and the outcome of a single deployment.
  \<^item> Http, Auth, Forms, Pages, Admin, Api, Webhook, LogStream, Setup, Router: \<open>internal/server\<close> and
    \<open>auth/auth.go\<close>, \<open>auth/apitokens.go\<close>, \<open>deployment/webhook.go\<close>: handlers are state monads over the site,
    which is the database, the deployer and the account of failed sign-ins.
  \<^item> Bootstrap: the engine of \<open>internal/bootstrap\<close>. RepoTree: \<open>deployment/repo_tree.go\<close>. Detect:
    \<open>internal/detect\<close>. Caddy: \<open>proxy/caddy.go\<close>. Startup: the start of the application and its commands in
    \<open>cmd/control-center/main.go\<close>.

  \<^bold>\<open>What the lemmas show.\<close> Rules for programs over a trace (\<open>does\<close>, \<open>emits\<close>, \<open>agree\<close>) carry what a
  pipeline has run when it succeeds or fails, that each command is audited, and that two runs differing
  only in a secret show the same. Preservation lemmas, one per statement, step and handler, carry the
  invariants of the database and of the system of workers. \<open>reads\<close> and \<open>queries\<close> mark handlers that leave
  the data alone, from which the access rules of the route table follow. The locales state the contract
  between a component and its clients (\<open>trace_closed\<close>, \<open>quoting\<close>, \<open>recovery\<close>, \<open>target\<close> for pipelines,
  \<open>keyed_table\<close>, \<open>history\<close>, \<open>store_invariant\<close>, \<open>job_relation\<close> for the data) and are interpreted on the
  model's own definitions.

  \<^bold>\<open>Bounds and fuel.\<close> Go's \<open>int\<close> and \<open>int64\<close> are integers whose range is checked where the code parses or
  multiplies (\<open>atoi\<close>, \<open>int64_ok\<close>, \<open>wrap64\<close>); caps on logs, outputs and bodies are the code's constants.
  The JSON parser takes fuel from the length of its input, at least one step for each byte, and nests
  at most ten thousand levels as Go does. \<open>strip_dots\<close> of RepoTree is a partial function for the loop that
  removes leading dot segments, and is proved to return on every path. Every other function terminates
  structurally or by a measure.

  \<^bold>\<open>Parameters.\<close> The target machines and their shells (\<open>host\<close>), the proxy, the clock, random numbers, bcrypt,
  SHA-256, HMAC and AES-GCM, the URL parser, the YAML reader, the routing library and the file system are
  arguments of the definitions; what is relied on is stated as named laws (\<open>aead_ok\<close>, \<open>dispatcher_ok\<close>,
  \<open>step_laws\<close>), each with a concrete instance in a witness.

  \<^bold>\<open>Not modelled.\<close> The transport itself (SSH, WinRM, HTTP client and listener, SQLite driver and migrations), HTML
  templates and static assets, and timers; the metrics and monitoring (floating-point samples on a
  timer); the assistant, whose answers come from a language model and a vector store outside the
  repository; the scripts of the single provisioning steps and the tunnel and GitHub clients behind
  them; the notification sinks; and of \<open>cmd/control-center/main.go\<close> the listener, elevation and the
  remote onboarding. Cancelled contexts appear as errors
  of the host, and an interrupted process as the restart step of the system.
\<close>

end
